(* ===== verification/Octo_Prelude.thy ===== *)
theory Octo_Prelude
  imports Complex_Main "HOL-Library.Word" "HOL-Library.Char_ord" "HOL-Library.List_Lexorder"
begin

text \<open>
  Shared vocabulary of the development: the outcome of a Go call that may panic, Go's
  fixed-width integers written as \<^typ>\<open>int\<close> with explicit wrap-around, the integer divisions of
  \<^verbatim>\<open>math/big\<close> and of the language, and the functions of the packages \<^verbatim>\<open>strings\<close> and
  \<^verbatim>\<open>strconv\<close> that the components call.  A Go string is a sequence of bytes, hence a
  \<^typ>\<open>string\<close> (an Isabelle \<^typ>\<open>char\<close> is a byte); text outside ASCII is written as its UTF-8
  bytes.
\<close>

named_theorems go_arith \<open>fixed-width arithmetic and division\<close>
named_theorems go_text \<open>strings, digits and number parsing\<close>

section \<open>Outcomes of calls\<close>

text \<open>A call returns or panics; the message of the panic is kept.\<close>

datatype 'a go = Ret 'a | Panic string

fun go_bind :: "'a go \<Rightarrow> ('a \<Rightarrow> 'b go) \<Rightarrow> 'b go" where
  "go_bind (Ret x) f = f x"
| "go_bind (Panic m) f = Panic m"

definition nil_deref :: string where
  "nil_deref = ''nil pointer dereference''"

lemma go_bind_assoc: "go_bind (go_bind m f) g = go_bind m (\<lambda>x. go_bind (f x) g)"
  by (cases m) simp_all

lemma go_bind_Ret [simp]: "go_bind m Ret = m"
  by (cases m) simp_all

lemma go_bind_eq_Ret: "go_bind m f = Ret y \<longleftrightarrow> (\<exists>x. m = Ret x \<and> f x = Ret y)"
  by (cases m) simp_all

section \<open>Fixed-width integers\<close>

definition int32 :: "int \<Rightarrow> int" where
  "int32 x = (x + 2147483648) mod 4294967296 - 2147483648"

definition int64 :: "int \<Rightarrow> int" where
  "int64 x = (x + 9223372036854775808) mod 18446744073709551616 - 9223372036854775808"

definition is_int32 :: "int \<Rightarrow> bool" where
  "is_int32 x \<longleftrightarrow> -2147483648 \<le> x \<and> x \<le> 2147483647"

definition is_int64 :: "int \<Rightarrow> bool" where
  "is_int64 x \<longleftrightarrow> -9223372036854775808 \<le> x \<and> x \<le> 9223372036854775807"

lemma int32_id [simp]: "is_int32 x \<Longrightarrow> int32 x = x"
  by (simp add: int32_def is_int32_def)

lemma int64_id [simp]: "is_int64 x \<Longrightarrow> int64 x = x"
  by (simp add: int64_def is_int64_def)

lemma is_int32_int32 [simp, intro]: "is_int32 (int32 x)"
  by (simp add: int32_def is_int32_def)

lemma is_int64_int64 [simp, intro]: "is_int64 (int64 x)"
  by (simp add: int64_def is_int64_def)

lemma is_int32_consts [simp]: "is_int32 0" "is_int32 1" "is_int32 (-1)"
  by (simp_all add: is_int32_def)

section \<open>Integer division\<close>

text \<open>
  \<^verbatim>\<open>big.Int.Quo\<close>/\<^verbatim>\<open>Rem\<close> and Go's \<^verbatim>\<open>/\<close>, \<^verbatim>\<open>%\<close> truncate towards zero;
  \<^verbatim>\<open>big.Int.Div\<close>/\<^verbatim>\<open>Mod\<close> are Euclidean (the remainder is never negative).
\<close>

definition quo :: "int \<Rightarrow> int \<Rightarrow> int" where
  "quo a b = sgn a * sgn b * (\<bar>a\<bar> div \<bar>b\<bar>)"

definition rem :: "int \<Rightarrow> int \<Rightarrow> int" where
  "rem a b = sgn a * (\<bar>a\<bar> mod \<bar>b\<bar>)"

definition big_Div :: "int \<Rightarrow> int \<Rightarrow> int" where
  "big_Div a b = sgn b * (a div \<bar>b\<bar>)"

definition big_Mod :: "int \<Rightarrow> int \<Rightarrow> int" where
  "big_Mod a b = a mod \<bar>b\<bar>"

lemma quo_rem: "quo a b * b + rem a b = a"
proof -
  have "quo a b * b = sgn a * (\<bar>a\<bar> div \<bar>b\<bar> * \<bar>b\<bar>)"
    by (simp add: quo_def abs_sgn mult_ac)
  then have "quo a b * b + rem a b = sgn a * (\<bar>a\<bar> div \<bar>b\<bar> * \<bar>b\<bar> + \<bar>a\<bar> mod \<bar>b\<bar>)"
    by (simp only: rem_def distrib_left)
  also have "\<dots> = a"
    by (simp add: sgn_mult_abs)
  finally show ?thesis .
qed

lemma abs_rem_less: "b \<noteq> 0 \<Longrightarrow> \<bar>rem a b\<bar> < \<bar>b\<bar>"
  by (simp add: rem_def abs_mult sgn_if)

lemma abs_mod_abs_nonneg [simp]: "0 \<le> \<bar>a\<bar> mod \<bar>b\<bar>" for a b :: int
  by (cases "b = 0") simp_all

lemma rem_nonneg: "0 \<le> a \<Longrightarrow> 0 \<le> rem a b"
  using abs_mod_abs_nonneg [of a b] by (auto simp: rem_def sgn_if)

lemma rem_nonpos: "a \<le> 0 \<Longrightarrow> rem a b \<le> 0"
  using abs_mod_abs_nonneg [of a b] by (auto simp: rem_def sgn_if)


section \<open>Decimal digits\<close>

text \<open>\<^verbatim>\<open>strconv.Itoa\<close> and \<^verbatim>\<open>big.Int.String\<close>.\<close>

definition digit_char :: "nat \<Rightarrow> char" where
  "digit_char d = char_of (48 + d)"

definition digit_val :: "char \<Rightarrow> nat option" where
  "digit_val c = (let k = of_char c :: nat in if 48 \<le> k \<and> k \<le> 57 then Some (k - 48) else None)"

fun nat_dec :: "nat \<Rightarrow> string" where
  "nat_dec n = (if n < 10 then [digit_char n] else nat_dec (n div 10) @ [digit_char (n mod 10)])"

declare nat_dec.simps [simp del]

definition int_dec :: "int \<Rightarrow> string" where
  "int_dec i = (if i < 0 then CHR ''-'' # nat_dec (nat (- i)) else nat_dec (nat i))"

fun parse_digits :: "nat \<Rightarrow> string \<Rightarrow> nat option" where
  "parse_digits acc [] = Some acc"
| "parse_digits acc (c # cs) =
     (case digit_val c of None \<Rightarrow> None | Some d \<Rightarrow> parse_digits (acc * 10 + d) cs)"

lemma digit_val_digit_char [simp]: "d < 10 \<Longrightarrow> digit_val (digit_char d) = Some d"
  by (simp add: digit_val_def digit_char_def Let_def)

lemma digit_val_less: "digit_val c = Some d \<Longrightarrow> d < 10"
  by (auto simp: digit_val_def Let_def split: if_splits)

lemma digit_val_0_iff: "digit_val c = Some 0 \<longleftrightarrow> c = CHR ''0''"
proof -
  have "c = CHR ''0'' \<longleftrightarrow> (of_char c :: nat) = of_char (CHR ''0'')"
    by (simp only: of_char_eq_iff)
  then show ?thesis
    by (auto simp: digit_val_def Let_def)
qed

lemma digit_char_0 [simp]: "digit_char 0 = CHR ''0''"
  by (metis digit_val_0_iff digit_val_digit_char zero_less_numeral)

lemma nat_dec_less_10: "n < 10 \<Longrightarrow> nat_dec n = [digit_char n]"
  by (simp add: nat_dec.simps)

lemma nat_dec_ge_10: "10 \<le> n \<Longrightarrow> nat_dec n = nat_dec (n div 10) @ [digit_char (n mod 10)]"
  by (simp add: nat_dec.simps [of n])

lemma nat_dec_nonempty [simp]: "nat_dec n \<noteq> []"
  by (cases "n < 10") (simp_all add: nat_dec_less_10 nat_dec_ge_10)

lemma parse_digits_append:
  "parse_digits acc (xs @ ys) = Option.bind (parse_digits acc xs) (\<lambda>n. parse_digits n ys)"
  by (induction xs arbitrary: acc) (auto split: option.splits)

lemma nat_dec_digits: "c \<in> set (nat_dec n) \<Longrightarrow> \<exists>d. digit_val c = Some d"
proof (induction n rule: nat_dec.induct)
  case (1 n)
  then show ?case
    by (cases "n < 10") (auto simp: nat_dec_less_10 nat_dec_ge_10)
qed

lemma parse_digits_nat_dec_acc:
  "parse_digits acc (nat_dec n) = Some (acc * 10 ^ length (nat_dec n) + n)"
proof (induction n arbitrary: acc rule: nat_dec.induct)
  case (1 n)
  show ?case
  proof (cases "n < 10")
    case True
    then show ?thesis by (simp add: nat_dec_less_10)
  next
    case False
    have "(acc * 10 ^ length (nat_dec (n div 10)) + n div 10) * 10 + n mod 10
        = acc * (10 * 10 ^ length (nat_dec (n div 10))) + n"
      by (simp add: algebra_simps)
    with False 1 show ?thesis
      by (simp add: nat_dec_ge_10 parse_digits_append mult_ac)
  qed
qed

lemma parse_digits_nat_dec [simp]: "parse_digits 0 (nat_dec n) = Some n"
  by (simp add: parse_digits_nat_dec_acc)

lemma digit_val_not_sign [simp]: "digit_val (CHR ''-'') = None" "digit_val (CHR ''+'') = None"
  "digit_val (CHR ''.'') = None" "digit_val (CHR ''e'') = None" "digit_val (CHR ''E'') = None"
  by (simp_all add: digit_val_def)

lemma nat_dec_not_nondigit: "digit_val c = None \<Longrightarrow> c \<notin> set (nat_dec n)"
  using nat_dec_digits by fastforce

lemma length_nat_dec_bound: "n < 10 ^ length (nat_dec n)"
proof (induction n rule: nat_dec.induct)
  case (1 n)
  show ?case
  proof (cases "n < 10")
    case False
    with 1 have "n div 10 < 10 ^ length (nat_dec (n div 10))" by simp
    then have "n div 10 + 1 \<le> 10 ^ length (nat_dec (n div 10))" by simp
    then have "10 * (n div 10 + 1) \<le> 10 * 10 ^ length (nat_dec (n div 10))"
      by (rule mult_le_mono2)
    moreover have "n < 10 * (n div 10 + 1)" by presburger
    ultimately have "n < 10 * 10 ^ length (nat_dec (n div 10))" by (rule less_le_trans [rotated])
    with False show ?thesis by (simp add: nat_dec_ge_10)
  qed (simp add: nat_dec_less_10)
qed

section \<open>Hexadecimal digits\<close>

definition hex_char :: "nat \<Rightarrow> char" where
  "hex_char n = (if n < 10 then char_of (48 + n) else char_of (87 + n))"

definition hex_val :: "char \<Rightarrow> nat option" where
  "hex_val c = (let k = of_char c :: nat in
     if 48 \<le> k \<and> k \<le> 57 then Some (k - 48)
     else if 97 \<le> k \<and> k \<le> 102 then Some (k - 87)
     else if 65 \<le> k \<and> k \<le> 70 then Some (k - 55)
     else None)"

lemma hex_val_hex_char [simp]: "n < 16 \<Longrightarrow> hex_val (hex_char n) = Some n"
  by (auto simp: hex_val_def hex_char_def Let_def)

section \<open>Package strconv\<close>

datatype num_error = ErrSyntax | ErrRange

text \<open>
  The digit loop of \<^verbatim>\<open>ParseUint\<close> in base 10: a character that is no digit is a syntax error,
  and the first prefix above \<^verbatim>\<open>maxVal\<close> is a range error, whatever follows it.
\<close>

fun parse_uint_loop :: "nat \<Rightarrow> nat \<Rightarrow> string \<Rightarrow> num_error + nat" where
  "parse_uint_loop maxVal n [] = Inr n"
| "parse_uint_loop maxVal n (c # cs) =
     (case digit_val c of None \<Rightarrow> Inl ErrSyntax
      | Some d \<Rightarrow> if n * 10 + d > maxVal then Inl ErrRange
                  else parse_uint_loop maxVal (n * 10 + d) cs)"

text \<open>Both parsers return a value beside the error, as Go does: 0 or the bound.\<close>

definition ParseUint :: "string \<Rightarrow> nat \<Rightarrow> nat \<times> num_error option" where
  "ParseUint s bits =
     (if s = [] then (0, Some ErrSyntax)
      else case parse_uint_loop (2 ^ bits - 1) 0 s of
             Inl ErrSyntax \<Rightarrow> (0, Some ErrSyntax)
           | Inl ErrRange \<Rightarrow> (2 ^ bits - 1, Some ErrRange)
           | Inr n \<Rightarrow> (n, None))"

definition ParseInt :: "string \<Rightarrow> nat \<Rightarrow> int \<times> num_error option" where
  "ParseInt s bits =
     (if s = [] then (0, Some ErrSyntax)
      else let neg = (hd s = CHR ''-'');
               s' = (if hd s = CHR ''-'' \<or> hd s = CHR ''+'' then tl s else s);
               (un, err) = ParseUint s' bits;
               cutoff = 2 ^ (bits - 1)
           in if err = Some ErrSyntax then (0, Some ErrSyntax)
              else if \<not> neg \<and> un \<ge> cutoff then (int cutoff - 1, Some ErrRange)
              else if neg \<and> un > cutoff then (- int cutoff, Some ErrRange)
              else (if neg then - int un else int un, None))"

text \<open>\<^verbatim>\<open>big.Int.SetString(s, 10)\<close>: an optional sign, then one or more digits and nothing else.\<close>

definition big_digits :: "string \<Rightarrow> int option" where
  "big_digits s = (if s = [] then None else map_option int (parse_digits 0 s))"

definition big_SetString :: "string \<Rightarrow> int option" where
  "big_SetString s =
     (case s of [] \<Rightarrow> None
      | c # cs \<Rightarrow> if c = CHR ''-'' then map_option uminus (big_digits cs)
                  else if c = CHR ''+'' then big_digits cs
                  else big_digits s)"

lemma parse_uint_loop_Inr:
  "parse_uint_loop m n cs = Inr k \<Longrightarrow> n \<le> m \<Longrightarrow> parse_digits n cs = Some k \<and> k \<le> m"
  by (induction m n cs rule: parse_uint_loop.induct) (auto split: option.splits if_splits)

lemma parse_digits_ge: "parse_digits n cs = Some k \<Longrightarrow> n \<le> k"
proof (induction cs arbitrary: n)
  case (Cons c cs)
  then obtain d where "parse_digits (n * 10 + d) cs = Some k"
    by (auto split: option.splits)
  then have "n * 10 + d \<le> k" by (rule Cons.IH)
  then show ?case by simp
qed simp

lemma parse_uint_loop_complete:
  "parse_digits n cs = Some k \<Longrightarrow> k \<le> m \<Longrightarrow> parse_uint_loop m n cs = Inr k"
proof (induction cs arbitrary: n)
  case (Cons c cs)
  then obtain d where d: "digit_val c = Some d" and k: "parse_digits (n * 10 + d) cs = Some k"
    by (auto split: option.splits)
  from parse_digits_ge [OF k] Cons.prems(2) have "\<not> n * 10 + d > m" by simp
  with d Cons.IH [OF k Cons.prems(2)] show ?case by simp
qed simp

lemma ParseInt_nat_dec:
  assumes "n < 2 ^ 63"
  shows "ParseInt (nat_dec n) 64 = (int n, None)"
proof -
  have "parse_uint_loop (2 ^ 64 - 1) 0 (nat_dec n) = Inr n"
    using assms by (intro parse_uint_loop_complete) simp_all
  moreover have "hd (nat_dec n) \<in> set (nat_dec n)" by simp
  then have "hd (nat_dec n) \<noteq> CHR ''-''" "hd (nat_dec n) \<noteq> CHR ''+''"
    using nat_dec_not_nondigit [of "CHR ''-''" n] nat_dec_not_nondigit [of "CHR ''+''" n] by (metis digit_val_not_sign(1,2))+
  ultimately show ?thesis using assms by (simp add: ParseInt_def ParseUint_def)
qed

lemma ParseInt_int_dec:
  assumes "is_int64 i"
  shows "ParseInt (int_dec i) 64 = (i, None)"
proof (cases "i < 0")
  case True
  then have "parse_uint_loop (2 ^ 64 - 1) 0 (nat_dec (nat (- i))) = Inr (nat (- i))"
    using assms by (intro parse_uint_loop_complete) (simp_all add: is_int64_def)
  with True assms show ?thesis by (simp add: int_dec_def ParseInt_def ParseUint_def is_int64_def)
next
  case False
  with ParseInt_nat_dec [of "nat i"] assms show ?thesis by (simp add: int_dec_def is_int64_def)
qed

lemma big_SetString_int_dec [simp]: "big_SetString (int_dec i) = Some i"
proof (cases "i < 0")
  case True
  then show ?thesis by (simp add: int_dec_def big_SetString_def big_digits_def)
next
  case False
  then obtain c cs where c: "nat_dec (nat i) = c # cs"
    by (cases "nat_dec (nat i)") auto
  have "CHR ''-'' \<notin> set (nat_dec (nat i))" "CHR ''+'' \<notin> set (nat_dec (nat i))"
    by (simp_all add: nat_dec_not_nondigit)
  with False c show ?thesis
    using parse_digits_nat_dec [of "nat i"]
    by (auto simp: int_dec_def big_SetString_def big_digits_def)
qed

section \<open>Package strings\<close>

text \<open>\<^verbatim>\<open>IndexAny\<close> and \<^verbatim>\<open>IndexByte\<close>: the first position whose byte satisfies a test.\<close>

fun index_by :: "(char \<Rightarrow> bool) \<Rightarrow> string \<Rightarrow> nat option" where
  "index_by P [] = None"
| "index_by P (c # cs) = (if P c then Some 0 else map_option Suc (index_by P cs))"

text \<open>\<^verbatim>\<open>Split\<close> with a separator of one byte.\<close>

fun split_on :: "char \<Rightarrow> string \<Rightarrow> string list" where
  "split_on sep [] = [[]]"
| "split_on sep (c # cs) =
     (if c = sep then [] # split_on sep cs
      else case split_on sep cs of [] \<Rightarrow> [[c]] | p # ps \<Rightarrow> (c # p) # ps)"

definition trim_right :: "(char \<Rightarrow> bool) \<Rightarrow> string \<Rightarrow> string" where
  "trim_right P s = rev (dropWhile P (rev s))"

fun join :: "string \<Rightarrow> string list \<Rightarrow> string" where
  "join sep [] = []"
| "join sep [p] = p"
| "join sep (p # q # ps) = p @ sep @ join sep (q # ps)"

definition HasPrefix :: "string \<Rightarrow> string \<Rightarrow> bool" where
  "HasPrefix s p \<longleftrightarrow> take (length p) s = p"

definition HasSuffix :: "string \<Rightarrow> string \<Rightarrow> bool" where
  "HasSuffix s p \<longleftrightarrow> length p \<le> length s \<and> drop (length s - length p) s = p"

fun str_Contains :: "string \<Rightarrow> string \<Rightarrow> bool" where
  "str_Contains [] p \<longleftrightarrow> p = []"
| "str_Contains (c # cs) p \<longleftrightarrow> HasPrefix (c # cs) p \<or> str_Contains cs p"

lemma index_by_None [go_text]: "index_by P s = None \<longleftrightarrow> (\<forall>c\<in>set s. \<not> P c)"
  by (induction s) auto

lemma index_by_Some:
  "index_by P s = Some i \<Longrightarrow> i < length s \<and> P (s ! i) \<and> (\<forall>c\<in>set (take i s). \<not> P c)"
  by (induction s arbitrary: i) (auto split: if_splits)

lemma split_on_nonempty [simp]: "split_on sep s \<noteq> []"
  by (induction s) (auto split: list.splits)

lemma split_on_no_sep: "sep \<notin> set s \<Longrightarrow> split_on sep s = [s]"
  by (induction s) auto

lemma split_on_append_sep:
  "sep \<notin> set s \<Longrightarrow> split_on sep (s @ sep # t) = s # split_on sep t"
  by (induction s) auto

lemma join_split_on: "join [sep] (split_on sep s) = s"
proof (induction s)
  case (Cons c cs)
  obtain p ps where "split_on sep cs = p # ps" by (cases "split_on sep cs") auto
  with Cons show ?case by (cases ps) auto
qed simp

lemma split_on_pieces: "p \<in> set (split_on sep s) \<Longrightarrow> sep \<notin> set p"
  by (induction s arbitrary: p) (auto split: list.splits if_splits)

lemma split_on_join:
  "ps \<noteq> [] \<Longrightarrow> (\<And>p. p \<in> set ps \<Longrightarrow> sep \<notin> set p) \<Longrightarrow> split_on sep (join [sep] ps) = ps"
  by (induction "[sep]" ps rule: join.induct) (auto simp: split_on_no_sep split_on_append_sep)

lemma trim_right_decomp: "\<exists>u. s = trim_right P s @ u \<and> (\<forall>c\<in>set u. P c)"
proof (intro exI conjI)
  show "s = trim_right P s @ rev (takeWhile P (rev s))"
    by (simp add: trim_right_def flip: rev_append)
qed (auto dest: set_takeWhileD)

lemma trim_right_idem [simp]: "trim_right P (trim_right P s) = trim_right P s"
  by (simp add: trim_right_def)

lemma set_trim_right: "set (trim_right P s) \<subseteq> set s"
  by (auto simp: trim_right_def dest: set_dropWhileD)

lemma HasPrefix_append [simp]: "HasPrefix (p @ s) p"
  by (simp add: HasPrefix_def)

lemma HasPrefix_iff: "HasPrefix s p \<longleftrightarrow> (\<exists>t. s = p @ t)"
  by (auto simp: HasPrefix_def) (metis append_take_drop_id)

lemma HasSuffix_iff: "HasSuffix s p \<longleftrightarrow> (\<exists>t. s = t @ p)"
  by (auto simp: HasSuffix_def) (metis append_take_drop_id)

lemma str_Contains_iff: "str_Contains s p \<longleftrightarrow> (\<exists>a b. s = a @ p @ b)"
proof (induction s)
  case (Cons c cs)
  have "(\<exists>a b. c # cs = a @ p @ b) \<longleftrightarrow> (\<exists>b. c # cs = p @ b) \<or> (\<exists>a b. cs = a @ p @ b)"
    by (metis append_Cons append_Nil list.exhaust list.inject)
  with Cons show ?case by (simp add: HasPrefix_iff)
qed auto

text \<open>ASCII case folding, as \<^verbatim>\<open>strings.ToLower\<close> and \<^verbatim>\<open>EqualFold\<close> do it on ASCII text.\<close>

definition lower_char :: "char \<Rightarrow> char" where
  "lower_char c = (let k = of_char c :: nat in if 65 \<le> k \<and> k \<le> 90 then char_of (k + 32) else c)"

definition ToLower :: "string \<Rightarrow> string" where
  "ToLower s = map lower_char s"

lemma ToLower_simps [simp]:
  "ToLower [] = []" "ToLower (c # s) = lower_char c # ToLower s" "ToLower (s @ t) = ToLower s @ ToLower t"
  "length (ToLower s) = length s"
  by (simp_all add: ToLower_def)

lemma lower_char_idem [simp]: "lower_char (lower_char c) = lower_char c"
  by (simp add: lower_char_def Let_def)

lemma ToLower_idem [simp]: "ToLower (ToLower s) = ToLower s"
  by (simp add: ToLower_def)

text \<open>
  \<^verbatim>\<open>strings.TrimSpace\<close> removes Unicode white space at both ends; \<open>spaces\<close> are the UTF-8 encodings of the
  characters that \<^verbatim>\<open>unicode.IsSpace\<close> accepts.  None of them ends another character's encoding, so
  suffixes can be matched bytewise.
\<close>

definition spaces :: "string list" where
  "spaces =
     map (map char_of)
       ([[9], [10], [11], [12], [13], [32], [0xC2, 0x85], [0xC2, 0xA0], [0xE1, 0x9A, 0x80]] @
        map (\<lambda>k. [0xE2, 0x80, k]) [0x80, 0x81, 0x82, 0x83, 0x84, 0x85, 0x86, 0x87, 0x88, 0x89, 0x8A, 0xA8, 0xA9, 0xAF] @
        [[0xE2, 0x81, 0x9F], [0xE3, 0x80, 0x80 :: nat]])"

lemma spaces_nonempty: "w \<in> set spaces \<Longrightarrow> w \<noteq> []"
  by (auto simp: spaces_def)

function trim_left_space :: "string \<Rightarrow> string" where
  "trim_left_space s =
     (case find (\<lambda>w. HasPrefix s w) spaces of None \<Rightarrow> s | Some w \<Rightarrow> trim_left_space (drop (length w) s))"
  by pat_completeness auto
termination
proof (relation "measure length")
  fix s w
  assume "find (\<lambda>w. HasPrefix s w) spaces = Some w"
  then have "HasPrefix s w" "w \<noteq> []" using spaces_nonempty by (auto simp: find_Some_iff)
  then show "(drop (length w) s, s) \<in> measure length" by (auto simp: HasPrefix_iff)
qed simp

function trim_right_space :: "string \<Rightarrow> string" where
  "trim_right_space s =
     (case find (\<lambda>w. HasSuffix s w) spaces of
        None \<Rightarrow> s | Some w \<Rightarrow> trim_right_space (take (length s - length w) s))"
  by pat_completeness auto
termination
proof (relation "measure length")
  fix s w
  assume "find (\<lambda>w. HasSuffix s w) spaces = Some w"
  then have "HasSuffix s w" "w \<noteq> []" using spaces_nonempty by (auto simp: find_Some_iff)
  then show "(take (length s - length w) s, s) \<in> measure length" by (auto simp: HasSuffix_iff)
qed simp

declare trim_left_space.simps [simp del] trim_right_space.simps [simp del]

definition TrimSpace :: "string \<Rightarrow> string" where
  "TrimSpace s = trim_right_space (trim_left_space s)"

lemma trim_left_space_prefix: "w \<in> set spaces \<Longrightarrow> \<not> HasPrefix (trim_left_space s) w"
proof (induction s rule: trim_left_space.induct)
  case (1 s)
  show ?case
  proof (cases "find (\<lambda>w. HasPrefix s w) spaces")
    case None
    then have "\<not> HasPrefix s w" using "1.prems" by (auto simp: find_None_iff)
    moreover have "trim_left_space s = s" using None by (simp add: trim_left_space.simps [of s])
    ultimately show ?thesis by simp
  next
    case (Some v)
    then show ?thesis using "1.IH" [OF Some "1.prems"] by (simp add: trim_left_space.simps [of s])
  qed
qed

lemma trim_right_space_suffix: "w \<in> set spaces \<Longrightarrow> \<not> HasSuffix (trim_right_space s) w"
proof (induction s rule: trim_right_space.induct)
  case (1 s)
  show ?case
  proof (cases "find (\<lambda>w. HasSuffix s w) spaces")
    case None
    then have "\<not> HasSuffix s w" using "1.prems" by (auto simp: find_None_iff)
    moreover have "trim_right_space s = s" using None by (simp add: trim_right_space.simps [of s])
    ultimately show ?thesis by simp
  next
    case (Some v)
    then show ?thesis using "1.IH" [OF Some "1.prems"] by (simp add: trim_right_space.simps [of s])
  qed
qed

lemma trim_right_space_prefix: "\<exists>u. s = trim_right_space s @ u"
proof (induction s rule: trim_right_space.induct)
  case (1 s)
  show ?case
  proof (cases "find (\<lambda>w. HasSuffix s w) spaces")
    case None
    then show ?thesis by (simp add: trim_right_space.simps [of s])
  next
    case (Some v)
    then obtain u where "take (length s - length v) s = trim_right_space (take (length s - length v) s) @ u"
      using "1.IH" by blast
    then have "s = trim_right_space s @ (u @ drop (length s - length v) s)"
      using Some by (metis append.assoc append_take_drop_id option.simps(5) trim_right_space.simps)
    then show ?thesis by blast
  qed
qed

lemma trim_left_space_id: "(\<And>w. w \<in> set spaces \<Longrightarrow> \<not> HasPrefix s w) \<Longrightarrow> trim_left_space s = s"
  by (subst trim_left_space.simps) (auto simp: find_None_iff split: option.splits dest!: find_Some_iff [THEN iffD1])

lemma trim_right_space_id: "(\<And>w. w \<in> set spaces \<Longrightarrow> \<not> HasSuffix s w) \<Longrightarrow> trim_right_space s = s"
  by (subst trim_right_space.simps) (auto simp: find_None_iff split: option.splits dest!: find_Some_iff [THEN iffD1])

lemma TrimSpace_no_prefix: "w \<in> set spaces \<Longrightarrow> \<not> HasPrefix (TrimSpace s) w"
proof
  assume w: "w \<in> set spaces" and "HasPrefix (TrimSpace s) w"
  moreover obtain u where "trim_left_space s = TrimSpace s @ u"
    using trim_right_space_prefix [of "trim_left_space s"] by (auto simp: TrimSpace_def)
  ultimately have "HasPrefix (trim_left_space s) w" by (auto simp: HasPrefix_iff)
  with trim_left_space_prefix [OF w] show False by blast
qed

lemma TrimSpace_idem [simp]: "TrimSpace (TrimSpace s) = TrimSpace s"
proof -
  have "trim_left_space (TrimSpace s) = TrimSpace s"
    by (rule trim_left_space_id) (rule TrimSpace_no_prefix)
  moreover have "trim_right_space (TrimSpace s) = TrimSpace s"
    unfolding TrimSpace_def by (rule trim_right_space_id) (rule trim_right_space_suffix)
  ultimately show ?thesis by (simp add: TrimSpace_def)
qed

text \<open>Text of printable ASCII characters only has nothing to trim.\<close>

definition visible :: "char \<Rightarrow> bool" where
  "visible c = (let k = of_char c :: nat in 33 \<le> k \<and> k < 127)"

lemma spaces_invisible: "w \<in> set spaces \<Longrightarrow> hd w \<in> set w \<and> \<not> visible (hd w)"
  by (auto simp: spaces_def visible_def)

lemma TrimSpace_visible:
  assumes "\<forall>c\<in>set s. visible c"
  shows "TrimSpace s = s"
proof -
  have "\<not> HasPrefix s w" "\<not> HasSuffix s w" if "w \<in> set spaces" for w
    using spaces_invisible [OF that] assms by (auto simp: HasPrefix_iff HasSuffix_iff)
  then show ?thesis
    by (simp add: TrimSpace_def trim_left_space_id trim_right_space_id)
qed

lemma spaces_all_invisible: "w \<in> set spaces \<Longrightarrow> c \<in> set w \<Longrightarrow> \<not> visible c"
  by (auto simp: spaces_def visible_def)

lemma visible_survives_left: "c \<in> set s \<Longrightarrow> visible c \<Longrightarrow> c \<in> set (trim_left_space s)"
proof (induction s rule: trim_left_space.induct)
  case (1 s)
  show ?case
  proof (cases "find (\<lambda>w. HasPrefix s w) spaces")
    case None
    then show ?thesis using "1.prems" by (simp add: trim_left_space.simps [of s])
  next
    case (Some w)
    then have w: "w \<in> set spaces" "HasPrefix s w" by (auto simp: find_Some_iff)
    then obtain t where t: "s = w @ t" by (auto simp: HasPrefix_iff)
    have "c \<notin> set w" using spaces_all_invisible [OF w(1)] "1.prems"(2) by blast
    then have "c \<in> set (drop (length w) s)" using "1.prems"(1) t by simp
    with "1.IH" [OF Some] "1.prems"(2) Some show ?thesis by (simp add: trim_left_space.simps [of s])
  qed
qed

lemma visible_survives_right: "c \<in> set s \<Longrightarrow> visible c \<Longrightarrow> c \<in> set (trim_right_space s)"
proof (induction s rule: trim_right_space.induct)
  case (1 s)
  show ?case
  proof (cases "find (\<lambda>w. HasSuffix s w) spaces")
    case None
    then show ?thesis using "1.prems" by (simp add: trim_right_space.simps [of s])
  next
    case (Some w)
    then have w: "w \<in> set spaces" "HasSuffix s w" by (auto simp: find_Some_iff)
    then obtain t where t: "s = t @ w" by (auto simp: HasSuffix_iff)
    have "c \<notin> set w" using spaces_all_invisible [OF w(1)] "1.prems"(2) by blast
    then have "c \<in> set (take (length s - length w) s)" using "1.prems"(1) t by simp
    with "1.IH" [OF Some] "1.prems"(2) Some show ?thesis by (simp add: trim_right_space.simps [of s])
  qed
qed

lemma TrimSpace_nonblank: "c \<in> set s \<Longrightarrow> visible c \<Longrightarrow> TrimSpace s \<noteq> []"
  using visible_survives_left visible_survives_right unfolding TrimSpace_def by (metis empty_iff list.set(1))

lemma TrimSpace_Nil [simp]: "TrimSpace [] = []"
  by (rule TrimSpace_visible) simp

lemma digit_visible: "digit_val c = Some d \<Longrightarrow> visible c"
  by (auto simp: digit_val_def visible_def Let_def split: if_splits)

lemma visible_consts [simp]: "visible (CHR ''.'')" "visible (CHR '':'')" "visible (CHR ''f'')"
  by (simp_all add: visible_def)

lemma index_by_append [simp]:
  "\<forall>c\<in>set xs. \<not> P c \<Longrightarrow> P y \<Longrightarrow> index_by P (xs @ y # ys) = Some (length xs)"
  by (induction xs) auto

lemma hd_nat_dec_pos: "0 < n \<Longrightarrow> hd (nat_dec n) \<noteq> CHR ''0''"
proof (induction n rule: nat_dec.induct)
  case (1 n)
  show ?case
  proof (cases "n < 10")
    case True
    with "1.prems" show ?thesis
      by (metis digit_val_0_iff digit_val_digit_char list.sel(1) nat_dec_less_10 not_gr_zero option.inject)
  next
    case False
    with 1 have "hd (nat_dec (n div 10)) \<noteq> CHR ''0''" by simp
    with False show ?thesis by (simp add: nat_dec_ge_10)
  qed
qed

end
