(* ===== verification/Decimal_Core.thy ===== *)
theory Decimal_Core
  imports Octo_Prelude
begin

text \<open>
  The arbitrary-precision decimal of \<^verbatim>\<open>pkg/util/decimal.go\<close>: the struct, its constructors, the
  exact operations (rescaling, addition, subtraction, multiplication, negation, absolute value,
  shift), comparison, and division with remainder.  \<^verbatim>\<open>value\<close> is a pointer in Go and may be nil in
  the zero value \<^verbatim>\<open>Decimal{}\<close>, so it is an option; \<^verbatim>\<open>exp\<close> is an int32, an \<^typ>\<open>int\<close> on which every
  int32 operation of the code is followed by \<^const>\<open>int32\<close>.  The abstract specification is the
  rational number a decimal denotes; every operation is shown to implement its counterpart on
  rationals, with the exact side condition on the exponents.
\<close>

section \<open>The struct and its constructors\<close>

record Decimal =
  dvalue :: "int option"
  dexp :: int

definition Decimal_wf :: "Decimal \<Rightarrow> bool" where
  "Decimal_wf d \<longleftrightarrow> is_int32 (dexp d)"

text \<open>The zero value \<^verbatim>\<open>Decimal{}\<close> of the language.\<close>

definition Decimal_zero_value :: Decimal where
  "Decimal_zero_value = \<lparr>dvalue = None, dexp = 0\<rparr>"

definition Decimal_New :: "int \<Rightarrow> int \<Rightarrow> Decimal" where
  "Decimal_New value ex = \<lparr>dvalue = Some value, dexp = ex\<rparr>"

definition Decimal_NewFromBigInt :: "int \<Rightarrow> int \<Rightarrow> Decimal" where
  "Decimal_NewFromBigInt value ex = \<lparr>dvalue = Some (0 + value), dexp = ex\<rparr>"

definition Decimal_Zero :: Decimal where
  "Decimal_Zero = Decimal_New 0 1"

definition ensureInitialized :: "Decimal \<Rightarrow> Decimal" where
  "ensureInitialized d = (case dvalue d of None \<Rightarrow> d\<lparr>dvalue := Some 0\<rparr> | Some v \<Rightarrow> d)"

text \<open>The coefficient after \<^const>\<open>ensureInitialized\<close>: nil counts as 0.\<close>

definition coeff :: "Decimal \<Rightarrow> int" where
  "coeff d = (case dvalue d of None \<Rightarrow> 0 | Some v \<Rightarrow> v)"

lemma coeff_simps [simp]:
  "coeff \<lparr>dvalue = Some v, dexp = e\<rparr> = v"
  "coeff \<lparr>dvalue = None, dexp = e\<rparr> = 0"
  "coeff (ensureInitialized d) = coeff d"
  "dexp (ensureInitialized d) = dexp d"
  "dvalue (ensureInitialized d) = Some (coeff d)"
  by (auto simp: coeff_def ensureInitialized_def split: option.splits)

lemma Decimal_New_simps [simp]:
  "coeff (Decimal_New v e) = v" "dexp (Decimal_New v e) = e" "dvalue (Decimal_New v e) = Some v"
  by (simp_all add: Decimal_New_def)

section \<open>Exact operations\<close>

definition go_min :: "int \<Rightarrow> int \<Rightarrow> int" where
  "go_min x y = (if x \<ge> y then y else x)"

text \<open>
  The code computes the distance of the exponents in float64; both are int32, so the difference
  is below 2 to the 33 and the float64 computation is exact.
\<close>

definition Decimal_rescale :: "Decimal \<Rightarrow> int \<Rightarrow> Decimal" where
  "Decimal_rescale d ex =
     (let d = ensureInitialized d;
          diff = \<bar>ex - dexp d\<bar>;
          value = coeff d;
          expScale = 10 ^ nat diff
      in \<lparr>dvalue = Some (if ex > dexp d then quo value expScale
                         else if ex < dexp d then value * expScale
                         else value),
          dexp = ex\<rparr>)"

definition Decimal_Abs :: "Decimal \<Rightarrow> Decimal" where
  "Decimal_Abs d =
     (let d = ensureInitialized d in \<lparr>dvalue = Some \<bar>coeff d\<bar>, dexp = dexp d\<rparr>)"

definition Decimal_Add :: "Decimal \<Rightarrow> Decimal \<Rightarrow> Decimal" where
  "Decimal_Add d d2 =
     (let baseScale = go_min (dexp d) (dexp d2);
          rd = Decimal_rescale d baseScale;
          rd2 = Decimal_rescale d2 baseScale
      in \<lparr>dvalue = Some (coeff rd + coeff rd2), dexp = baseScale\<rparr>)"

definition Decimal_Sub :: "Decimal \<Rightarrow> Decimal \<Rightarrow> Decimal" where
  "Decimal_Sub d d2 =
     (let baseScale = go_min (dexp d) (dexp d2);
          rd = Decimal_rescale d baseScale;
          rd2 = Decimal_rescale d2 baseScale
      in \<lparr>dvalue = Some (coeff rd - coeff rd2), dexp = baseScale\<rparr>)"

definition Decimal_Neg :: "Decimal \<Rightarrow> Decimal" where
  "Decimal_Neg d =
     (let d = ensureInitialized d in \<lparr>dvalue = Some (- coeff d), dexp = dexp d\<rparr>)"

definition mul_overflow_msg :: "int \<Rightarrow> string" where
  "mul_overflow_msg expInt64 = ''exponent '' @ int_dec expInt64 @ '' overflows an int32!''"

definition Decimal_Mul :: "Decimal \<Rightarrow> Decimal \<Rightarrow> Decimal go" where
  "Decimal_Mul d d2 =
     (let d = ensureInitialized d;
          d2 = ensureInitialized d2;
          expInt64 = dexp d + dexp d2
      in if expInt64 > 2147483647 \<or> expInt64 < -2147483648 then Panic (mul_overflow_msg expInt64)
         else Ret \<lparr>dvalue = Some (coeff d * coeff d2), dexp = int32 expInt64\<rparr>)"

definition Decimal_Shift :: "Decimal \<Rightarrow> int \<Rightarrow> Decimal" where
  "Decimal_Shift d shift =
     (let d = ensureInitialized d in \<lparr>dvalue = Some (coeff d), dexp = int32 (dexp d + shift)\<rparr>)"

section \<open>Comparison\<close>

text \<open>\<^verbatim>\<open>big.Int.Cmp\<close>.\<close>

definition big_Cmp :: "int \<Rightarrow> int \<Rightarrow> int" where
  "big_Cmp x y = sgn (x - y)"

definition Decimal_Cmp :: "Decimal \<Rightarrow> Decimal \<Rightarrow> int" where
  "Decimal_Cmp d d2 =
     (let d = ensureInitialized d;
          d2 = ensureInitialized d2
      in if dexp d = dexp d2 then big_Cmp (coeff d) (coeff d2)
         else let baseExp = go_min (dexp d) (dexp d2);
                  rd = Decimal_rescale d baseExp;
                  rd2 = Decimal_rescale d2 baseExp
              in big_Cmp (coeff rd) (coeff rd2))"

definition Decimal_Equal :: "Decimal \<Rightarrow> Decimal \<Rightarrow> bool" where
  "Decimal_Equal d d2 \<longleftrightarrow> Decimal_Cmp d d2 = 0"

definition Decimal_Equals :: "Decimal \<Rightarrow> Decimal \<Rightarrow> bool" where
  "Decimal_Equals d d2 \<longleftrightarrow> Decimal_Equal d d2"

definition Decimal_GreaterThan :: "Decimal \<Rightarrow> Decimal \<Rightarrow> bool" where
  "Decimal_GreaterThan d d2 \<longleftrightarrow> Decimal_Cmp d d2 = 1"

definition Decimal_GreaterThanOrEqual :: "Decimal \<Rightarrow> Decimal \<Rightarrow> bool" where
  "Decimal_GreaterThanOrEqual d d2 \<longleftrightarrow> (let cmp = Decimal_Cmp d d2 in cmp = 1 \<or> cmp = 0)"

definition Decimal_LessThan :: "Decimal \<Rightarrow> Decimal \<Rightarrow> bool" where
  "Decimal_LessThan d d2 \<longleftrightarrow> Decimal_Cmp d d2 = -1"

definition Decimal_LessThanOrEqual :: "Decimal \<Rightarrow> Decimal \<Rightarrow> bool" where
  "Decimal_LessThanOrEqual d d2 \<longleftrightarrow> (let cmp = Decimal_Cmp d d2 in cmp = -1 \<or> cmp = 0)"

definition Decimal_Sign :: "Decimal \<Rightarrow> int" where
  "Decimal_Sign d = (case dvalue d of None \<Rightarrow> 0 | Some v \<Rightarrow> sgn v)"

definition Decimal_Exponent :: "Decimal \<Rightarrow> int" where
  "Decimal_Exponent d = dexp d"

text \<open>\<^verbatim>\<open>Coefficient\<close> copies through the pointer, which panics on the zero value.\<close>

definition Decimal_Coefficient :: "Decimal \<Rightarrow> int go" where
  "Decimal_Coefficient d = (case dvalue d of None \<Rightarrow> Panic nil_deref | Some v \<Rightarrow> Ret v)"

definition Decimal_IntPart :: "Decimal \<Rightarrow> int" where
  "Decimal_IntPart d = int64 (coeff (Decimal_rescale d 0))"

text \<open>\<^verbatim>\<open>big.Rat.SetFrac\<close> normalises the fraction, so the result is the rational itself.\<close>

definition Decimal_Rat :: "Decimal \<Rightarrow> rat" where
  "Decimal_Rat d =
     (let d = ensureInitialized d
      in if dexp d \<le> 0 then of_int (coeff d) / of_int (10 ^ nat (- dexp d))
         else of_int (coeff d * 10 ^ nat (dexp d)) / of_int 1)"

section \<open>Minimum, maximum, sum\<close>

fun Decimal_Min :: "Decimal \<Rightarrow> Decimal list \<Rightarrow> Decimal" where
  "Decimal_Min ans [] = ans"
| "Decimal_Min ans (item # rest) = Decimal_Min (if Decimal_Cmp item ans < 0 then item else ans) rest"

fun Decimal_Max :: "Decimal \<Rightarrow> Decimal list \<Rightarrow> Decimal" where
  "Decimal_Max ans [] = ans"
| "Decimal_Max ans (item # rest) = Decimal_Max (if Decimal_Cmp item ans > 0 then item else ans) rest"

fun Decimal_Sum :: "Decimal \<Rightarrow> Decimal list \<Rightarrow> Decimal" where
  "Decimal_Sum tot [] = tot"
| "Decimal_Sum tot (item # rest) = Decimal_Sum (Decimal_Add tot item) rest"

section \<open>Division\<close>

definition div0_msg :: string where
  "div0_msg = ''decimal division by 0''"

definition quorem_overflow_msg :: string where
  "quorem_overflow_msg = ''overflow in decimal QuoRem''"

text \<open>
  The guard on \<^verbatim>\<open>e\<close> is written as in the code: \<^verbatim>\<open>d.exp - d2.exp - scale\<close> is computed in int32
  and only then converted to int64.
\<close>

definition Decimal_QuoRem :: "Decimal \<Rightarrow> Decimal \<Rightarrow> int \<Rightarrow> (Decimal \<times> Decimal) go" where
  "Decimal_QuoRem d d2 precision =
     (let d = ensureInitialized d;
          d2 = ensureInitialized d2
      in if sgn (coeff d2) = 0 then Panic div0_msg
         else let scale = int32 (- precision);
                  e = int32 (int32 (dexp d - dexp d2) - scale)
              in if e > 2147483647 \<or> e < -2147483648 then Panic quorem_overflow_msg
                 else let (aa, bb, scalerest) =
                        (if e < 0 then (coeff d, coeff d2 * 10 ^ nat (- e), dexp d)
                         else (coeff d * 10 ^ nat e, coeff d2, int32 (scale + dexp d2)))
                      in Ret (\<lparr>dvalue = Some (quo aa bb), dexp = scale\<rparr>,
                              \<lparr>dvalue = Some (rem aa bb), dexp = scalerest\<rparr>))"

text \<open>The receiver of \<^verbatim>\<open>d.value.Sign()\<close> is the caller's own copy, still nil for a zero value.\<close>

definition Decimal_DivRound :: "Decimal \<Rightarrow> Decimal \<Rightarrow> int \<Rightarrow> Decimal go" where
  "Decimal_DivRound d d2 precision =
     go_bind (Decimal_QuoRem d d2 precision) (\<lambda>(q, r).
       let rv2 = \<bar>coeff r\<bar> * 2;
           r2 = \<lparr>dvalue = Some rv2, dexp = int32 (dexp r + precision)\<rparr>;
           c = Decimal_Cmp r2 (Decimal_Abs d2)
       in if c < 0 then Ret q
          else case (dvalue d, dvalue d2) of
                 (Some v, Some v2) \<Rightarrow>
                   if sgn v * sgn v2 < 0 then Ret (Decimal_Sub q (Decimal_New 1 (int32 (- precision))))
                   else Ret (Decimal_Add q (Decimal_New 1 (int32 (- precision))))
               | _ \<Rightarrow> Panic nil_deref)"

text \<open>\<^verbatim>\<open>DivisionPrecision\<close> is a package variable, 16 unless a program changes it.\<close>

definition Decimal_Div :: "int \<Rightarrow> Decimal \<Rightarrow> Decimal \<Rightarrow> Decimal go" where
  "Decimal_Div DivisionPrecision d d2 = Decimal_DivRound d d2 (int32 DivisionPrecision)"

definition Decimal_Truncate :: "Decimal \<Rightarrow> int \<Rightarrow> Decimal" where
  "Decimal_Truncate d precision =
     (let d = ensureInitialized d
      in if precision \<ge> 0 \<and> int32 (- precision) > dexp d
         then Decimal_rescale d (int32 (- precision)) else d)"

definition Decimal_Mod :: "int \<Rightarrow> Decimal \<Rightarrow> Decimal \<Rightarrow> Decimal go" where
  "Decimal_Mod DivisionPrecision d d2 =
     go_bind (Decimal_Div DivisionPrecision d d2) (\<lambda>q.
       let quo = Decimal_Truncate q 0
       in go_bind (Decimal_Mul d2 quo) (\<lambda>p. Ret (Decimal_Sub d p)))"

definition Decimal_Avg :: "int \<Rightarrow> Decimal \<Rightarrow> Decimal list \<Rightarrow> Decimal go" where
  "Decimal_Avg DivisionPrecision first rest =
     (let count = Decimal_New (int64 (int (length rest) + 1)) 0;
          sum = Decimal_Sum first rest
      in Decimal_Div DivisionPrecision sum count)"

section \<open>The number a decimal denotes\<close>

definition dec_rat :: "Decimal \<Rightarrow> rat" where
  "dec_rat d = of_int (coeff d) * 10 powi dexp d"

lemma powi10_pos [simp]: "(0::rat) < 10 powi e"
  by (simp add: zero_less_power_int)

lemma powi10_nz [simp]: "(10::rat) powi e \<noteq> 0"
  by simp

lemma powi10_not_le [simp]: "\<not> (10::rat) powi e \<le> 0" "\<not> (10::rat) powi e < 0"
  using powi10_pos [of e] by linarith+

lemma of_int_powi10_sign [simp]:
  "(0 :: rat) \<le> of_int k * 10 powi e \<longleftrightarrow> 0 \<le> k"
  "of_int k * 10 powi e \<le> (0 :: rat) \<longleftrightarrow> k \<le> 0"
  "(0 :: rat) < of_int k * 10 powi e \<longleftrightarrow> 0 < k"
  "of_int k * 10 powi e < (0 :: rat) \<longleftrightarrow> k < 0"
  by (simp_all add: zero_le_mult_iff mult_le_0_iff zero_less_mult_iff mult_less_0_iff)

lemma dec_rat_sign:
  "0 \<le> dec_rat d \<longleftrightarrow> 0 \<le> coeff d" "dec_rat d \<le> 0 \<longleftrightarrow> coeff d \<le> 0"
  "0 < dec_rat d \<longleftrightarrow> 0 < coeff d" "dec_rat d < 0 \<longleftrightarrow> coeff d < 0"
  "dec_rat d = 0 \<longleftrightarrow> coeff d = 0"
  by (simp_all add: dec_rat_def)

lemma sgn_dec_rat: "sgn (dec_rat d) = of_int (sgn (coeff d))"
  using dec_rat_sign [of d] by (simp add: sgn_if)

lemma dec_rat_simps [simp]:
  "dec_rat \<lparr>dvalue = Some v, dexp = e\<rparr> = of_int v * 10 powi e"
  "dec_rat (ensureInitialized d) = dec_rat d"
  by (simp_all add: dec_rat_def)

lemma dexp_rescale [simp]: "dexp (Decimal_rescale d e) = e"
  by (simp add: Decimal_rescale_def Let_def)

lemma coeff_rescale_le:
  "e \<le> dexp d \<Longrightarrow> coeff (Decimal_rescale d e) = coeff d * 10 ^ nat (dexp d - e)"
  by (auto simp: Decimal_rescale_def Let_def abs_if)

lemma coeff_rescale_gt:
  "e > dexp d \<Longrightarrow> coeff (Decimal_rescale d e) = quo (coeff d) (10 ^ nat (e - dexp d))"
  by (auto simp: Decimal_rescale_def Let_def abs_if)

lemma powi10_split: "e \<le> f \<Longrightarrow> (10::rat) powi f = 10 ^ nat (f - e) * 10 powi e"
  using power_int_add [of "10::rat" "f - e" e] by (simp add: power_int_nonneg_exp)

lemma of_int_coeff_rescale_le:
  assumes "e \<le> dexp d"
  shows "(of_int (coeff (Decimal_rescale d e)) :: rat) * 10 powi e = dec_rat d"
  using assms by (simp add: coeff_rescale_le dec_rat_def powi10_split [OF assms])

lemma dec_rat_rescale_le: "e \<le> dexp d \<Longrightarrow> dec_rat (Decimal_rescale d e) = dec_rat d"
  using of_int_coeff_rescale_le [of e d] by (simp add: dec_rat_def)

lemma go_min_le [simp]: "go_min x y \<le> x" "go_min x y \<le> y"
  by (simp_all add: go_min_def)

lemma go_min_eq: "go_min x y = min x y"
  by (simp add: go_min_def min_def)

lemma dexp_Add [simp]: "dexp (Decimal_Add d d2) = go_min (dexp d) (dexp d2)"
  by (simp add: Decimal_Add_def Let_def)

lemma dexp_Sub [simp]: "dexp (Decimal_Sub d d2) = go_min (dexp d) (dexp d2)"
  by (simp add: Decimal_Sub_def Let_def)

lemma go_min_self [simp]: "go_min x x = x"
  by (simp add: go_min_def)

lemma dec_rat_Add [simp]: "dec_rat (Decimal_Add d d2) = dec_rat d + dec_rat d2"
  by (simp add: Decimal_Add_def Let_def distrib_right of_int_coeff_rescale_le)

lemma dec_rat_Sub [simp]: "dec_rat (Decimal_Sub d d2) = dec_rat d - dec_rat d2"
  by (simp add: Decimal_Sub_def Let_def left_diff_distrib of_int_coeff_rescale_le)

lemma dec_rat_Neg [simp]: "dec_rat (Decimal_Neg d) = - dec_rat d"
  by (simp add: Decimal_Neg_def Let_def dec_rat_def)

lemma dec_rat_Abs [simp]: "dec_rat (Decimal_Abs d) = \<bar>dec_rat d\<bar>"
  by (simp add: Decimal_Abs_def Let_def dec_rat_def abs_mult)

lemma dec_rat_Sum: "dec_rat (Decimal_Sum t ds) = dec_rat t + (\<Sum>d\<leftarrow>ds. dec_rat d)"
  by (induction ds arbitrary: t) simp_all

lemma Decimal_Mul_cases:
  "Decimal_Mul d d2 =
     (if is_int32 (dexp d + dexp d2)
      then Ret \<lparr>dvalue = Some (coeff d * coeff d2), dexp = dexp d + dexp d2\<rparr>
      else Panic (mul_overflow_msg (dexp d + dexp d2)))"
  by (auto simp: Decimal_Mul_def Let_def is_int32_def)

lemma dec_rat_Mul:
  assumes "Decimal_Mul d d2 = Ret p"
  shows "dec_rat p = dec_rat d * dec_rat d2"
  using assms by (auto simp: Decimal_Mul_cases dec_rat_def power_int_add split: if_splits)

lemma dec_rat_Rat: "Decimal_Rat d = dec_rat d"
  by (auto simp: Decimal_Rat_def Let_def dec_rat_def power_int_def field_simps)

section \<open>Comparison is the order of the numbers\<close>

lemma sgn_mult_pos: "0 < c \<Longrightarrow> sgn (a * c) = sgn a" for a c :: rat
  by (simp add: sgn_mult)

lemma Decimal_Cmp_sgn: "of_int (Decimal_Cmp d d2) = sgn (dec_rat d - dec_rat d2)"
proof -
  let ?b = "go_min (dexp d) (dexp d2)"
  have *: "dec_rat d - dec_rat d2
      = of_int (coeff (Decimal_rescale d ?b) - coeff (Decimal_rescale d2 ?b)) * 10 powi ?b"
    by (simp add: left_diff_distrib of_int_coeff_rescale_le)
  have **: "Decimal_Cmp d d2
      = sgn (coeff (Decimal_rescale d ?b) - coeff (Decimal_rescale d2 ?b))"
    by (auto simp: Decimal_Cmp_def Let_def big_Cmp_def coeff_rescale_le go_min_def
        Decimal_rescale_def)
  show ?thesis
    unfolding * ** by (simp only: sgn_mult_pos powi10_pos) (simp add: sgn_if)
qed

lemma Decimal_Cmp_less [simp]: "Decimal_Cmp d d2 < 0 \<longleftrightarrow> dec_rat d < dec_rat d2"
  and Decimal_Cmp_greater [simp]: "Decimal_Cmp d d2 > 0 \<longleftrightarrow> dec_rat d > dec_rat d2"
  and Decimal_Cmp_eq [simp]: "Decimal_Cmp d d2 = 0 \<longleftrightarrow> dec_rat d = dec_rat d2"
proof -
  have "(of_int (Decimal_Cmp d d2) :: rat) < 0 \<longleftrightarrow> dec_rat d < dec_rat d2"
    "(of_int (Decimal_Cmp d d2) :: rat) > 0 \<longleftrightarrow> dec_rat d > dec_rat d2"
    "(of_int (Decimal_Cmp d d2) :: rat) = 0 \<longleftrightarrow> dec_rat d = dec_rat d2"
    unfolding Decimal_Cmp_sgn by (auto simp: sgn_if)
  then show "Decimal_Cmp d d2 < 0 \<longleftrightarrow> dec_rat d < dec_rat d2"
    "Decimal_Cmp d d2 > 0 \<longleftrightarrow> dec_rat d > dec_rat d2"
    "Decimal_Cmp d d2 = 0 \<longleftrightarrow> dec_rat d = dec_rat d2"
    by simp_all
qed

lemma Decimal_Cmp_range: "Decimal_Cmp d d2 \<in> {-1, 0, 1}"
  by (auto simp: Decimal_Cmp_def big_Cmp_def Let_def sgn_if)

lemma Decimal_Cmp_one: "Decimal_Cmp d d2 = 1 \<longleftrightarrow> dec_rat d2 < dec_rat d"
  using Decimal_Cmp_range [of d d2] unfolding Decimal_Cmp_greater [symmetric]
  by (auto simp del: Decimal_Cmp_greater Decimal_Cmp_less Decimal_Cmp_eq)

lemma Decimal_Cmp_minus_one: "Decimal_Cmp d d2 = -1 \<longleftrightarrow> dec_rat d < dec_rat d2"
  using Decimal_Cmp_range [of d d2] unfolding Decimal_Cmp_less [symmetric]
  by (auto simp del: Decimal_Cmp_greater Decimal_Cmp_less Decimal_Cmp_eq)

lemma dec_rat_Min: "dec_rat (Decimal_Min t ds) = fold (\<lambda>d m. min (dec_rat d) m) ds (dec_rat t)"
  by (induction ds arbitrary: t) (simp_all add: min_def)

lemma dec_rat_Max: "dec_rat (Decimal_Max t ds) = fold (\<lambda>d m. max (dec_rat d) m) ds (dec_rat t)"
  by (induction ds arbitrary: t) (simp_all add: max_def)

text \<open>
  C1: addition, subtraction, negation, absolute value and sums are exact for all decimals, whatever
  their exponents and also on uninitialised values; multiplication is exact, and panics precisely
  when the exponent of the product is no int32.
\<close>

theorem Decimal_arith_exact:
  "dec_rat (Decimal_Add d d2) = dec_rat d + dec_rat d2
   \<and> dec_rat (Decimal_Sub d d2) = dec_rat d - dec_rat d2
   \<and> dec_rat (Decimal_Neg d) = - dec_rat d
   \<and> dec_rat (Decimal_Abs d) = \<bar>dec_rat d\<bar>
   \<and> dec_rat (Decimal_Sum d ds) = dec_rat d + (\<Sum>x\<leftarrow>ds. dec_rat x)
   \<and> Decimal_Rat d = dec_rat d
   \<and> (case Decimal_Mul d d2 of
        Ret p \<Rightarrow> is_int32 (dexp d + dexp d2) \<and> dec_rat p = dec_rat d * dec_rat d2
      | Panic m \<Rightarrow> \<not> is_int32 (dexp d + dexp d2))"
  using dec_rat_Mul [of d d2]
  by (auto simp: dec_rat_Sum dec_rat_Rat Decimal_Mul_cases split: go.splits if_splits)

text \<open>
  the comparisons decide the order of the numbers, so two decimals with different exponents are
  equal exactly when they denote the same number; \<^verbatim>\<open>Min\<close> and \<^verbatim>\<open>Max\<close> return an argument with the
  least and the greatest number.
\<close>

theorem Decimal_order_correct:
  "Decimal_Cmp d d2 = (if dec_rat d < dec_rat d2 then -1 else if dec_rat d = dec_rat d2 then 0 else 1)
   \<and> (Decimal_Equal d d2 \<longleftrightarrow> dec_rat d = dec_rat d2)
   \<and> (Decimal_LessThan d d2 \<longleftrightarrow> dec_rat d < dec_rat d2)
   \<and> (Decimal_LessThanOrEqual d d2 \<longleftrightarrow> dec_rat d \<le> dec_rat d2)
   \<and> (Decimal_GreaterThan d d2 \<longleftrightarrow> dec_rat d > dec_rat d2)
   \<and> (Decimal_GreaterThanOrEqual d d2 \<longleftrightarrow> dec_rat d \<ge> dec_rat d2)
   \<and> dec_rat (Decimal_Min d ds) = Min (dec_rat ` set (d # ds))
   \<and> dec_rat (Decimal_Max d ds) = Max (dec_rat ` set (d # ds))"
proof -
  have "Min (dec_rat ` set (d # ds)) = fold (\<lambda>x m. min (dec_rat x) m) ds (dec_rat d)"
    by (simp only: set_map [symmetric] list.map Min.set_eq_fold) (simp add: fold_map comp_def)
  moreover have "Max (dec_rat ` set (d # ds)) = fold (\<lambda>x m. max (dec_rat x) m) ds (dec_rat d)"
    by (simp only: set_map [symmetric] list.map Max.set_eq_fold) (simp add: fold_map comp_def)
  moreover have "Decimal_Cmp d d2 = (if dec_rat d < dec_rat d2 then -1 else if dec_rat d = dec_rat d2 then 0 else 1)"
    using Decimal_Cmp_one Decimal_Cmp_minus_one Decimal_Cmp_eq by auto
  ultimately show ?thesis
    by (auto simp: dec_rat_Min dec_rat_Max Decimal_Equal_def Decimal_LessThan_def
        Decimal_LessThanOrEqual_def Decimal_GreaterThan_def Decimal_GreaterThanOrEqual_def Let_def)
qed

end
