(* ===== verification/Decimal_Rounding.thy ===== *)
theory Decimal_Rounding
  imports Decimal_Core
begin

text \<open>
  Division and rounding of \<^verbatim>\<open>pkg/util/decimal.go\<close>: \<^verbatim>\<open>Round\<close>, \<^verbatim>\<open>RoundBank\<close>, \<^verbatim>\<open>RoundCash\<close>,
  \<^verbatim>\<open>Floor\<close> and \<^verbatim>\<open>Ceil\<close>, and the correctness of these and of \<^verbatim>\<open>QuoRem\<close>, \<^verbatim>\<open>DivRound\<close> and
  \<^verbatim>\<open>Truncate\<close> against reference roundings of rational numbers: half away from zero, half to
  even, towards zero.
\<close>

section \<open>Rounding operations\<close>

definition Decimal_Round :: "Decimal \<Rightarrow> int \<Rightarrow> Decimal" where
  "Decimal_Round d places =
     (let ret = Decimal_rescale d (int32 (int32 (- places) - 1));
          v = coeff ret;
          v = (if sgn v < 0 then v - 5 else v + 5);
          m = big_Mod v 10;
          v = big_Div v 10;
          e = int32 (dexp ret + 1);
          v = (if sgn v < 0 \<and> m \<noteq> 0 then v + 1 else v)
      in \<lparr>dvalue = Some v, dexp = e\<rparr>)"

definition Decimal_RoundBank :: "Decimal \<Rightarrow> int \<Rightarrow> Decimal" where
  "Decimal_RoundBank d places =
     (let rnd = Decimal_Round d places;
          remainder = Decimal_Abs (Decimal_Sub d rnd);
          half = Decimal_New 5 (int32 (int32 (- places) - 1))
      in if Decimal_Cmp remainder half = 0 \<and> bit (coeff rnd) 0
         then \<lparr>dvalue = Some (if sgn (coeff rnd) < 0 then coeff rnd + 1 else coeff rnd - 1),
               dexp = dexp rnd\<rparr>
         else rnd)"

definition fiveDec :: Decimal where
  "fiveDec = Decimal_New 5 0"

definition cash_msg :: "int \<Rightarrow> string" where
  "cash_msg interval =
     ''Decimal does not support this Cash rounding interval `'' @ int_dec interval @
     ''`. Supported: 5, 10, 15, 25, 50, 100''"

text \<open>
  In the branch for 15 the code writes \<^verbatim>\<open>10^-int64(orgExp)\<close>; \<^verbatim>\<open>^\<close> is exclusive or in Go.
\<close>

definition Decimal_RoundCash15 :: "int \<Rightarrow> Decimal \<Rightarrow> Decimal go" where
  "Decimal_RoundCash15 DivisionPrecision d =
     (if dexp d < 0 then
        let orgExp = dexp d;
            dOne = Decimal_New (Bit_Operations.xor 10 (- orgExp)) orgExp;
            d2 = d\<lparr>dexp := 0\<rparr>
        in go_bind (Decimal_Mod DivisionPrecision d2 fiveDec) (\<lambda>m.
             if Decimal_Equal m Decimal_Zero
             then Ret (Decimal_Sub (d2\<lparr>dexp := orgExp\<rparr>) dOne)
             else Ret d)
      else Ret d)"

definition Decimal_RoundCash :: "int \<Rightarrow> Decimal \<Rightarrow> int \<Rightarrow> Decimal go" where
  "Decimal_RoundCash DivisionPrecision d interval =
     (let finish = (\<lambda>d iVal.
            let dVal = \<lparr>dvalue = Some iVal, dexp = 0\<rparr>
            in go_bind (Decimal_Mul d dVal) (\<lambda>p.
                 go_bind (Decimal_Div DivisionPrecision (Decimal_Round p 0) dVal) (\<lambda>q.
                   Ret (Decimal_Truncate q 2))))
      in if interval = 5 then finish d 20
         else if interval = 10 then finish d 10
         else if interval = 15
              then go_bind (Decimal_RoundCash15 DivisionPrecision d) (\<lambda>d. finish d 10)
         else if interval = 25 then finish d 4
         else if interval = 50 then finish d 2
         else if interval = 100 then finish d 1
         else Panic (cash_msg interval))"

definition Decimal_Floor :: "Decimal \<Rightarrow> Decimal" where
  "Decimal_Floor d =
     (let d = ensureInitialized d
      in if dexp d \<ge> 0 then d
         else \<lparr>dvalue = Some (big_Div (coeff d) (10 ^ nat (- dexp d))), dexp = 0\<rparr>)"

definition Decimal_Ceil :: "Decimal \<Rightarrow> Decimal" where
  "Decimal_Ceil d =
     (let d = ensureInitialized d
      in if dexp d \<ge> 0 then d
         else let ex = 10 ^ nat (- dexp d);
                  z = big_Div (coeff d) ex;
                  m = big_Mod (coeff d) ex
              in \<lparr>dvalue = Some (if m \<noteq> 0 then z + 1 else z), dexp = 0\<rparr>)"

section \<open>Reference roundings\<close>

text \<open>To \<open>p\<close> places after the point: half away from zero, half to even, towards zero.\<close>

definition round_half_away :: "int \<Rightarrow> rat \<Rightarrow> rat" where
  "round_half_away p x = sgn x * of_int \<lfloor>\<bar>x\<bar> * 10 powi p + 1 / 2\<rfloor> * 10 powi (- p)"

definition round_half_even :: "int \<Rightarrow> rat \<Rightarrow> rat" where
  "round_half_even p x =
     (let y = x * 10 powi p; f = \<lfloor>y\<rfloor>
      in of_int (if y - of_int f < 1 / 2 then f
                 else if y - of_int f > 1 / 2 then f + 1
                 else if even f then f else f + 1) * 10 powi (- p))"

definition round_to_zero :: "int \<Rightarrow> rat \<Rightarrow> rat" where
  "round_to_zero p x = sgn x * of_int \<lfloor>\<bar>x\<bar> * 10 powi p\<rfloor> * 10 powi (- p)"

section \<open>Integer lemmas\<close>

lemma floor_rat_div: "0 < b \<Longrightarrow> \<lfloor>of_int a / of_int b :: rat\<rfloor> = a div b"
  by (rule floor_divide_of_int_eq)

lemma floor_half_div:
  fixes a b :: int
  assumes "0 < b"
  shows "\<lfloor>of_int a / of_int b + 1 / 2 :: rat\<rfloor> = a div b + (if 2 * (a mod b) < b then 0 else 1)"
proof -
  have eq: "of_int a / of_int b + 1 / 2 = (of_int (2 * a + b) / of_int (2 * b) :: rat)"
    using assms by (simp add: field_simps)
  have "\<lfloor>of_int a / of_int b + 1 / 2 :: rat\<rfloor> = (2 * a + b) div (2 * b)"
    unfolding eq by (rule floor_divide_of_int_eq)
  also have "\<dots> = a div b + (if 2 * (a mod b) < b then 0 else 1)"
  proof -
    have "2 * a + b = 2 * (a div b * b + a mod b) + b"
      by (simp only: div_mult_mod_eq)
    also have "\<dots> = (a div b) * (2 * b) + (2 * (a mod b) + b)"
      by (simp only: algebra_simps)
    finally have "(2 * a + b) div (2 * b) = a div b + (2 * (a mod b) + b) div (2 * b)"
      using assms by (metis div_mult_self3 mult_eq_0_iff order_less_irrefl zero_neq_numeral)
    moreover have "(2 * (a mod b) + b) div (2 * b) = (if 2 * (a mod b) < b then 0 else 1)"
    proof (cases "2 * (a mod b) < b")
      case True
      then show ?thesis using assms by (simp add: div_pos_pos_trivial)
    next
      case False
      have "(2 * (a mod b) + b) div (2 * b) = (2 * (a mod b) + b - 2 * b) div (2 * b) + 1"
        using assms False by (subst div_pos_geq) auto
      also have "(2 * (a mod b) + b - 2 * b) div (2 * b) = 0"
        using assms False pos_mod_bound [of b a] by (intro div_pos_pos_trivial) linarith+
      finally show ?thesis using False by simp
    qed
    ultimately show ?thesis by simp
  qed
  finally show ?thesis .
qed

lemma abs_quo: "\<bar>quo a b\<bar> = (if b = 0 then 0 else \<bar>a\<bar> div \<bar>b\<bar>)"
proof -
  have "0 \<le> \<bar>a\<bar> div \<bar>b\<bar>"
    by (cases "b = 0") (simp_all add: pos_imp_zdiv_nonneg_iff)
  then show ?thesis
    by (cases "a = 0") (simp_all add: quo_def abs_mult abs_sgn_eq)
qed

lemma quo_sign: "quo a b = sgn (a * b) * (\<bar>a\<bar> div \<bar>b\<bar>)"
  by (simp add: quo_def sgn_mult)

lemma sgn_abs_quo: "sgn (a * b) * \<bar>quo a b\<bar> = quo a b"
  by (simp only: abs_quo) (simp add: quo_sign)

lemma abs_rem: "\<bar>rem a b\<bar> = \<bar>a\<bar> mod \<bar>b\<bar>"
  by (cases "a = 0") (auto simp: rem_def abs_mult)

section \<open>Division with remainder\<close>

definition quorem_in_range :: "Decimal \<Rightarrow> Decimal \<Rightarrow> int \<Rightarrow> bool" where
  "quorem_in_range d d2 p \<longleftrightarrow>
     is_int32 (- p) \<and> is_int32 (dexp d - dexp d2) \<and> is_int32 (dexp d - dexp d2 + p) \<and>
     is_int32 (dexp d2 - p) \<and> is_int32 (dexp d + p) \<and> is_int32 (dexp d2)"

lemma QuoRem_shape:
  assumes "coeff d2 \<noteq> 0" and "quorem_in_range d d2 p"
  obtains aa bb x where
    "Decimal_QuoRem d d2 p =
       Ret (\<lparr>dvalue = Some (quo aa bb), dexp = - p\<rparr>, \<lparr>dvalue = Some (rem aa bb), dexp = x\<rparr>)"
    and "of_int aa * 10 powi x = dec_rat d"
    and "of_int bb * 10 powi x = dec_rat d2 * 10 powi (- p)"
    and "is_int32 (x + p)" and "bb \<noteq> 0"
proof (cases "dexp d - dexp d2 + p < 0")
  case True
  show ?thesis
  proof (rule that [of "coeff d" "coeff d2 * 10 ^ nat (- (dexp d - dexp d2 + p))" "dexp d"])
    show "Decimal_QuoRem d d2 p =
      Ret (\<lparr>dvalue = Some (quo (coeff d) (coeff d2 * 10 ^ nat (- (dexp d - dexp d2 + p)))), dexp = - p\<rparr>,
           \<lparr>dvalue = Some (rem (coeff d) (coeff d2 * 10 ^ nat (- (dexp d - dexp d2 + p)))), dexp = dexp d\<rparr>)"
      using assms True
      by (auto simp: Decimal_QuoRem_def Let_def quorem_in_range_def sgn_0_0 is_int32_def)
    show "(of_int (coeff d2 * 10 ^ nat (- (dexp d - dexp d2 + p))) :: rat) * 10 powi dexp d =
        dec_rat d2 * 10 powi (- p)"
      using True powi10_split [of "dexp d" "dexp d2 - p"]
      by (simp add: dec_rat_def power_int_diff power_int_minus_divide algebra_simps)
  qed (use assms in \<open>auto simp: dec_rat_def quorem_in_range_def\<close>)
next
  case False
  show ?thesis
  proof (rule that [of "coeff d * 10 ^ nat (dexp d - dexp d2 + p)" "coeff d2" "dexp d2 - p"])
    show "Decimal_QuoRem d d2 p =
      Ret (\<lparr>dvalue = Some (quo (coeff d * 10 ^ nat (dexp d - dexp d2 + p)) (coeff d2)), dexp = - p\<rparr>,
           \<lparr>dvalue = Some (rem (coeff d * 10 ^ nat (dexp d - dexp d2 + p)) (coeff d2)), dexp = dexp d2 - p\<rparr>)"
      using assms False
      by (auto simp: Decimal_QuoRem_def Let_def quorem_in_range_def sgn_0_0 is_int32_def)
    show "(of_int (coeff d * 10 ^ nat (dexp d - dexp d2 + p)) :: rat) * 10 powi (dexp d2 - p) = dec_rat d"
      using False powi10_split [of "dexp d2 - p" "dexp d"]
      by (simp add: dec_rat_def algebra_simps)
    show "of_int (coeff d2) * 10 powi (dexp d2 - p) = dec_rat d2 * 10 powi (- p)"
      by (simp add: dec_rat_def power_int_diff power_int_minus_divide)
  qed (use assms in \<open>auto simp: quorem_in_range_def\<close>)
qed


text \<open>
  C2: \<^verbatim>\<open>QuoRem\<close> divides with remainder.  While the int32 exponents stay in range it returns a
  quotient that is a multiple of \<open>10 powi (- precision)\<close> and a remainder with
  \<open>d = d2 * q + r\<close>, \<open>\<bar>r\<bar> < \<bar>d2\<bar> * 10 powi (- precision)\<close> and the sign of \<open>d\<close>.
\<close>

theorem QuoRem_correct:
  assumes "coeff d2 \<noteq> 0" and "quorem_in_range d d2 p"
  shows "\<exists>q r. Decimal_QuoRem d d2 p = Ret (q, r) \<and> dexp q = - p
    \<and> dec_rat d = dec_rat d2 * dec_rat q + dec_rat r
    \<and> \<bar>dec_rat r\<bar> < \<bar>dec_rat d2\<bar> * 10 powi (- p)
    \<and> (0 \<le> dec_rat d \<longrightarrow> 0 \<le> dec_rat r) \<and> (dec_rat d \<le> 0 \<longrightarrow> dec_rat r \<le> 0)"
proof -
  obtain aa bb x where qr: "Decimal_QuoRem d d2 p =
       Ret (\<lparr>dvalue = Some (quo aa bb), dexp = - p\<rparr>, \<lparr>dvalue = Some (rem aa bb), dexp = x\<rparr>)"
    and a: "of_int aa * 10 powi x = dec_rat d"
    and b: "of_int bb * 10 powi x = dec_rat d2 * 10 powi (- p)" and bb: "bb \<noteq> 0"
    using QuoRem_shape [OF assms] by metis
  have "dec_rat d = of_int (quo aa bb * bb + rem aa bb) * 10 powi x"
    by (simp add: quo_rem a)
  also have "\<dots> = of_int (quo aa bb) * (of_int bb * 10 powi x) + of_int (rem aa bb) * 10 powi x"
    by (simp add: algebra_simps)
  finally have eq: "dec_rat d =
      dec_rat d2 * (of_int (quo aa bb) * 10 powi (- p)) + of_int (rem aa bb) * 10 powi x"
    by (simp add: b mult_ac)
  have "(of_int \<bar>rem aa bb\<bar> :: rat) < of_int \<bar>bb\<bar>"
    using abs_rem_less [OF bb] by (simp only: of_int_less_iff)
  then have "of_int \<bar>rem aa bb\<bar> * 10 powi x < \<bar>of_int bb * 10 powi x :: rat\<bar>"
    by (simp add: abs_mult)
  then have bound: "\<bar>of_int (rem aa bb) * 10 powi x\<bar> < \<bar>dec_rat d2\<bar> * 10 powi (- p)"
    by (simp only: b abs_mult) (simp add: abs_mult)
  have sgn: "0 \<le> dec_rat d \<Longrightarrow> 0 \<le> rem aa bb" "dec_rat d \<le> 0 \<Longrightarrow> rem aa bb \<le> 0"
    using rem_nonneg [of aa bb] rem_nonpos [of aa bb]
    by (simp_all add: a [symmetric])
  show ?thesis
    using qr eq bound sgn by auto
qed

theorem QuoRem_correct_witness:
  "\<exists>q r. Decimal_QuoRem (Decimal_New (-7) 0) (Decimal_New 2 0) 0 = Ret (q, r) \<and> dexp q = 0
    \<and> dec_rat (Decimal_New (-7) 0) = dec_rat (Decimal_New 2 0) * dec_rat q + dec_rat r"
proof -
  have "quorem_in_range (Decimal_New (-7) 0) (Decimal_New 2 0) 0"
    by (simp add: quorem_in_range_def)
  then show ?thesis
    using QuoRem_correct [of "Decimal_New 2 0" "Decimal_New (-7) 0" 0] by auto
qed

lemma DivRound_int:
  fixes aa bb :: int
  assumes "bb \<noteq> 0"
  shows "\<lfloor>\<bar>of_int aa / of_int bb\<bar> + 1 / 2 :: rat\<rfloor>
    = \<bar>quo aa bb\<bar> + (if 2 * \<bar>rem aa bb\<bar> < \<bar>bb\<bar> then 0 else 1)"
proof -
  have "\<bar>of_int aa / of_int bb :: rat\<bar> = of_int \<bar>aa\<bar> / of_int \<bar>bb\<bar>"
    by simp
  then show ?thesis
    using floor_half_div [of "\<bar>bb\<bar>" "\<bar>aa\<bar>"] assms by (simp add: abs_quo abs_rem)
qed

lemma round_half_away_quotient:
  assumes bb: "bb \<noteq> 0" and d: "dec_rat d = of_int aa * 10 powi x"
    and d2: "dec_rat d2 = of_int bb * 10 powi (x + p)"
  shows "round_half_away p (dec_rat d / dec_rat d2)
      = of_int (quo aa bb + sgn (aa * bb) * (if 2 * \<bar>rem aa bb\<bar> < \<bar>bb\<bar> then 0 else 1)) * 10 powi (- p)"
proof -
  have Q: "dec_rat d / dec_rat d2 * 10 powi p = of_int aa / of_int bb"
    using bb by (simp add: d2 d power_int_add)
  have sg: "sgn (dec_rat d / dec_rat d2) = of_int (sgn (aa * bb))"
    by (simp add: d2 d sgn_divide sgn_mult) (simp add: sgn_if)
  have "\<bar>dec_rat d / dec_rat d2\<bar> * 10 powi p = \<bar>of_int aa / of_int bb\<bar>"
    unfolding Q [symmetric] by (simp add: abs_mult)
  then have "round_half_away p (dec_rat d / dec_rat d2)
      = of_int (sgn (aa * bb) * (\<bar>quo aa bb\<bar> + (if 2 * \<bar>rem aa bb\<bar> < \<bar>bb\<bar> then 0 else 1))) * 10 powi (- p)"
    by (simp only: round_half_away_def sg DivRound_int [OF bb] of_int_mult)
  also have "sgn (aa * bb) * (\<bar>quo aa bb\<bar> + (if 2 * \<bar>rem aa bb\<bar> < \<bar>bb\<bar> then 0 else 1))
      = quo aa bb + sgn (aa * bb) * (if 2 * \<bar>rem aa bb\<bar> < \<bar>bb\<bar> then 0 else 1)"
    by (simp add: distrib_left sgn_abs_quo)
  finally show ?thesis .
qed

lemma DivRound_value:
  assumes "coeff d2 \<noteq> 0" and "quorem_in_range d d2 p"
  shows "\<exists>x. Decimal_DivRound d d2 p = Ret x \<and> dexp x = - p
    \<and> dec_rat x = round_half_away p (dec_rat d / dec_rat d2)"
proof -
  obtain aa bb x where qr: "Decimal_QuoRem d d2 p =
       Ret (\<lparr>dvalue = Some (quo aa bb), dexp = - p\<rparr>, \<lparr>dvalue = Some (rem aa bb), dexp = x\<rparr>)"
    and a: "of_int aa * 10 powi x = dec_rat d"
    and b: "of_int bb * 10 powi x = dec_rat d2 * 10 powi (- p)"
    and xp: "is_int32 (x + p)" and bb: "bb \<noteq> 0"
    by (rule QuoRem_shape [OF assms])
  have p: "is_int32 (- p)" using assms(2) by (simp add: quorem_in_range_def)
  have d2: "dec_rat d2 = of_int bb * 10 powi (x + p)"
    using b by (simp add: power_int_add power_int_minus_divide field_simps)
  note R = round_half_away_quotient [OF bb a [symmetric] d2]
  let ?r2 = "\<lparr>dvalue = Some (\<bar>rem aa bb\<bar> * 2), dexp = int32 (x + p)\<rparr>"
  have "dec_rat ?r2 < \<bar>dec_rat d2\<bar> \<longleftrightarrow> (of_int (\<bar>rem aa bb\<bar> * 2) :: rat) < of_int \<bar>bb\<bar>"
    using xp by (simp add: d2 abs_mult)
  then have c: "Decimal_Cmp ?r2 (Decimal_Abs d2) < 0 \<longleftrightarrow> 2 * \<bar>rem aa bb\<bar> < \<bar>bb\<bar>"
    by (simp only: of_int_less_iff Decimal_Cmp_less dec_rat_Abs) linarith
  show ?thesis
  proof (cases "2 * \<bar>rem aa bb\<bar> < \<bar>bb\<bar>")
    case True
    then show ?thesis
      using R c by (simp add: Decimal_DivRound_def qr Let_def)
  next
    case False
    with bb have "aa \<noteq> 0" by (auto simp: rem_def)
    have s: "sgn (coeff d) = sgn aa" "sgn (coeff d2) = sgn bb"
      using dec_rat_sign [of d] dec_rat_sign [of d2] by (auto simp: a [symmetric] d2 sgn_if)
    with \<open>aa \<noteq> 0\<close> bb have "coeff d \<noteq> 0" "coeff d2 \<noteq> 0" by (auto simp: sgn_if split: if_splits)
    then have v: "dvalue d = Some (coeff d)" "dvalue d2 = Some (coeff d2)"
      by (auto simp: coeff_def split: option.splits)
    have "Decimal_DivRound d d2 p = Ret
        (if sgn (aa * bb) < 0
         then Decimal_Sub \<lparr>dvalue = Some (quo aa bb), dexp = - p\<rparr> (Decimal_New 1 (- p))
         else Decimal_Add \<lparr>dvalue = Some (quo aa bb), dexp = - p\<rparr> (Decimal_New 1 (- p)))"
      using False c p by (simp add: Decimal_DivRound_def qr Let_def v s sgn_mult)
    moreover have "sgn (aa * bb) = (if aa * bb < 0 then -1 else 1)"
      using \<open>aa \<noteq> 0\<close> bb by (auto simp: sgn_if)
    ultimately show ?thesis
      using R False by (cases "aa * bb < 0") (simp_all add: Decimal_New_def algebra_simps)
  qed
qed

text \<open>
  \<^verbatim>\<open>DivRound\<close> returns the exact quotient rounded half away from zero to \<^verbatim>\<open>precision\<close> places;
  it never reaches the nil dereference of its sign test.
\<close>

theorem DivRound_correct:
  assumes "coeff d2 \<noteq> 0" and "quorem_in_range d d2 p"
  shows "\<exists>x. Decimal_DivRound d d2 p = Ret x \<and> dexp x = - p
    \<and> dec_rat x = round_half_away p (dec_rat d / dec_rat d2)"
  using assms by (rule DivRound_value)

theorem DivRound_correct_witness:
  "\<exists>x. Decimal_DivRound (Decimal_New (-7) 0) (Decimal_New 2 0) 0 = Ret x \<and> dexp x = 0
    \<and> dec_rat x = round_half_away 0 (dec_rat (Decimal_New (-7) 0) / dec_rat (Decimal_New 2 0))"
proof -
  have "quorem_in_range (Decimal_New (-7) 0) (Decimal_New 2 0) 0"
    by (simp add: quorem_in_range_def)
  then show ?thesis
    using DivRound_correct [of "Decimal_New 2 0" "Decimal_New (-7) 0" 0] by auto
qed


section \<open>Rounding to places\<close>

lemma coeff_rescale:
  "coeff (Decimal_rescale d e) = sgn (coeff d) * \<lfloor>\<bar>dec_rat d\<bar> * 10 powi (- e)\<rfloor>"
proof (cases "e \<le> dexp d")
  case True
  have "\<bar>dec_rat d\<bar> * 10 powi (- e) = of_int (\<bar>coeff d\<bar> * 10 ^ nat (dexp d - e))"
    using True powi10_split [of e "dexp d"]
    by (simp add: dec_rat_def abs_mult power_int_minus field_simps)
  then have "\<lfloor>\<bar>dec_rat d\<bar> * 10 powi (- e)\<rfloor> = \<bar>coeff d\<bar> * 10 ^ nat (dexp d - e)"
    by (simp only: floor_of_int)
  then show ?thesis
    using True by (simp add: coeff_rescale_le mult.assoc [symmetric] sgn_mult_abs)
next
  case False
  have "\<bar>dec_rat d\<bar> * 10 powi (- e) = of_int \<bar>coeff d\<bar> / of_int (10 ^ nat (e - dexp d))"
    using False powi10_split [of "dexp d" e]
    by (simp add: dec_rat_def abs_mult power_int_minus field_simps)
  then have "\<lfloor>\<bar>dec_rat d\<bar> * 10 powi (- e)\<rfloor> = \<bar>coeff d\<bar> div 10 ^ nat (e - dexp d)"
    by (simp only: floor_divide_of_int_eq)
  then show ?thesis
    using False by (simp add: coeff_rescale_gt quo_def)
qed

lemma dec_rat_rescale: "dec_rat (Decimal_rescale d e) = round_to_zero (- e) (dec_rat d)"
proof -
  have "dec_rat (Decimal_rescale d e) = of_int (coeff (Decimal_rescale d e)) * 10 powi e"
    by (simp add: dec_rat_def)
  then show ?thesis
    by (simp add: coeff_rescale round_to_zero_def sgn_dec_rat)
qed

lemma Truncate_value:
  assumes "0 \<le> p" and "is_int32 p"
  shows "dec_rat (Decimal_Truncate d p) = round_to_zero p (dec_rat d)"
proof -
  have p: "is_int32 (- p)" using assms by (simp add: is_int32_def)
  show ?thesis
  proof (cases "- p > dexp d")
    case True
    then show ?thesis
      using assms p by (simp add: Decimal_Truncate_def Let_def dec_rat_rescale)
  next
    case False
    then have "dec_rat (Decimal_rescale d (- p)) = dec_rat d"
      by (intro dec_rat_rescale_le) simp
    then show ?thesis
      using False assms p by (simp add: Decimal_Truncate_def Let_def dec_rat_rescale)
  qed
qed

text \<open>
  \<^verbatim>\<open>Truncate\<close> with a precision of at least 0 cuts the number towards zero after
  \<^verbatim>\<open>precision\<close> places, and leaves a number with fewer places unchanged.
\<close>

theorem Truncate_correct:
  assumes "0 \<le> p" and "is_int32 p"
  shows "dec_rat (Decimal_Truncate d p) = round_to_zero p (dec_rat d)"
  using assms by (rule Truncate_value)

theorem Truncate_correct_witness:
  "dec_rat (Decimal_Truncate (Decimal_New (-123456) (-3)) 2)
    = round_to_zero 2 (dec_rat (Decimal_New (-123456) (-3)))"
  by (rule Truncate_correct) (simp_all add: is_int32_def)

lemma Decimal_Round_eq:
  assumes "is_int32 (- p - 1)" and "is_int32 (- p)"
  shows "Decimal_Round d p =
     (let t = coeff (Decimal_rescale d (- p - 1))
      in \<lparr>dvalue = Some (sgn t * ((\<bar>t\<bar> + 5) div 10)), dexp = - p\<rparr>)"
proof -
  have neg: "t < 0 \<Longrightarrow> (if (t - 5) div 10 < 0 \<and> (t - 5) mod 10 \<noteq> 0 then (t - 5) div 10 + 1
      else (t - 5) div 10) = - ((- t + 5) div 10)" for t :: int
    using zdiv_zminus1_eq_if [of 10 "t - 5"] by (simp add: pos_imp_zdiv_neg_iff add.commute)
  have pos: "0 \<le> t \<Longrightarrow> \<not> (t + 5) div 10 < 0" for t :: int
    by (simp add: pos_imp_zdiv_neg_iff)
  have "sgn t * ((\<bar>t\<bar> + 5) div 10) =
      (let v = (if sgn t < 0 then t - 5 else t + 5)
       in if sgn (v div 10) < 0 \<and> v mod 10 \<noteq> 0 then v div 10 + 1 else v div 10)" for t :: int
    using neg [of t] pos [of t] by (cases "t < 0"; cases "t = 0") (simp_all add: Let_def)
  with assms show ?thesis
    by (simp add: Decimal_Round_def Let_def big_Div_def big_Mod_def)
qed

lemma sgn_round10:
  "0 \<le> m \<Longrightarrow> sgn (sgn c * m) * ((\<bar>sgn c * m\<bar> + 5) div 10) = sgn c * ((m + 5) div 10)" for c m :: int
  by (cases "m = 0") (auto simp: sgn_if)

lemma neg_floor_eq_iff: "- \<lfloor>z\<rfloor> = k \<longleftrightarrow> of_int (- k) \<le> z \<and> z < of_int (- k) + 1" for z :: rat
  using floor_eq_iff [of z "- k"] by auto

lemma floor_add5_div10: "(\<lfloor>y\<rfloor> + 5) div 10 = \<lfloor>y / 10 + 1 / 2\<rfloor>" for y :: rat
proof (rule floor_unique [symmetric])
  let ?q = "(\<lfloor>y\<rfloor> + 5) div 10"
  have "10 * ?q \<le> \<lfloor>y\<rfloor> + 5" "\<lfloor>y\<rfloor> + 5 < 10 * ?q + 10" by presburger+
  then have "of_int (10 * ?q) \<le> y + 5" "y + 5 < of_int (10 * ?q + 10)"
    by linarith+
  then show "of_int ?q \<le> y / 10 + 1 / 2" "y / 10 + 1 / 2 < of_int ?q + 1"
    by simp_all
qed

lemma Round_value:
  assumes "is_int32 (- p - 1)" and "is_int32 (- p)"
  shows "dexp (Decimal_Round d p) = - p
    \<and> dec_rat (Decimal_Round d p) = round_half_away p (dec_rat d)"
proof -
  let ?y = "\<bar>dec_rat d\<bar> * 10 powi (p + 1)"
  let ?t = "coeff (Decimal_rescale d (- p - 1))"
  have t: "?t = sgn (coeff d) * \<lfloor>?y\<rfloor>" by (simp add: coeff_rescale add.commute)
  have "0 \<le> \<lfloor>?y\<rfloor>" by simp
  then have *: "sgn ?t * ((\<bar>?t\<bar> + 5) div 10) = sgn (coeff d) * ((\<lfloor>?y\<rfloor> + 5) div 10)"
    unfolding t by (rule sgn_round10)
  have "?y / 10 = \<bar>dec_rat d\<bar> * 10 powi p"
    by (simp add: power_int_add_1)
  with * show ?thesis
    using assms
    by (simp add: Decimal_Round_eq Let_def floor_add5_div10 round_half_away_def sgn_dec_rat)
qed

text \<open>
  C3: \<^verbatim>\<open>Round\<close> rounds half away from zero to any number of places, positive or negative, although
  it first truncates one digit further.
\<close>

theorem Round_correct:
  assumes "is_int32 (- p - 1)" and "is_int32 (- p)"
  shows "dexp (Decimal_Round d p) = - p
    \<and> dec_rat (Decimal_Round d p) = round_half_away p (dec_rat d)"
  using assms by (rule Round_value)

theorem Round_correct_witness:
  "dec_rat (Decimal_Round (Decimal_New 545 (-2)) 1) = round_half_away 1 (dec_rat (Decimal_New 545 (-2)))"
  using Round_correct [of 1 "Decimal_New 545 (-2)"] by (simp add: is_int32_def)

lemma half_away_even_cases:
  fixes y :: rat
  defines "n \<equiv> (if y < 0 then - \<lfloor>- y + 1 / 2\<rfloor> else \<lfloor>y + 1 / 2\<rfloor>)"
  shows "(if \<bar>y - of_int n\<bar> = 1 / 2 \<and> odd n then (if n < 0 then n + 1 else n - 1) else n)
    = (let f = \<lfloor>y\<rfloor> in if y - of_int f < 1 / 2 then f
        else if y - of_int f > 1 / 2 then f + 1 else if even f then f else f + 1)"
proof -
  define f where "f = \<lfloor>y\<rfloor>"
  define r where "r = y - of_int f"
  have y: "y = of_int f + r" and r: "0 \<le> r" "r < 1"
    by (simp_all add: r_def f_def) linarith
  have fl: "\<lfloor>y\<rfloor> = f" and yf: "y - of_int f = r" and yf1: "y - of_int (f + 1) = r - 1"
    by (simp_all add: r_def f_def)
  consider "r < 1 / 2" | "r > 1 / 2" | "r = 1 / 2" by linarith
  then show ?thesis
  proof cases
    case 1
    then have "n = f" using r unfolding n_def y by (auto simp: floor_eq_iff neg_floor_eq_iff)
    moreover from this yf have "y - of_int n = r" by simp
    ultimately show ?thesis using 1 r by (simp only: fl yf Let_def) simp
  next
    case 2
    then have "n = f + 1" using r unfolding n_def y by (auto simp: floor_eq_iff neg_floor_eq_iff)
    moreover from this yf1 have "y - of_int n = r - 1" by simp
    ultimately show ?thesis using 2 r by (simp only: fl yf Let_def) simp
  next
    case 3
    then have "n = (if y < 0 then f else f + 1)" unfolding n_def y by (auto simp: floor_eq_iff neg_floor_eq_iff)
    moreover have "y < 0 \<longleftrightarrow> f < 0" using 3 y by linarith
    moreover have "\<bar>y - of_int f\<bar> = 1 / 2" "\<bar>y - of_int (f + 1)\<bar> = 1 / 2"
      using 3 yf yf1 by auto
    moreover have "y * 2 - of_int f * 2 = 1" using 3 y by simp
    ultimately show ?thesis using 3 by (cases "f < 0") (simp_all add: fl yf Let_def del: of_int_add)
  qed
qed

lemma round_half_away_cases:
  "round_half_away p x =
     of_int (if x * 10 powi p < 0 then - \<lfloor>- (x * 10 powi p) + 1 / 2\<rfloor>
             else \<lfloor>x * 10 powi p + 1 / 2\<rfloor>) * 10 powi (- p)"
  by (auto simp: round_half_away_def sgn_if mult_less_0_iff floor_eq_iff)

lemma RoundBank_value:
  assumes "is_int32 (- p - 1)" and "is_int32 (- p)"
  shows "dec_rat (Decimal_RoundBank d p) = round_half_even p (dec_rat d)"
proof -
  define y where "y = dec_rat d * 10 powi p"
  define n where "n = coeff (Decimal_Round d p)"
  have e: "dexp (Decimal_Round d p) = - p"
    and R: "dec_rat (Decimal_Round d p) = round_half_away p (dec_rat d)"
    using Round_value [OF assms] by auto
  have "of_int n * 10 powi (- p) = round_half_away p (dec_rat d)"
    using R by (simp add: dec_rat_def e n_def)
  then have n: "n = (if y < 0 then - \<lfloor>- y + 1 / 2\<rfloor> else \<lfloor>y + 1 / 2\<rfloor>)"
    by (simp only: round_half_away_cases y_def [symmetric]) (simp only: mult_cancel_right powi10_nz simp_thms of_int_eq_iff)
  have D: "dec_rat d - dec_rat (Decimal_Round d p) = (y - of_int n) * 10 powi (- p)"
    by (simp add: y_def dec_rat_def e n_def left_diff_distrib mult.assoc power_int_add [symmetric])
  have half: "dec_rat (Decimal_New 5 (- p - 1)) = 1 / 2 * 10 powi (- p)"
    by (simp add: Decimal_New_def power_int_diff)
  have tie: "Decimal_Cmp (Decimal_Abs (Decimal_Sub d (Decimal_Round d p))) (Decimal_New 5 (- p - 1)) = 0
      \<longleftrightarrow> \<bar>y - of_int n\<bar> = 1 / 2"
    by (simp only: Decimal_Cmp_eq dec_rat_Abs dec_rat_Sub D half abs_mult) simp
  have "coeff (Decimal_RoundBank d p) =
      (if \<bar>y - of_int n\<bar> = 1 / 2 \<and> odd n then (if n < 0 then n + 1 else n - 1) else n)"
    using assms tie by (simp add: Decimal_RoundBank_def Let_def n_def bit_0)
  also have "\<dots> = (let f = \<lfloor>y\<rfloor> in if y - of_int f < 1 / 2 then f
        else if y - of_int f > 1 / 2 then f + 1 else if even f then f else f + 1)"
    unfolding n by (rule half_away_even_cases)
  finally have c: "coeff (Decimal_RoundBank d p) = (let f = \<lfloor>y\<rfloor> in if y - of_int f < 1 / 2 then f
        else if y - of_int f > 1 / 2 then f + 1 else if even f then f else f + 1)" .
  have "dexp (Decimal_RoundBank d p) = - p"
    using e by (simp add: Decimal_RoundBank_def Let_def)
  then show ?thesis
    by (simp add: dec_rat_def c round_half_even_def y_def [unfolded dec_rat_def] Let_def)
qed

text \<open>
  C16: \<^verbatim>\<open>RoundBank\<close> is banker's rounding: it repairs the result of \<^verbatim>\<open>Round\<close> exactly on ties, and the
  result is the number rounded half to even.
\<close>

theorem RoundBank_correct:
  assumes "is_int32 (- p - 1)" and "is_int32 (- p)"
  shows "dec_rat (Decimal_RoundBank d p) = round_half_even p (dec_rat d)"
  using assms by (rule RoundBank_value)

theorem RoundBank_correct_witness:
  "dec_rat (Decimal_RoundBank (Decimal_New 545 (-2)) 1) = round_half_even 1 (dec_rat (Decimal_New 545 (-2)))"
  by (rule RoundBank_correct) (simp_all add: is_int32_def)

section \<open>Floor and ceiling\<close>

lemma dec_rat_neg_exp:
  "dexp d < 0 \<Longrightarrow> dec_rat d = of_int (coeff d) / of_int (10 ^ nat (- dexp d))"
  by (simp add: dec_rat_def power_int_def field_simps)

lemma dec_rat_nonneg_exp_int:
  "0 \<le> dexp d \<Longrightarrow> dec_rat d = of_int (coeff d * 10 ^ nat (dexp d))"
  by (simp add: dec_rat_def power_int_def)

lemma ceiling_div_mod:
  assumes "0 < b"
  shows "\<lceil>of_int a / of_int b :: rat\<rceil> = (if a mod b \<noteq> 0 then a div b + 1 else a div b)"
proof -
  have "\<lceil>of_int a / of_int b :: rat\<rceil> = - ((- a) div b)"
    by (simp add: ceiling_divide_eq_div)
  then show ?thesis
    using assms by (simp add: zdiv_zminus1_eq_if)
qed

text \<open>
  \<^verbatim>\<open>Floor\<close> and \<^verbatim>\<open>Ceil\<close> are the floor and the ceiling of the number, for negative numbers too.
\<close>

theorem Floor_Ceil_correct:
  "dec_rat (Decimal_Floor d) = of_int \<lfloor>dec_rat d\<rfloor> \<and> dec_rat (Decimal_Ceil d) = of_int \<lceil>dec_rat d\<rceil>"
proof (cases "dexp d \<ge> 0")
  case True
  then show ?thesis
    by (simp add: Decimal_Floor_def Decimal_Ceil_def Let_def dec_rat_nonneg_exp_int del: of_int_mult of_int_power)
next
  case False
  have "\<lfloor>dec_rat d\<rfloor> = coeff d div 10 ^ nat (- dexp d)"
    using False by (simp only: dec_rat_neg_exp not_le floor_divide_of_int_eq)
  moreover have "\<lceil>dec_rat d\<rceil> =
      (if coeff d mod 10 ^ nat (- dexp d) \<noteq> 0 then coeff d div 10 ^ nat (- dexp d) + 1
       else coeff d div 10 ^ nat (- dexp d))"
    using False by (simp only: dec_rat_neg_exp not_le) (rule ceiling_div_mod, simp)
  ultimately show ?thesis
    using False by (simp add: Decimal_Floor_def Decimal_Ceil_def Let_def big_Div_def big_Mod_def)
qed

section \<open>Cash rounding\<close>

definition cash_unit :: "int \<Rightarrow> int option" where
  "cash_unit interval =
     (if interval = 5 then Some 20 else if interval = 10 then Some 10
      else if interval = 25 then Some 4 else if interval = 50 then Some 2
      else if interval = 100 then Some 1 else None)"

lemma sgn_abs_powi10: "sgn x * (\<bar>x\<bar> * 10 powi p) * 10 powi (- p) = x" for x :: rat
  by (simp add: mult.assoc [symmetric] sgn_mult_abs power_int_minus)

lemma floor_int_half: "\<lfloor>of_int k + 1 / 2 :: rat\<rfloor> = k"
  by (simp add: floor_eq_iff)

lemma round_half_away_exact:
  assumes "x * 10 powi p = of_int k"
  shows "round_half_away p x = x"
proof -
  have "\<bar>x\<bar> * 10 powi p = of_int \<bar>k\<bar>"
    using arg_cong [OF assms, of abs] by (simp add: abs_mult)
  then have "of_int \<lfloor>\<bar>x\<bar> * 10 powi p + 1 / 2\<rfloor> = \<bar>x\<bar> * 10 powi p"
    by (simp only: floor_int_half)
  then show ?thesis
    by (simp only: round_half_away_def sgn_abs_powi10)
qed

lemma round_to_zero_exact:
  assumes "x * 10 powi p = of_int k"
  shows "round_to_zero p x = x"
proof -
  have "\<bar>x\<bar> * 10 powi p = of_int \<bar>k\<bar>"
    using arg_cong [OF assms, of abs] by (simp add: abs_mult)
  then have "of_int \<lfloor>\<bar>x\<bar> * 10 powi p\<rfloor> = \<bar>x\<bar> * 10 powi p"
    by (simp only: floor_of_int)
  then show ?thesis
    by (simp only: round_to_zero_def sgn_abs_powi10)
qed

lemma round_half_away_0_int: "\<exists>n. round_half_away 0 x = of_int n"
  by (rule exI [of _ "sgn (if x < 0 then -1 else if x = 0 then 0 else 1) * \<lfloor>\<bar>x\<bar> + 1 / 2\<rfloor>"])
    (simp add: round_half_away_def sgn_if)

lemma cash_unit_100:
  assumes "cash_unit i = Some u"
  obtains k where "100 = u * k" "0 < u"
  using assms by (auto simp: cash_unit_def split: if_splits)

text \<open>
  cash rounding.  For the intervals 5, 10, 25, 50 and 100 \<^verbatim>\<open>RoundCash\<close> returns the nearest
  multiple of the smallest coin, halves away from zero: with a coin worth \<open>1 / u\<close>, the number
  \<open>d * u\<close> rounded to an integer and divided by \<open>u\<close>, exactly.
\<close>

theorem RoundCash_correct:
  assumes "Decimal_wf d" and u: "cash_unit interval = Some u"
    and dp: "2 \<le> dp" "is_int32 dp"
  shows "\<exists>x. Decimal_RoundCash dp d interval = Ret x
    \<and> dec_rat x = round_half_away 0 (dec_rat d * of_int u) / of_int u"
proof -
  let ?dVal = "\<lparr>dvalue = Some u, dexp = 0\<rparr>"
  obtain k where k: "100 = u * k" and upos: "0 < u" by (rule cash_unit_100 [OF u])
  let ?p = "\<lparr>dvalue = Some (coeff d * u), dexp = dexp d\<rparr>"
  have mul: "Decimal_Mul d ?dVal = Ret ?p"
    using assms(1) by (simp add: Decimal_Mul_cases Decimal_wf_def)
  have r: "dexp (Decimal_Round ?p 0) = 0"
    "dec_rat (Decimal_Round ?p 0) = round_half_away 0 (dec_rat d * of_int u)"
    using Round_value [of 0 ?p] by (auto simp: dec_rat_def mult_ac)
  obtain n where n: "dec_rat (Decimal_Round ?p 0) = of_int n"
    using round_half_away_0_int r(2) by metis
  let ?q = "of_int n / of_int u :: rat"
  have q2: "?q * 100 = of_int (n * k)"
    using arg_cong [OF k, of "of_int :: int \<Rightarrow> rat"] upos by (simp add: field_simps)
  have "(10::rat) powi dp = 100 * 10 ^ nat (dp - 2)"
    using powi10_split [of 2 dp] dp by (simp add: mult.commute)
  then have qdp: "?q * 10 powi dp = of_int (n * k * 10 ^ nat (dp - 2))"
    using q2 by (simp add: mult.assoc [symmetric])
  have "quorem_in_range (Decimal_Round ?p 0) ?dVal dp"
    using dp r(1) by (auto simp: quorem_in_range_def is_int32_def)
  with upos obtain x where x: "Decimal_DivRound (Decimal_Round ?p 0) ?dVal dp = Ret x"
    "dec_rat x = round_half_away dp (dec_rat (Decimal_Round ?p 0) / dec_rat ?dVal)"
    using DivRound_value [of ?dVal "Decimal_Round ?p 0" dp] by auto
  then have "dec_rat x = ?q"
    using round_half_away_exact [OF qdp] by (simp add: n)
  moreover have "round_to_zero 2 ?q = ?q"
    by (rule round_to_zero_exact [of _ _ "n * k"]) (use q2 in simp)
  ultimately have "dec_rat (Decimal_Truncate x 2) = ?q"
    using Truncate_value [of 2 x] by (simp add: is_int32_def)
  moreover have "Decimal_RoundCash dp d interval = Ret (Decimal_Truncate x 2)"
    using u mul x dp by (auto simp: Decimal_RoundCash_def cash_unit_def Decimal_Div_def split: if_splits)
  ultimately show ?thesis
    using r(2) n by auto
qed

theorem RoundCash_correct_witness:
  "\<exists>x. Decimal_RoundCash 16 (Decimal_New 343 (-2)) 5 = Ret x
    \<and> dec_rat x = round_half_away 0 (dec_rat (Decimal_New 343 (-2)) * of_int 20) / of_int 20"
  by (rule RoundCash_correct) (simp_all add: Decimal_wf_def cash_unit_def is_int32_def)

text \<open>
  The branch for interval 15 is documented to round 5 down by subtracting the smallest step of the
  number.  The code computes the step as \<^verbatim>\<open>10^-int64(orgExp)\<close>, an exclusive or, so that 3.5, whose
  single digit after the point is a 5, loses 1.1 and comes out as 2.4.
\<close>

lemma RoundCash15_loses_value:
  "\<exists>x. Decimal_RoundCash 16 (Decimal_New 35 (-1)) 15 = Ret x \<and> Decimal_Cmp x (Decimal_New 24 (-1)) = 0"
  by (intro exI conjI, code_simp, code_simp)

text \<open>
  The panic of \<^verbatim>\<open>QuoRem\<close> on an exponent overflow is out of reach: the difference is an int32 before
  it is widened, so that \<open>10 powi 2147483647 / 10 powi (- 2147483647)\<close> silently has quotient 0.
\<close>

lemma QuoRem_overflow_undetected:
  "Decimal_QuoRem d d2 p \<noteq> Panic quorem_overflow_msg"
  using is_int32_int32 [of "int32 (dexp d - dexp d2) - int32 (- p)"]
  by (auto simp: Decimal_QuoRem_def Let_def is_int32_def quorem_overflow_msg_def div0_msg_def split: prod.splits)

lemma QuoRem_overflow_wrong:
  "\<exists>r. Decimal_QuoRem (Decimal_New 1 2147483647) (Decimal_New 1 (-2147483647)) 0
     = Ret (Decimal_New 0 0, r)"
  by (simp add: Decimal_QuoRem_def Let_def int32_def Decimal_New_def quo_def)

text \<open>
  \<^verbatim>\<open>Mod\<close> truncates a quotient that \<^verbatim>\<open>Div\<close> has already rounded to 16 places: 0.99999999999999999
  modulo 1 is a negative number.
\<close>

lemma Mod_rounds_up:
  "\<exists>x. Decimal_Mod 16 (Decimal_New 99999999999999999 (-17)) (Decimal_New 1 0) = Ret x
    \<and> Decimal_Cmp x (Decimal_New (-1) (-17)) = 0"
  by (intro exI conjI, code_simp, code_simp)

end
