(* ===== verification/Decimal_Text.thy ===== *)
theory Decimal_Text
  imports Decimal_Rounding
begin

text \<open>
  Parsing, printing and serialisation of decimals (\<^verbatim>\<open>pkg/util/decimal.go\<close>): \<^verbatim>\<open>NewFromString\<close>, \<^verbatim>\<open>String\<close>
  and its variants, the JSON, text, binary, gob and database encodings and \<^verbatim>\<open>NullDecimal\<close>.  The
  main results are round trips: what a decimal is written as is read back as the same number.
\<close>

section \<open>Parsing\<close>

text \<open>One constructor per \<^verbatim>\<open>fmt.Errorf\<close>; the argument is the text the message quotes.\<close>

datatype decimal_error =
    FractionalPartTooLong string
  | ExponentNotNumeric string
  | TooManyPoints string
  | CannotConvert string
  | ErrorDecoding string decimal_error
  | NotBytes
  | GobError string

definition is_e :: "char \<Rightarrow> bool" where
  "is_e c \<longleftrightarrow> c = CHR ''E'' \<or> c = CHR ''e''"

definition NewFromString_mantissa :: "string \<Rightarrow> string \<Rightarrow> int \<Rightarrow> decimal_error + Decimal" where
  "NewFromString_mantissa originalInput value ex =
     (let parts = split_on (CHR ''.'') value;
          parsed =
            (if length parts = 1 then Inr (value, ex)
             else if length parts = 2 then
               let decimalPart = trim_right (\<lambda>c. c = CHR ''0'') (parts ! 1)
               in Inr (parts ! 0 @ decimalPart, ex - int (length decimalPart))
             else Inl (TooManyPoints value))
      in case parsed of
           Inl err \<Rightarrow> Inl err
         | Inr (intString, ex') \<Rightarrow>
             (case big_SetString intString of
                None \<Rightarrow> Inl (CannotConvert value)
              | Some dValue \<Rightarrow>
                  if ex' < -2147483648 \<or> ex' > 2147483647
                  then Inl (FractionalPartTooLong originalInput)
                  else Inr \<lparr>dvalue = Some dValue, dexp = int32 ex'\<rparr>))"

definition NewFromString :: "string \<Rightarrow> decimal_error + Decimal" where
  "NewFromString value =
     (case index_by is_e value of
        None \<Rightarrow> NewFromString_mantissa value value 0
      | Some eIndex \<Rightarrow>
          let (expInt, err) = ParseInt (drop (eIndex + 1) value) 32
          in case err of
               Some ErrRange \<Rightarrow> Inl (FractionalPartTooLong value)
             | Some ErrSyntax \<Rightarrow> Inl (ExponentNotNumeric value)
             | None \<Rightarrow> NewFromString_mantissa value (take eIndex value) expInt)"

fun decimal_error_msg :: "decimal_error \<Rightarrow> string" where
  "decimal_error_msg (FractionalPartTooLong s) =
     ''can't convert '' @ s @ '' to decimal: fractional part too long''"
| "decimal_error_msg (ExponentNotNumeric s) =
     ''can't convert '' @ s @ '' to decimal: exponent is not numeric''"
| "decimal_error_msg (TooManyPoints s) = ''can't convert '' @ s @ '' to decimal: too many .s''"
| "decimal_error_msg (CannotConvert s) = ''can't convert '' @ s @ '' to decimal''"
| "decimal_error_msg (ErrorDecoding s err) =
     ''Error decoding string '' @ [char_of (39::nat)] @ s @ [char_of (39::nat)] @ '': '' @ decimal_error_msg err"
| "decimal_error_msg NotBytes = ''Could not convert value to byte array''"
| "decimal_error_msg (GobError s) = s"

definition RequireFromString :: "string \<Rightarrow> Decimal go" where
  "RequireFromString value =
     (case NewFromString value of Inl err \<Rightarrow> Panic (decimal_error_msg err) | Inr dec \<Rightarrow> Ret dec)"

section \<open>Printing\<close>

definition Decimal_string :: "bool \<Rightarrow> Decimal \<Rightarrow> string go" where
  "Decimal_string trimTrailingZeros d =
     (if dexp d \<ge> 0 then Ret (int_dec (coeff (Decimal_rescale d 0)))
      else case dvalue d of
        None \<Rightarrow> Panic nil_deref
      | Some v \<Rightarrow>
          let str = int_dec \<bar>v\<bar>;
              dExpInt = dexp d;
              (intPart, fractionalPart) =
                (if int (length str) > - dExpInt
                 then (take (nat (int (length str) + dExpInt)) str,
                       drop (nat (int (length str) + dExpInt)) str)
                 else (''0'', replicate (nat (- dExpInt - int (length str))) (CHR ''0'') @ str));
              fractionalPart =
                (if trimTrailingZeros then trim_right (\<lambda>c. c = CHR ''0'') fractionalPart
                 else fractionalPart);
              number = intPart @
                (if length fractionalPart > 0 then CHR ''.'' # fractionalPart else [])
          in Ret (if sgn v < 0 then CHR ''-'' # number else number))"

definition Decimal_String :: "Decimal \<Rightarrow> string go" where
  "Decimal_String d = Decimal_string True d"

definition Decimal_StringFixed :: "Decimal \<Rightarrow> int \<Rightarrow> string go" where
  "Decimal_StringFixed d places = Decimal_string False (Decimal_Round d places)"

definition Decimal_StringFixedBank :: "Decimal \<Rightarrow> int \<Rightarrow> string go" where
  "Decimal_StringFixedBank d places = Decimal_string False (Decimal_RoundBank d places)"

definition Decimal_StringFixedCash :: "int \<Rightarrow> Decimal \<Rightarrow> int \<Rightarrow> string go" where
  "Decimal_StringFixedCash DivisionPrecision d interval =
     go_bind (Decimal_RoundCash DivisionPrecision d interval) (Decimal_string False)"

definition Decimal_StringScaled :: "Decimal \<Rightarrow> int \<Rightarrow> string go" where
  "Decimal_StringScaled d ex = Decimal_String (Decimal_rescale d ex)"

section \<open>Printing and parsing are inverse\<close>

lemma parse_digits_zeros: "parse_digits n (replicate j (CHR ''0'')) = Some (n * 10 ^ j)"
proof (induction j arbitrary: n)
  case (Suc j)
  have "digit_val (CHR ''0'') = Some 0" by (simp add: digit_val_0_iff)
  with Suc show ?case by (simp add: mult_ac)
qed simp

lemma parse_digits_leading_zeros: "parse_digits 0 (replicate j (CHR ''0'') @ s) = parse_digits 0 s"
  by (simp add: parse_digits_append parse_digits_zeros)

lemma parse_digits_set: "parse_digits n s = Some a \<Longrightarrow> c \<in> set s \<Longrightarrow> digit_val c \<noteq> None"
  by (induction s arbitrary: n) (auto split: option.splits)

lemma parse_digits_prefix: "parse_digits n (s @ t) = Some a \<Longrightarrow> \<exists>b. parse_digits n s = Some b"
  by (auto simp: parse_digits_append bind_eq_Some_conv)

lemma big_SetString_digits:
  assumes "parse_digits 0 s = Some a" and "s \<noteq> []"
  shows "big_SetString s = Some (int a)" "big_SetString (CHR ''-'' # s) = Some (- int a)"
proof -
  obtain c cs where s: "s = c # cs" using assms(2) by (cases s) auto
  have "digit_val c \<noteq> None" using parse_digits_set [OF assms(1)] s by auto
  then have "c \<noteq> CHR ''-''" "c \<noteq> CHR ''+''" by auto
  with assms show "big_SetString s = Some (int a)" "big_SetString (CHR ''-'' # s) = Some (- int a)"
    by (simp_all add: s big_SetString_def big_digits_def)
qed

text \<open>A number written with an optional sign, an integer part and an optional fraction.\<close>

definition number_text :: "bool \<Rightarrow> string \<Rightarrow> string \<Rightarrow> string" where
  "number_text neg ip fr =
     (if neg then ''-'' else []) @ ip @ (if fr = [] then [] else CHR ''.'' # fr)"

lemma trim_right_zeros:
  "\<exists>j. s = trim_right (\<lambda>c. c = x) s @ replicate j x"
proof -
  obtain u where "s = trim_right (\<lambda>c. c = x) s @ u" "\<forall>c\<in>set u. c = x"
    using trim_right_decomp by blast
  moreover from this(2) have "u = replicate (length u) x"
    by (simp add: replicate_eqI)
  ultimately show ?thesis by metis
qed

lemma NewFromString_number:
  assumes a: "parse_digits 0 (ip @ fr) = Some a" and "ip \<noteq> []" and len: "length fr \<le> 2147483648"
  shows "\<exists>d. NewFromString (number_text neg ip fr) = Inr d \<and> Decimal_wf d \<and> dvalue d \<noteq> None
    \<and> dec_rat d = (if neg then -1 else 1) * of_nat a * 10 powi (- int (length fr))"
proof -
  let ?s = "number_text neg ip fr" and ?sg = "if neg then ''-'' else []"
  have dig: "digit_val c \<noteq> None" if "c \<in> set ip \<union> set fr" for c
    using parse_digits_set [OF a, of c] that by auto
  have nodot: "CHR ''.'' \<notin> set (?sg @ ip)" "CHR ''.'' \<notin> set fr"
    using dig [of "CHR ''.''"] by auto
  have "index_by is_e ?s = None"
    using dig [of "CHR ''e''"] dig [of "CHR ''E''"]
    by (auto simp: index_by_None is_e_def number_text_def)
  then have N: "NewFromString ?s = NewFromString_mantissa ?s ?s 0"
    by (simp add: NewFromString_def)
  show ?thesis
  proof (cases "fr = []")
    case True
    then have "big_SetString ?s = Some (if neg then - int a else int a)"
      using big_SetString_digits [of ip a] a \<open>ip \<noteq> []\<close> by (simp add: number_text_def)
    moreover have "split_on (CHR ''.'') ?s = [?s]"
      using nodot True by (intro split_on_no_sep) (auto simp: number_text_def)
    ultimately have "NewFromString ?s = Inr \<lparr>dvalue = Some (if neg then - int a else int a), dexp = 0\<rparr>"
      unfolding N by (simp add: NewFromString_mantissa_def)
    then show ?thesis
      using True by (cases neg) (simp_all add: Decimal_wf_def)
  next
    case False
    let ?t = "trim_right (\<lambda>c. c = CHR ''0'') fr"
    obtain j where j: "fr = ?t @ replicate j (CHR ''0'')"
      using trim_right_zeros by blast
    then have lj: "length fr = length ?t + j"
      by (metis length_append length_replicate)
    have "parse_digits 0 ((ip @ ?t) @ replicate j (CHR ''0'')) = Some a"
      using a j by simp
    then obtain b where b: "parse_digits 0 (ip @ ?t) = Some b" "a = b * 10 ^ j"
      by (auto simp: parse_digits_append [of _ "ip @ ?t"] parse_digits_zeros bind_eq_Some_conv
          simp del: append_assoc)
    have "split_on (CHR ''.'') ?s = [?sg @ ip, fr]"
      using nodot False split_on_append_sep [of "CHR ''.''" "?sg @ ip" fr]
      by (simp add: number_text_def split_on_no_sep)
    moreover have "big_SetString ((?sg @ ip) @ ?t) = Some (if neg then - int b else int b)"
      using big_SetString_digits [OF b(1)] \<open>ip \<noteq> []\<close> by simp
    moreover have e: "(of_nat a :: rat) * 10 powi (- int (length fr)) = of_nat b * 10 powi (- int (length ?t))"
      using powi10_split [of "- int (length fr)" "- int (length ?t)"] by (simp add: b(2) lj)
    moreover have x: "is_int32 (- int (length ?t))"
      using len lj by (simp add: is_int32_def)
    ultimately have "NewFromString ?s =
        Inr \<lparr>dvalue = Some (if neg then - int b else int b), dexp = - int (length ?t)\<rparr>"
      unfolding N by (cases neg) (simp_all add: NewFromString_mantissa_def Let_def is_int32_def)
    then show ?thesis
      using x e by (cases neg) (simp_all add: Decimal_wf_def mult.assoc)
  qed
qed

lemma Decimal_string_number:
  assumes "dvalue d \<noteq> None" and "dexp d < 0"
  obtains ip fr where "ip \<noteq> []" "length fr = nat (- dexp d)"
    "parse_digits 0 (ip @ fr) = Some (nat \<bar>coeff d\<bar>)"
    "Decimal_string trim d =
       Ret (number_text (coeff d < 0) ip (if trim then trim_right (\<lambda>c. c = CHR ''0'') fr else fr))"
proof -
  obtain v where v: "dvalue d = Some v" using assms(1) by auto
  let ?str = "nat_dec (nat \<bar>v\<bar>)"
  let ?k = "nat (- dexp d)"
  have str: "int_dec \<bar>v\<bar> = ?str" by (simp add: int_dec_def)
  show ?thesis
  proof (cases "length ?str > ?k")
    case True
    have le: "nat (int (length ?str) + dexp d) = length ?str - ?k" "- dexp d < int (length ?str)"
      using True assms(2) by linarith+
    show ?thesis
    proof (rule that [of "take (length ?str - ?k) ?str" "drop (length ?str - ?k) ?str"])
      show "Decimal_string trim d = Ret (number_text (coeff d < 0) (take (length ?str - ?k) ?str)
         (if trim then trim_right (\<lambda>c. c = CHR ''0'') (drop (length ?str - ?k) ?str)
          else drop (length ?str - ?k) ?str))"
        using assms(2) unfolding Decimal_string_def v option.case str le
        by (simp add: v coeff_def number_text_def Let_def le)
    qed (use True assms(2) v in \<open>auto simp: coeff_def\<close>)
  next
    case False
    let ?fr = "replicate (?k - length ?str) (CHR ''0'') @ ?str"
    have le: "nat (- dexp d - int (length ?str)) = ?k - length ?str" "\<not> - dexp d < int (length ?str)"
      using False assms(2) by linarith+
    have "parse_digits 0 (''0'' @ ?fr) = Some (nat \<bar>v\<bar>)"
      using parse_digits_leading_zeros [of "Suc (?k - length ?str)" ?str] by simp
    moreover have "Decimal_string trim d = Ret (number_text (coeff d < 0) ''0''
         (if trim then trim_right (\<lambda>c. c = CHR ''0'') ?fr else ?fr))"
      using assms(2) unfolding Decimal_string_def v option.case str
      by (simp add: v coeff_def number_text_def Let_def le)
    ultimately show ?thesis
      using False v by (intro that [of "''0''" ?fr]) (auto simp: coeff_def)
  qed
qed

text \<open>Whatever the exponent, a decimal is printed as digits that denote its number.\<close>

lemma Decimal_string_form:
  assumes "Decimal_wf d" and "dvalue d \<noteq> None \<or> 0 \<le> dexp d"
  obtains neg ip fr a where "Decimal_string trim d = Ret (number_text neg ip fr)" "ip \<noteq> []"
    "parse_digits 0 (ip @ fr) = Some a" "length fr \<le> 2147483648"
    "dec_rat d = (if neg then -1 else 1) * of_nat a * 10 powi (- int (length fr))"
proof (cases "dexp d < 0")
  case True
  with assms(2) have "dvalue d \<noteq> None" by simp
  then obtain ip fr where n: "ip \<noteq> []" "length fr = nat (- dexp d)"
    "parse_digits 0 (ip @ fr) = Some (nat \<bar>coeff d\<bar>)"
    "Decimal_string trim d =
       Ret (number_text (coeff d < 0) ip (if trim then trim_right (\<lambda>c. c = CHR ''0'') fr else fr))"
    using True by (rule Decimal_string_number)
  let ?fr = "if trim then trim_right (\<lambda>c. c = CHR ''0'') fr else fr"
  obtain j where j: "fr = ?fr @ replicate j (CHR ''0'')"
  proof (cases trim)
    case False
    then show ?thesis using that [of 0] by simp
  qed (use trim_right_zeros [of fr "CHR ''0''"] that in auto)
  then have lj: "length fr = length ?fr + j" by (metis length_append length_replicate)
  have "parse_digits 0 ((ip @ ?fr) @ replicate j (CHR ''0'')) = Some (nat \<bar>coeff d\<bar>)"
    using n(3) j by simp
  then obtain b where b: "parse_digits 0 (ip @ ?fr) = Some b" "nat \<bar>coeff d\<bar> = b * 10 ^ j"
    by (auto simp: parse_digits_append [of _ "ip @ ?fr"] parse_digits_zeros bind_eq_Some_conv
        simp del: append_assoc)
  have len: "length ?fr \<le> 2147483648"
    using n(2) lj assms(1) unfolding Decimal_wf_def is_int32_def by linarith
  have c: "coeff d = (if coeff d < 0 then -1 else 1) * int (b * 10 ^ j)"
    using b(2) by (auto simp flip: b(2))
  have "dexp d = - int (length ?fr) - int j"
    using n(2) lj True by linarith
  then have "10 ^ j * 10 powi dexp d = (10 :: rat) powi (- int (length ?fr))"
    using powi10_split [of "- int (length ?fr) - int j" "- int (length ?fr)"] by simp
  moreover have "dec_rat d = (if coeff d < 0 then -1 else 1) * of_nat b * (10 ^ j * 10 powi dexp d)"
    unfolding dec_rat_def using arg_cong [OF c, of "of_int :: int \<Rightarrow> rat"] by (auto split: if_splits)
  ultimately show ?thesis
    using that [OF n(4) n(1) b(1) len] by simp
next
  case False
  let ?v = "coeff (Decimal_rescale d 0)"
  have "dec_rat d = of_int ?v"
    using False dec_rat_rescale_le [of 0 d] by (simp add: dec_rat_def)
  moreover have "Decimal_string trim d = Ret (number_text (?v < 0) (nat_dec (nat \<bar>?v\<bar>)) [])"
    using False by (auto simp: Decimal_string_def int_dec_def number_text_def)
  ultimately show ?thesis
    using that [of "?v < 0" "nat_dec (nat \<bar>?v\<bar>)" "[]" "nat \<bar>?v\<bar>"] by auto
qed

text \<open>The characters of a printed number: a sign, digits and at most a point.\<close>

lemma number_text_chars:
  assumes "parse_digits 0 (ip @ fr) = Some a" and "c \<in> set (number_text neg ip fr)"
  shows "c = CHR ''-'' \<or> c = CHR ''.'' \<or> digit_val c \<noteq> None"
  using assms parse_digits_set [OF assms(1)] by (auto simp: number_text_def split: if_splits)

lemma NewFromString_Decimal_string:
  assumes "Decimal_wf d" and "dvalue d \<noteq> None \<or> 0 \<le> dexp d"
  obtains s d' where "Decimal_string trim d = Ret s" "NewFromString s = Inr d'"
    "dec_rat d' = dec_rat d" "s \<noteq> []" "\<And>c. c \<in> set s \<Longrightarrow> c = CHR ''-'' \<or> c = CHR ''.'' \<or> digit_val c \<noteq> None"
proof -
  obtain neg ip fr a where f: "Decimal_string trim d = Ret (number_text neg ip fr)" "ip \<noteq> []"
    "parse_digits 0 (ip @ fr) = Some a" "length fr \<le> 2147483648"
    "dec_rat d = (if neg then -1 else 1) * of_nat a * 10 powi (- int (length fr))"
    using assms by (rule Decimal_string_form)
  obtain d' where d': "NewFromString (number_text neg ip fr) = Inr d'" "dec_rat d' = dec_rat d"
    using NewFromString_number [OF f(3,2,4), of neg] f(5) by auto
  have "number_text neg ip fr \<noteq> []" using f(2) by (simp add: number_text_def)
  then show ?thesis
    using number_text_chars [OF f(3)] by (rule that [OF f(1) d'])
qed

text \<open>
  \<^verbatim>\<open>StringFixed\<close> prints the number rounded half away from zero to \<^verbatim>\<open>places\<close> places,
  \<^verbatim>\<open>StringFixedBank\<close> the number rounded half to even: parsing the text gives exactly that number.
\<close>

theorem StringFixed_correct:
  assumes "is_int32 (- p - 1)" and "is_int32 (- p)"
  shows "\<exists>s s' x x'. Decimal_StringFixed d p = Ret s \<and> NewFromString s = Inr x
    \<and> dec_rat x = round_half_away p (dec_rat d)
    \<and> Decimal_StringFixedBank d p = Ret s' \<and> NewFromString s' = Inr x'
    \<and> dec_rat x' = round_half_even p (dec_rat d)"
proof -
  have r: "dexp (Decimal_Round d p) = - p"
    "dec_rat (Decimal_Round d p) = round_half_away p (dec_rat d)"
    using Round_value [OF assms, of d] by auto
  have v: "dvalue (Decimal_Round d p) \<noteq> None"
    by (simp add: Decimal_Round_def Let_def)
  have b: "dexp (Decimal_RoundBank d p) = - p" "dvalue (Decimal_RoundBank d p) \<noteq> None"
    using r(1) v by (simp_all add: Decimal_RoundBank_def Let_def)
  note bv = RoundBank_value [OF assms, of d]
  have wf: "Decimal_wf (Decimal_Round d p)" "Decimal_wf (Decimal_RoundBank d p)"
    using r(1) b(1) assms by (simp_all add: Decimal_wf_def)
  obtain s x where "Decimal_string False (Decimal_Round d p) = Ret s" "NewFromString s = Inr x"
    "dec_rat x = dec_rat (Decimal_Round d p)"
    by (rule NewFromString_Decimal_string [OF wf(1) disjI1 [OF v]]) (rule that)
  moreover obtain s' x' where "Decimal_string False (Decimal_RoundBank d p) = Ret s'"
    "NewFromString s' = Inr x'" "dec_rat x' = dec_rat (Decimal_RoundBank d p)"
    by (rule NewFromString_Decimal_string [OF wf(2) disjI1 [OF b(2)]]) (rule that)
  ultimately show ?thesis
    by (simp add: Decimal_StringFixed_def Decimal_StringFixedBank_def r(2) bv)
qed

theorem StringFixed_correct_witness:
  "\<exists>s x. Decimal_StringFixed (Decimal_New 545 (-2)) 1 = Ret s \<and> NewFromString s = Inr x
    \<and> dec_rat x = round_half_away 1 (dec_rat (Decimal_New 545 (-2)))"
  using StringFixed_correct [of 1 "Decimal_New 545 (-2)"] by (auto simp: is_int32_def)

text \<open>
  The text after the point is appended to the integer part before it is checked, so a sign behind
  the point is taken for the sign of the number and counted as a digit: \<^verbatim>\<open>.-5\<close> is read as -0.05.
\<close>

lemma NewFromString_sign_after_point: "NewFromString ''.-5'' = Inr (Decimal_New (-5) (-2))"
  by code_simp

end
