(* ===== verification/Decimal_Float.thy ===== *)
theory Decimal_Float
  imports Decimal_Rounding
begin

unbundle bit_operations_syntax

text \<open>
  \<^verbatim>\<open>NewFromFloat\<close>, \<^verbatim>\<open>NewFromFloatWithExponent\<close> and \<^verbatim>\<open>Pow\<close> of \<^verbatim>\<open>pkg/util/decimal.go\<close>.  A float64 is its
  64 bits (\<^verbatim>\<open>math.Float64bits\<close>), a \<^typ>\<open>64 word\<close>; the rational it stands for is the specification.
\<close>

section \<open>Float64 values\<close>

definition float64_frac :: "64 word \<Rightarrow> nat" where
  "float64_frac bits = unat (bits AND (push_bit 52 1 - 1))"

definition float64_exp :: "64 word \<Rightarrow> nat" where
  "float64_exp bits = unat (drop_bit 52 bits AND (push_bit 11 1 - 1))"

definition float64_sign :: "64 word \<Rightarrow> nat" where
  "float64_sign bits = unat (drop_bit 63 bits)"

definition float64_finite :: "64 word \<Rightarrow> bool" where
  "float64_finite bits \<longleftrightarrow> float64_exp bits \<noteq> 2047"

definition float64_rat :: "64 word \<Rightarrow> rat" where
  "float64_rat bits =
     (let m = (if float64_exp bits = 0 then float64_frac bits else 2 ^ 52 + float64_frac bits);
          e = (if float64_exp bits = 0 then 1 else int (float64_exp bits)) - 1075
      in (if float64_sign bits = 1 then -1 else 1) * of_nat m * 2 powi e)"

section \<open>Conversion\<close>

text \<open>
  The loop that shifts out the trailing zero bits; the code enters it with \<^verbatim>\<open>mant\<close> not 0, the only
  value for which it would not end.
\<close>

fun normalize2 :: "nat \<Rightarrow> int \<Rightarrow> nat \<times> int" where
  "normalize2 mant exp2 =
     (if mant = 0 \<or> odd mant then (mant, exp2) else normalize2 (mant div 2) (int32 (exp2 + 1)))"

declare normalize2.simps [simp del]

definition float_msg :: "64 word \<Rightarrow> string" where
  "float_msg bits =
     ''Cannot create a Decimal from '' @
     (if float64_frac bits \<noteq> 0 then ''NaN'' else if float64_sign bits = 1 then ''-Inf'' else ''+Inf'')"

definition scale_float :: "nat \<Rightarrow> int \<Rightarrow> int \<Rightarrow> int" where
  "scale_float mant exp2 ex =
     (let exp2 = int32 (exp2 - ex);
          temp = (if ex > 0 then 5 ^ nat ex else 1);
          dMant = (if ex < 0 then int mant * 5 ^ nat (- ex) else int mant);
          dMant = (if exp2 > 0 then push_bit (nat exp2) dMant else dMant);
          temp = (if exp2 < 0 then push_bit (nat (- exp2)) temp else temp)
      in if ex > 0 \<or> exp2 < 0 then quo (dMant + drop_bit 1 temp) temp else dMant)"

definition NewFromFloatWithExponent :: "64 word \<Rightarrow> int \<Rightarrow> Decimal go" where
  "NewFromFloatWithExponent bits ex =
     (if float64_exp bits = 2047 then Panic (float_msg bits)
      else let mant = float64_frac bits;
               exp2 = int (float64_exp bits);
               sign = float64_sign bits
           in if exp2 = 0 \<and> mant = 0 then Ret Decimal_zero_value
              else let (mant, exp2) =
                         (if exp2 = 0 then (mant, int32 (exp2 + 1)) else (mant OR 2 ^ 52, exp2));
                       exp2 = int32 (exp2 - (1023 + 52));
                       (mant, exp2) = normalize2 mant exp2;
                       ex = (if ex < 0 \<and> ex < exp2 then (if exp2 < 0 then exp2 else 0) else ex);
                       dMant = scale_float mant exp2 ex;
                       dMant = (if sign = 1 then - dMant else dMant)
                   in Ret \<lparr>dvalue = Some dMant, dexp = ex\<rparr>)"

definition NewFromFloat :: "64 word \<Rightarrow> Decimal go" where
  "NewFromFloat bits = NewFromFloatWithExponent bits (-2147483648)"

section \<open>The conversion rounds half away from zero\<close>

lemma normalize2_value:
  "normalize2 m e = (m', e') \<Longrightarrow> m \<noteq> 0 \<Longrightarrow> m < 2 ^ k \<Longrightarrow> is_int32 e \<Longrightarrow> is_int32 (e + int k) \<Longrightarrow>
   odd m' \<and> m' \<le> m \<and> e \<le> e' \<and> e' \<le> e + int k \<and> (of_nat m' * 2 powi e' :: rat) = of_nat m * 2 powi e"
proof (induction m e arbitrary: k rule: normalize2.induct)
  case (1 m e)
  show ?case
  proof (cases "odd m")
    case True
    with 1 show ?thesis by (simp add: normalize2.simps)
  next
    case False
    with 1(3,4) have k: "k \<noteq> 0" "m div 2 \<noteq> 0" "m div 2 < 2 ^ (k - 1)"
      by (cases k; auto)+
    have i: "int32 (e + 1) = e + 1"
      using 1(5,6) k(1) by (intro int32_id) (simp add: is_int32_def)
    have r: "normalize2 (m div 2) (int32 (e + 1)) = (m', e')"
      using 1(2,3) False by (simp add: normalize2.simps [of m])
    have "odd m' \<and> m' \<le> m div 2 \<and> e + 1 \<le> e' \<and> e' \<le> e + 1 + int (k - 1)
        \<and> (of_nat m' * 2 powi e' :: rat) = of_nat (m div 2) * 2 powi (e + 1)"
      using 1(1) [of "k - 1"] 1(3,5,6) False k r unfolding i
      by (auto simp: is_int32_def of_nat_diff)
    moreover have "(of_nat (m div 2) :: rat) * 2 powi (e + 1) = of_nat m * 2 powi e"
    proof -
      obtain h where "m = 2 * h" using False by blast
      then show ?thesis by (simp add: power_int_add)
    qed
    ultimately show ?thesis
      using k(1) div_le_dividend [of m 2] by (auto simp: of_nat_diff)
  qed
qed

lemma half_up_div:
  assumes "0 < t"
  shows "(a + t div 2) div t = \<lfloor>of_int a / of_int t + 1 / 2 :: rat\<rfloor>"
proof -
  have "(a + t div 2) div t = (a mod t + t div 2) div t + a div t"
  proof -
    have "a + t div 2 = (a mod t + t div 2) + a div t * t" by simp
    then have "(a + t div 2) div t = ((a mod t + t div 2) + a div t * t) div t" by simp
    also have "\<dots> = (a mod t + t div 2) div t + a div t" using assms by (subst div_mult_self1) auto
    finally show ?thesis .
  qed
  moreover have "(a mod t + t div 2) div t = (if 2 * (a mod t) < t then 0 else 1)"
  proof (cases "2 * (a mod t) < t")
    case True
    then have "a mod t + t div 2 < t" by linarith
    with True assms show ?thesis by (simp add: div_pos_pos_trivial)
  next
    case False
    then have "t \<le> a mod t + t div 2" by linarith
    moreover have "a mod t + t div 2 - t < t" using pos_mod_bound [OF assms, of a] assms by linarith
    ultimately show ?thesis
      using assms False by (simp add: div_pos_geq div_pos_pos_trivial)
  qed
  ultimately show ?thesis
    using floor_half_div [OF assms, of a] by simp
qed

lemma quo_nonneg: "0 \<le> a \<Longrightarrow> 0 < b \<Longrightarrow> quo a b = a div b"
  by (cases "a = 0") (simp_all add: quo_def)

lemma scale_float_div:
  assumes "is_int32 (e2 - ex)"
  shows "scale_float m e2 ex =
    (let den = (if ex > 0 then 5 ^ nat ex else 1) * 2 ^ nat (ex - e2)
     in (int m * (if ex < 0 then 5 ^ nat (- ex) else 1) * 2 ^ nat (e2 - ex) + den div 2) div den)"
proof -
  consider "e2 - ex > 0" | "e2 = ex" | "e2 - ex < 0" by linarith
  then show ?thesis
    using assms unfolding scale_float_def Let_def int32_id [OF assms]
    by cases (simp_all add: push_bit_eq_mult drop_bit_eq_div quo_nonneg)
qed

lemma scale_float_value:
  assumes "is_int32 (e2 - ex)"
  shows "scale_float m e2 ex = \<lfloor>of_nat m * 2 powi e2 * 10 powi (- ex) + 1 / 2 :: rat\<rfloor>"
proof -
  let ?num = "int m * (if ex < 0 then 5 ^ nat (- ex) else 1) * 2 ^ nat (e2 - ex)"
  let ?den = "(if ex > 0 then 5 ^ nat ex else 1) * 2 ^ nat (ex - e2) :: int"
  have den: "0 < ?den" by simp
  have "scale_float m e2 ex = (?num + ?den div 2) div ?den"
    using scale_float_div [OF assms, of m] by (simp only: Let_def)
  also have "\<dots> = \<lfloor>of_int ?num / of_int ?den + 1 / 2 :: rat\<rfloor>"
    using den by (rule half_up_div)
  also have "(of_int ?num / of_int ?den :: rat) = of_nat m * 2 powi e2 * 10 powi (- ex)"
  proof -
    have ten: "(10 :: rat) powi (- ex) = 2 powi (- ex) * 5 powi (- ex)"
      using power_int_mult_distrib [of "2::rat" 5 "- ex"] by simp
    have two: "(2 :: rat) powi (e2 - ex) = 2 ^ nat (e2 - ex) / 2 ^ nat (ex - e2)"
      by (cases "e2 \<ge> ex") (simp_all add: power_int_def field_simps)
    have five: "(5 :: rat) powi (- ex) = (if ex < 0 then 5 ^ nat (- ex) else 1) / (if ex > 0 then 5 ^ nat ex else 1)"
      by (auto simp: power_int_def field_simps)
    have "(of_nat m :: rat) * 2 powi e2 * 10 powi (- ex) = of_nat m * 2 powi (e2 - ex) * 5 powi (- ex)"
      unfolding ten by (simp add: power_int_diff power_int_minus_divide)
    then show ?thesis
      by (simp add: two five)
  qed
  finally show ?thesis .
qed

lemma float64_frac_bound: "float64_frac bits < 2 ^ 52"
proof -
  have "float64_frac bits = unat (take_bit 52 bits)"
    by (simp add: float64_frac_def take_bit_eq_mask mask_eq_exp_minus_1)
  then show ?thesis using take_bit_nat_less_exp by (simp only: unsigned_take_bit_eq)
qed

lemma float64_exp_bound: "float64_exp bits < 2 ^ 11"
proof -
  have "float64_exp bits = unat (take_bit 11 (drop_bit 52 bits))"
    by (simp add: float64_exp_def take_bit_eq_mask mask_eq_exp_minus_1)
  then show ?thesis using take_bit_nat_less_exp by (simp only: unsigned_take_bit_eq)
qed

lemma or_implicit_bit: "m < 2 ^ 52 \<Longrightarrow> m OR 2 ^ 52 = m + 2 ^ 52" for m :: nat
  by (rule disjunctive_add [symmetric]) (metis bit_exp_iff bit_take_bit_iff less_irrefl take_bit_nat_eq_self)

lemma round_half_away_neg: "round_half_away p (- x) = - round_half_away p x"
  by (simp add: round_half_away_def sgn_minus)

lemma round_half_away_nonneg:
  "0 \<le> x \<Longrightarrow> round_half_away p x = of_int \<lfloor>x * 10 powi p + 1 / 2\<rfloor> * 10 powi (- p)"
  by (cases "x = 0") (simp_all add: round_half_away_def sgn_if floor_eq_iff)

lemma NewFromFloat_magnitude:
  assumes "-1074 \<le> e2" "e2 \<le> 2000" "is_int32 ex" "ex \<le> 2147482000"
  defines "ex' \<equiv> (if ex < 0 \<and> ex < e2 then (if e2 < 0 then e2 else 0) else ex)"
  shows "of_int (scale_float m e2 ex') * 10 powi ex' = round_half_away (- ex) (of_nat m * 2 powi e2)"
proof -
  let ?v = "of_nat m * 2 powi e2 :: rat"
  have i: "is_int32 (e2 - ex')" using assms by (auto simp: ex'_def is_int32_def)
  have s: "of_int (scale_float m e2 ex') * 10 powi ex' = round_half_away (- ex') ?v"
    using scale_float_value [OF i, of m] by (simp add: round_half_away_nonneg)
  show ?thesis
  proof (cases "ex < 0 \<and> ex < e2")
    case False
    then show ?thesis using s by (auto simp: ex'_def)
  next
    case True
    have "\<exists>k. ?v * 10 powi (- ex') = of_int k"
    proof (cases "e2 < 0")
      case True
      then have "ex' = e2" using \<open>ex < 0 \<and> ex < e2\<close> by (simp add: ex'_def)
      then have "?v * 10 powi (- ex') = of_int (int m * 5 ^ nat (- e2))"
        using True power_int_mult_distrib [of "2::rat" 5 "- e2"]
        by (simp add: power_int_def field_simps)
      then show ?thesis by blast
    next
      case False
      then have "ex' = 0" using \<open>ex < 0 \<and> ex < e2\<close> by (simp add: ex'_def)
      then have "?v * 10 powi (- ex') = of_int (int m * 2 ^ nat e2)"
        using False by (simp add: power_int_def)
      then show ?thesis by blast
    qed
    then obtain k where k: "?v * 10 powi (- ex') = of_int k" ..
    have "ex \<le> ex'" using True by (auto simp: ex'_def)
    then have "(10::rat) powi (- ex) = 10 ^ nat (ex' - ex) * 10 powi (- ex')"
      using powi10_split [of "- ex'" "- ex"] by simp
    then have "?v * 10 powi (- ex) = of_int (k * 10 ^ nat (ex' - ex))"
      using k by (simp add: mult_ac)
    then show ?thesis
      using s round_half_away_exact [OF k] round_half_away_exact by metis
  qed
qed

text \<open>
  \<^verbatim>\<open>NewFromFloatWithExponent\<close> returns, for every finite float64 (subnormal ones included), the
  number rounded half away from zero to the digit \<^verbatim>\<open>exp\<close>; so \<^verbatim>\<open>NewFromFloat\<close>, whose \<^verbatim>\<open>exp\<close> is the
  smallest int32, is exact on the floats it can be called with.  The loop over the mantissa ends.
\<close>

theorem NewFromFloatWithExponent_correct:
  assumes fin: "float64_finite bits" and ex: "is_int32 ex" "ex \<le> 2147482000"
  shows "\<exists>d. NewFromFloatWithExponent bits ex = Ret d
    \<and> dec_rat d = round_half_away (- ex) (float64_rat bits)"
proof -
  let ?f = "float64_frac bits" and ?x = "int (float64_exp bits)"
  let ?m = "if ?x = 0 then ?f else ?f + 2 ^ 52" and ?e = "(if ?x = 0 then 1 else ?x) - 1075"
  let ?sg = "if float64_sign bits = 1 then -1 else 1 :: rat"
  have val: "float64_rat bits = ?sg * (of_nat ?m * 2 powi ?e)"
    by (auto simp: float64_rat_def Let_def add.commute)
  have x: "?x < 2048" using float64_exp_bound [of bits] by simp
  show ?thesis
  proof (cases "?m = 0")
    case True
    then have "?x = 0" "?f = 0" by (auto split: if_splits)
    with True val show ?thesis
      by (simp add: NewFromFloatWithExponent_def Decimal_zero_value_def dec_rat_def round_half_away_def)
  next
    case False
    obtain m' e' where n: "normalize2 ?m ?e = (m', e')" by fastforce
    have "?m < 2 ^ 53" using float64_frac_bound [of bits] by simp
    with n False x have n': "?e \<le> e'" "e' \<le> ?e + int 53"
      "(of_nat m' * 2 powi e' :: rat) = of_nat ?m * 2 powi ?e"
      using normalize2_value [of ?m ?e m' e' 53] by (auto simp: is_int32_def)
    define ex' where "ex' = (if ex < 0 \<and> ex < e' then (if e' < 0 then e' else 0) else ex)"
    have "of_int (scale_float m' e' ex') * 10 powi ex' = round_half_away (- ex) (of_nat ?m * 2 powi ?e)"
      using NewFromFloat_magnitude [of e' ex m'] n' x ex unfolding ex'_def by (auto split: if_splits)
    moreover have "NewFromFloatWithExponent bits ex = Ret \<lparr>dvalue = Some
        (if float64_sign bits = 1 then - scale_float m' e' ex' else scale_float m' e' ex'), dexp = ex'\<rparr>"
      using fin False n x float64_frac_bound [of bits]
      by (cases "?x = 0") (simp_all add: NewFromFloatWithExponent_def float64_finite_def Let_def
          or_implicit_bit is_int32_def ex'_def del: power_numeral)
    ultimately show ?thesis
      by (auto simp: val round_half_away_neg)
  qed
qed

theorem NewFromFloatWithExponent_correct_witness:
  "\<exists>d. NewFromFloatWithExponent 0x405EDD2F1A9FBE77 (-2) = Ret d
    \<and> dec_rat d = round_half_away 2 (float64_rat 0x405EDD2F1A9FBE77)"
  using NewFromFloatWithExponent_correct [of "0x405EDD2F1A9FBE77" "-2"]
  by (simp add: float64_finite_def float64_exp_def is_int32_def)

section \<open>Powers\<close>

text \<open>
  \<^verbatim>\<open>Pow\<close> recurses on \<^verbatim>\<open>d2.Div(2)\<close> until the integer part is 0; nothing bounds the depth (with
  \<^verbatim>\<open>DivisionPrecision\<close> 0, 1 divided by 2 rounds to 1 again), so the model carries fuel and \<^term>\<open>None\<close>
  means that it ran out.
\<close>

definition float64_one :: "64 word" where "float64_one = 0x3FF0000000000000"
definition float64_two :: "64 word" where "float64_two = 0x4000000000000000"

fun Decimal_Pow :: "nat \<Rightarrow> int \<Rightarrow> Decimal \<Rightarrow> Decimal \<Rightarrow> Decimal go option" where
  "Decimal_Pow 0 DivisionPrecision d d2 = None"
| "Decimal_Pow (Suc fuel) DivisionPrecision d d2 =
     (if Decimal_IntPart d2 = 0 then Some (NewFromFloat float64_one)
      else case go_bind (NewFromFloat float64_two) (Decimal_Div DivisionPrecision d2) of
             Panic m \<Rightarrow> Some (Panic m)
           | Ret half \<Rightarrow>
               (case Decimal_Pow fuel DivisionPrecision d half of
                  None \<Rightarrow> None
                | Some result \<Rightarrow>
                    Some (go_bind result (\<lambda>temp.
                      go_bind (Decimal_Mul temp temp) (\<lambda>square.
                        if rem (Decimal_IntPart d2) 2 = 0 then Ret square
                        else if Decimal_IntPart d2 > 0 then Decimal_Mul square d
                        else Decimal_Div DivisionPrecision square d)))))"

lemma normalize2_power: "is_int32 e \<Longrightarrow> is_int32 (e + int k) \<Longrightarrow> normalize2 (2 ^ k) e = (1, e + int k)"
proof (induction k arbitrary: e)
  case (Suc k)
  then have "is_int32 (e + 1)" by (simp add: is_int32_def)
  with Suc.prems Suc.IH [of "e + 1"] have "normalize2 (2 ^ k) (int32 (e + 1)) = (1, e + int (Suc k))"
    by (simp add: add.assoc)
  then show ?case by (subst normalize2.simps) simp
qed (simp add: normalize2.simps)

lemma NewFromFloat_one: "NewFromFloat float64_one = Ret \<lparr>dvalue = Some 1, dexp = 0\<rparr>"
proof -
  have "float64_exp float64_one = 1023" "float64_frac float64_one = 0" "float64_sign float64_one = 0"
    by (simp_all add: float64_exp_def float64_frac_def float64_sign_def float64_one_def)
  then show ?thesis
    using normalize2_power [of "-52" 52]
    by (simp add: NewFromFloat_def NewFromFloatWithExponent_def is_int32_def scale_float_def)
qed

lemma NewFromFloat_two: "NewFromFloat float64_two = Ret \<lparr>dvalue = Some 2, dexp = 0\<rparr>"
proof -
  have "float64_exp float64_two = 1024" "float64_frac float64_two = 0" "float64_sign float64_two = 0"
    by (simp_all add: float64_exp_def float64_frac_def float64_sign_def float64_two_def)
  then show ?thesis
    using normalize2_power [of "-51" 52]
    by (simp add: NewFromFloat_def NewFromFloatWithExponent_def is_int32_def scale_float_def)
qed

lemma Decimal_IntPart_value:
  assumes "dec_rat x = of_nat n / 2 ^ j" and "n < 2 ^ 62"
  shows "Decimal_IntPart x = int (n div 2 ^ j)"
proof -
  have "0 \<le> dec_rat x" by (simp add: assms(1))
  then have "sgn (coeff x) * \<lfloor>\<bar>dec_rat x\<bar>\<rfloor> = \<lfloor>dec_rat x\<rfloor>"
    using dec_rat_sign [of x] by (cases "coeff x = 0") (auto simp: sgn_if)
  also have "\<lfloor>dec_rat x\<rfloor> = int n div 2 ^ j"
    using floor_divide_of_int_eq [of "int n" "2 ^ j", where 'a = rat] by (simp add: assms(1))
  finally have "coeff (Decimal_rescale x 0) = int (n div 2 ^ j)"
    by (simp add: coeff_rescale zdiv_int)
  moreover have "int (n div 2 ^ j) < 2 ^ 62"
    using assms(2) div_le_dividend [of n "2 ^ j"] by (metis le_less_trans of_nat_less_iff of_nat_numeral of_nat_power)
  ultimately show ?thesis
    by (simp add: Decimal_IntPart_def is_int64_def)
qed

lemma Div_two_exact:
  assumes "dec_rat x = of_nat n / 2 ^ j" and "j < nat dp" and "dexp x \<in> {0, - dp}" and "0 < dp" "dp \<le> 62"
  shows "\<exists>h. Decimal_Div dp x \<lparr>dvalue = Some 2, dexp = 0\<rparr> = Ret h \<and> dexp h = - dp
    \<and> dec_rat h = of_nat n / 2 ^ Suc j"
proof -
  let ?two = "\<lparr>dvalue = Some 2, dexp = 0\<rparr>" and ?q = "of_nat n / 2 ^ Suc j :: rat"
  have "quorem_in_range x ?two dp"
    using assms(3-5) by (auto simp: quorem_in_range_def is_int32_def)
  then obtain h where h: "Decimal_DivRound x ?two dp = Ret h" "dexp h = - dp"
    "dec_rat h = round_half_away dp (dec_rat x / dec_rat ?two)"
    using DivRound_value [of ?two x dp] by auto
  have "(10 :: rat) powi dp = 5 ^ nat dp * (2 ^ (nat dp - Suc j) * 2 ^ Suc j)"
  proof -
    have "(10 :: rat) powi dp = 10 ^ nat dp" using assms(4) by (simp add: power_int_def)
    also have "\<dots> = 5 ^ nat dp * 2 ^ nat dp" by (simp flip: power_mult_distrib)
    also have "(2 :: rat) ^ nat dp = 2 ^ (nat dp - Suc j) * 2 ^ Suc j"
      using assms(2) by (simp flip: power_add del: power_Suc)
    finally show ?thesis .
  qed
  then have "?q * 10 powi dp = of_int (int n * 5 ^ nat dp * 2 ^ (nat dp - Suc j))"
    by simp
  then have "round_half_away dp ?q = ?q" by (rule round_half_away_exact)
  moreover have "dec_rat x / dec_rat ?two = ?q" by (simp add: assms(1) mult.commute)
  moreover have "is_int32 dp" using assms(4,5) by (simp add: is_int32_def)
  ultimately show ?thesis
    using h by (simp add: Decimal_Div_def del: power_Suc)
qed

lemma is_int32_scale:
  assumes "is_int32 (e * int n)" and "m \<le> n"
  shows "is_int32 (e * int m)"
proof (cases "0 \<le> e")
  case True
  then have "0 \<le> e * int m" "e * int m \<le> e * int n"
    using assms(2) by (auto intro: mult_left_mono)
  then show ?thesis using assms(1) by (simp add: is_int32_def)
next
  case False
  then have "e * int m \<le> 0" "e * int n \<le> e * int m"
    using assms(2) by (auto intro: mult_left_mono_neg simp: mult_le_0_iff)
  then show ?thesis using assms(1) by (simp add: is_int32_def)
qed

lemma Pow_step:
  assumes "0 < dp" "dp \<le> 62" "n < 2 ^ nat dp" "is_int32 (dexp d * int n)" "Decimal_wf d"
  shows "dec_rat x = of_nat n / 2 ^ j \<Longrightarrow> j \<le> nat dp \<Longrightarrow> dexp x \<in> {0, - dp} \<Longrightarrow> nat dp - j < fuel \<Longrightarrow>
    \<exists>r. Decimal_Pow fuel dp d x = Some (Ret r)
      \<and> dec_rat r = dec_rat d ^ (n div 2 ^ j) \<and> dexp r = dexp d * int (n div 2 ^ j)"
proof (induction fuel arbitrary: x j)
  case (Suc fuel)
  have n62: "n < 2 ^ 62"
    using assms(3) power_increasing [of "nat dp" 62 "2 :: nat"] \<open>dp \<le> 62\<close> by linarith
  note ip = Decimal_IntPart_value [OF Suc.prems(1) n62]
  note small = is_int32_scale [OF assms(4)]
  show ?case
  proof (cases "n div 2 ^ j = 0")
    case True
    with ip show ?thesis by (simp add: NewFromFloat_one)
  next
    case False
    have "j \<noteq> nat dp" using False assms(3) by (auto simp: div_eq_0_iff)
    then have j: "j < nat dp" using Suc.prems(2) by simp
    obtain h where h: "Decimal_Div dp x \<lparr>dvalue = Some 2, dexp = 0\<rparr> = Ret h" "dexp h = - dp"
      "dec_rat h = of_nat n / 2 ^ Suc j"
      using Div_two_exact [OF Suc.prems(1) j Suc.prems(3) assms(1,2)] by blast
    define k k' where "k = n div 2 ^ j" and "k' = n div 2 ^ Suc j"
    have fuel: "nat dp - Suc j < fuel" using j Suc.prems(4) by linarith
    obtain r where r: "Decimal_Pow fuel dp d h = Some (Ret r)" "dec_rat r = dec_rat d ^ k'"
      "dexp r = dexp d * int k'"
      using Suc.IH [OF h(3) _ _ fuel] h(2) j unfolding k'_def by auto
    have kk: "k' = k div 2" by (simp only: k_def k'_def power_Suc2 div_mult2_eq)
    have kn: "k \<le> n" by (simp add: k_def)
    have ipk: "Decimal_IntPart x = int k" and k0: "k \<noteq> 0" using ip False by (simp_all add: k_def)
    have sq: "Decimal_Mul r r = Ret \<lparr>dvalue = Some (coeff r * coeff r), dexp = dexp d * int (2 * k')\<rparr>"
      (is "_ = Ret ?sq")
      using small [of "2 * k'"] kn kk by (simp add: Decimal_Mul_cases r(3) algebra_simps)
    have sqv: "dec_rat ?sq = dec_rat d ^ (2 * k')"
      using dec_rat_Mul [OF sq] by (simp only: r(2) power_add mult_2)
    have odd_even: "rem (int k) 2 = int (k mod 2)"
      using k0 by (simp add: rem_def sgn_if zmod_int)
    have "\<exists>r'. Decimal_Pow (Suc fuel) dp d x = Some (Ret r') \<and> dec_rat r' = dec_rat d ^ k
        \<and> dexp r' = dexp d * int k"
    proof (cases "even k")
      case True
      then have "2 * k' = k" using kk by simp
      moreover have "Decimal_Pow (Suc fuel) dp d x = Some (Ret ?sq)"
        using True k0 ipk h(1) r(1) sq odd_even by (simp add: NewFromFloat_two even_iff_mod_2_eq_zero)
      ultimately show ?thesis using sqv by auto
    next
      case False
      then have k1: "k = 2 * k' + 1" using kk by presburger
      have c: "Decimal_Mul ?sq d = Ret \<lparr>dvalue = Some (coeff r * coeff r * coeff d), dexp = dexp d * int k\<rparr>"
        (is "_ = Ret ?c")
        using small [OF kn] unfolding k1 by (simp add: Decimal_Mul_cases algebra_simps)
      have "dec_rat ?c = dec_rat d ^ k"
        using dec_rat_Mul [OF c] unfolding sqv k1 by simp
      moreover have "Decimal_Pow (Suc fuel) dp d x = Some (Ret ?c)"
        using False k0 ipk h(1) r(1) sq c odd_even by (simp add: NewFromFloat_two odd_iff_mod_2_eq_one)
      ultimately show ?thesis by auto
    qed
    then show ?thesis by (simp only: k_def)
  qed
qed simp

text \<open>
  \<^verbatim>\<open>Pow\<close> with a natural exponent below \<open>2 ^ DivisionPrecision\<close> returns, after at most
  \<open>DivisionPrecision + 1\<close> nested calls, the exact power of the number.
\<close>

theorem Pow_correct:
  assumes "0 < dp" "dp \<le> 62" "n < 2 ^ nat dp" "is_int32 (dexp d * int n)" "Decimal_wf d" "nat dp < fuel"
  shows "\<exists>r. Decimal_Pow fuel dp d (Decimal_New (int n) 0) = Some (Ret r) \<and> dec_rat r = dec_rat d ^ n"
  using Pow_step [OF assms(1-5), of "Decimal_New (int n) 0" 0 fuel] assms(6)
  by (auto simp: Decimal_New_def)

theorem Pow_correct_witness:
  "\<exists>r. Decimal_Pow 17 16 (Decimal_New 15 (-1)) (Decimal_New 5 0) = Some (Ret r)
    \<and> dec_rat r = dec_rat (Decimal_New 15 (-1)) ^ 5"
  using Pow_correct [of 16 5 "Decimal_New 15 (-1)" 17] by (simp add: Decimal_wf_def is_int32_def)

text \<open>With \<^verbatim>\<open>DivisionPrecision\<close> 0 the recursion never reaches an integer part of 0.\<close>

lemma Pow_precision_0_diverges: "Decimal_Pow fuel 0 d (Decimal_New 1 0) = None"
proof (induction fuel)
  case (Suc fuel)
  have "Decimal_IntPart (Decimal_New 1 0) = 1"
    "Decimal_Div 0 (Decimal_New 1 0) \<lparr>dvalue = Some 2, dexp = 0\<rparr> = Ret (Decimal_New 1 0)"
    by code_simp+
  with Suc show ?case by (simp add: NewFromFloat_two)
qed simp

end
