(* ===== verification/Decimal_Codec.thy ===== *)
theory Decimal_Codec
  imports Decimal_Text Decimal_Float
begin

text \<open>
  The encodings of decimals (\<^verbatim>\<open>pkg/util/decimal.go\<close>): JSON, text, binary and gob, the database
  interfaces \<^verbatim>\<open>Scan\<close> and \<^verbatim>\<open>Value\<close>, the nullable \<^verbatim>\<open>NullDecimal\<close>, and the money helpers of
  \<^verbatim>\<open>pkg/util/yuan_cent.go\<close>.  Methods with a pointer receiver take the old value and return the new one
  beside the error.
\<close>

section \<open>Dynamic values\<close>

text \<open>
  The values of \<^verbatim>\<open>interface{}\<close> that a database driver hands to \<^verbatim>\<open>Scan\<close>.  A float32 is stored as the
  float64 it converts to, which is exact; \<^verbatim>\<open>DynOther\<close> is any other type.
\<close>

datatype dyn =
    DynNil
  | DynString string
  | DynBytes string
  | DynInt64 int
  | DynFloat64 "64 word"
  | DynFloat32 "64 word"
  | DynOther

definition unquoteIfQuoted :: "dyn \<Rightarrow> decimal_error + string" where
  "unquoteIfQuoted value =
     (let unq = (\<lambda>bytes. if length bytes > 2 \<and> hd bytes = CHR 0x22 \<and> last bytes = CHR 0x22
                         then butlast (tl bytes) else bytes)
      in case value of DynString v \<Rightarrow> Inr (unq v) | DynBytes v \<Rightarrow> Inr (unq v) | _ \<Rightarrow> Inl NotBytes)"

section \<open>JSON and text\<close>

definition Decimal_UnmarshalJSON :: "Decimal \<Rightarrow> string \<Rightarrow> Decimal \<times> decimal_error option" where
  "Decimal_UnmarshalJSON d decimalBytes =
     (if decimalBytes = ''null'' then (d, None)
      else case unquoteIfQuoted (DynBytes decimalBytes) of
             Inl err \<Rightarrow> (d, Some (ErrorDecoding decimalBytes err))
           | Inr str \<Rightarrow>
               (case NewFromString str of
                  Inl err \<Rightarrow> (Decimal_zero_value, Some (ErrorDecoding str err))
                | Inr dec \<Rightarrow> (dec, None)))"

definition Decimal_MarshalJSON :: "bool \<Rightarrow> Decimal \<Rightarrow> string go" where
  "Decimal_MarshalJSON MarshalJSONWithoutQuotes d =
     go_bind (Decimal_String d) (\<lambda>s.
       Ret (if MarshalJSONWithoutQuotes then s else CHR 0x22 # s @ [CHR 0x22]))"

definition Decimal_UnmarshalText :: "Decimal \<Rightarrow> string \<Rightarrow> Decimal \<times> decimal_error option" where
  "Decimal_UnmarshalText d str =
     (case NewFromString str of
        Inl err \<Rightarrow> (Decimal_zero_value, Some (ErrorDecoding str err))
      | Inr dec \<Rightarrow> (dec, None))"

definition Decimal_MarshalText :: "Decimal \<Rightarrow> string go" where
  "Decimal_MarshalText d = Decimal_String d"

section \<open>Binary and gob\<close>

text \<open>Big-endian magnitudes as \<^verbatim>\<open>math/big\<close> writes and reads them, without leading zero bytes.\<close>

fun nat_bytes :: "nat \<Rightarrow> string" where
  "nat_bytes n = (if n = 0 then [] else nat_bytes (n div 256) @ [char_of (n mod 256)])"

declare nat_bytes.simps [simp del]

definition bytes_nat :: "string \<Rightarrow> nat" where
  "bytes_nat bs = foldl (\<lambda>acc c. acc * 256 + of_char c) 0 bs"

text \<open>\<^verbatim>\<open>binary.BigEndian.PutUint32\<close> and \<^verbatim>\<open>Uint32\<close>.\<close>

definition put_uint32 :: "nat \<Rightarrow> string" where
  "put_uint32 n =
     [char_of (n div 16777216 mod 256), char_of (n div 65536 mod 256),
      char_of (n div 256 mod 256), char_of (n mod 256)]"

text \<open>\<^verbatim>\<open>big.Int.GobEncode\<close>: version 1 in the upper bits of the first byte, the sign in the lowest.\<close>

definition big_GobEncode :: "int option \<Rightarrow> string" where
  "big_GobEncode v =
     (case v of None \<Rightarrow> []
      | Some x \<Rightarrow> char_of (if x < 0 then 3 else 2 :: nat) # nat_bytes (nat \<bar>x\<bar>))"

definition big_GobDecode :: "string \<Rightarrow> decimal_error + int" where
  "big_GobDecode buf =
     (case buf of [] \<Rightarrow> Inr 0
      | b # rest \<Rightarrow>
          if (of_char b :: nat) div 2 \<noteq> 1
          then Inl (GobError (''Int.GobDecode: encoding version '' @ nat_dec (of_char b div 2) @ '' not supported''))
          else Inr (if odd (of_char b :: nat) then - int (bytes_nat rest) else int (bytes_nat rest)))"

definition slice_bounds_msg :: string where
  "slice_bounds_msg = ''slice bounds out of range''"

definition Decimal_UnmarshalBinary ::
  "Decimal \<Rightarrow> string \<Rightarrow> (Decimal \<times> decimal_error option) go" where
  "Decimal_UnmarshalBinary d data =
     (if length data < 4 then Panic slice_bounds_msg
      else let ex = int32 (int (bytes_nat (take 4 data)))
           in case big_GobDecode (drop 4 data) of
                Inl err \<Rightarrow> Ret (\<lparr>dvalue = Some 0, dexp = ex\<rparr>, Some err)
              | Inr v \<Rightarrow> Ret (\<lparr>dvalue = Some v, dexp = ex\<rparr>, None))"

definition Decimal_MarshalBinary :: "Decimal \<Rightarrow> string" where
  "Decimal_MarshalBinary d =
     put_uint32 (nat (dexp d mod 4294967296)) @ big_GobEncode (dvalue d)"

definition Decimal_GobEncode :: "Decimal \<Rightarrow> string" where
  "Decimal_GobEncode d = Decimal_MarshalBinary d"

definition Decimal_GobDecode :: "Decimal \<Rightarrow> string \<Rightarrow> (Decimal \<times> decimal_error option) go" where
  "Decimal_GobDecode d data = Decimal_UnmarshalBinary d data"

section \<open>Databases\<close>

definition Decimal_Scan :: "Decimal \<Rightarrow> dyn \<Rightarrow> (Decimal \<times> decimal_error option) go" where
  "Decimal_Scan d value =
     (case value of
        DynFloat32 v \<Rightarrow> go_bind (NewFromFloat v) (\<lambda>x. Ret (x, None))
      | DynFloat64 v \<Rightarrow> go_bind (NewFromFloat v) (\<lambda>x. Ret (x, None))
      | DynInt64 v \<Rightarrow> Ret (Decimal_New v 0, None)
      | _ \<Rightarrow>
          (case unquoteIfQuoted value of
             Inl err \<Rightarrow> Ret (d, Some err)
           | Inr str \<Rightarrow>
               (case NewFromString str of
                  Inl err \<Rightarrow> Ret (Decimal_zero_value, Some err)
                | Inr x \<Rightarrow> Ret (x, None))))"

definition Decimal_Value :: "Decimal \<Rightarrow> dyn go" where
  "Decimal_Value d = go_bind (Decimal_String d) (\<lambda>s. Ret (DynString s))"

record NullDecimal =
  nd_Decimal :: Decimal
  nd_Valid :: bool

definition NullDecimal_Scan :: "NullDecimal \<Rightarrow> dyn \<Rightarrow> (NullDecimal \<times> decimal_error option) go" where
  "NullDecimal_Scan d value =
     (if value = DynNil then Ret (d\<lparr>nd_Valid := False\<rparr>, None)
      else go_bind (Decimal_Scan (nd_Decimal d) value) (\<lambda>(x, err).
             Ret (d\<lparr>nd_Decimal := x, nd_Valid := True\<rparr>, err)))"

definition NullDecimal_Value :: "NullDecimal \<Rightarrow> dyn go" where
  "NullDecimal_Value d = (if \<not> nd_Valid d then Ret DynNil else Decimal_Value (nd_Decimal d))"

definition NullDecimal_UnmarshalJSON ::
  "NullDecimal \<Rightarrow> string \<Rightarrow> NullDecimal \<times> decimal_error option" where
  "NullDecimal_UnmarshalJSON d decimalBytes =
     (if decimalBytes = ''null'' then (d\<lparr>nd_Valid := False\<rparr>, None)
      else let (x, err) = Decimal_UnmarshalJSON (nd_Decimal d) decimalBytes
           in (d\<lparr>nd_Decimal := x, nd_Valid := True\<rparr>, err))"

definition NullDecimal_MarshalJSON :: "bool \<Rightarrow> NullDecimal \<Rightarrow> string go" where
  "NullDecimal_MarshalJSON MarshalJSONWithoutQuotes d =
     (if \<not> nd_Valid d then Ret ''null''
      else Decimal_MarshalJSON MarshalJSONWithoutQuotes (nd_Decimal d))"

section \<open>Round trips\<close>

lemma unquote_plain:
  assumes "s \<noteq> []" and "\<And>c. c \<in> set s \<Longrightarrow> c = CHR ''-'' \<or> c = CHR ''.'' \<or> digit_val c \<noteq> None"
  shows "s \<noteq> ''null''" "unquoteIfQuoted (DynBytes s) = Inr s" "unquoteIfQuoted (DynString s) = Inr s"
    "CHR 0x22 # s @ [CHR 0x22] \<noteq> ''null''" "unquoteIfQuoted (DynBytes (CHR 0x22 # s @ [CHR 0x22])) = Inr s"
proof -
  have "digit_val (CHR ''n'') = None" "digit_val (CHR 0x22) = None" by (simp_all add: digit_val_def)
  then have "CHR ''n'' \<notin> set s" "CHR 0x22 \<notin> set s"
    using assms(2) [of "CHR ''n''"] assms(2) [of "CHR 0x22"] by auto
  moreover from this have "hd s \<noteq> CHR 0x22" using assms(1) hd_in_set by metis
  ultimately show "s \<noteq> ''null''" "unquoteIfQuoted (DynBytes s) = Inr s"
    "unquoteIfQuoted (DynString s) = Inr s"
    "CHR 0x22 # s @ [CHR 0x22] \<noteq> ''null''" "unquoteIfQuoted (DynBytes (CHR 0x22 # s @ [CHR 0x22])) = Inr s"
    using assms(1) by (auto simp: unquoteIfQuoted_def Let_def)
qed

text \<open>
  C17: every textual encoding of a decimal is read back as the same number: \<^verbatim>\<open>String\<close> by
  \<^verbatim>\<open>NewFromString\<close>, \<^verbatim>\<open>MarshalJSON\<close> by \<^verbatim>\<open>UnmarshalJSON\<close> with and without quotes, \<^verbatim>\<open>MarshalText\<close> by
  \<^verbatim>\<open>UnmarshalText\<close> and \<^verbatim>\<open>Value\<close> by \<^verbatim>\<open>Scan\<close>, with no error and whatever the receiver held.
\<close>

theorem Decimal_text_roundtrip:
  assumes "Decimal_wf d" and "dvalue d \<noteq> None \<or> 0 \<le> dexp d"
  shows "\<exists>d' s j. dec_rat d' = dec_rat d
    \<and> Decimal_String d = Ret s \<and> NewFromString s = Inr d'
    \<and> Decimal_MarshalJSON w d = Ret j \<and> Decimal_UnmarshalJSON old j = (d', None)
    \<and> Decimal_MarshalText d = Ret s \<and> Decimal_UnmarshalText old s = (d', None)
    \<and> Decimal_Value d = Ret (DynString s) \<and> Decimal_Scan old (DynString s) = Ret (d', None)"
proof -
  obtain s d' where s: "Decimal_string True d = Ret s" "NewFromString s = Inr d'"
    "dec_rat d' = dec_rat d" "s \<noteq> []"
    "\<And>c. c \<in> set s \<Longrightarrow> c = CHR ''-'' \<or> c = CHR ''.'' \<or> digit_val c \<noteq> None"
    by (rule NewFromString_Decimal_string [where trim = True, OF assms]) (rule that)
  note u = unquote_plain [OF s(4,5)]
  let ?j = "if w then s else CHR 0x22 # s @ [CHR 0x22]"
  have "Decimal_UnmarshalJSON old ?j = (d', None)"
    using u s(2) by (cases w) (simp_all add: Decimal_UnmarshalJSON_def)
  then show ?thesis
    using s u
    by (intro exI [of _ d'] exI [of _ s] exI [of _ ?j])
      (simp add: Decimal_String_def Decimal_MarshalJSON_def Decimal_MarshalText_def
        Decimal_UnmarshalText_def Decimal_Value_def Decimal_Scan_def)
qed

theorem Decimal_text_roundtrip_witness:
  "\<exists>d' s j. dec_rat d' = dec_rat (Decimal_New (-120) (-3))
    \<and> Decimal_String (Decimal_New (-120) (-3)) = Ret s \<and> NewFromString s = Inr d'
    \<and> Decimal_MarshalJSON False (Decimal_New (-120) (-3)) = Ret j
    \<and> Decimal_UnmarshalJSON Decimal_Zero j = (d', None)"
  using Decimal_text_roundtrip [of "Decimal_New (-120) (-3)" False Decimal_Zero]
  by (auto simp: Decimal_wf_def is_int32_def Decimal_New_def)

lemma bytes_nat_append1: "bytes_nat (bs @ [c]) = bytes_nat bs * 256 + of_char c"
  by (simp add: bytes_nat_def)

lemma bytes_nat_Nil [simp]: "bytes_nat [] = 0"
  by (simp add: bytes_nat_def)

lemma bytes_nat_nat_bytes [simp]: "bytes_nat (nat_bytes n) = n"
proof (induction n rule: nat_bytes.induct)
  case (1 n)
  then show ?case
    by (cases "n = 0") (simp_all add: nat_bytes.simps [of n] nat_bytes.simps [of 0] bytes_nat_append1)
qed

lemma bytes_nat_put_uint32: "n < 4294967296 \<Longrightarrow> bytes_nat (put_uint32 n) = n"
proof -
  assume n: "n < 4294967296"
  have d: "n div 65536 = n div 256 div 256" "n div 16777216 = n div 256 div 256 div 256"
    by (simp_all add: div_mult2_eq [symmetric])
  have "n div 256 div 256 div 256 mod 256 = n div 256 div 256 div 256"
    using n by (simp add: div_mult2_eq [symmetric])
  then show ?thesis
    unfolding bytes_nat_def put_uint32_def d by (simp del: div_mult2_eq)
qed

lemma big_Gob_roundtrip:
  "big_GobDecode (big_GobEncode v) = Inr (case v of None \<Rightarrow> 0 | Some x \<Rightarrow> x)"
  by (auto simp: big_GobDecode_def big_GobEncode_def split: option.splits)

lemma int32_mod: "is_int32 x \<Longrightarrow> int32 (x mod 4294967296) = x"
  by (auto simp: int32_def is_int32_def mod_simps)

text \<open>
  the binary and gob encodings keep the coefficient and the exponent exactly; a decimal whose
  coefficient was never set comes back with coefficient 0.
\<close>

theorem Decimal_binary_roundtrip:
  assumes "Decimal_wf d"
  shows "Decimal_UnmarshalBinary old (Decimal_MarshalBinary d) = Ret (ensureInitialized d, None)
    \<and> Decimal_GobDecode old (Decimal_GobEncode d) = Ret (ensureInitialized d, None)"
proof -
  have len: "length (put_uint32 n) = 4" for n by (simp add: put_uint32_def)
  have "bytes_nat (put_uint32 (nat (dexp d mod 4294967296))) = nat (dexp d mod 4294967296)"
    by (rule bytes_nat_put_uint32) (simp add: nat_less_iff)
  then have "Decimal_UnmarshalBinary old (Decimal_MarshalBinary d) = Ret (ensureInitialized d, None)"
    using assms
    by (simp add: Decimal_UnmarshalBinary_def Decimal_MarshalBinary_def len big_Gob_roundtrip
        int32_mod Decimal_wf_def ensureInitialized_def split: option.splits)
  then show ?thesis
    by (simp add: Decimal_GobDecode_def Decimal_GobEncode_def)
qed

theorem Decimal_binary_roundtrip_witness:
  "Decimal_UnmarshalBinary Decimal_Zero (Decimal_MarshalBinary (Decimal_New (-70000) (-3)))
    = Ret (Decimal_New (-70000) (-3), None)"
  using Decimal_binary_roundtrip [of "Decimal_New (-70000) (-3)" Decimal_Zero]
  by (simp add: Decimal_wf_def is_int32_def ensureInitialized_def Decimal_New_def)

section \<open>Yuan and cent\<close>

text \<open>\<^verbatim>\<open>fmt.Sprintf("%0.2f", v)\<close>: two places, correctly rounded, ties to even, the sign bit kept.\<close>

definition half_even :: "rat \<Rightarrow> int" where
  "half_even y =
     (let f = \<lfloor>y\<rfloor> in if y - of_int f < 1 / 2 then f else if y - of_int f > 1 / 2 then f + 1
      else if even f then f else f + 1)"

definition sprintf_02f :: "64 word \<Rightarrow> string" where
  "sprintf_02f bits =
     (if float64_finite bits
      then let n = nat (half_even (\<bar>float64_rat bits\<bar> * 100))
           in number_text (float64_sign bits = 1) (nat_dec (n div 100))
                [digit_char (n div 10 mod 10), digit_char (n mod 10)]
      else if float64_frac bits \<noteq> 0 then ''NaN''
      else if float64_sign bits = 1 then ''-Inf'' else ''+Inf'')"

definition MustNoErr :: "decimal_error + 'a \<Rightarrow> 'a go" where
  "MustNoErr r = (case r of Inl err \<Rightarrow> Panic (decimal_error_msg err) | Inr x \<Rightarrow> Ret x)"

definition YuanToCent :: "64 word \<Rightarrow> int go" where
  "YuanToCent yuan =
     go_bind (MustNoErr (NewFromString (sprintf_02f yuan))) (\<lambda>dec.
       go_bind (MustNoErr (NewFromString ''100'')) (\<lambda>m.
         go_bind (Decimal_Mul dec m) (\<lambda>p. Ret (Decimal_IntPart p))))"

lemma NewFromString_100: "NewFromString ''100'' = Inr \<lparr>dvalue = Some 100, dexp = 0\<rparr>"
  by code_simp

lemma parse_cents:
  "parse_digits 0 (nat_dec (n div 100) @ [digit_char (n div 10 mod 10), digit_char (n mod 10)]) = Some n"
proof -
  have "(n div 100 * 10 + n div 10 mod 10) * 10 + n mod 10 = n"
    using div_mult2_eq [of n 10 10] by simp
  then show ?thesis by (simp add: parse_digits_append)
qed

lemma Decimal_IntPart_int: "dec_rat p = of_int k \<Longrightarrow> Decimal_IntPart p = int64 k"
proof -
  assume k: "dec_rat p = of_int k"
  then have "sgn (coeff p) = sgn k"
    using dec_rat_sign [of p] by (simp add: sgn_if)
  then have "sgn (coeff p) * \<bar>k\<bar> = k" by (simp add: sgn_mult_abs)
  moreover have "\<lfloor>\<bar>dec_rat p\<bar>\<rfloor> = \<bar>k\<bar>" unfolding k by (simp flip: of_int_abs)
  ultimately show ?thesis by (simp add: Decimal_IntPart_def coeff_rescale)
qed

lemma half_even_nonneg: "0 \<le> y \<Longrightarrow> 0 \<le> half_even y"
  by (auto simp: half_even_def Let_def)

text \<open>
  \<^verbatim>\<open>YuanToCent\<close> returns, for every finite amount, the nearest number of cents (ties to even),
  wrapped to an int64, and panics on NaN and infinities.
\<close>

theorem YuanToCent_correct:
  "if float64_finite bits
   then YuanToCent bits = Ret (int64 ((if float64_sign bits = 1 then -1 else 1) *
          half_even (\<bar>float64_rat bits\<bar> * 100)))
   else \<exists>m. YuanToCent bits = Panic m"
proof (cases "float64_finite bits")
  case True
  define k where "k = half_even (\<bar>float64_rat bits\<bar> * 100)"
  have "0 \<le> k" unfolding k_def by (rule half_even_nonneg) simp
  let ?neg = "float64_sign bits = 1"
  obtain d where d: "NewFromString (sprintf_02f bits) = Inr d" "Decimal_wf d"
    "dec_rat d = (if ?neg then -1 else 1) * of_nat (nat k) * 10 powi (- 2)"
    using NewFromString_number [OF parse_cents [of "nat k"], of ?neg] True
    by (auto simp: sprintf_02f_def k_def Let_def)
  let ?p = "\<lparr>dvalue = Some (coeff d * 100), dexp = dexp d\<rparr>"
  have "Decimal_Mul d \<lparr>dvalue = Some 100, dexp = 0\<rparr> = Ret ?p"
    using d(2) by (simp add: Decimal_Mul_cases Decimal_wf_def)
  moreover have "dec_rat ?p = of_int ((if ?neg then -1 else 1) * k)"
    using dec_rat_Mul [OF calculation] \<open>0 \<le> k\<close> by (simp add: d(3) power_int_minus)
  ultimately show ?thesis
    using True d(1)
    by (simp add: YuanToCent_def MustNoErr_def NewFromString_100 Decimal_IntPart_int flip: k_def)
next
  case False
  have "NewFromString ''NaN'' = Inl (CannotConvert ''NaN'')"
    "NewFromString ''-Inf'' = Inl (CannotConvert ''-Inf'')"
    "NewFromString ''+Inf'' = Inl (CannotConvert ''+Inf'')" by code_simp+
  with False show ?thesis by (simp add: YuanToCent_def sprintf_02f_def MustNoErr_def)
qed

end
