(* ===== verification/Uuid.thy ===== *)
theory Uuid
  imports Octo_Prelude
begin

unbundle bit_operations_syntax

text \<open>
  \<^verbatim>\<open>pkg/util/uuid.go\<close>: the UUID type with its text, binary and database forms, the version and
  variant bits, and the generators.  A \<^verbatim>\<open>[16]byte\<close> is a list of sixteen \<^typ>\<open>8 word\<close>.  Time, the
  random source, the network interfaces and the two hash functions are arguments.  Shown are the
  round trips of the text forms, the shape of everything the parser accepts, the version and variant
  of generated UUIDs, and that version 1 UUIDs of one process do not repeat within 16384 calls.
\<close>

section \<open>The type\<close>

type_synonym byte = "8 word"
type_synonym UUID = "byte list"

definition uuid_wf :: "UUID \<Rightarrow> bool" where
  "uuid_wf u \<longleftrightarrow> length u = 16"

definition uuid_Nil :: UUID where
  "uuid_Nil = replicate 16 0"

definition uuid_And :: "UUID \<Rightarrow> UUID \<Rightarrow> UUID" where
  "uuid_And u1 u2 = map (\<lambda>i. u1 ! i AND u2 ! i) [0..<16]"

definition uuid_Or :: "UUID \<Rightarrow> UUID \<Rightarrow> UUID" where
  "uuid_Or u1 u2 = map (\<lambda>i. u1 ! i OR u2 ! i) [0..<16]"

definition uuid_Equal :: "UUID \<Rightarrow> UUID \<Rightarrow> bool" where
  "uuid_Equal u1 u2 \<longleftrightarrow> u1 = u2"

definition uuid_Version :: "UUID \<Rightarrow> nat" where
  "uuid_Version u = unat (drop_bit 4 (u ! 6))"

datatype uuid_variant = VariantNCS | VariantRFC4122 | VariantMicrosoft | VariantFuture

definition uuid_Variant :: "UUID \<Rightarrow> uuid_variant" where
  "uuid_Variant u =
     (if u ! 8 AND 0x80 = 0 then VariantNCS
      else if (u ! 8 AND 0xc0) OR 0x80 = 0x80 then VariantRFC4122
      else if (u ! 8 AND 0xe0) OR 0xc0 = 0xc0 then VariantMicrosoft
      else VariantFuture)"

definition uuid_Bytes :: "UUID \<Rightarrow> byte list" where
  "uuid_Bytes u = u"

definition SetVersion :: "UUID \<Rightarrow> byte \<Rightarrow> UUID" where
  "SetVersion u v = u[6 := (u ! 6 AND 0x0f) OR push_bit 4 v]"

definition SetVariant :: "UUID \<Rightarrow> UUID" where
  "SetVariant u = u[8 := (u ! 8 AND 0xbf) OR 0x80]"

section \<open>Text\<close>

text \<open>\<^verbatim>\<open>hex.Encode\<close> and \<^verbatim>\<open>hex.Decode\<close>; the decoder reports how many bytes it wrote before an invalid one.\<close>

fun hex_encode :: "byte list \<Rightarrow> string" where
  "hex_encode [] = []"
| "hex_encode (b # bs) = hex_char (unat b div 16) # hex_char (unat b mod 16) # hex_encode bs"

fun hex_decode :: "string \<Rightarrow> byte list \<times> char option" where
  "hex_decode (p # q # s) =
     (case hex_val p of None \<Rightarrow> ([], Some p)
      | Some a \<Rightarrow>
          (case hex_val q of None \<Rightarrow> ([], Some q)
           | Some b \<Rightarrow> let (bs, err) = hex_decode s in (of_nat (a * 16 + b) # bs, err)))"
| "hex_decode _ = ([], None)"

definition uuid_String :: "UUID \<Rightarrow> string" where
  "uuid_String u =
     hex_encode (take 4 u) @ ''-'' @
     hex_encode (take 2 (drop 4 u)) @ ''-'' @
     hex_encode (take 2 (drop 6 u)) @ ''-'' @
     hex_encode (take 2 (drop 8 u)) @ ''-'' @
     hex_encode (drop 10 u)"

definition uuid_MarshalText :: "UUID \<Rightarrow> string" where
  "uuid_MarshalText u = uuid_String u"

datatype uuid_error =
    StringTooShort string
  | StringTooLong string
  | InvalidFormat
  | InvalidByte char
  | NotSixteen nat
  | CannotScan

definition urnPrefix :: string where
  "urnPrefix = ''urn:uuid:''"

definition byteGroups :: "nat list" where
  "byteGroups = [8, 4, 4, 4, 12]"

definition index_msg :: string where
  "index_msg = ''index out of range''"

text \<open>
  The loop over \<^verbatim>\<open>byteGroups\<close>: \<^verbatim>\<open>i\<close> is the group, \<^verbatim>\<open>pos\<close> the offset of the slice \<^verbatim>\<open>b\<close> in the array and
  \<^verbatim>\<open>t\<close> the rest of the text.  \<^verbatim>\<open>t[0]\<close> panics on an empty rest; the receiver keeps what was decoded
  before an error.
\<close>

definition write_at :: "nat \<Rightarrow> byte list \<Rightarrow> UUID \<Rightarrow> UUID" where
  "write_at pos bs u = take pos u @ bs @ drop (pos + length bs) u"

fun unmarshal_groups ::
  "bool \<Rightarrow> string \<Rightarrow> nat list \<Rightarrow> nat \<Rightarrow> nat \<Rightarrow> string \<Rightarrow> UUID \<Rightarrow> (UUID \<times> uuid_error option) go" where
  "unmarshal_groups braced text [] i pos t u = Ret (u, None)"
| "unmarshal_groups braced text (byteGroup # groups) i pos t u =
     (if i > 0 \<and> t = [] then Panic index_msg
      else if i > 0 \<and> hd t \<noteq> CHR ''-'' then Ret (u, Some InvalidFormat)
      else let t = (if i > 0 then tl t else t)
           in if length t < byteGroup then Ret (u, Some (StringTooShort text))
              else if i = 4 \<and> length t > byteGroup \<and>
                      (braced \<and> t ! byteGroup \<noteq> CHR ''}'' \<or> length (drop byteGroup t) > 1 \<or> \<not> braced)
                   then Ret (u, Some (StringTooLong text))
                   else let (bs, err) = hex_decode (take byteGroup t);
                            u = write_at pos bs u
                        in case err of
                             Some c \<Rightarrow> Ret (u, Some (InvalidByte c))
                           | None \<Rightarrow> unmarshal_groups braced text groups (i + 1) (pos + byteGroup div 2)
                                       (drop byteGroup t) u)"

definition uuid_UnmarshalText :: "UUID \<Rightarrow> string \<Rightarrow> (UUID \<times> uuid_error option) go" where
  "uuid_UnmarshalText u text =
     (if length text < 32 then Ret (u, Some (StringTooShort text))
      else let (t, braced) =
                 (if take 9 text = urnPrefix then (drop 9 text, False)
                  else if hd text = CHR ''{'' then (tl text, True)
                  else (text, False))
           in unmarshal_groups braced text byteGroups 0 0 t u)"

definition uuid_MarshalBinary :: "UUID \<Rightarrow> byte list" where
  "uuid_MarshalBinary u = uuid_Bytes u"

definition uuid_UnmarshalBinary :: "UUID \<Rightarrow> byte list \<Rightarrow> UUID \<times> uuid_error option" where
  "uuid_UnmarshalBinary u data =
     (if length data \<noteq> 16 then (u, Some (NotSixteen (length data))) else (data, None))"

section \<open>Databases\<close>

datatype uuid_src = SrcBytes "byte list" | SrcString string | SrcNil | SrcOther

definition bytes_text :: "byte list \<Rightarrow> string" where
  "bytes_text bs = map (\<lambda>b. char_of (unat b)) bs"

definition uuid_Value :: "UUID \<Rightarrow> uuid_src" where
  "uuid_Value u = SrcString (uuid_String u)"

definition uuid_Scan :: "UUID \<Rightarrow> uuid_src \<Rightarrow> (UUID \<times> uuid_error option) go" where
  "uuid_Scan u src =
     (case src of
        SrcBytes b \<Rightarrow> if length b = 16 then Ret (uuid_UnmarshalBinary u b)
                      else uuid_UnmarshalText u (bytes_text b)
      | SrcString s \<Rightarrow> uuid_UnmarshalText u s
      | _ \<Rightarrow> Ret (u, Some CannotScan))"

record NullUUID =
  nu_UUID :: UUID
  nu_Valid :: bool

definition NullUUID_Value :: "NullUUID \<Rightarrow> uuid_src" where
  "NullUUID_Value u = (if \<not> nu_Valid u then SrcNil else uuid_Value (nu_UUID u))"

definition NullUUID_Scan :: "NullUUID \<Rightarrow> uuid_src \<Rightarrow> (NullUUID \<times> uuid_error option) go" where
  "NullUUID_Scan u src =
     (if src = SrcNil then Ret (u\<lparr>nu_UUID := uuid_Nil, nu_Valid := False\<rparr>, None)
      else go_bind (uuid_Scan (nu_UUID u) src) (\<lambda>(v, err).
             Ret (u\<lparr>nu_UUID := v, nu_Valid := True\<rparr>, err)))"

definition uuid_FromBytes :: "byte list \<Rightarrow> UUID \<times> uuid_error option" where
  "uuid_FromBytes input = uuid_UnmarshalBinary uuid_Nil input"

definition FromBytesOrNil :: "byte list \<Rightarrow> UUID" where
  "FromBytesOrNil input =
     (let (uuid, err) = uuid_FromBytes input in if err \<noteq> None then uuid_Nil else uuid)"

definition uuid_FromString :: "string \<Rightarrow> (UUID \<times> uuid_error option) go" where
  "uuid_FromString input = uuid_UnmarshalText uuid_Nil input"

definition FromStringOrNil :: "string \<Rightarrow> UUID go" where
  "FromStringOrNil input =
     go_bind (uuid_FromString input) (\<lambda>(uuid, err). Ret (if err \<noteq> None then uuid_Nil else uuid))"

section \<open>Generators\<close>

text \<open>\<^verbatim>\<open>binary.BigEndian\<close>: byte \<open>k\<close> of a word, counted from the least significant one.\<close>

definition byte_of :: "nat \<Rightarrow> 'a::len word \<Rightarrow> byte" where
  "byte_of k w = ucast (drop_bit (8 * k) w)"

record uuid_storage =
  st_once :: bool
  clockSequence :: "16 word"
  lastTime :: "64 word"
  hardwareAddr :: "byte list"

definition uuid_storage_init :: uuid_storage where
  "uuid_storage_init = \<lparr>st_once = False, clockSequence = 0, lastTime = 0, hardwareAddr = replicate 6 0\<rparr>"

text \<open>
  \<^verbatim>\<open>initStorage\<close> reads two random bytes, asks for the interfaces (\<^term>\<open>None\<close> when that fails) and falls
  back on six random bytes; \<^verbatim>\<open>safeRandom\<close> panics when the random source fails.
\<close>

definition rand_msg :: string where
  "rand_msg = ''crypto/rand''"

definition safeRandom :: "nat \<Rightarrow> (nat \<Rightarrow> byte list option) \<Rightarrow> byte list go" where
  "safeRandom n rnd = (case rnd n of None \<Rightarrow> Panic rand_msg | Some bs \<Rightarrow> Ret bs)"

definition initClockSequence :: "(nat \<Rightarrow> byte list option) \<Rightarrow> uuid_storage \<Rightarrow> uuid_storage go" where
  "initClockSequence rnd st =
     go_bind (safeRandom 2 rnd) (\<lambda>buf.
       Ret (st\<lparr>clockSequence := push_bit 8 (ucast (buf ! 0)) OR ucast (buf ! 1)\<rparr>))"

definition initHardwareAddr ::
  "(nat \<Rightarrow> byte list option) \<Rightarrow> byte list list option \<Rightarrow> uuid_storage \<Rightarrow> uuid_storage go" where
  "initHardwareAddr rnd interfaces st =
     (case find (\<lambda>addr. length addr \<ge> 6) (case interfaces of None \<Rightarrow> [] | Some ifs \<Rightarrow> ifs) of
        Some addr \<Rightarrow> Ret (st\<lparr>hardwareAddr := take 6 addr\<rparr>)
      | None \<Rightarrow> go_bind (safeRandom 6 rnd) (\<lambda>bs.
                  Ret (st\<lparr>hardwareAddr := bs[0 := bs ! 0 OR 1]\<rparr>)))"

definition initStorage ::
  "(nat \<Rightarrow> byte list option) \<Rightarrow> byte list list option \<Rightarrow> uuid_storage \<Rightarrow> uuid_storage go" where
  "initStorage rnd interfaces st =
     go_bind (initClockSequence rnd st) (initHardwareAddr rnd interfaces)"

text \<open>The part of \<^verbatim>\<open>getStorage\<close> under the mutex, at the time \<^verbatim>\<open>timeNow\<close> that \<^verbatim>\<open>epochFunc\<close> returns.\<close>

definition getStorage_locked :: "64 word \<Rightarrow> uuid_storage \<Rightarrow> uuid_storage" where
  "getStorage_locked timeNow st =
     (let st = (if timeNow \<le> lastTime st then st\<lparr>clockSequence := clockSequence st + 1\<rparr> else st)
      in st\<lparr>lastTime := timeNow\<rparr>)"

definition getStorage ::
  "(nat \<Rightarrow> byte list option) \<Rightarrow> byte list list option \<Rightarrow> 64 word \<Rightarrow> uuid_storage \<Rightarrow> uuid_storage go" where
  "getStorage rnd interfaces timeNow st =
     go_bind (if st_once st then Ret st else initStorage rnd interfaces (st\<lparr>st_once := True\<rparr>))
       (\<lambda>st. Ret (getStorage_locked timeNow st))"

definition unixTimeFunc :: "int \<Rightarrow> 64 word" where
  "unixTimeFunc unixNano = 122192928000000000 + word_of_int (quo unixNano 100)"

definition uuid_v1 :: "64 word \<Rightarrow> 16 word \<Rightarrow> byte list \<Rightarrow> UUID" where
  "uuid_v1 timeNow clockSeq addr =
     SetVariant (SetVersion
       ([byte_of 3 timeNow, byte_of 2 timeNow, byte_of 1 timeNow, byte_of 0 timeNow,
         byte_of 5 timeNow, byte_of 4 timeNow, byte_of 7 timeNow, byte_of 6 timeNow,
         byte_of 1 clockSeq, byte_of 0 clockSeq] @ addr) 1)"

definition NewV1 ::
  "(nat \<Rightarrow> byte list option) \<Rightarrow> byte list list option \<Rightarrow> 64 word \<Rightarrow> uuid_storage \<Rightarrow> (UUID \<times> uuid_storage) go" where
  "NewV1 rnd interfaces now st =
     go_bind (getStorage rnd interfaces now st) (\<lambda>st.
       Ret (uuid_v1 (lastTime st) (clockSequence st) (hardwareAddr st), st))"

definition uuid_v2 :: "nat \<Rightarrow> 32 word \<Rightarrow> 32 word \<Rightarrow> 64 word \<Rightarrow> 16 word \<Rightarrow> byte list \<Rightarrow> UUID" where
  "uuid_v2 domain posixUID posixGID timeNow clockSeq addr =
     (let local_id = (if domain = 0 then posixUID else if domain = 1 then posixGID else 0)
      in SetVariant (SetVersion
       ([byte_of 3 local_id, byte_of 2 local_id, byte_of 1 local_id, byte_of 0 local_id,
         byte_of 5 timeNow, byte_of 4 timeNow, byte_of 7 timeNow, byte_of 6 timeNow,
         byte_of 1 clockSeq, of_nat domain] @ addr) 2))"

definition NewV2 ::
  "(nat \<Rightarrow> byte list option) \<Rightarrow> byte list list option \<Rightarrow> 32 word \<Rightarrow> 32 word \<Rightarrow> nat \<Rightarrow> 64 word \<Rightarrow>
   uuid_storage \<Rightarrow> (UUID \<times> uuid_storage) go" where
  "NewV2 rnd interfaces posixUID posixGID domain now st =
     go_bind (getStorage rnd interfaces now st) (\<lambda>st.
       Ret (uuid_v2 domain posixUID posixGID (lastTime st) (clockSequence st) (hardwareAddr st), st))"

text \<open>\<^verbatim>\<open>copy(u[:], h.Sum(nil))\<close> keeps the first sixteen bytes of the digest, which has 16 or 20.\<close>

definition newFromHash :: "(byte list \<Rightarrow> byte list) \<Rightarrow> UUID \<Rightarrow> byte list \<Rightarrow> UUID" where
  "newFromHash hash ns name = (let sum = hash (ns @ name) in take 16 sum @ drop (length sum) uuid_Nil)"

definition NewV3 :: "(byte list \<Rightarrow> byte list) \<Rightarrow> UUID \<Rightarrow> byte list \<Rightarrow> UUID" where
  "NewV3 md5 ns name = SetVariant (SetVersion (newFromHash md5 ns name) 3)"

definition NewV4 :: "(nat \<Rightarrow> byte list option) \<Rightarrow> UUID go" where
  "NewV4 rnd = go_bind (safeRandom 16 rnd) (\<lambda>bs. Ret (SetVariant (SetVersion bs 4)))"

definition NewV5 :: "(byte list \<Rightarrow> byte list) \<Rightarrow> UUID \<Rightarrow> byte list \<Rightarrow> UUID" where
  "NewV5 sha1 ns name = SetVariant (SetVersion (newFromHash sha1 ns name) 5)"

section \<open>Hexadecimal text\<close>

lemma hex_val_less: "hex_val c = Some n \<Longrightarrow> n < 16"
  by (auto simp: hex_val_def Let_def split: if_splits)

lemma lower_hex: "hex_val c = Some n \<Longrightarrow> hex_char n = lower_char c"
  by (auto simp: hex_val_def hex_char_def lower_char_def Let_def split: if_splits)

lemma length_hex_encode [simp]: "length (hex_encode bs) = 2 * length bs"
  by (induction bs) simp_all

lemma of_nat_nibbles: "of_nat (unat b div 16 * 16 + unat b mod 16) = (b :: byte)"
  by (simp only: div_mult_mod_eq) simp

lemma hex_decode_encode [simp]: "hex_decode (hex_encode bs) = (bs, None)"
proof (induction bs)
  case (Cons b bs)
  have "unat b div 16 < 16" using unsigned_less [of b, where 'a = nat] by (simp add: less_mult_imp_div_less)
  with Cons show ?case
    by (simp add: hex_val_hex_char of_nat_nibbles del: of_nat_add of_nat_mult)
qed simp

lemma hex_decode_sound:
  "hex_decode s = (bs, None) \<Longrightarrow> even (length s) \<Longrightarrow> ToLower s = hex_encode bs \<and> length s = 2 * length bs"
proof (induction s arbitrary: bs rule: hex_decode.induct)
  case (1 p q s)
  then obtain a b cs where ab: "hex_val p = Some a" "hex_val q = Some b" "hex_decode s = (cs, None)"
    "bs = of_nat (a * 16 + b) # cs"
    by (auto split: option.splits prod.splits)
  have lt: "a < 16" "b < 16" using ab hex_val_less by auto
  then have "unat (of_nat (a * 16 + b) :: byte) = a * 16 + b"
    by (simp add: unat_of_nat del: of_nat_add of_nat_mult)
  moreover have "ToLower s = hex_encode cs \<and> length s = 2 * length cs"
    using "1.IH" [OF ab(1,2,3)] "1.prems"(2) by simp
  ultimately show ?case
    using lt ab(4) lower_hex [OF ab(1)] lower_hex [OF ab(2)]
    by (simp del: of_nat_add of_nat_mult)
qed simp_all

section \<open>Parsing the text form\<close>

lemma write_at_append [simp]: "write_at (length p) bs (p @ r) = (p @ bs) @ drop (length bs) r"
  by (simp add: write_at_def)

lemma unmarshal_group_step:
  assumes "g = 2 * length bs" and "i = 0 \<longrightarrow> sep = []" and "i \<noteq> 0 \<longrightarrow> sep = ''-''"
    and "i = 4 \<longrightarrow> rest = [] \<or> braced \<and> rest = ''}''"
  shows "unmarshal_groups braced text (g # gs) i (length p) (sep @ hex_encode bs @ rest) (p @ r)
    = unmarshal_groups braced text gs (i + 1) (length (p @ bs)) rest ((p @ bs) @ drop (length bs) r)"
  using assms by (auto simp: Let_def nth_append simp del: append_assoc)

lemma unmarshal_group_inv:
  assumes "unmarshal_groups braced text (g # gs) i (length p) t (p @ r) = Ret (v, None)" and "even g"
    and j: "j = i + 1" and sep: "sep = (if i = 0 then [] else ''-'')"
  shows "\<exists>bs t' rest. t = sep @ t' @ rest \<and> ToLower t' = hex_encode bs \<and> g = 2 * length bs
    \<and> (i = 4 \<longrightarrow> rest = [] \<or> braced \<and> rest = ''}'')
    \<and> unmarshal_groups braced text gs j (length (p @ bs)) rest ((p @ bs) @ drop (length bs) r) = Ret (v, None)"
proof -
  let ?t = "if i = 0 then t else tl t"
  have t: "t = (if i = 0 then [] else ''-'') @ ?t"
    using assms(1) by (cases t) (auto split: if_splits)
  obtain bs err where d: "hex_decode (take g ?t) = (bs, err)" by fastforce
  have len: "g \<le> length ?t"
    using assms(1) by (auto split: if_splits simp: Let_def)
  have err: "err = None"
    using assms(1) d len by (auto split: if_splits option.splits simp: Let_def)
  have s: "ToLower (take g ?t) = hex_encode bs" "g = 2 * length bs"
    using hex_decode_sound [of "take g ?t" bs] d err len assms(2) by auto
  have "i = 4 \<longrightarrow> drop g ?t = [] \<or> braced \<and> drop g ?t = ''}''"
  proof (intro impI, rule disj_imp [THEN iffD2, rule_format])
    assume i: "i = 4" and ne: "drop g ?t \<noteq> []"
    then have "braced \<and> ?t ! g = CHR ''}'' \<and> length (drop g ?t) = 1"
      using assms(1) len d by (auto split: if_splits simp: Let_def)
    then show "braced \<and> drop g ?t = ''}''"
      by (cases "drop g ?t") (auto simp: nth_via_drop)
  qed
  moreover have "unmarshal_groups braced text gs (i + 1) (length (p @ bs)) (drop g ?t)
      ((p @ bs) @ drop (length bs) r) = Ret (v, None)"
    using assms(1) d err s(2) len by (auto split: if_splits simp: Let_def simp del: append_assoc)
  moreover have "t = (if i = 0 then [] else ''-'') @ take g ?t @ drop g ?t"
    using t by simp
  ultimately show ?thesis
    using s unfolding j sep by blast
qed

declare unmarshal_groups.simps(2) [simp del]

definition uuid_decoration :: "string \<Rightarrow> string \<Rightarrow> bool" where
  "uuid_decoration pre post \<longleftrightarrow>
     (pre, post) \<in> {([], []), (urnPrefix, []), (''{'', ''}''), (''{'', [])}"

lemma uuid_groups:
  "u = (((take 4 u @ take 2 (drop 4 u)) @ take 2 (drop 6 u)) @ take 2 (drop 8 u)) @ drop 10 u"
  using take_add [of 4 2 u, symmetric] take_add [of 6 2 u, symmetric] take_add [of 8 2 u, symmetric]
  by simp

lemma unmarshal_groups_String:
  assumes u: "length u = 16" and "length old = 16" and "post = [] \<or> braced \<and> post = ''}''"
  shows "unmarshal_groups braced text byteGroups 0 0 (uuid_String u @ post) old = Ret (u, None)"
proof -
  define g1 g2 g3 g4 g5 where g: "g1 = take 4 u" "g2 = take 2 (drop 4 u)" "g3 = take 2 (drop 6 u)"
    "g4 = take 2 (drop 8 u)" "g5 = drop 10 u"
  have len: "length g1 = 4" "length g2 = 2" "length g3 = 2" "length g4 = 2" "length g5 = 6"
    using u by (simp_all add: g)
  have cat: "u = (((g1 @ g2) @ g3) @ g4) @ g5"
    unfolding g by (rule uuid_groups)
  define t5 t4 t3 t2 t1 where t: "t5 = ''-'' @ hex_encode g5 @ post" "t4 = ''-'' @ hex_encode g4 @ t5"
    "t3 = ''-'' @ hex_encode g3 @ t4" "t2 = ''-'' @ hex_encode g2 @ t3" "t1 = [] @ hex_encode g1 @ t2"
  note step = unmarshal_group_step [of _ _ _ _ _ braced "text"]
  have "unmarshal_groups braced text [8, 4, 4, 4, 12] 0 (length ([] :: byte list)) t1 ([] @ old)
      = unmarshal_groups braced text [4, 4, 4, 12] (0 + 1) (length ([] @ g1)) t2 (([] @ g1) @ drop (length g1) old)"
    unfolding t(5) by (rule step) (simp_all add: len)
  also have "\<dots> = unmarshal_groups braced text [4, 4, 12] (0 + 1 + 1) (length (([] @ g1) @ g2)) t3
      ((([] @ g1) @ g2) @ drop (length g2) (drop (length g1) old))"
    unfolding t(4) by (rule step) (simp_all add: len)
  also have "\<dots> = unmarshal_groups braced text [4, 12] (0 + 1 + 1 + 1) (length ((([] @ g1) @ g2) @ g3)) t4
      (((([] @ g1) @ g2) @ g3) @ drop (length g3) (drop (length g2) (drop (length g1) old)))"
    unfolding t(3) by (rule step) (simp_all add: len)
  also have "\<dots> = unmarshal_groups braced text [12] (0 + 1 + 1 + 1 + 1) (length (((([] @ g1) @ g2) @ g3) @ g4)) t5
      ((((([] @ g1) @ g2) @ g3) @ g4) @ drop (length g4) (drop (length g3) (drop (length g2) (drop (length g1) old))))"
    unfolding t(2) by (rule step) (simp_all add: len)
  also have "\<dots> = unmarshal_groups braced text [] (0 + 1 + 1 + 1 + 1 + 1)
      (length ((((([] @ g1) @ g2) @ g3) @ g4) @ g5)) post
      (((((([] @ g1) @ g2) @ g3) @ g4) @ g5) @
        drop (length g5) (drop (length g4) (drop (length g3) (drop (length g2) (drop (length g1) old)))))"
    unfolding t(1) by (rule step) (simp_all add: len assms(3))
  also have "\<dots> = Ret (u, None)"
    using cat by (simp add: len assms(2))
  finally show ?thesis
    by (simp add: byteGroups_def uuid_String_def t g del: unmarshal_groups.simps)
qed

lemma hex_encode_chars: "c \<in> set (hex_encode bs) \<Longrightarrow> hex_val c \<noteq> None"
proof (induction bs)
  case (Cons b bs)
  have "unat b div 16 < 16" using unsigned_less [of b, where 'a = nat] by (simp add: less_mult_imp_div_less)
  with Cons show ?case by (auto simp: hex_val_hex_char)
qed simp

lemma length_uuid_String: "length u = 16 \<Longrightarrow> length (uuid_String u) = 36"
  by (simp add: uuid_String_def)

lemma uuid_String_head:
  assumes "length u = 16"
  shows "take 9 (uuid_String u @ s) \<noteq> urnPrefix" "hd (uuid_String u @ s) \<noteq> CHR ''{''"
proof -
  obtain b bs where b: "u = b # bs" using assms by (cases u) auto
  let ?c = "hd (uuid_String u @ s)"
  have "?c \<in> set (hex_encode [b])" by (simp add: uuid_String_def b)
  then have "hex_val ?c \<noteq> None" by (rule hex_encode_chars)
  moreover have "hex_val (CHR ''u'') = None" "hex_val (CHR ''{'') = None" by (simp_all add: hex_val_def)
  ultimately have c: "?c \<noteq> CHR ''u''" "?c \<noteq> CHR ''{''" by auto
  then show "hd (uuid_String u @ s) \<noteq> CHR ''{''" by simp
  show "take 9 (uuid_String u @ s) \<noteq> urnPrefix"
    using c(1) by (cases "uuid_String u @ s") (auto simp: urnPrefix_def)
qed

text \<open>
  a UUID is read back from each of the supported text forms, canonical, in braces or as an URN,
  whatever the receiver held before.
\<close>

theorem uuid_text_roundtrip:
  assumes "uuid_wf u" and "uuid_wf old" and "uuid_decoration pre post"
  shows "uuid_UnmarshalText old (pre @ uuid_String u @ post) = Ret (u, None)"
proof -
  have u: "length u = 16" and old: "length old = 16" using assms by (simp_all add: uuid_wf_def)
  consider "pre = []" "post = []" | "pre = urnPrefix" "post = []" | "pre = ''{''" "post = [] \<or> post = ''}''"
    using assms(3) by (auto simp: uuid_decoration_def)
  then show ?thesis
  proof cases
    case 1
    then show ?thesis
      using uuid_String_head [OF u, of "[]"] unmarshal_groups_String [OF u old, of "[]"]
      by (simp add: uuid_UnmarshalText_def length_uuid_String [OF u])
  next
    case 2
    then show ?thesis
      using unmarshal_groups_String [OF u old, of "[]"]
      by (simp add: uuid_UnmarshalText_def length_uuid_String [OF u] urnPrefix_def)
  next
    case 3
    then show ?thesis
      using unmarshal_groups_String [OF u old, of post True]
      by (auto simp: uuid_UnmarshalText_def length_uuid_String [OF u] urnPrefix_def)
  qed
qed

theorem uuid_text_roundtrip_witness:
  "uuid_UnmarshalText uuid_Nil (''{'' @ uuid_String (replicate 16 0xab) @ ''}'') = Ret (replicate 16 0xab, None)"
  by (rule uuid_text_roundtrip) (simp_all add: uuid_wf_def uuid_Nil_def uuid_decoration_def)

lemma unmarshal_groups_sound:
  assumes run: "unmarshal_groups braced text byteGroups 0 0 t old = Ret (v, None)" and old: "length old = 16"
  shows "\<exists>post. length v = 16 \<and> ToLower t = uuid_String v @ post \<and> (post = [] \<or> braced \<and> post = ''}'')"
proof -
  have this0: "unmarshal_groups braced text [8, 4, 4, 4, 12] 0 (length ([] :: byte list)) t ([] @ old) = Ret (v, None)"
    using run by (simp add: byteGroups_def)
  have ev: "even (4 :: nat)" "even (12 :: nat)"
    and nxt: "2 = 1 + (1 :: nat)" "3 = 2 + (1 :: nat)" "4 = 3 + (1 :: nat)" "5 = 4 + (1 :: nat)"
    and dash: "''-'' = (if (1 :: nat) = 0 then [] else ''-'')" "''-'' = (if (2 :: nat) = 0 then [] else ''-'')"
      "''-'' = (if (3 :: nat) = 0 then [] else ''-'')" "''-'' = (if (4 :: nat) = 0 then [] else ''-'')"
    by simp_all
  from unmarshal_group_inv [OF this0, of 1 "[]"] obtain g1 t1 r1 where
    1: "t = t1 @ r1" "ToLower t1 = hex_encode g1" "8 = 2 * length g1" and
    run1: "unmarshal_groups braced text [4, 4, 4, 12] 1 (length g1) r1 (g1 @ drop (length g1) old) = Ret (v, None)"
    by auto
  from unmarshal_group_inv [OF run1 ev(1) nxt(1) dash(1)] obtain g2 t2 r2 where
    2: "r1 = ''-'' @ t2 @ r2" "ToLower t2 = hex_encode g2" "4 = 2 * length g2" and
    run2: "unmarshal_groups braced text [4, 4, 12] 2 (length (g1 @ g2)) r2
       ((g1 @ g2) @ drop (length g2) (drop (length g1) old)) = Ret (v, None)"
    by blast
  from unmarshal_group_inv [OF run2 ev(1) nxt(2) dash(2)] obtain g3 t3 r3 where
    3: "r2 = ''-'' @ t3 @ r3" "ToLower t3 = hex_encode g3" "4 = 2 * length g3" and
    run3: "unmarshal_groups braced text [4, 12] 3 (length ((g1 @ g2) @ g3)) r3
       (((g1 @ g2) @ g3) @ drop (length g3) (drop (length g2) (drop (length g1) old))) = Ret (v, None)"
    by blast
  from unmarshal_group_inv [OF run3 ev(1) nxt(3) dash(3)] obtain g4 t4 r4 where
    4: "r3 = ''-'' @ t4 @ r4" "ToLower t4 = hex_encode g4" "4 = 2 * length g4" and
    run4: "unmarshal_groups braced text [12] 4 (length (((g1 @ g2) @ g3) @ g4)) r4
       ((((g1 @ g2) @ g3) @ g4) @ drop (length g4) (drop (length g3) (drop (length g2) (drop (length g1) old))))
       = Ret (v, None)"
    by blast
  from unmarshal_group_inv [OF run4 ev(2) nxt(4) dash(4)] obtain g5 t5 r5 where
    5: "r4 = ''-'' @ t5 @ r5" "ToLower t5 = hex_encode g5" "12 = 2 * length g5"
    "r5 = [] \<or> braced \<and> r5 = ''}''" and
    run5: "unmarshal_groups braced text [] 5 (length ((((g1 @ g2) @ g3) @ g4) @ g5)) r5
       (((((g1 @ g2) @ g3) @ g4) @ g5) @
         drop (length g5) (drop (length g4) (drop (length g3) (drop (length g2) (drop (length g1) old))))) = Ret (v, None)"
    by blast
  have len: "length g1 = 4" "length g2 = 2" "length g3 = 2" "length g4 = 2" "length g5 = 6"
    using 1(3) 2(3) 3(3) 4(3) 5(3) by auto
  then have v: "v = g1 @ g2 @ g3 @ g4 @ g5" using run5 old by simp
  have "ToLower t = uuid_String v @ r5"
  proof -
    have "ToLower r5 = r5" using 5(4) by (auto simp: lower_char_def)
    then have "ToLower t = hex_encode g1 @ ''-'' @ hex_encode g2 @ ''-'' @ hex_encode g3 @ ''-''
        @ hex_encode g4 @ ''-'' @ hex_encode g5 @ r5"
      by (simp add: 1(1,2) 2(1,2) 3(1,2) 4(1,2) 5(1,2) lower_char_def)
    then show ?thesis by (simp add: v uuid_String_def len)
  qed
  moreover have "length v = 16" using v len by simp
  ultimately show ?thesis using 5(4) by blast
qed

text \<open>
  the parser accepts nothing else: a text accepted without error is, up to the case of its
  letters, the canonical form of the UUID it returns, alone, as an URN, or after an opening brace
  (with or without the closing one).
\<close>

theorem uuid_UnmarshalText_sound:
  assumes "uuid_UnmarshalText old input = Ret (v, None)" and "uuid_wf old"
  shows "uuid_wf v \<and> (\<exists>pre post. uuid_decoration pre post \<and> ToLower input = pre @ uuid_String v @ post)"
proof -
  have old: "length old = 16" using assms(2) by (simp add: uuid_wf_def)
  have len: "32 \<le> length input"
    using assms(1) by (auto simp: uuid_UnmarshalText_def split: if_splits)
  consider "take 9 input = urnPrefix" "unmarshal_groups False input byteGroups 0 0 (drop 9 input) old = Ret (v, None)"
    | "hd input = CHR ''{''" "unmarshal_groups True input byteGroups 0 0 (tl input) old = Ret (v, None)"
    | "unmarshal_groups False input byteGroups 0 0 input old = Ret (v, None)"
    using assms(1) by (auto simp: uuid_UnmarshalText_def Let_def split: if_splits)
  then show ?thesis
  proof cases
    case 1
    have "ToLower input = ToLower (take 9 input) @ ToLower (drop 9 input)"
      by (simp only: ToLower_simps(3) [symmetric] append_take_drop_id)
    moreover have "ToLower urnPrefix = urnPrefix" by (simp add: urnPrefix_def lower_char_def)
    moreover obtain post where "length v = 16" "ToLower (drop 9 input) = uuid_String v @ post" "post = []"
      using unmarshal_groups_sound [OF 1(2) old] by blast
    ultimately have "ToLower input = urnPrefix @ uuid_String v @ []" "uuid_wf v"
      using 1(1) by (simp_all add: uuid_wf_def)
    then show ?thesis unfolding uuid_decoration_def by blast
  next
    case 2
    have "ToLower input = ''{'' @ ToLower (tl input)"
      using 2(1) len by (cases input) (auto simp: lower_char_def)
    moreover obtain post where "length v = 16" "ToLower (tl input) = uuid_String v @ post" "post = [] \<or> post = ''}''"
      using unmarshal_groups_sound [OF 2(2) old] by blast
    ultimately have "ToLower input = ''{'' @ uuid_String v @ post" "uuid_wf v" "uuid_decoration ''{'' post"
      by (auto simp add: uuid_wf_def uuid_decoration_def)
    then show ?thesis by blast
  next
    case 3
    then obtain post where "length v = 16" "ToLower input = uuid_String v @ post" "post = []"
      using unmarshal_groups_sound [OF 3 old] by blast
    then have "ToLower input = [] @ uuid_String v @ []" "uuid_wf v" by (simp_all add: uuid_wf_def)
    then show ?thesis unfolding uuid_decoration_def by blast
  qed
qed

theorem uuid_UnmarshalText_sound_witness:
  "uuid_wf (replicate 16 0x2a) \<and> (\<exists>pre post. uuid_decoration pre post \<and>
     ToLower ''{2A2A2A2A-2a2a-2a2a-2a2a-2a2a2a2a2a2a'' = pre @ uuid_String (replicate 16 0x2a) @ post)"
  by (rule uuid_UnmarshalText_sound [of uuid_Nil]) (code_simp, simp add: uuid_wf_def uuid_Nil_def)

text \<open>
  A text of 32 characters that stops after the fourth group of an URN makes the parser index an
  empty slice.
\<close>

lemma uuid_UnmarshalText_panics:
  "uuid_UnmarshalText uuid_Nil ''urn:uuid:6ba7b810-9dad-11d1-80b4'' = Panic index_msg"
  by code_simp

section \<open>Version and variant\<close>

declare bit_numeral_word_iff [simp del]

lemma bit_byte_consts:
  "bit (0x0f :: byte) i \<longleftrightarrow> i < 4"
  "bit (0xbf :: byte) i \<longleftrightarrow> i < 8 \<and> i \<noteq> 6"
  "bit (0x80 :: byte) i \<longleftrightarrow> i = 7"
  "bit (0xc0 :: byte) i \<longleftrightarrow> i = 6 \<or> i = 7"
  "bit (0x10 :: byte) i \<longleftrightarrow> i = 4"
proof -
  have *: "(0x0f :: byte) = mask 4" "(0xbf :: byte) = mask 8 AND NOT (2 ^ 6)" "(0x80 :: byte) = 2 ^ 7"
    "(0xc0 :: byte) = 2 ^ 6 OR 2 ^ 7" "(0x10 :: byte) = 2 ^ 4"
    by (simp_all add: mask_eq_exp_minus_1)
  show "bit (0x0f :: byte) i \<longleftrightarrow> i < 4" "bit (0xbf :: byte) i \<longleftrightarrow> i < 8 \<and> i \<noteq> 6"
    "bit (0x80 :: byte) i \<longleftrightarrow> i = 7" "bit (0xc0 :: byte) i \<longleftrightarrow> i = 6 \<or> i = 7"
    "bit (0x10 :: byte) i \<longleftrightarrow> i = 4"
    unfolding * by (auto simp add: bit_simps simp del: power_numeral Num.pow.simps)
qed

lemmas byte_bits = bit_and_iff bit_or_iff bit_byte_consts

lemma bit_word_less: "unat v < 2 ^ k \<Longrightarrow> bit v n \<Longrightarrow> n < k" for v :: "'a::len word"
proof -
  assume "unat v < 2 ^ k" "bit v n"
  then have "take_bit k (unat v) = unat v" by (intro take_bit_nat_eq_self)
  moreover have "bit (unat v) n" using \<open>bit v n\<close> by (simp add: bit_simps)
  ultimately show "n < k" by (metis bit_take_bit_iff)
qed

lemma length_SetVersion [simp]: "length (SetVersion u v) = length u"
  and length_SetVariant [simp]: "length (SetVariant u) = length u"
  by (simp_all add: SetVersion_def SetVariant_def)

lemma version_nibble: "v < 16 \<Longrightarrow> drop_bit 4 ((b AND 0x0f) OR push_bit 4 v) = (v :: byte)"
proof (rule bit_word_eqI)
  fix n assume v: "v < 16" and n: "n < LENGTH(8)"
  have "bit v n \<Longrightarrow> n < 4" using bit_word_less [of v 4 n] v by (simp add: word_less_nat_alt)
  with n show "bit (drop_bit 4 ((b AND 0x0f) OR push_bit 4 v)) n \<longleftrightarrow> bit v n"
    by (auto simp: bit_simps bit_byte_consts)
qed

lemma Version_SetVersion:
  assumes "6 < length u" "v < 16"
  shows "uuid_Version (SetVariant (SetVersion u v)) = unat v"
proof -
  have "SetVariant (SetVersion u v) ! 6 = (u ! 6 AND 0x0f) OR push_bit 4 v"
    using assms(1) by (simp add: SetVariant_def SetVersion_def)
  then show ?thesis by (simp only: uuid_Version_def version_nibble [OF assms(2)])
qed

lemma variant_bits: "(((b AND 0xbf) OR 0x80) AND 0xc0) OR 0x80 = (0x80 :: byte)"
  by (rule bit_word_eqI) (auto simp: byte_bits)

lemma Variant_SetVariant:
  assumes "8 < length u"
  shows "uuid_Variant (SetVariant u) = VariantRFC4122"
proof -
  have "((u ! 8 AND 0xbf) OR 0x80) AND 0x80 \<noteq> (0 :: byte)"
  proof
    assume "((u ! 8 AND 0xbf) OR 0x80) AND 0x80 = (0 :: byte)"
    then have "\<not> bit (((u ! 8 AND 0xbf) OR 0x80) AND 0x80) 7" by simp
    then show False by (simp add: byte_bits)
  qed
  with assms variant_bits [of "u ! 8"] show ?thesis
    by (simp add: uuid_Variant_def SetVariant_def)
qed

text \<open>
  What the generators rely on: the random source fills the slice it is given, an interface address is
  copied whole, MD5 and SHA-1 digests have 16 and 20 bytes.
\<close>

definition rand_ok :: "(nat \<Rightarrow> byte list option) \<Rightarrow> bool" where
  "rand_ok rnd \<longleftrightarrow> (\<forall>n\<in>{2, 6, 16}. case rnd n of None \<Rightarrow> True | Some bs \<Rightarrow> length bs = n)"

lemma rand_ok_length: "rand_ok rnd \<Longrightarrow> n \<in> {2, 6, 16} \<Longrightarrow> rnd n = Some bs \<Longrightarrow> length bs = n"
  by (fastforce simp: rand_ok_def)

definition uuid_tagged :: "UUID \<Rightarrow> nat \<Rightarrow> bool" where
  "uuid_tagged u v \<longleftrightarrow> uuid_wf u \<and> uuid_Version u = v \<and> uuid_Variant u = VariantRFC4122"

lemma uuid_tagged_Set:
  "length u = 16 \<Longrightarrow> v < 16 \<Longrightarrow> uuid_tagged (SetVariant (SetVersion u v)) (unat v)"
  by (simp add: uuid_tagged_def uuid_wf_def Version_SetVersion Variant_SetVariant)

lemma getStorage_addr:
  assumes "rand_ok rnd" "length (hardwareAddr st) = 6" "getStorage rnd ifs now st = Ret st'"
  shows "length (hardwareAddr st') = 6"
proof -
  have i: "length (hardwareAddr s') = 6" if "initStorage rnd ifs s = Ret s'" for s s'
  proof -
    from that have "\<exists>s1. initHardwareAddr rnd ifs s1 = Ret s'"
      unfolding initStorage_def go_bind_eq_Ret by blast
    then obtain s1 where "initHardwareAddr rnd ifs s1 = Ret s'" ..
    then show ?thesis
      using rand_ok_length [OF assms(1), of 6] unfolding initHardwareAddr_def safeRandom_def
      by (auto split: option.splits simp: find_Some_iff go_bind_eq_Ret)
  qed
  show ?thesis
    using assms(2,3) i
    by (auto simp: getStorage_def getStorage_locked_def Let_def go_bind_eq_Ret split: if_splits)
qed

lemma length_newFromHash: "16 \<le> length (h (ns @ name)) \<Longrightarrow> length (newFromHash h ns name) = 16"
  by (simp add: newFromHash_def Let_def uuid_Nil_def)

text \<open>
  every generated UUID has sixteen bytes, carries the version of its generator and the RFC 4122
  variant, whatever time, random bytes, interface address or digest went into it.
\<close>

theorem uuid_generators_tagged:
  assumes "rand_ok rnd" and "length (hardwareAddr st) = 6"
    and "\<forall>x. length (md5 x) = 16" and "\<forall>x. length (sha1 x) = 20"
  shows "(\<forall>u st'. NewV1 rnd ifs now st = Ret (u, st') \<longrightarrow> uuid_tagged u 1)
    \<and> (\<forall>u st'. NewV2 rnd ifs uid gid domain now st = Ret (u, st') \<longrightarrow> uuid_tagged u 2)
    \<and> uuid_tagged (NewV3 md5 ns name) 3
    \<and> (\<forall>u. NewV4 rnd = Ret u \<longrightarrow> uuid_tagged u 4)
    \<and> uuid_tagged (NewV5 sha1 ns name) 5"
proof (intro conjI allI impI)
  fix u st' assume "NewV1 rnd ifs now st = Ret (u, st')"
  then have "length (hardwareAddr st') = 6" "u = uuid_v1 (lastTime st') (clockSequence st') (hardwareAddr st')"
    using getStorage_addr [OF assms(1,2)] by (auto simp: NewV1_def go_bind_eq_Ret)
  then show "uuid_tagged u 1"
    using uuid_tagged_Set [of _ 1] by (simp add: uuid_v1_def)
next
  fix u st' assume "NewV2 rnd ifs uid gid domain now st = Ret (u, st')"
  then have "length (hardwareAddr st') = 6"
    "u = uuid_v2 domain uid gid (lastTime st') (clockSequence st') (hardwareAddr st')"
    using getStorage_addr [OF assms(1,2)] by (auto simp: NewV2_def go_bind_eq_Ret)
  then show "uuid_tagged u 2"
    using uuid_tagged_Set [of _ 2] by (simp add: uuid_v2_def Let_def)
next
  show "uuid_tagged (NewV3 md5 ns name) 3" "uuid_tagged (NewV5 sha1 ns name) 5"
    using uuid_tagged_Set [of _ 3] uuid_tagged_Set [of _ 5] assms(3,4)
    by (simp_all add: NewV3_def NewV5_def length_newFromHash)
next
  fix u assume "NewV4 rnd = Ret u"
  then show "uuid_tagged u 4"
    using uuid_tagged_Set [of _ 4] rand_ok_length [OF assms(1), of 16]
    by (auto simp: NewV4_def safeRandom_def go_bind_eq_Ret split: option.splits)
qed

theorem uuid_generators_tagged_witness:
  "uuid_tagged (NewV3 (\<lambda>x. replicate 16 7) uuid_Nil []) 3"
proof -
  have "rand_ok (\<lambda>n. Some (replicate n 0))" by (simp add: rand_ok_def)
  then show ?thesis
    using uuid_generators_tagged [of "\<lambda>n. Some (replicate n 0)" uuid_storage_init
        "\<lambda>x. replicate 16 7" "\<lambda>x. replicate 20 7" None 0 0 0 0 uuid_Nil "[]"]
    by (simp add: uuid_storage_init_def)
qed

section \<open>Uniqueness of version 1\<close>

lemma bit_byte_of: "bit (byte_of k w) i \<longleftrightarrow> i < 8 \<and> bit w (8 * k + i)"
  unfolding byte_of_def by (auto simp: bit_ucast_iff bit_drop_bit_eq add.commute)

lemma uuid_v1_nth:
  assumes "length addr = 6"
  shows "uuid_v1 t c addr ! 0 = byte_of 3 t" "uuid_v1 t c addr ! 1 = byte_of 2 t"
    "uuid_v1 t c addr ! 2 = byte_of 1 t" "uuid_v1 t c addr ! 3 = byte_of 0 t"
    "uuid_v1 t c addr ! 4 = byte_of 5 t" "uuid_v1 t c addr ! 5 = byte_of 4 t"
    "uuid_v1 t c addr ! 6 = (byte_of 7 t AND 0x0f) OR push_bit 4 1" "uuid_v1 t c addr ! 7 = byte_of 6 t"
    "uuid_v1 t c addr ! 8 = (byte_of 1 c AND 0xbf) OR 0x80" "uuid_v1 t c addr ! 9 = byte_of 0 c"
  using assms by (simp_all add: uuid_v1_def SetVersion_def SetVariant_def nth_append)

lemma uuid_v1_inj:
  assumes eq: "uuid_v1 t c addr = uuid_v1 t' c' addr" and addr: "length addr = 6"
    and t: "unat t < 2 ^ 60" "unat t' < 2 ^ 60"
  shows "t = t' \<and> take_bit 14 c = take_bit 14 c'"
proof
  have b: "byte_of k t = byte_of k t'" if "k < 7" for k
  proof -
    have "k \<in> {0,1,2,3,4,5,6}" using that by auto
    then show ?thesis
      using eq uuid_v1_nth [OF addr, of t c] uuid_v1_nth [OF addr, of t' c'] by auto
  qed
  have b7: "bit (byte_of 7 t) i = bit (byte_of 7 t') i" if "i < 4" for i
  proof -
    have "bit ((byte_of 7 t AND 0x0f) OR push_bit 4 1) i = bit ((byte_of 7 t' AND 0x0f) OR push_bit 4 1) i"
      using eq uuid_v1_nth(7) [OF addr, of t c] uuid_v1_nth(7) [OF addr, of t' c'] by simp
    then show ?thesis using that by (simp add: byte_bits)
  qed
  show "t = t'"
  proof (rule bit_word_eqI)
    fix n assume "n < LENGTH(64)"
    consider "n < 56" | "56 \<le> n" "n < 60" | "60 \<le> n" by linarith
    then show "bit t n = bit t' n"
    proof cases
      case 1
      then have "bit (byte_of (n div 8) t) (n mod 8) = bit (byte_of (n div 8) t') (n mod 8)"
        using b [of "n div 8"] by simp
      then show ?thesis by (simp add: bit_byte_of)
    next
      case 2
      then show ?thesis using b7 [of "n - 56"] by (simp add: bit_byte_of)
    next
      case 3
      then show ?thesis using bit_word_less [OF t(1)] bit_word_less [OF t(2)] by fastforce
    qed
  qed
  have c0: "byte_of 0 c = byte_of 0 c'"
    using eq uuid_v1_nth(10) [OF addr, of t c] uuid_v1_nth(10) [OF addr, of t' c'] by simp
  have c1: "bit (byte_of 1 c) i = bit (byte_of 1 c') i" if "i < 6" for i
  proof -
    have "bit ((byte_of 1 c AND 0xbf) OR 0x80) i = bit ((byte_of 1 c' AND 0xbf) OR 0x80) i"
      using eq uuid_v1_nth(9) [OF addr, of t c] uuid_v1_nth(9) [OF addr, of t' c'] by simp
    then show ?thesis using that by (simp add: byte_bits)
  qed
  show "take_bit 14 c = take_bit 14 c'"
  proof (rule bit_word_eqI)
    fix n assume "n < LENGTH(16)"
    consider "n < 8" | "8 \<le> n" "n < 14" | "14 \<le> n" by linarith
    then show "bit (take_bit 14 c) n = bit (take_bit 14 c') n"
    proof cases
      case 1
      then show ?thesis using arg_cong [OF c0, of "\<lambda>x. bit x n"] by (simp add: bit_byte_of bit_simps)
    next
      case 2
      then show ?thesis using c1 [of "n - 8"] by (simp add: bit_byte_of bit_simps)
    qed (simp add: bit_simps)
  qed
qed

lemma clock_differs:
  fixes c :: "16 word"
  assumes "1 \<le> m" "m < 16384"
  shows "take_bit 14 (c + of_nat m) \<noteq> take_bit 14 c"
proof
  have u: "unat (take_bit 14 x) = unat x mod 16384" for x :: "16 word"
    by (simp only: unsigned_take_bit_eq) (simp add: take_bit_eq_mod)
  assume "take_bit 14 (c + of_nat m) = take_bit 14 c"
  then have "unat (c + of_nat m) mod 16384 = unat c mod 16384" by (simp flip: u)
  moreover have "unat (c + of_nat m) = (unat c + m) mod 65536"
    by (simp add: unat_word_ariths unat_of_nat mod_simps)
  ultimately have "(unat c + m) mod 16384 = unat c mod 16384" by (simp add: mod_mod_cancel)
  then have "16384 dvd m" by (metis add_diff_cancel_left' mod_eq_dvd_iff_nat le_add1)
  with assms show False by (auto dest: dvd_imp_le)
qed

text \<open>Version 1 UUIDs generated one after the other at the given times.\<close>

fun NewV1_run ::
  "(nat \<Rightarrow> byte list option) \<Rightarrow> byte list list option \<Rightarrow> uuid_storage \<Rightarrow> 64 word list \<Rightarrow> UUID list go" where
  "NewV1_run rnd ifs st [] = Ret []"
| "NewV1_run rnd ifs st (now # ts) =
     go_bind (NewV1 rnd ifs now st) (\<lambda>(u, st').
       go_bind (NewV1_run rnd ifs st' ts) (\<lambda>us. Ret (u # us)))"

lemma NewV1_once:
  "st_once st \<Longrightarrow> NewV1 rnd ifs now st =
     Ret (uuid_v1 now (clockSequence st + (if now \<le> lastTime st then 1 else 0)) (hardwareAddr st),
          getStorage_locked now st)"
  by (simp add: NewV1_def getStorage_def getStorage_locked_def Let_def)

lemma getStorage_locked_simps [simp]:
  "lastTime (getStorage_locked now st) = now"
  "clockSequence (getStorage_locked now st) = clockSequence st + (if now \<le> lastTime st then 1 else 0)"
  "hardwareAddr (getStorage_locked now st) = hardwareAddr st"
  "st_once (getStorage_locked now st) = st_once st"
  by (simp_all add: getStorage_locked_def Let_def)

lemma NewV1_run_later:
  "NewV1_run rnd ifs st ts = Ret us \<Longrightarrow> st_once st \<Longrightarrow> u \<in> set us \<Longrightarrow>
   \<exists>t m. t \<in> set ts \<and> u = uuid_v1 t (clockSequence st + of_nat m) (hardwareAddr st)
     \<and> (m = 0 \<and> lastTime st < t \<or> 1 \<le> m \<and> m \<le> length ts)"
proof (induction ts arbitrary: st us)
  case (Cons now ts)
  let ?st = "getStorage_locked now st" and ?d = "if now \<le> lastTime st then 1 else 0 :: nat"
  obtain us' where us': "NewV1_run rnd ifs ?st ts = Ret us'"
    "us = uuid_v1 now (clockSequence st + of_nat ?d) (hardwareAddr st) # us'"
    using Cons.prems(1,2) by (auto simp: NewV1_once go_bind_eq_Ret split: if_splits)
  show ?case
  proof (cases "u = uuid_v1 now (clockSequence st + of_nat ?d) (hardwareAddr st)")
    case True
    then show ?thesis by (intro exI [of _ now] exI [of _ ?d]) auto
  next
    case False
    then have "u \<in> set us'" using Cons.prems(3) us' by simp
    then obtain t m where tm: "t \<in> set ts"
      "u = uuid_v1 t (clockSequence ?st + of_nat m) (hardwareAddr ?st)"
      "m = 0 \<and> lastTime ?st < t \<or> 1 \<le> m \<and> m \<le> length ts"
      using Cons.IH [OF us'(1)] Cons.prems(2) by auto
    then show ?thesis
      by (intro exI [of _ t] exI [of _ "m + ?d"]) (auto simp: add_ac)
  qed
qed simp

lemma NewV1_run_distinct:
  assumes "length (hardwareAddr st) = 6" "st_once st" "\<forall>t\<in>set ts. unat t < 2 ^ 60" "length ts \<le> 16384"
  shows "NewV1_run rnd ifs st ts = Ret us \<Longrightarrow> distinct us"
  using assms
proof (induction ts arbitrary: st us)
  case (Cons now ts)
  let ?st = "getStorage_locked now st"
  obtain us' where us': "NewV1_run rnd ifs ?st ts = Ret us'"
    "us = uuid_v1 now (clockSequence ?st) (hardwareAddr st) # us'"
    using Cons.prems(1,3) by (auto simp: NewV1_once go_bind_eq_Ret)
  have "uuid_v1 now (clockSequence ?st) (hardwareAddr st) \<notin> set us'"
  proof
    assume "uuid_v1 now (clockSequence ?st) (hardwareAddr st) \<in> set us'"
    then obtain t m where tm: "t \<in> set ts"
      "uuid_v1 now (clockSequence ?st) (hardwareAddr st) = uuid_v1 t (clockSequence ?st + of_nat m) (hardwareAddr st)"
      "m = 0 \<and> now < t \<or> 1 \<le> m \<and> m \<le> length ts"
      using NewV1_run_later [OF us'(1) _ \<open>_ \<in> set us'\<close>] Cons.prems(3) by auto
    have "now = t \<and> take_bit 14 (clockSequence ?st) = take_bit 14 (clockSequence ?st + of_nat m)"
      by (rule uuid_v1_inj [OF tm(2) Cons.prems(2)]) (use Cons.prems(4) tm(1) in auto)
    then show False
      using tm(3) clock_differs [of m "clockSequence ?st"] Cons.prems(5) by auto
  qed
  then show ?case
    using us' Cons.IH [OF us'(1)] Cons.prems by simp
qed simp

text \<open>
  C33: version 1 UUIDs do not repeat: up to 16384 successive calls of \<^verbatim>\<open>NewV1\<close> in one process return
  pairwise distinct UUIDs, even when the clock stands still or is set back, because \<^verbatim>\<open>getStorage\<close>
  then advances the clock sequence (14 bits of which are visible).
\<close>

theorem NewV1_distinct:
  assumes "rand_ok rnd" and "length (hardwareAddr st) = 6" and "\<forall>t\<in>set ts. unat t < 2 ^ 60"
    and "length ts \<le> 16384" and "NewV1_run rnd ifs st ts = Ret us"
  shows "distinct us \<and> length us = length ts"
proof -
  have "length us = length ts" if "NewV1_run rnd ifs st ts = Ret us" for st us
    using that by (induction ts arbitrary: st us) (auto simp: go_bind_eq_Ret)
  moreover have "distinct us"
  proof (cases "st_once st \<or> ts = []")
    case True
    then show ?thesis using NewV1_run_distinct [OF assms(2) _ assms(3,4)] assms(5) by auto
  next
    case False
    then obtain now ts' where ts: "ts = now # ts'" by (cases ts) auto
    with False assms(5) obtain st0 where i: "initStorage rnd ifs (st\<lparr>st_once := True\<rparr>) = Ret st0"
      by (auto simp: NewV1_def getStorage_def go_bind_eq_Ret)
    then have o: "st_once st0"
      by (auto simp: initStorage_def initClockSequence_def initHardwareAddr_def go_bind_eq_Ret split: option.splits)
    have "getStorage rnd ifs now st = getStorage rnd ifs now st0"
      using False i o by (simp add: getStorage_def)
    moreover have "getStorage rnd ifs now st = Ret (getStorage_locked now st0)"
      using False i by (simp add: getStorage_def)
    from getStorage_addr [OF assms(1,2) this] have "length (hardwareAddr st0) = 6"
      by simp
    ultimately show ?thesis
      using NewV1_run_distinct [OF _ o assms(3,4), of rnd ifs us] assms(5) by (simp add: ts NewV1_def)
  qed
  ultimately show ?thesis using assms(5) by blast
qed

theorem NewV1_distinct_witness:
  "\<exists>us. NewV1_run (\<lambda>n. Some (replicate n 0)) None uuid_storage_init [5, 5, 3] = Ret us
     \<and> distinct us \<and> length us = 3"
proof -
  have "\<exists>us. NewV1_run (\<lambda>n. Some (replicate n 0)) None uuid_storage_init [5, 5, 3] = Ret us"
    by (simp add: NewV1_def getStorage_def initStorage_def initClockSequence_def initHardwareAddr_def
        safeRandom_def uuid_storage_init_def)
  then obtain us where "NewV1_run (\<lambda>n. Some (replicate n 0)) None uuid_storage_init [5, 5, 3] = Ret us" ..
  moreover from this have "distinct us \<and> length us = length [5, 5, 3 :: 64 word]"
    by (rule NewV1_distinct [rotated 4]) (simp_all add: rand_ok_def uuid_storage_init_def)
  ultimately show ?thesis by simp
qed

end
