(* ===== verification/Keylock.thy ===== *)
theory Keylock
  imports Octo_Prelude
begin

text \<open>
  The per-key mutex of \<^verbatim>\<open>pkg/keylock/keylock.go\<close>.  The operations are functions on the shared
  structure (a map from keys to heap-allocated inner locks, each a reference count and a mutex); a
  step relation interleaves any number of goroutines that call \<^verbatim>\<open>Lock\<close>, \<^verbatim>\<open>Unlock\<close> and \<^verbatim>\<open>Clean\<close>, one atomic
  action at a time.  The sections under \<^verbatim>\<open>l.mutex\<close> of \<^verbatim>\<open>Lock\<close> and \<^verbatim>\<open>Unlock\<close> are one step each; \<^verbatim>\<open>Clean\<close>
  holds \<^verbatim>\<open>l.mutex\<close> over one step per key; \<^verbatim>\<open>done()\<close> and the operations on the inner mutex happen
  outside of \<^verbatim>\<open>l.mutex\<close>, as in the code.  Goroutines unlock only keys they hold.
\<close>

section \<open>The structure and its operations\<close>

record innerLock =
  il_count :: int
  il_locked :: bool

record KeyLock =
  kl_locks :: "string \<rightharpoonup> nat"
  kl_heap :: "nat \<Rightarrow> innerLock"
  kl_next :: nat

definition newInnerLock :: innerLock where
  "newInnerLock = \<lparr>il_count = 0, il_locked = False\<rparr>"

definition NewKeyLock :: KeyLock where
  "NewKeyLock = \<lparr>kl_locks = Map.empty, kl_heap = (\<lambda>_. newInnerLock), kl_next = 0\<rparr>"

definition upd_inner :: "nat \<Rightarrow> (innerLock \<Rightarrow> innerLock) \<Rightarrow> KeyLock \<Rightarrow> KeyLock" where
  "upd_inner i f l = l\<lparr>kl_heap := (kl_heap l)(i := f (kl_heap l i))\<rparr>"

definition innerLock_add :: "nat \<Rightarrow> KeyLock \<Rightarrow> KeyLock" where
  "innerLock_add i = upd_inner i (\<lambda>il. il\<lparr>il_count := il_count il + 1\<rparr>)"

definition innerLock_done :: "nat \<Rightarrow> KeyLock \<Rightarrow> KeyLock" where
  "innerLock_done i = upd_inner i (\<lambda>il. il\<lparr>il_count := il_count il - 1\<rparr>)"

text \<open>\<^verbatim>\<open>Lock\<close> up to the release of \<^verbatim>\<open>l.mutex\<close>: find or create the inner lock and count the caller.\<close>

definition KeyLock_Lock_enter :: "string \<Rightarrow> KeyLock \<Rightarrow> KeyLock \<times> nat" where
  "KeyLock_Lock_enter key l =
     (case kl_locks l key of
        Some i \<Rightarrow> (innerLock_add i l, i)
      | None \<Rightarrow>
          let i = kl_next l;
              l = l\<lparr>kl_locks := (kl_locks l)(key \<mapsto> i),
                    kl_heap := (kl_heap l)(i := newInnerLock),
                    kl_next := i + 1\<rparr>
          in (innerLock_add i l, i))"

text \<open>\<^verbatim>\<open>keyLock.Lock()\<close> on a free mutex, and \<^verbatim>\<open>keyLock.Unlock()\<close>.\<close>

definition inner_Lock :: "nat \<Rightarrow> KeyLock \<Rightarrow> KeyLock option" where
  "inner_Lock i l =
     (if il_locked (kl_heap l i) then None else Some (upd_inner i (\<lambda>il. il\<lparr>il_locked := True\<rparr>) l))"

definition inner_Unlock :: "nat \<Rightarrow> KeyLock \<Rightarrow> KeyLock" where
  "inner_Unlock i = upd_inner i (\<lambda>il. il\<lparr>il_locked := False\<rparr>)"

text \<open>\<^verbatim>\<open>Unlock\<close>: the lookup under \<^verbatim>\<open>l.mutex\<close>.\<close>

definition KeyLock_Unlock_find :: "string \<Rightarrow> KeyLock \<Rightarrow> nat option" where
  "KeyLock_Unlock_find key l = kl_locks l key"

text \<open>One iteration of the loop of \<^verbatim>\<open>Clean\<close>, and the loop over the keys in the order Go visits them.\<close>

definition KeyLock_Clean_key :: "string \<Rightarrow> KeyLock \<Rightarrow> KeyLock" where
  "KeyLock_Clean_key k l =
     (case kl_locks l k of
        Some i \<Rightarrow> if il_count (kl_heap l i) = 0 then l\<lparr>kl_locks := (kl_locks l)(k := None)\<rparr> else l
      | None \<Rightarrow> l)"

definition KeyLock_Clean :: "string list \<Rightarrow> KeyLock \<Rightarrow> KeyLock" where
  "KeyLock_Clean ks l = fold KeyLock_Clean_key ks l"

section \<open>Interleavings\<close>

text \<open>Where a goroutine stands; the number is the inner lock it works with.\<close>

datatype kl_pc =
    Idle
  | LockWait string nat
  | Holding string nat
  | UnlockFound string nat
  | UnlockRel string nat
  | Cleaning "string list"

record kl_sys =
  sys_kl :: KeyLock
  sys_mutex :: "nat option"
  sys_pc :: "nat \<Rightarrow> kl_pc"

definition kl_init :: kl_sys where
  "kl_init = \<lparr>sys_kl = NewKeyLock, sys_mutex = None, sys_pc = (\<lambda>_. Idle)\<rparr>"

definition set_pc :: "nat \<Rightarrow> kl_pc \<Rightarrow> kl_sys \<Rightarrow> kl_sys" where
  "set_pc t p s = s\<lparr>sys_pc := (sys_pc s)(t := p)\<rparr>"

inductive kl_step :: "kl_sys \<Rightarrow> kl_sys \<Rightarrow> bool" where
  Lock_enter:
    "sys_pc s t = Idle \<Longrightarrow> sys_mutex s = None \<Longrightarrow> KeyLock_Lock_enter k (sys_kl s) = (l, i) \<Longrightarrow>
     kl_step s (set_pc t (LockWait k i) (s\<lparr>sys_kl := l\<rparr>))"
| Lock_acquire:
    "sys_pc s t = LockWait k i \<Longrightarrow> inner_Lock i (sys_kl s) = Some l \<Longrightarrow>
     kl_step s (set_pc t (Holding k i) (s\<lparr>sys_kl := l\<rparr>))"
| Unlock_find:
    "sys_pc s t = Holding k i \<Longrightarrow> sys_mutex s = None \<Longrightarrow> KeyLock_Unlock_find k (sys_kl s) = Some j \<Longrightarrow>
     kl_step s (set_pc t (UnlockFound k j) s)"
| Unlock_none:
    "sys_pc s t = Holding k i \<Longrightarrow> sys_mutex s = None \<Longrightarrow> KeyLock_Unlock_find k (sys_kl s) = None \<Longrightarrow>
     kl_step s (set_pc t Idle s)"
| Unlock_done:
    "sys_pc s t = UnlockFound k i \<Longrightarrow>
     kl_step s (set_pc t (UnlockRel k i) (s\<lparr>sys_kl := innerLock_done i (sys_kl s)\<rparr>))"
| Unlock_release:
    "sys_pc s t = UnlockRel k i \<Longrightarrow>
     kl_step s (set_pc t Idle (s\<lparr>sys_kl := inner_Unlock i (sys_kl s)\<rparr>))"
| Clean_start:
    "sys_pc s t = Idle \<Longrightarrow> sys_mutex s = None \<Longrightarrow> set ks = dom (kl_locks (sys_kl s)) \<Longrightarrow>
     kl_step s (set_pc t (Cleaning ks) (s\<lparr>sys_mutex := Some t\<rparr>))"
| Clean_one:
    "sys_pc s t = Cleaning (k # ks) \<Longrightarrow>
     kl_step s (set_pc t (Cleaning ks) (s\<lparr>sys_kl := KeyLock_Clean_key k (sys_kl s)\<rparr>))"
| Clean_end:
    "sys_pc s t = Cleaning [] \<Longrightarrow> kl_step s (set_pc t Idle (s\<lparr>sys_mutex := None\<rparr>))"

inductive kl_reach :: "kl_sys \<Rightarrow> bool" where
  init: "kl_reach kl_init"
| step: "kl_reach s \<Longrightarrow> kl_step s s' \<Longrightarrow> kl_reach s'"

section \<open>The invariant\<close>

text \<open>A goroutine is counted from \<^verbatim>\<open>add()\<close> to \<^verbatim>\<open>done()\<close>, and owns the inner mutex from \<^verbatim>\<open>Lock()\<close> to \<^verbatim>\<open>Unlock()\<close>.\<close>

fun counted :: "kl_pc \<Rightarrow> (string \<times> nat) option" where
  "counted (LockWait k i) = Some (k, i)"
| "counted (Holding k i) = Some (k, i)"
| "counted (UnlockFound k i) = Some (k, i)"
| "counted _ = None"

fun owns :: "kl_pc \<Rightarrow> nat option" where
  "owns (Holding k i) = Some i"
| "owns (UnlockFound k i) = Some i"
| "owns (UnlockRel k i) = Some i"
| "owns _ = None"

definition refs :: "kl_sys \<Rightarrow> nat \<Rightarrow> nat set" where
  "refs s i = {t. \<exists>k. counted (sys_pc s t) = Some (k, i)}"

definition inv_fin :: "kl_sys \<Rightarrow> bool" where
  "inv_fin s \<longleftrightarrow> finite {t. sys_pc s t \<noteq> Idle}"

definition inv_count :: "kl_sys \<Rightarrow> bool" where
  "inv_count s \<longleftrightarrow>
     (\<forall>i < kl_next (sys_kl s). il_count (kl_heap (sys_kl s) i) = int (card (refs s i)))"

definition inv_map :: "kl_sys \<Rightarrow> bool" where
  "inv_map s \<longleftrightarrow>
     (\<forall>t k i. counted (sys_pc s t) = Some (k, i) \<longrightarrow> kl_locks (sys_kl s) k = Some i) \<and>
     (\<forall>k i. kl_locks (sys_kl s) k = Some i \<longrightarrow> i < kl_next (sys_kl s))"

definition owners :: "kl_sys \<Rightarrow> nat \<Rightarrow> nat set" where
  "owners s i = {t. owns (sys_pc s t) = Some i}"

definition inv_owner :: "kl_sys \<Rightarrow> bool" where
  "inv_owner s \<longleftrightarrow>
     (\<forall>i. if i < kl_next (sys_kl s) \<and> il_locked (kl_heap (sys_kl s) i)
          then \<exists>t. owners s i = {t} else owners s i = {})"

definition kl_inv :: "kl_sys \<Rightarrow> bool" where
  "kl_inv s \<longleftrightarrow> inv_fin s \<and> inv_count s \<and> inv_map s \<and> inv_owner s"

lemma set_pc_simps [simp]:
  "sys_kl (set_pc t p s) = sys_kl s" "sys_mutex (set_pc t p s) = sys_mutex s"
  "sys_pc (set_pc t p s) = (sys_pc s)(t := p)"
  by (simp_all add: set_pc_def)

lemma upd_inner_simps [simp]:
  "kl_locks (upd_inner i f l) = kl_locks l" "kl_next (upd_inner i f l) = kl_next l"
  "kl_heap (upd_inner i f l) = (kl_heap l)(i := f (kl_heap l i))"
  by (simp_all add: upd_inner_def)

lemma Clean_key_simps [simp]:
  "kl_heap (KeyLock_Clean_key k l) = kl_heap l" "kl_next (KeyLock_Clean_key k l) = kl_next l"
  by (simp_all add: KeyLock_Clean_key_def split: option.splits)

lemmas kl_op_defs = innerLock_add_def innerLock_done_def inner_Unlock_def

lemma refs_set_pc:
  "refs (set_pc t p s) i =
     (if \<exists>k. counted p = Some (k, i) then insert t (refs s i) else refs s i - {t})"
  by (auto simp: refs_def)

lemma refs_kl [simp]: "refs (s\<lparr>sys_kl := l\<rparr>) i = refs s i" "refs (s\<lparr>sys_mutex := m\<rparr>) i = refs s i"
  by (simp_all add: refs_def)

lemma owners_set_pc:
  "owners (set_pc t p s) i = (if owns p = Some i then insert t (owners s i) else owners s i - {t})"
  by (auto simp: owners_def)

lemma owners_kl [simp]:
  "owners (s\<lparr>sys_kl := l\<rparr>) i = owners s i" "owners (s\<lparr>sys_mutex := m\<rparr>) i = owners s i"
  by (simp_all add: owners_def)

lemma finite_refs: "inv_fin s \<Longrightarrow> finite (refs s i)"
  unfolding inv_fin_def by (rule finite_subset [rotated]) (auto simp: refs_def)

lemma refsI: "counted (sys_pc s t) = Some (k, i) \<Longrightarrow> t \<in> refs s i"
  by (auto simp: refs_def)

lemma refs_not: "counted (sys_pc s t) = None \<Longrightarrow> t \<notin> refs s i"
  by (auto simp: refs_def)

lemma refs_other: "counted (sys_pc s t) = Some (k, i) \<Longrightarrow> j \<noteq> i \<Longrightarrow> t \<notin> refs s j"
  by (auto simp: refs_def)

text \<open>A counted goroutine keeps the count of its lock above 0, so \<^verbatim>\<open>Clean\<close> leaves the lock in the map.\<close>

lemma counted_pos:
  assumes "kl_inv s" and "counted (sys_pc s t) = Some (k, i)"
  shows "0 < il_count (kl_heap (sys_kl s) i)"
proof -
  have "i < kl_next (sys_kl s)" using assms unfolding kl_inv_def inv_map_def by blast
  then have "il_count (kl_heap (sys_kl s) i) = int (card (refs s i))"
    using assms(1) by (simp add: kl_inv_def inv_count_def)
  moreover have "refs s i \<noteq> {}" "finite (refs s i)"
    using refsI [OF assms(2)] finite_refs assms(1) by (auto simp: kl_inv_def)
  ultimately show ?thesis by (simp add: card_gt_0_iff)
qed

lemma no_refs_fresh: "inv_map s \<Longrightarrow> kl_next (sys_kl s) \<le> i \<Longrightarrow> refs s i = {}"
  unfolding inv_map_def refs_def by fastforce

lemma inv_fin_set_pc: "inv_fin s \<Longrightarrow> inv_fin (set_pc t p s)"
  unfolding inv_fin_def
  by (rule finite_subset [of _ "insert t {t. sys_pc s t \<noteq> Idle}"]) auto

lemma inv_fin_kl [simp]: "inv_fin (s\<lparr>sys_kl := l\<rparr>) = inv_fin s" "inv_fin (s\<lparr>sys_mutex := m\<rparr>) = inv_fin s"
  by (simp_all add: inv_fin_def)

lemma step_inv_fin: "kl_step s s' \<Longrightarrow> inv_fin s \<Longrightarrow> inv_fin s'"
  by (erule kl_step.cases) (auto intro: inv_fin_set_pc)

lemma inv_mapD:
  assumes "kl_inv s"
  shows "counted (sys_pc s t) = Some (k, i) \<Longrightarrow> kl_locks (sys_kl s) k = Some i"
    and "kl_locks (sys_kl s) k = Some i \<Longrightarrow> i < kl_next (sys_kl s)"
  using assms unfolding kl_inv_def inv_map_def by blast+

lemma inv_countD: "kl_inv s \<Longrightarrow> i < kl_next (sys_kl s) \<Longrightarrow> il_count (kl_heap (sys_kl s) i) = int (card (refs s i))"
  by (simp add: kl_inv_def inv_count_def)

text \<open>How each operation changes the shared structure.\<close>

lemma Lock_enter_cases:
  assumes "KeyLock_Lock_enter k l = (l', i)"
  obtains (old) "kl_locks l k = Some i" "l' = innerLock_add i l"
  | (new) "kl_locks l k = None" "i = kl_next l" "kl_locks l' = (kl_locks l)(k \<mapsto> i)" "kl_next l' = Suc i"
      "kl_heap l' = (kl_heap l)(i := \<lparr>il_count = 1, il_locked = False\<rparr>)"
  using assms
  by (auto simp: KeyLock_Lock_enter_def kl_op_defs newInnerLock_def Let_def split: option.splits)

lemma of_nat_card_Diff: "finite A \<Longrightarrow> t \<in> A \<Longrightarrow> int (card (A - {t})) = int (card A) - 1"
  using card_gt_0_iff [of A] by (auto simp: card_Diff_singleton of_nat_diff)

lemma step_inv_count:
  assumes "kl_step s s'" and inv: "kl_inv s"
  shows "inv_count s'"
proof -
  note cnt = inv_countD [OF inv] and fin = finite_refs [of s]
  have f: "finite (refs s i)" for i using inv fin by (simp add: kl_inv_def)
  show ?thesis
    using assms(1)
  proof cases
    case (Lock_enter t k l i)
    have nt: "t \<notin> refs s j" for j using Lock_enter(2) by (simp add: refs_not)
    from Lock_enter(4) show ?thesis
    proof (cases rule: Lock_enter_cases)
      case old
      then show ?thesis using cnt f nt by (auto simp: Lock_enter(1) inv_count_def refs_set_pc kl_op_defs)
    next
      case new
      have "refs s i = {}" using inv new(2) by (intro no_refs_fresh) (simp_all add: kl_inv_def)
      then show ?thesis
        using cnt f nt new by (auto simp: Lock_enter(1) inv_count_def refs_set_pc less_Suc_eq)
    qed
  next
    case (Lock_acquire t k i l)
    then have "refs s' = refs s" by (auto simp: refs_def fun_eq_iff)
    with Lock_acquire cnt show ?thesis by (auto simp: inv_count_def inner_Lock_def split: if_splits)
  next
    case (Unlock_find t k i j)
    then have "j = i" using inv_mapD(1) [OF inv, of t k i] by (simp add: KeyLock_Unlock_find_def)
    with Unlock_find have "refs s' = refs s" by (auto simp: refs_def fun_eq_iff)
    with Unlock_find cnt show ?thesis by (auto simp: inv_count_def)
  next
    case (Unlock_none t k i)
    then show ?thesis using inv_mapD(1) [OF inv, of t k i] by (simp add: KeyLock_Unlock_find_def)
  next
    case (Unlock_done t k i)
    then have t: "t \<in> refs s i" and o: "\<And>j. j \<noteq> i \<Longrightarrow> t \<notin> refs s j"
      by (auto simp: refs_def)
    then have "int (card (refs s i - {t})) = int (card (refs s i)) - 1"
      using f by (intro of_nat_card_Diff)
    with o show ?thesis
      using cnt Unlock_done
      by (auto simp: inv_count_def refs_set_pc kl_op_defs simp del: card_Diff_insert card_Diff_singleton_if)
  next
    case (Unlock_release t k i)
    then have "refs s' = refs s" by (auto simp: refs_def fun_eq_iff)
    with Unlock_release cnt show ?thesis by (auto simp: inv_count_def kl_op_defs)
  next
    case (Clean_start t ks)
    then have "refs s' = refs s" by (auto simp: refs_def fun_eq_iff)
    with Clean_start cnt show ?thesis by (auto simp: inv_count_def)
  next
    case (Clean_one t k ks)
    then have "refs s' = refs s" by (auto simp: refs_def fun_eq_iff)
    with Clean_one cnt show ?thesis by (auto simp: inv_count_def)
  next
    case (Clean_end t)
    then have "refs s' = refs s" by (auto simp: refs_def fun_eq_iff)
    with Clean_end cnt show ?thesis by (auto simp: inv_count_def)
  qed
qed

lemma step_inv_map:
  assumes "kl_step s s'" and inv: "kl_inv s"
  shows "inv_map s'"
  using assms(1)
proof cases
  case (Lock_enter t k l i)
  from Lock_enter(4) show ?thesis
  proof (cases rule: Lock_enter_cases)
    case old
    then show ?thesis using inv by (auto simp: Lock_enter(1) kl_inv_def inv_map_def kl_op_defs)
  next
    case new
    then show ?thesis
      using inv_mapD [OF inv] by (auto simp: Lock_enter(1) inv_map_def less_SucI)
  qed
next
  case (Clean_one t k ks)
  have "KeyLock_Clean_key k (sys_kl s) = sys_kl s"
    if "counted (sys_pc s u) = Some (k, i)" for u i
    using counted_pos [OF inv that] inv_mapD(1) [OF inv that] by (simp add: KeyLock_Clean_key_def)
  moreover have "kl_locks (KeyLock_Clean_key k (sys_kl s)) k' = kl_locks (sys_kl s) k'" if "k' \<noteq> k" for k'
    using that by (simp add: KeyLock_Clean_key_def split: option.splits)
  moreover have "kl_locks (KeyLock_Clean_key k (sys_kl s)) k' = Some i \<Longrightarrow> kl_locks (sys_kl s) k' = Some i" for k' i
    by (auto simp: KeyLock_Clean_key_def split: option.splits if_splits)
  ultimately show ?thesis
    using inv_mapD [OF inv] unfolding inv_map_def Clean_one(1) by (auto split: if_splits) metis+
next
  case (Lock_acquire t k i l)
  then show ?thesis
    using inv_mapD [OF inv] inv_mapD(1) [OF inv, of t k i] by (auto simp: inv_map_def inner_Lock_def split: if_splits)
qed (use inv_mapD [OF inv] in \<open>auto simp: inv_map_def kl_op_defs inner_Lock_def KeyLock_Unlock_find_def split: if_splits\<close>)

lemma step_inv_owner:
  assumes "kl_step s s'" and inv: "kl_inv s"
  shows "inv_owner s'"
proof -
  have o: "if i < kl_next (sys_kl s) \<and> il_locked (kl_heap (sys_kl s) i)
      then \<exists>t. owners s i = {t} else owners s i = {}" for i
    using inv unfolding kl_inv_def inv_owner_def by blast
  show ?thesis
    using assms(1)
  proof cases
    case (Lock_enter t k l i)
    then have nt: "t \<notin> owners s j" for j by (simp add: owners_def)
    from Lock_enter(4) show ?thesis
    proof (cases rule: Lock_enter_cases)
      case old
      with o nt show ?thesis by (simp add: Lock_enter(1) inv_owner_def owners_set_pc kl_op_defs)
    next
      case new
      have "owners s (kl_next (sys_kl s)) = {}" using o [of "kl_next (sys_kl s)"] by simp
      with o nt new show ?thesis
        by (auto simp: Lock_enter(1) inv_owner_def owners_set_pc less_Suc_eq)
    qed
  next
    case (Lock_acquire t k i l)
    have "i < kl_next (sys_kl s)"
      using inv_mapD [OF inv] Lock_acquire(2) by (metis counted.simps(1))
    moreover have "t \<notin> owners s j" for j using Lock_acquire by (simp add: owners_def)
    ultimately show ?thesis
      using Lock_acquire o o [of i]
      by (auto simp: inv_owner_def owners_set_pc inner_Lock_def split: if_splits)
  next
    case (Unlock_find t k i j)
    then have "j = i" using inv_mapD(1) [OF inv, of t k i] by (simp add: KeyLock_Unlock_find_def)
    with Unlock_find have "owners s' = owners s" by (auto simp: owners_def fun_eq_iff)
    with Unlock_find o show ?thesis by (simp add: inv_owner_def)
  next
    case (Unlock_none t k i)
    then show ?thesis using inv_mapD(1) [OF inv, of t k i] by (simp add: KeyLock_Unlock_find_def)
  next
    case (Unlock_done t k i)
    then have "owners s' = owners s" by (auto simp: owners_def fun_eq_iff)
    with Unlock_done o show ?thesis by (simp add: inv_owner_def kl_op_defs)
  next
    case (Unlock_release t k i)
    then have "t \<in> owners s i" "\<And>j. j \<noteq> i \<Longrightarrow> t \<notin> owners s j" by (auto simp: owners_def)
    moreover from this(1) have "owners s i - {t} = {}" using o [of i] by (auto split: if_splits)
    ultimately show ?thesis
      using Unlock_release o by (simp add: inv_owner_def owners_set_pc kl_op_defs)
  next
    case (Clean_start t ks)
    then have "owners s' = owners s" by (auto simp: owners_def fun_eq_iff)
    with Clean_start o show ?thesis by (simp add: inv_owner_def)
  next
    case (Clean_one t k ks)
    then have "owners s' = owners s" by (auto simp: owners_def fun_eq_iff)
    with Clean_one o show ?thesis by (simp add: inv_owner_def)
  next
    case (Clean_end t)
    then have "owners s' = owners s" by (auto simp: owners_def fun_eq_iff)
    with Clean_end o show ?thesis by (simp add: inv_owner_def)
  qed
qed

lemma kl_inv_init: "kl_inv kl_init"
  by (simp add: kl_inv_def inv_fin_def inv_count_def inv_map_def inv_owner_def owners_def kl_init_def NewKeyLock_def)

lemma kl_reach_inv: "kl_reach s \<Longrightarrow> kl_inv s"
proof (induction rule: kl_reach.induct)
  case (step s s')
  then show ?case
    using step_inv_fin step_inv_count step_inv_map step_inv_owner unfolding kl_inv_def by blast
qed (rule kl_inv_init)

section \<open>Mutual exclusion and progress\<close>

text \<open>
  C4: mutual exclusion per key.  In every reachable state at most one goroutine is between the return
  of \<^verbatim>\<open>Lock(k)\<close> and its call of \<^verbatim>\<open>Unlock(k)\<close>, however the calls of \<^verbatim>\<open>Lock\<close>, \<^verbatim>\<open>Unlock\<close> and \<^verbatim>\<open>Clean\<close> are
  interleaved; in particular \<^verbatim>\<open>Clean\<close> may run between \<^verbatim>\<open>done()\<close> and the unlock of the inner mutex.
\<close>

theorem keylock_mutual_exclusion:
  assumes "kl_reach s" and "sys_pc s t = Holding k i" and "sys_pc s t' = Holding k j"
  shows "t = t' \<and> i = j"
proof -
  note inv = kl_reach_inv [OF assms(1)]
  have ij: "i = j"
    using inv_mapD(1) [OF inv, of t k i] inv_mapD(1) [OF inv, of t' k j] assms(2,3) by simp
  have "t \<in> owners s i" "t' \<in> owners s i" using assms ij by (auto simp: owners_def)
  moreover have "\<exists>u. owners s i \<subseteq> {u}"
    using inv unfolding kl_inv_def inv_owner_def by (metis empty_subsetI order_refl)
  ultimately show ?thesis using ij by auto
qed

text \<open>A reachable state in which goroutine 0 holds key \<open>''a''\<close> and goroutine 1 waits for it.\<close>

definition kl_demo :: kl_sys where
  "kl_demo =
     \<lparr>sys_kl = \<lparr>kl_locks = [''a'' \<mapsto> 0],
                kl_heap = (\<lambda>_. newInnerLock)(0 := \<lparr>il_count = 2, il_locked = True\<rparr>), kl_next = 1\<rparr>,
      sys_mutex = None, sys_pc = (\<lambda>_. Idle)(0 := Holding ''a'' 0, 1 := LockWait ''a'' 0)\<rparr>"

lemma kl_demo_reach: "kl_reach kl_demo"
proof -
  let ?l1 = "\<lparr>kl_locks = [''a'' \<mapsto> 0], kl_heap = (\<lambda>_. newInnerLock)(0 := \<lparr>il_count = 1, il_locked = False\<rparr>), kl_next = 1\<rparr>"
  let ?l2 = "\<lparr>kl_locks = [''a'' \<mapsto> 0], kl_heap = (\<lambda>_. newInnerLock)(0 := \<lparr>il_count = 1, il_locked = True\<rparr>), kl_next = 1\<rparr>"
  let ?s1 = "set_pc 0 (LockWait ''a'' 0) (kl_init\<lparr>sys_kl := ?l1\<rparr>)"
  let ?s2 = "set_pc 0 (Holding ''a'' 0) (?s1\<lparr>sys_kl := ?l2\<rparr>)"
  have "kl_step kl_init ?s1"
    by (rule Lock_enter) (simp_all add: kl_init_def NewKeyLock_def KeyLock_Lock_enter_def
        innerLock_add_def upd_inner_def newInnerLock_def fun_eq_iff)
  then have "kl_reach ?s1" by (rule kl_reach.step [OF kl_reach.init])
  moreover have "kl_step ?s1 ?s2"
    by (rule Lock_acquire) (simp_all add: set_pc_def kl_init_def inner_Lock_def upd_inner_def fun_eq_iff)
  ultimately have "kl_reach ?s2" by (rule kl_reach.step)
  moreover have "kl_step ?s2 (set_pc 1 (LockWait ''a'' 0) (?s2\<lparr>sys_kl := sys_kl kl_demo\<rparr>))"
    by (rule Lock_enter) (simp_all add: kl_init_def kl_demo_def KeyLock_Lock_enter_def innerLock_add_def
        upd_inner_def fun_eq_iff)
  moreover have "set_pc 1 (LockWait ''a'' 0) (?s2\<lparr>sys_kl := sys_kl kl_demo\<rparr>) = kl_demo"
    by (simp add: set_pc_def kl_demo_def kl_init_def fun_eq_iff)
  ultimately show ?thesis using kl_reach.step by metis
qed

theorem keylock_mutual_exclusion_witness:
  "kl_reach kl_demo \<and> {t. \<exists>i. sys_pc kl_demo t = Holding ''a'' i} = {0}"
proof -
  have "sys_pc kl_demo 0 = Holding ''a'' 0" by (simp add: kl_demo_def)
  then show ?thesis using keylock_mutual_exclusion [OF kl_demo_reach] kl_demo_reach by blast
qed

text \<open>
  C19: releases are never lost and never wrong.  A goroutine that holds a key finds, whenever it gets
  \<^verbatim>\<open>l.mutex\<close>, exactly the inner lock it acquired (so \<^verbatim>\<open>Unlock\<close> does not silently do nothing), the inner
  mutex it is about to unlock is locked, and a goroutine that waits for a key either can take the
  inner mutex now or waits for a single other goroutine that is inside or on its way out.
\<close>

theorem keylock_progress:
  assumes "kl_reach s"
  shows "(sys_pc s t = Holding k i \<longrightarrow> KeyLock_Unlock_find k (sys_kl s) = Some i)
    \<and> (sys_pc s t = UnlockRel k i \<longrightarrow> il_locked (kl_heap (sys_kl s) i))
    \<and> (sys_pc s t = LockWait k i \<longrightarrow>
         inner_Lock i (sys_kl s) \<noteq> None \<or> (\<exists>t'. t' \<noteq> t \<and> owners s i = {t'}))"
proof -
  note inv = kl_reach_inv [OF assms]
  have o: "if i < kl_next (sys_kl s) \<and> il_locked (kl_heap (sys_kl s) i)
      then \<exists>t. owners s i = {t} else owners s i = {}" for i
    using inv unfolding kl_inv_def inv_owner_def by blast
  have "sys_pc s t = UnlockRel k i \<Longrightarrow> t \<in> owners s i" by (simp add: owners_def)
  then have "sys_pc s t = UnlockRel k i \<longrightarrow> il_locked (kl_heap (sys_kl s) i)"
    using o [of i] by (auto split: if_splits)
  moreover have "sys_pc s t = LockWait k i \<Longrightarrow> t \<notin> owners s i" by (simp add: owners_def)
  then have "sys_pc s t = LockWait k i \<longrightarrow>
      inner_Lock i (sys_kl s) \<noteq> None \<or> (\<exists>t'. t' \<noteq> t \<and> owners s i = {t'})"
    using o [of i] inv_mapD(2) [OF inv, of k i] inv_mapD(1) [OF inv, of t k i]
    by (auto simp: inner_Lock_def split: if_splits)
  ultimately show ?thesis
    using inv_mapD(1) [OF inv, of t k i] by (simp add: KeyLock_Unlock_find_def)
qed

theorem keylock_progress_witness:
  "KeyLock_Unlock_find ''a'' (sys_kl kl_demo) = Some 0 \<and> (\<exists>t'. t' \<noteq> 1 \<and> owners kl_demo 0 = {t'})"
proof -
  have h: "sys_pc kl_demo 0 = Holding ''a'' 0" and w: "sys_pc kl_demo 1 = LockWait ''a'' 0"
    by (simp_all add: kl_demo_def)
  have "inner_Lock 0 (sys_kl kl_demo) = None" by (simp add: kl_demo_def inner_Lock_def)
  then show ?thesis
    using h w keylock_progress [OF kl_demo_reach, of 0 "''a''" 0] keylock_progress [OF kl_demo_reach, of 1 "''a''" 0]
    by simp
qed

text \<open>What a whole \<^verbatim>\<open>Clean\<close> does: it removes exactly the visited keys whose lock is not counted.\<close>

lemma KeyLock_Clean_spec:
  "kl_locks (KeyLock_Clean ks l) k =
     (case kl_locks l k of
        None \<Rightarrow> None
      | Some i \<Rightarrow> if k \<in> set ks \<and> il_count (kl_heap l i) = 0 then None else Some i)"
proof (induction ks arbitrary: l)
  case (Cons k' ks)
  have "KeyLock_Clean (k' # ks) l = KeyLock_Clean ks (KeyLock_Clean_key k' l)"
    by (simp add: KeyLock_Clean_def)
  then show ?case
    using Cons.IH [of "KeyLock_Clean_key k' l"]
    by (auto simp: KeyLock_Clean_key_def split: option.splits if_splits)
qed (simp add: KeyLock_Clean_def split: option.splits)

end
