(* ===== verification/Pool_Queue.thy ===== *)
theory Pool_Queue
  imports Octo_Prelude
begin

text \<open>
  The blocking queue of \<^verbatim>\<open>pkg/pool/queue.go\<close>.  The ring buffer behind it comes from the package
  \<^verbatim>\<open>github.com/eapache/queue\<close>; its operations are an argument, and what the code relies on is the
  locale \<open>fifo_buffer\<close>.  A step relation interleaves goroutines that push, pop, try to pop and close,
  with the condition variable written out: goroutines asleep in \<^verbatim>\<open>c.Wait()\<close> and goroutines woken but
  not yet back in the critical section.  Shown are the order of the values and that no wake-up is lost.
\<close>

section \<open>The buffer\<close>

record ('b, 'v) buffer_ops =
  buf_New :: 'b
  buf_Add :: "'b \<Rightarrow> 'v \<Rightarrow> 'b"
  buf_Peek :: "'b \<Rightarrow> 'v"
  buf_Remove :: "'b \<Rightarrow> 'b"
  buf_Length :: "'b \<Rightarrow> nat"

locale fifo_buffer =
  fixes ops :: "('b, 'v) buffer_ops" and contents :: "'b \<Rightarrow> 'v list"
  assumes contents_New: "contents (buf_New ops) = []"
    and contents_Add: "contents (buf_Add ops b v) = contents b @ [v]"
    and contents_Peek: "contents b \<noteq> [] \<Longrightarrow> buf_Peek ops b = hd (contents b)"
    and contents_Remove: "contents b \<noteq> [] \<Longrightarrow> contents (buf_Remove ops b) = tl (contents b)"
    and contents_Length: "buf_Length ops b = length (contents b)"

section \<open>The operations\<close>

record 'b Queue =
  q_buffer :: 'b
  q_closed :: bool

definition NewQueue :: "('b, 'v) buffer_ops \<Rightarrow> 'b Queue" where
  "NewQueue ops = \<lparr>q_buffer = buf_New ops, q_closed = False\<rparr>"

text \<open>\<^verbatim>\<open>Push\<close> and \<^verbatim>\<open>Close\<close>, with whether they signal the condition variable.\<close>

definition Queue_Push :: "('b, 'v) buffer_ops \<Rightarrow> 'v \<Rightarrow> 'b Queue \<Rightarrow> 'b Queue \<times> bool" where
  "Queue_Push ops v e =
     (if \<not> q_closed e then (e\<lparr>q_buffer := buf_Add ops (q_buffer e) v\<rparr>, True) else (e, False))"

definition Queue_Close :: "'b Queue \<Rightarrow> 'b Queue \<times> bool" where
  "Queue_Close e = (if \<not> q_closed e then (e\<lparr>q_closed := True\<rparr>, True) else (e, False))"

text \<open>The loop condition of \<^verbatim>\<open>Pop\<close>, and what follows the loop.\<close>

definition Queue_Pop_waits :: "('b, 'v) buffer_ops \<Rightarrow> 'b Queue \<Rightarrow> bool" where
  "Queue_Pop_waits ops e \<longleftrightarrow> buf_Length ops (q_buffer e) = 0 \<and> \<not> q_closed e"

definition Queue_Pop_finish :: "('b, 'v) buffer_ops \<Rightarrow> 'b Queue \<Rightarrow> 'b Queue \<times> 'v option" where
  "Queue_Pop_finish ops e =
     (if q_closed e then (e, None)
      else if buf_Length ops (q_buffer e) > 0
           then (e\<lparr>q_buffer := buf_Remove ops (q_buffer e)\<rparr>, Some (buf_Peek ops (q_buffer e)))
           else (e, None))"

definition Queue_TryPop :: "('b, 'v) buffer_ops \<Rightarrow> 'b Queue \<Rightarrow> 'b Queue \<times> 'v option \<times> bool" where
  "Queue_TryPop ops e =
     (if buf_Length ops (q_buffer e) > 0
      then (e\<lparr>q_buffer := buf_Remove ops (q_buffer e)\<rparr>, Some (buf_Peek ops (q_buffer e)), True)
      else if q_closed e then (e, None, True)
      else (e, None, False))"

definition Queue_Len :: "('b, 'v) buffer_ops \<Rightarrow> 'b Queue \<Rightarrow> nat" where
  "Queue_Len ops e = buf_Length ops (q_buffer e)"

text \<open>The test that ends the busy loop of \<^verbatim>\<open>Wait\<close>.\<close>

definition Queue_Wait_done :: "('b, 'v) buffer_ops \<Rightarrow> 'b Queue \<Rightarrow> bool" where
  "Queue_Wait_done ops e \<longleftrightarrow> q_closed e \<or> buf_Length ops (q_buffer e) = 0"

section \<open>Goroutines\<close>

text \<open>\<open>hist_in\<close> are the values accepted by \<^verbatim>\<open>Push\<close>, \<open>hist_out\<close> those handed out, both in order.\<close>

record ('b, 'v) queue_sys =
  sy_queue :: "'b Queue"
  sy_asleep :: "nat set"
  sy_woken :: "nat set"
  hist_in :: "'v list"
  hist_out :: "'v list"

definition queue_init :: "('b, 'v) buffer_ops \<Rightarrow> ('b, 'v) queue_sys" where
  "queue_init ops =
     \<lparr>sy_queue = NewQueue ops, sy_asleep = {}, sy_woken = {}, hist_in = [], hist_out = []\<rparr>"

definition take_out :: "'v option \<Rightarrow> 'v list" where
  "take_out r = (case r of None \<Rightarrow> [] | Some v \<Rightarrow> [v])"

inductive queue_step :: "('b, 'v) buffer_ops \<Rightarrow> ('b, 'v) queue_sys \<Rightarrow> ('b, 'v) queue_sys \<Rightarrow> bool"
  for ops :: "('b, 'v) buffer_ops" where
  push_wakes:
    "Queue_Push ops v (sy_queue s) = (q, True) \<Longrightarrow> t \<in> sy_asleep s \<Longrightarrow>
     queue_step ops s (s\<lparr>sy_queue := q, sy_asleep := sy_asleep s - {t}, sy_woken := insert t (sy_woken s),
                         hist_in := hist_in s @ [v]\<rparr>)"
| push_nobody:
    "Queue_Push ops v (sy_queue s) = (q, True) \<Longrightarrow> sy_asleep s = {} \<Longrightarrow>
     queue_step ops s (s\<lparr>sy_queue := q, hist_in := hist_in s @ [v]\<rparr>)"
| push_closed:
    "Queue_Push ops v (sy_queue s) = (q, False) \<Longrightarrow> queue_step ops s (s\<lparr>sy_queue := q\<rparr>)"
| close_broadcast:
    "Queue_Close (sy_queue s) = (q, True) \<Longrightarrow>
     queue_step ops s (s\<lparr>sy_queue := q, sy_asleep := {}, sy_woken := sy_woken s \<union> sy_asleep s\<rparr>)"
| close_again:
    "Queue_Close (sy_queue s) = (q, False) \<Longrightarrow> queue_step ops s (s\<lparr>sy_queue := q\<rparr>)"
| pop_sleeps:
    "t \<notin> sy_asleep s \<Longrightarrow> Queue_Pop_waits ops (sy_queue s) \<Longrightarrow>
     queue_step ops s (s\<lparr>sy_asleep := insert t (sy_asleep s), sy_woken := sy_woken s - {t}\<rparr>)"
| pop_returns:
    "t \<notin> sy_asleep s \<Longrightarrow> \<not> Queue_Pop_waits ops (sy_queue s) \<Longrightarrow>
     Queue_Pop_finish ops (sy_queue s) = (q, r) \<Longrightarrow>
     queue_step ops s (s\<lparr>sy_queue := q, sy_woken := sy_woken s - {t}, hist_out := hist_out s @ take_out r\<rparr>)"
| try_pop:
    "Queue_TryPop ops (sy_queue s) = (q, r, ok) \<Longrightarrow>
     queue_step ops s (s\<lparr>sy_queue := q, hist_out := hist_out s @ take_out r\<rparr>)"

inductive queue_reach :: "('b, 'v) buffer_ops \<Rightarrow> ('b, 'v) queue_sys \<Rightarrow> bool"
  for ops :: "('b, 'v) buffer_ops" where
  init: "queue_reach ops (queue_init ops)"
| step: "queue_reach ops s \<Longrightarrow> queue_step ops s s' \<Longrightarrow> queue_reach ops s'"

section \<open>Order and wake-ups, for every first-in-first-out buffer\<close>

definition queue_inv :: "('b \<Rightarrow> 'v list) \<Rightarrow> ('b, 'v) queue_sys \<Rightarrow> bool" where
  "queue_inv contents s \<longleftrightarrow>
     hist_in s = hist_out s @ contents (q_buffer (sy_queue s)) \<and>
     finite (sy_asleep s) \<and> finite (sy_woken s) \<and> sy_asleep s \<inter> sy_woken s = {} \<and>
     (q_closed (sy_queue s) \<longrightarrow> sy_asleep s = {}) \<and>
     (sy_asleep s \<noteq> {} \<longrightarrow> length (contents (q_buffer (sy_queue s))) \<le> card (sy_woken s))"

context fifo_buffer
begin

lemma queue_inv_init: "queue_inv contents (queue_init ops)"
  by (simp add: queue_inv_def queue_init_def NewQueue_def contents_New)

lemma pop_value:
  assumes "contents (q_buffer e) \<noteq> []"
  shows "take_out (Some (buf_Peek ops (q_buffer e))) @ contents (buf_Remove ops (q_buffer e)) = contents (q_buffer e)"
  using assms by (simp add: take_out_def contents_Peek contents_Remove)

lemma queue_inv_step:
  assumes "queue_step ops s s'" and inv: "queue_inv contents s"
  shows "queue_inv contents s'"
  using assms(1)
proof cases
  case (push_wakes v q t)
  then show ?thesis
    using inv by (auto simp: queue_inv_def Queue_Push_def contents_Add card_insert_if split: if_splits)
next
  case (pop_sleeps t)
  then have "contents (q_buffer (sy_queue s)) = []" "\<not> q_closed (sy_queue s)"
    by (simp_all add: Queue_Pop_waits_def contents_Length)
  then show ?thesis using inv pop_sleeps by (auto simp: queue_inv_def)
next
  case (pop_returns t q r)
  show ?thesis
  proof (cases "q_closed (sy_queue s)")
    case True
    then show ?thesis using inv pop_returns by (auto simp: queue_inv_def Queue_Pop_finish_def take_out_def)
  next
    case False
    with pop_returns have ne: "contents (q_buffer (sy_queue s)) \<noteq> []"
      by (simp add: Queue_Pop_waits_def contents_Length)
    have "sy_asleep s = {} \<or> length (contents (q_buffer (sy_queue s))) - 1 \<le> card (sy_woken s - {t})"
      using inv by (auto simp: queue_inv_def card_Diff_singleton_if)
    then show ?thesis
      using inv pop_returns False ne pop_value [OF ne]
      by (auto simp: queue_inv_def Queue_Pop_finish_def contents_Length contents_Remove)
  qed
next
  case (try_pop q r ok)
  then show ?thesis
    using inv pop_value [of "sy_queue s"]
    by (auto simp: queue_inv_def Queue_TryPop_def contents_Length contents_Remove take_out_def split: if_splits)
qed (use inv in \<open>auto simp: queue_inv_def Queue_Push_def Queue_Close_def contents_Add split: if_splits\<close>)

lemma queue_reach_inv: "queue_reach ops s \<Longrightarrow> queue_inv contents s"
  by (induction rule: queue_reach.induct) (auto intro: queue_inv_init queue_inv_step)

lemma queue_fifo:
  "queue_reach ops s \<Longrightarrow> hist_in s = hist_out s @ contents (q_buffer (sy_queue s))"
  using queue_reach_inv by (auto simp: queue_inv_def)

lemma queue_no_lost_wakeup:
  assumes "queue_reach ops s" and "t \<in> sy_asleep s"
  shows "\<not> q_closed (sy_queue s)" and "contents (q_buffer (sy_queue s)) \<noteq> [] \<Longrightarrow> sy_woken s \<noteq> {}"
  using queue_reach_inv [OF assms(1)] assms(2) by (auto simp: queue_inv_def)

end

text \<open>A buffer that keeps its values in a list satisfies the laws.\<close>

definition list_ops :: "('v list, 'v) buffer_ops" where
  "list_ops = \<lparr>buf_New = [], buf_Add = (\<lambda>b v. b @ [v]), buf_Peek = hd, buf_Remove = tl, buf_Length = length\<rparr>"

interpretation list_buffer: fifo_buffer list_ops id
  by unfold_locales (simp_all add: list_ops_def)

text \<open>
  C22: the queue is first-in-first-out under every interleaving.  With a buffer that keeps its
  contract, the values accepted by \<^verbatim>\<open>Push\<close> are, in this order, those handed out by \<^verbatim>\<open>Pop\<close> and \<^verbatim>\<open>TryPop\<close>
  followed by those still in the buffer: nothing is lost, duplicated or overtaken.
\<close>

theorem queue_order:
  assumes "fifo_buffer ops contents" and "queue_reach ops s"
  shows "hist_in s = hist_out s @ contents (q_buffer (sy_queue s))"
  using assms by (rule fifo_buffer.queue_fifo)

lemma queue_demo_reach:
  "queue_reach list_ops \<lparr>sy_queue = \<lparr>q_buffer = [8 :: nat], q_closed = False\<rparr>, sy_asleep = {},
     sy_woken = {3}, hist_in = [8], hist_out = []\<rparr>"
proof -
  let ?s = "\<lparr>sy_queue = \<lparr>q_buffer = [], q_closed = False\<rparr>, sy_asleep = {3 :: nat},
     sy_woken = {}, hist_in = [], hist_out = []\<rparr> :: (nat list, nat) queue_sys"
  have "queue_reach list_ops ?s"
    using queue_reach.step [OF queue_reach.init pop_sleeps [of 3 "queue_init list_ops" list_ops]]
    by (simp add: queue_init_def NewQueue_def list_ops_def Queue_Pop_waits_def)
  moreover have "Queue_Push list_ops 8 (sy_queue ?s) = (\<lparr>q_buffer = [8], q_closed = False\<rparr>, True)"
    by (simp add: Queue_Push_def list_ops_def)
  ultimately show ?thesis
    using queue_reach.step [OF _ push_wakes [of list_ops 8 ?s _ 3]] by fastforce
qed

theorem queue_order_witness:
  "\<exists>s. queue_reach list_ops s \<and> hist_in s = [8 :: nat] \<and> hist_in s = hist_out s @ id (q_buffer (sy_queue s))"
  using queue_demo_reach queue_order [OF list_buffer.fifo_buffer_axioms queue_demo_reach] by fastforce

text \<open>
  no wake-up is lost.  While a goroutine sleeps in \<^verbatim>\<open>Pop\<close> the queue is open, and if there is a value
  for it some goroutine has been woken and is on its way to the buffer, although \<^verbatim>\<open>Push\<close> signals only
  one sleeper and others may overtake it.
\<close>

theorem queue_wakeups:
  assumes "fifo_buffer ops contents" and "queue_reach ops s" and "t \<in> sy_asleep s"
  shows "\<not> q_closed (sy_queue s) \<and> (contents (q_buffer (sy_queue s)) \<noteq> [] \<longrightarrow> sy_woken s \<noteq> {})"
  using fifo_buffer.queue_no_lost_wakeup [OF assms] by simp

lemma queue_demo2_reach:
  "queue_reach list_ops \<lparr>sy_queue = \<lparr>q_buffer = [8 :: nat], q_closed = False\<rparr>, sy_asleep = {4},
     sy_woken = {3}, hist_in = [8], hist_out = []\<rparr>"
proof -
  let ?s = "\<lparr>sy_queue = \<lparr>q_buffer = [], q_closed = False\<rparr>, sy_asleep = {3 :: nat},
     sy_woken = {}, hist_in = [], hist_out = []\<rparr> :: (nat list, nat) queue_sys"
  let ?s2 = "\<lparr>sy_queue = \<lparr>q_buffer = [], q_closed = False\<rparr>, sy_asleep = {4, 3 :: nat},
     sy_woken = {}, hist_in = [], hist_out = []\<rparr> :: (nat list, nat) queue_sys"
  have "queue_reach list_ops ?s"
    using queue_reach.step [OF queue_reach.init pop_sleeps [of 3 "queue_init list_ops" list_ops]]
    by (simp add: queue_init_def NewQueue_def list_ops_def Queue_Pop_waits_def)
  from queue_reach.step [OF this pop_sleeps [of 4 ?s list_ops]] have "queue_reach list_ops ?s2"
    by (simp add: list_ops_def Queue_Pop_waits_def)
  moreover have "Queue_Push list_ops 8 (sy_queue ?s2) = (\<lparr>q_buffer = [8], q_closed = False\<rparr>, True)"
    by (simp add: Queue_Push_def list_ops_def)
  moreover have "{4, 3} - {3} = {4 :: nat}" by auto
  ultimately show ?thesis
    using queue_reach.step [OF _ push_wakes [of list_ops 8 ?s2 _ 3]] by fastforce
qed

theorem queue_wakeups_witness:
  "\<exists>s. queue_reach list_ops s \<and> 4 \<in> sy_asleep s \<and> q_buffer (sy_queue s) = [8 :: nat]
     \<and> \<not> q_closed (sy_queue s) \<and> sy_woken s \<noteq> {}"
  using queue_demo2_reach queue_wakeups [OF list_buffer.fifo_buffer_axioms queue_demo2_reach, of 4]
  by (intro exI [of _ "\<lparr>sy_queue = \<lparr>q_buffer = [8], q_closed = False\<rparr>, sy_asleep = {4},
     sy_woken = {3}, hist_in = [8], hist_out = []\<rparr>"]) simp

text \<open>
  \<^verbatim>\<open>Pop\<close> tests \<^verbatim>\<open>closed\<close> before it looks at the buffer, so values pushed before \<^verbatim>\<open>Close\<close> are not popped any
  more, while \<^verbatim>\<open>TryPop\<close> still drains them and only then reports the end of the queue.
\<close>

lemma closed_queue_pops:
  "q_closed e \<Longrightarrow> Queue_Pop_finish ops e = (e, None)"
  "buf_Length ops (q_buffer e) > 0 \<Longrightarrow> Queue_TryPop ops e =
     (e\<lparr>q_buffer := buf_Remove ops (q_buffer e)\<rparr>, Some (buf_Peek ops (q_buffer e)), True)"
  by (simp_all add: Queue_Pop_finish_def Queue_TryPop_def)

end
