(* ===== verification/Wait.thy ===== *)
theory Wait
  imports Octo_Prelude
begin

text \<open>
  \<^verbatim>\<open>pkg/wait/wait.go\<close>: goroutines register for an id and are triggered once.  The registry is sharded
  into 64 maps by \<^verbatim>\<open>id % 64\<close>; channels are buffered with capacity 1 and live in a heap.  Each method
  works on one shard under its lock, so an interleaving is a sequence of method calls; the send of
  \<^verbatim>\<open>Trigger\<close> happens after the lock is released, on a channel that no other caller can reach any more.
  The specification is one map from ids to channels.
\<close>

section \<open>State\<close>

record 'v chan =
  ch_buf :: "'v list"
  ch_closed :: bool

record 'v wait_list =
  w_e :: "(64 word \<rightharpoonup> nat) list"
  w_chans :: "nat \<Rightarrow> 'v chan"
  w_next :: nat

definition defaultListElementLength :: nat where
  "defaultListElementLength = 64"

definition new_chan :: "'v chan" where
  "new_chan = \<lparr>ch_buf = [], ch_closed = False\<rparr>"

definition Wait_New :: "'v wait_list" where
  "Wait_New = \<lparr>w_e = replicate defaultListElementLength Map.empty, w_chans = (\<lambda>_. new_chan), w_next = 0\<rparr>"

definition wait_idx :: "64 word \<Rightarrow> nat" where
  "wait_idx ident = unat ident mod defaultListElementLength"

fun nat_hex :: "nat \<Rightarrow> string" where
  "nat_hex n =
     (let d = (\<lambda>k. if k < 10 then char_of (48 + k) else char_of (87 + k))
      in if n < 16 then [d n] else nat_hex (n div 16) @ [d (n mod 16)])"

declare nat_hex.simps [simp del]

definition dup_msg :: "64 word \<Rightarrow> string" where
  "dup_msg ident = ''dup id '' @ nat_hex (unat ident)"

section \<open>Methods\<close>

definition Wait_Register :: "64 word \<Rightarrow> 'v wait_list \<Rightarrow> ('v wait_list \<times> nat) go" where
  "Wait_Register ident w =
     (let idx = wait_idx ident;
          newCh = w_next w;
          w = w\<lparr>w_chans := (w_chans w)(newCh := new_chan), w_next := newCh + 1\<rparr>
      in case (w_e w ! idx) ident of
           None \<Rightarrow> Ret (w\<lparr>w_e := (w_e w)[idx := (w_e w ! idx)(ident \<mapsto> newCh)]\<rparr>, newCh)
         | Some _ \<Rightarrow> Panic (dup_msg ident))"

text \<open>A send on a closed channel panics; one that finds the buffer full would block forever.\<close>

datatype 'a outcome = Done 'a | Blocked | Fault string

definition chan_send :: "nat \<Rightarrow> 'v \<Rightarrow> 'v wait_list \<Rightarrow> 'v wait_list outcome" where
  "chan_send c x w =
     (let ch = w_chans w c
      in if ch_closed ch then Fault ''send on closed channel''
         else if length (ch_buf ch) \<ge> 1 then Blocked
         else Done (w\<lparr>w_chans := (w_chans w)(c := ch\<lparr>ch_buf := ch_buf ch @ [x]\<rparr>)\<rparr>))"

definition chan_close :: "nat \<Rightarrow> 'v wait_list \<Rightarrow> 'v wait_list outcome" where
  "chan_close c w =
     (if ch_closed (w_chans w c) then Fault ''close of closed channel''
      else Done (w\<lparr>w_chans := (w_chans w)(c := (w_chans w c)\<lparr>ch_closed := True\<rparr>)\<rparr>))"

definition Wait_Trigger :: "64 word \<Rightarrow> 'v \<Rightarrow> 'v wait_list \<Rightarrow> 'v wait_list outcome" where
  "Wait_Trigger ident x w =
     (let idx = wait_idx ident;
          ch = (w_e w ! idx) ident;
          w = w\<lparr>w_e := (w_e w)[idx := (w_e w ! idx)(ident := None)]\<rparr>
      in case ch of
           None \<Rightarrow> Done w
         | Some c \<Rightarrow> (case chan_send c x w of Done w' \<Rightarrow> chan_close c w' | r \<Rightarrow> r))"

definition Wait_IsRegistered :: "64 word \<Rightarrow> 'v wait_list \<Rightarrow> bool" where
  "Wait_IsRegistered ident w \<longleftrightarrow> (w_e w ! wait_idx ident) ident \<noteq> None"

section \<open>Specification and invariant\<close>

text \<open>The registry as one map.\<close>

definition wait_map :: "'v wait_list \<Rightarrow> 64 word \<rightharpoonup> nat" where
  "wait_map w ident = (w_e w ! wait_idx ident) ident"

definition wait_inv :: "'v wait_list \<Rightarrow> bool" where
  "wait_inv w \<longleftrightarrow>
     length (w_e w) = defaultListElementLength \<and>
     (\<forall>ident c. wait_map w ident = Some c \<longrightarrow> c < w_next w \<and> w_chans w c = new_chan) \<and>
     (\<forall>ident ident' c. wait_map w ident = Some c \<and> wait_map w ident' = Some c \<longrightarrow> ident = ident')"

lemma wait_idx_less [simp]: "wait_idx ident < defaultListElementLength"
  by (simp add: wait_idx_def defaultListElementLength_def)

lemma wait_map_update:
  assumes "length (w_e w) = defaultListElementLength"
  shows "wait_map (w\<lparr>w_e := (w_e w)[wait_idx ident := (w_e w ! wait_idx ident)(ident := v)]\<rparr>) = (wait_map w)(ident := v)"
  using assms by (auto simp: wait_map_def fun_eq_iff nth_list_update)

lemma wait_map_frame [simp]:
  "wait_map (w\<lparr>w_chans := f, w_next := n\<rparr>) = wait_map w" "wait_map (w\<lparr>w_chans := f\<rparr>) = wait_map w"
  by (simp_all add: wait_map_def fun_eq_iff)

lemma Wait_New_inv: "wait_inv Wait_New"
  by (simp add: wait_inv_def Wait_New_def wait_map_def)

text \<open>
  \<^verbatim>\<open>Register\<close> on the sharded registry is insertion into one map: on a free id it returns a fresh,
  empty, open channel and maps the id to it; on a registered id it panics with the id.
\<close>

theorem Wait_Register_refines:
  assumes "wait_inv w"
  shows "case wait_map w ident of
      None \<Rightarrow> \<exists>w'. Wait_Register ident w = Ret (w', w_next w) \<and> wait_inv w'
        \<and> wait_map w' = (wait_map w)(ident \<mapsto> w_next w) \<and> w_chans w' (w_next w) = new_chan
    | Some c \<Rightarrow> Wait_Register ident w = Panic (dup_msg ident)"
proof (cases "wait_map w ident")
  case None
  let ?w = "w\<lparr>w_chans := (w_chans w)(w_next w := new_chan), w_next := w_next w + 1\<rparr>"
  let ?w' = "?w\<lparr>w_e := (w_e w)[wait_idx ident := (w_e w ! wait_idx ident)(ident \<mapsto> w_next w)]\<rparr>"
  have m: "wait_map ?w' = (wait_map w)(ident \<mapsto> w_next w)"
    using wait_map_update [of ?w ident] assms by (simp add: wait_inv_def)
  have "Wait_Register ident w = Ret (?w', w_next w)"
    using None by (simp add: Wait_Register_def wait_map_def Let_def)
  moreover have "wait_inv ?w'"
    using assms unfolding wait_inv_def m by (auto simp: less_SucI dest: less_not_refl2)
  ultimately show ?thesis using None m by simp
qed (simp add: Wait_Register_def wait_map_def Let_def)

theorem Wait_Register_refines_witness:
  "\<exists>w'. Wait_Register 70 (Wait_New :: nat wait_list) = Ret (w', 0) \<and> wait_map w' = [70 \<mapsto> 0]"
  using Wait_Register_refines [OF Wait_New_inv, of 70]
  by (auto simp: Wait_New_def wait_map_def fun_eq_iff split: option.splits)

text \<open>
  C35: \<^verbatim>\<open>Trigger\<close> always returns: it never blocks on the send and never sends on or closes a closed channel.
  It delivers the value to the channel registered for the id and to no other, closes it and frees the
  id; for an id that is not registered it changes nothing, so each registration is triggered once.
\<close>

theorem Wait_Trigger_correct:
  assumes "wait_inv w"
  shows "\<exists>w'. Wait_Trigger ident x w = Done w' \<and> wait_inv w' \<and> wait_map w' = (wait_map w)(ident := None)
    \<and> w_chans w' = (case wait_map w ident of
         None \<Rightarrow> w_chans w
       | Some c \<Rightarrow> (w_chans w)(c := \<lparr>ch_buf = [x], ch_closed = True\<rparr>))"
proof (cases "wait_map w ident")
  case None
  let ?w = "w\<lparr>w_e := (w_e w)[wait_idx ident := (w_e w ! wait_idx ident)(ident := None)]\<rparr>"
  have m: "wait_map ?w = (wait_map w)(ident := None)"
    using assms by (intro wait_map_update) (simp add: wait_inv_def)
  have "Wait_Trigger ident x w = Done ?w" using None by (simp add: Wait_Trigger_def wait_map_def Let_def)
  moreover have "wait_inv ?w" using assms unfolding wait_inv_def m by auto
  ultimately show ?thesis using None m by simp
next
  case (Some c)
  let ?w = "w\<lparr>w_e := (w_e w)[wait_idx ident := (w_e w ! wait_idx ident)(ident := None)]\<rparr>"
  let ?w' = "?w\<lparr>w_chans := (w_chans w)(c := \<lparr>ch_buf = [x], ch_closed = True\<rparr>)\<rparr>"
  have m: "wait_map ?w' = (wait_map w)(ident := None)"
    using assms wait_map_update [of w ident None] by (simp add: wait_inv_def)
  have c: "w_chans w c = new_chan" using assms Some by (auto simp: wait_inv_def)
  then have "Wait_Trigger ident x w = Done ?w'"
    using Some by (simp add: Wait_Trigger_def wait_map_def Let_def chan_send_def chan_close_def new_chan_def)
  moreover have "wait_inv ?w'"
    using assms Some unfolding wait_inv_def m by auto
  ultimately show ?thesis using Some m by simp
qed

theorem Wait_Trigger_correct_witness:
  "\<exists>w'. Wait_Trigger 70 (5 :: nat) Wait_New = Done w' \<and> wait_inv w'"
  using Wait_Trigger_correct [OF Wait_New_inv, of 70 5] by blast

end
