(* ===== verification/Seq.thy ===== *)
theory Seq
  imports Octo_Prelude
begin

text \<open>
  The sequence numbers of \<^verbatim>\<open>config/seq.go\<close>.  \<^verbatim>\<open>GenSeq\<close> runs under a process-wide mutex, so calls are a
  sequence of steps on the map \<^verbatim>\<open>seqMap\<close> of the process and the table \<^verbatim>\<open>seq\<close> of the database.  The database
  is an argument: the two queries of the file with their possible failures, and the locale
  \<open>seq_store\<close> says what the code relies on, where a failed upsert may or may not have taken effect.  A
  step relation adds restarts of the process, which lose the map and keep the table.  The counters
  are int64 in Go; they start at a million and grow by one per call, far from the bound, and are
  integers here.
\<close>

section \<open>State\<close>

record Seq =
  CurSeq :: int
  MaxSeq :: int

definition seqStep :: int where
  "seqStep = 1000"

text \<open>\<^verbatim>\<open>querySeqWithKey\<close> returns the row's \<^verbatim>\<open>min_seq\<close> if there is a row; \<^verbatim>\<open>addOrUpdateSeq\<close> writes one.\<close>

record 'db seq_db =
  querySeqWithKey :: "'db \<Rightarrow> string \<Rightarrow> 'db \<times> (string + int option)"
  addOrUpdateSeq :: "'db \<Rightarrow> string \<Rightarrow> int \<Rightarrow> int \<Rightarrow> 'db \<times> string option"

locale seq_store =
  fixes ops :: "'db seq_db" and min_seq :: "'db \<Rightarrow> string \<Rightarrow> int option"
  assumes query_frame: "querySeqWithKey ops db k = (db', r) \<Longrightarrow> min_seq db' = min_seq db"
    and query_value: "querySeqWithKey ops db k = (db', Inr m) \<Longrightarrow> m = min_seq db k"
    and upsert_done: "addOrUpdateSeq ops db k v st = (db', None) \<Longrightarrow> min_seq db' = (min_seq db)(k \<mapsto> v)"
    and upsert_failed: "addOrUpdateSeq ops db k v st = (db', Some e) \<Longrightarrow>
      min_seq db' = min_seq db \<or> min_seq db' = (min_seq db)(k \<mapsto> v)"

section \<open>GenSeq\<close>

datatype seq_error = QueryFailed string string | InitFailed string string | ExtendFailed string string

definition seq_key :: "string \<Rightarrow> string" where
  "seq_key flag = ''seq:'' @ flag"

text \<open>The part of \<^verbatim>\<open>GenSeq\<close> that loads or creates the entry of the flag.\<close>

definition GenSeq_load ::
  "'db seq_db \<Rightarrow> string \<Rightarrow> (string \<rightharpoonup> Seq) \<Rightarrow> 'db \<Rightarrow> (string \<rightharpoonup> Seq) \<times> 'db \<times> (seq_error + Seq)" where
  "GenSeq_load ops flag seqMap db =
     (case seqMap flag of
        Some seq \<Rightarrow> (seqMap, db, Inr seq)
      | None \<Rightarrow>
          (case querySeqWithKey ops db (seq_key flag) of
             (db, Inl err) \<Rightarrow> (seqMap, db, Inl (QueryFailed flag err))
           | (db, Inr None) \<Rightarrow>
               (let currSeq = 1000000
                in case addOrUpdateSeq ops db (seq_key flag) (currSeq + seqStep) seqStep of
                     (db, Some err) \<Rightarrow> (seqMap, db, Inl (InitFailed flag err))
                   | (db, None) \<Rightarrow>
                       let seq = \<lparr>CurSeq = currSeq, MaxSeq = currSeq + seqStep\<rparr>
                       in (seqMap(flag \<mapsto> seq), db, Inr seq))
           | (db, Inr (Some minSeq)) \<Rightarrow>
               let seq = \<lparr>CurSeq = minSeq, MaxSeq = minSeq\<rparr> in (seqMap(flag \<mapsto> seq), db, Inr seq)))"

definition GenSeq ::
  "'db seq_db \<Rightarrow> string \<Rightarrow> (string \<rightharpoonup> Seq) \<Rightarrow> 'db \<Rightarrow> (string \<rightharpoonup> Seq) \<times> 'db \<times> (seq_error + int)" where
  "GenSeq ops flag seqMap db =
     (case GenSeq_load ops flag seqMap db of
        (seqMap, db, Inl err) \<Rightarrow> (seqMap, db, Inl err)
      | (seqMap, db, Inr seq) \<Rightarrow>
          (let (db, err) =
                 (if CurSeq seq \<ge> MaxSeq seq
                  then addOrUpdateSeq ops db (seq_key flag) (CurSeq seq + seqStep) seqStep
                  else (db, None));
               seq' = (if CurSeq seq \<ge> MaxSeq seq then seq\<lparr>MaxSeq := MaxSeq seq + seqStep\<rparr> else seq)
           in case err of
                Some e \<Rightarrow> (seqMap, db, Inl (ExtendFailed flag e))
              | None \<Rightarrow>
                  let seq' = seq'\<lparr>CurSeq := CurSeq seq' + 1\<rparr>
                  in (seqMap(flag \<mapsto> seq'), db, Inr (CurSeq seq'))))"

section \<open>Calls and restarts\<close>

text \<open>\<open>seq_issued\<close> collects, per flag, the numbers returned so far, latest first.\<close>

record 'db seq_sys =
  seq_map :: "string \<rightharpoonup> Seq"
  seq_tab :: 'db
  seq_issued :: "string \<Rightarrow> int list"

definition seq_start :: "'db \<Rightarrow> 'db seq_sys" where
  "seq_start db = \<lparr>seq_map = Map.empty, seq_tab = db, seq_issued = (\<lambda>_. [])\<rparr>"

inductive seq_step :: "'db seq_db \<Rightarrow> 'db seq_sys \<Rightarrow> 'db seq_sys \<Rightarrow> bool" for ops :: "'db seq_db" where
  call_ok:
    "GenSeq ops flag (seq_map s) (seq_tab s) = (m, db, Inr v) \<Longrightarrow>
     seq_step ops s \<lparr>seq_map = m, seq_tab = db, seq_issued = (seq_issued s)(flag := v # seq_issued s flag)\<rparr>"
| call_error:
    "GenSeq ops flag (seq_map s) (seq_tab s) = (m, db, Inl e) \<Longrightarrow>
     seq_step ops s (s\<lparr>seq_map := m, seq_tab := db\<rparr>)"
| restart: "seq_step ops s (s\<lparr>seq_map := Map.empty\<rparr>)"

inductive seq_reach :: "'db seq_db \<Rightarrow> 'db \<Rightarrow> 'db seq_sys \<Rightarrow> bool" for ops :: "'db seq_db" and db0 :: 'db where
  init: "seq_reach ops db0 (seq_start db0)"
| step: "seq_reach ops db0 s \<Longrightarrow> seq_step ops s s' \<Longrightarrow> seq_reach ops db0 s'"

text \<open>
  The invariant: in memory the current number is at most the reserved maximum, which the table
  covers; every number issued is at most the current one, and without an entry in memory at most the
  table's minimum.
\<close>

fun flag_ok :: "Seq option \<Rightarrow> int option \<Rightarrow> int list \<Rightarrow> bool" where
  "flag_ok (Some q) (Some m) iss \<longleftrightarrow>
     sorted_wrt (>) iss \<and> CurSeq q \<le> MaxSeq q \<and> MaxSeq q \<le> m \<and> (\<forall>v\<in>set iss. v \<le> CurSeq q)"
| "flag_ok (Some q) None iss \<longleftrightarrow> False"
| "flag_ok None (Some m) iss \<longleftrightarrow> sorted_wrt (>) iss \<and> (\<forall>v\<in>set iss. v \<le> m)"
| "flag_ok None None iss \<longleftrightarrow> iss = []"

lemma flag_ok_sorted: "flag_ok q m iss \<Longrightarrow> sorted_wrt (>) iss"
  by (cases q; cases m) auto

lemma flag_ok_restart: "flag_ok q m iss \<Longrightarrow> flag_ok None m iss"
  by (cases q; cases m) auto

lemma seq_key_inj [simp]: "seq_key f = seq_key g \<longleftrightarrow> f = g"
  by (simp add: seq_key_def)

lemma bound_step: "\<forall>v\<in>set iss. v \<le> (c :: int) \<Longrightarrow> \<forall>v\<in>set iss. v \<le> c + 1"
  by auto

context seq_store
begin

lemma upsert_other:
  "addOrUpdateSeq ops db (seq_key f) v st = (db', e) \<Longrightarrow> g \<noteq> f \<Longrightarrow> min_seq db' (seq_key g) = min_seq db (seq_key g)"
  using upsert_done [of db "seq_key f" v st db'] upsert_failed [of db "seq_key f" v st db']
  by (cases e) fastforce+

lemma upsert_same:
  "addOrUpdateSeq ops db (seq_key f) v st = (db', e) \<Longrightarrow>
   min_seq db' (seq_key f) = Some v \<or> e \<noteq> None \<and> min_seq db' (seq_key f) = min_seq db (seq_key f)"
  using upsert_done [of db "seq_key f" v st db'] upsert_failed [of db "seq_key f" v st db']
  by (cases e) fastforce+

lemma load_ok:
  assumes ok: "flag_ok (seqMap f) (min_seq db (seq_key f)) iss"
    and load: "GenSeq_load ops f seqMap db = (m, db', r)"
  shows "flag_ok (m f) (min_seq db' (seq_key f)) iss" and "r = Inr q \<Longrightarrow> m f = Some q"
    and "g \<noteq> f \<Longrightarrow> m g = seqMap g" and "g \<noteq> f \<Longrightarrow> min_seq db' (seq_key g) = min_seq db (seq_key g)"
proof -
  have "flag_ok (m f) (min_seq db' (seq_key f)) iss \<and> (r = Inr q \<longrightarrow> m f = Some q) \<and>
      (g \<noteq> f \<longrightarrow> m g = seqMap g \<and> min_seq db' (seq_key g) = min_seq db (seq_key g))"
  proof (cases "seqMap f")
    case (Some seq)
    then show ?thesis using ok load by (auto simp: GenSeq_load_def)
  next
    case None
    obtain db1 r1 where q: "querySeqWithKey ops db (seq_key f) = (db1, r1)" by fastforce
    have fr: "min_seq db1 = min_seq db" by (rule query_frame [OF q])
    consider (err) e where "r1 = Inl e" | (row) x where "r1 = Inr (Some x)" | (none) "r1 = Inr None"
      by (metis sumE option.exhaust)
    then show ?thesis
    proof cases
      case err
      then show ?thesis using None load q fr ok by (auto simp: GenSeq_load_def)
    next
      case row
      then have "min_seq db (seq_key f) = Some x" using query_value q by metis
      then show ?thesis using row None load q fr ok by (auto simp: GenSeq_load_def Let_def)
    next
      case none
      then have "min_seq db (seq_key f) = None" using query_value q by metis
      then have iss: "iss = []" using ok None by simp
      obtain db2 e where u: "addOrUpdateSeq ops db1 (seq_key f) (1000000 + seqStep) seqStep = (db2, e)" by fastforce
      show ?thesis
        using none None load q u iss fr upsert_other [OF u, of g] upsert_same [OF u]
        by (cases e) (auto simp: GenSeq_load_def Let_def seqStep_def \<open>min_seq db (seq_key f) = None\<close>)
    qed
  qed
  then show "flag_ok (m f) (min_seq db' (seq_key f)) iss" "r = Inr q \<Longrightarrow> m f = Some q"
    "g \<noteq> f \<Longrightarrow> m g = seqMap g" "g \<noteq> f \<Longrightarrow> min_seq db' (seq_key g) = min_seq db (seq_key g)" by auto
qed

lemma GenSeq_ok:
  assumes ok: "flag_ok (seqMap f) (min_seq db (seq_key f)) iss"
    and gen: "GenSeq ops f seqMap db = (m, db', r)"
  shows "flag_ok (m f) (min_seq db' (seq_key f)) (case r of Inl _ \<Rightarrow> iss | Inr v \<Rightarrow> v # iss)"
    and "g \<noteq> f \<Longrightarrow> m g = seqMap g" and "g \<noteq> f \<Longrightarrow> min_seq db' (seq_key g) = min_seq db (seq_key g)"
proof -
  obtain m1 db1 r1 where l: "GenSeq_load ops f seqMap db = (m1, db1, r1)" by (metis prod.exhaust)
  note lok = load_ok [OF ok l]
  have "flag_ok (m f) (min_seq db' (seq_key f)) (case r of Inl _ \<Rightarrow> iss | Inr v \<Rightarrow> v # iss) \<and>
      (g \<noteq> f \<longrightarrow> m g = seqMap g \<and> min_seq db' (seq_key g) = min_seq db (seq_key g))"
  proof (cases r1)
    case (Inl e)
    then show ?thesis using gen l lok by (auto simp: GenSeq_def)
  next
    case (Inr seq)
    then have mf: "m1 f = Some seq" using lok(2) by simp
    then obtain x where x: "min_seq db1 (seq_key f) = Some x" "CurSeq seq \<le> MaxSeq seq" "MaxSeq seq \<le> x"
      "sorted_wrt (>) iss" "\<forall>v\<in>set iss. v \<le> CurSeq seq"
      using lok(1) by (cases "min_seq db1 (seq_key f)") auto
    show ?thesis
    proof (cases "CurSeq seq \<ge> MaxSeq seq")
      case True
      then have c: "CurSeq seq = MaxSeq seq" using x by simp
      obtain db2 e where u: "addOrUpdateSeq ops db1 (seq_key f) (CurSeq seq + seqStep) seqStep = (db2, e)" by fastforce
      show ?thesis
        using gen l Inr True u c x bound_step [OF x(5)] mf lok(3,4) upsert_other [OF u, of g] upsert_same [OF u]
        by (cases e) (auto simp: GenSeq_def Let_def seqStep_def)
    next
      case False
      then show ?thesis
        using gen l Inr x bound_step [OF x(5)] mf lok(3,4) by (auto simp: GenSeq_def Let_def)
    qed
  qed
  then show "flag_ok (m f) (min_seq db' (seq_key f)) (case r of Inl _ \<Rightarrow> iss | Inr v \<Rightarrow> v # iss)"
    "g \<noteq> f \<Longrightarrow> m g = seqMap g" "g \<noteq> f \<Longrightarrow> min_seq db' (seq_key g) = min_seq db (seq_key g)" by auto
qed

lemma seq_step_ok:
  assumes "seq_step ops s s'" and "\<forall>g. flag_ok (seq_map s g) (min_seq (seq_tab s) (seq_key g)) (seq_issued s g)"
  shows "\<forall>g. flag_ok (seq_map s' g) (min_seq (seq_tab s') (seq_key g)) (seq_issued s' g)"
  using assms(1)
proof cases
  case (call_ok f m db v)
  show ?thesis
  proof
    fix g
    note ok = GenSeq_ok [OF assms(2) [rule_format, of f] call_ok(2)]
    show "flag_ok (seq_map s' g) (min_seq (seq_tab s') (seq_key g)) (seq_issued s' g)"
      using ok(1) ok(2,3) [of g] assms(2) [rule_format, of g] call_ok(1) by (cases "g = f") auto
  qed
next
  case (call_error f m db e)
  show ?thesis
  proof
    fix g
    note ok = GenSeq_ok [OF assms(2) [rule_format, of f] call_error(2)]
    show "flag_ok (seq_map s' g) (min_seq (seq_tab s') (seq_key g)) (seq_issued s' g)"
      using ok(1) ok(2,3) [of g] assms(2) [rule_format, of g] call_error(1) by (cases "g = f") auto
  qed
next
  case restart
  then show ?thesis using assms(2) flag_ok_restart by auto
qed

lemma seq_reach_ok:
  "seq_reach ops db0 s \<Longrightarrow> \<forall>g. flag_ok (seq_map s g) (min_seq (seq_tab s) (seq_key g)) (seq_issued s g)"
proof (induction rule: seq_reach.induct)
  case init
  have "flag_ok None x []" for x by (cases x) auto
  then show ?case by (simp add: seq_start_def)
qed (rule seq_step_ok)

lemma issued_strictly_increasing: "seq_reach ops db0 s \<Longrightarrow> sorted_wrt (<) (rev (seq_issued s flag))"
  using seq_reach_ok [of db0 s] flag_ok_sorted by (auto simp: sorted_wrt_rev)

end

section \<open>A table with scheduled faults\<close>

text \<open>
  A database that keeps the table in memory and fails when its schedule says so: \<open>FaultBefore\<close> fails
  without effect, \<open>FaultAfter\<close> after the write was made.
\<close>

datatype fault = NoFault | FaultBefore | FaultAfter

record mem_table =
  mt_rows :: "(string \<times> int) list"
  mt_faults :: "fault list"

definition next_fault :: "mem_table \<Rightarrow> fault \<times> mem_table" where
  "next_fault db = (case mt_faults db of [] \<Rightarrow> (NoFault, db) | f # fs \<Rightarrow> (f, db\<lparr>mt_faults := fs\<rparr>))"

definition mem_seq_db :: "mem_table seq_db" where
  "mem_seq_db =
     \<lparr>querySeqWithKey = (\<lambda>db k.
        let (f, db) = next_fault db
        in if f = NoFault then (db, Inr (map_of (mt_rows db) k)) else (db, Inl ''connection lost'')),
      addOrUpdateSeq = (\<lambda>db k v st.
        let (f, db) = next_fault db;
            db' = db\<lparr>mt_rows := (k, v) # mt_rows db\<rparr>
        in case f of NoFault \<Rightarrow> (db', None)
             | FaultBefore \<Rightarrow> (db, Some ''connection lost'')
             | FaultAfter \<Rightarrow> (db', Some ''connection lost''))\<rparr>"

interpretation mem_seq: seq_store mem_seq_db "\<lambda>db. map_of (mt_rows db)"
  by unfold_locales
    (auto simp: mem_seq_db_def next_fault_def Let_def split: prod.splits list.splits fault.splits if_splits)


lemma seq_demo_reach:
  "\<exists>s. seq_reach mem_seq_db \<lparr>mt_rows = [], mt_faults = [NoFault, FaultAfter]\<rparr> s
     \<and> seq_issued s ''m'' = [1001002, 1001001]"
proof -
  let ?db = "\<lparr>mt_rows = [], mt_faults = [NoFault, FaultAfter]\<rparr>"
  define s1 where "s1 = (seq_start ?db)\<lparr>seq_tab := \<lparr>mt_rows = [(''seq:m'', 1001000)], mt_faults = []\<rparr>\<rparr>"
  have "seq_step mem_seq_db (seq_start ?db) s1"
    using call_error [of mem_seq_db "''m''" "seq_start ?db" Map.empty "seq_tab s1" "InitFailed ''m'' ''connection lost''"]
    by (simp add: s1_def seq_start_def GenSeq_def GenSeq_load_def mem_seq_db_def next_fault_def seq_key_def seqStep_def)
  then have r1: "seq_reach mem_seq_db ?db s1" by (rule seq_reach.step [OF seq_reach.init])
  define db2 where "db2 = \<lparr>mt_rows = [(''seq:m'', 1002000), (''seq:m'', 1001000)], mt_faults = []\<rparr>"
  define m2 where "m2 = [''m'' \<mapsto> \<lparr>CurSeq = 1001001, MaxSeq = 1002000\<rparr>]"
  define s2 where "s2 = \<lparr>seq_map = m2, seq_tab = db2, seq_issued = (\<lambda>_. [])(''m'' := [1001001])\<rparr>"
  have "GenSeq mem_seq_db ''m'' (seq_map s1) (seq_tab s1) = (m2, db2, Inr 1001001)"
    by (simp add: s1_def m2_def db2_def seq_start_def GenSeq_def GenSeq_load_def mem_seq_db_def
        next_fault_def seq_key_def seqStep_def Let_def)
  from call_ok [OF this] have "seq_reach mem_seq_db ?db s2"
    using seq_reach.step [OF r1] by (simp add: s2_def s1_def seq_start_def)
  moreover have "GenSeq mem_seq_db ''m'' (seq_map s2) (seq_tab s2)
      = ([''m'' \<mapsto> \<lparr>CurSeq = 1001002, MaxSeq = 1002000\<rparr>], db2, Inr 1001002)"
    by (simp add: s2_def m2_def GenSeq_def GenSeq_load_def)
  note step = seq_reach.step [OF _ call_ok [OF this]]
  have "seq_issued s2 ''m'' = [1001001]" by (simp add: s2_def)
  ultimately show ?thesis using step [of ?db] by force
qed


section \<open>Two processes\<close>

text \<open>
  With two processes on one table the numbers repeat: the upsert overwrites \<^verbatim>\<open>min_seq\<close> with the
  writer's own maximum plus 1000 whatever the row holds.  Process 1 has used up the block that ends
  at 1001000 while process 2 has loaded the row and taken the next block; process 1 then issues the
  number process 2 has just issued.
\<close>

lemma GenSeq_two_processes_repeat:
  "let db = \<lparr>mt_rows = [(''seq:m'', 1001000)], mt_faults = []\<rparr>;
       map1 = [''m'' \<mapsto> \<lparr>CurSeq = 1001000, MaxSeq = 1001000\<rparr>];
       (map2, db, r2) = GenSeq mem_seq_db ''m'' Map.empty db;
       (map1, db, r1) = GenSeq mem_seq_db ''m'' map1 db
   in r2 = Inr 1001001 \<and> r1 = Inr 1001001"
  by (simp add: GenSeq_def GenSeq_load_def mem_seq_db_def next_fault_def seq_key_def seqStep_def Let_def)

end
