(* ===== verification/Http_Core.thy ===== *)
theory Http_Core
  imports Octo_Prelude
begin

text \<open>
  The part of \<^verbatim>\<open>net/http\<close> and of the request context that the handlers of \<^verbatim>\<open>pkg/wkhttp\<close> use.  A
  \<^verbatim>\<open>http.Header\<close> maps canonical field names to lists of values.  The context keeps the request headers,
  the keys set with \<^verbatim>\<open>c.Set\<close>, the response headers, and the calls a handler makes on the framework
  (\<^verbatim>\<open>c.JSON\<close>, \<^verbatim>\<open>c.Abort\<close>, \<^verbatim>\<open>c.Next\<close>) in order; what the framework does with them is not modelled.
  The context methods of \<^verbatim>\<open>pkg/wkhttp/http.go\<close> that read and answer requests are here too.
\<close>

section \<open>Headers\<close>

type_synonym header = "string \<Rightarrow> string list"

definition hdr_Values :: "header \<Rightarrow> string \<Rightarrow> string list" where
  "hdr_Values h k = h k"

definition hdr_Get :: "header \<Rightarrow> string \<Rightarrow> string" where
  "hdr_Get h k = (case h k of [] \<Rightarrow> [] | v # _ \<Rightarrow> v)"

definition hdr_Set :: "string \<Rightarrow> string \<Rightarrow> header \<Rightarrow> header" where
  "hdr_Set k v h = h(k := [v])"

definition hdr_Add :: "string \<Rightarrow> string \<Rightarrow> header \<Rightarrow> header" where
  "hdr_Add k v h = h(k := h k @ [v])"

definition hdr_Del :: "string \<Rightarrow> header \<Rightarrow> header" where
  "hdr_Del k h = h(k := [])"

lemmas hdr_defs = hdr_Values_def hdr_Get_def hdr_Set_def hdr_Add_def hdr_Del_def

section \<open>The request context\<close>

record ErrorSpec =
  es_Code :: string
  es_DefaultMessage :: string
  es_TransportStatus :: int
  es_SemanticStatus :: int
  es_Details :: "(string \<times> int) list"
  es_Internal :: bool

text \<open>JSON bodies of the handlers: an object with a message and a status, or only a status.\<close>

datatype body = BodyMsg string int | BodyStatus int | BodyOther

datatype 'r call =
    CallJSON int body
  | CallStatus int
  | CallString int string
  | CallRender 'r ErrorSpec
  | CallAbort
  | CallAbortWithStatus int
  | CallNext

record UserInfo =
  ui_UID :: string
  ui_Name :: string
  ui_Role :: string
  ui_Language :: string

record 'r Context =
  cx_method :: string
  cx_path :: string
  cx_remote :: string
  cx_query :: "string \<Rightarrow> string"
  cx_req :: header
  cx_keys :: "string \<rightharpoonup> string option"
  cx_user :: "UserInfo option"
  cx_resp :: header
  cx_calls :: "'r call list"

definition do_call :: "'r call \<Rightarrow> 'r Context \<Rightarrow> 'r Context" where
  "do_call a c = c\<lparr>cx_calls := cx_calls c @ [a]\<rparr>"

definition cx_Set :: "string \<Rightarrow> string \<Rightarrow> 'r Context \<Rightarrow> 'r Context" where
  "cx_Set k v c = c\<lparr>cx_keys := (cx_keys c)(k \<mapsto> Some v)\<rparr>"

lemma do_call_simps [simp]:
  "cx_calls (do_call a c) = cx_calls c @ [a]" "cx_keys (do_call a c) = cx_keys c"
  "cx_resp (do_call a c) = cx_resp c" "cx_user (do_call a c) = cx_user c" "cx_req (do_call a c) = cx_req c"
  by (simp_all add: do_call_def)

lemma cx_Set_simps [simp]:
  "cx_calls (cx_Set k v c) = cx_calls c" "cx_keys (cx_Set k v c) = (cx_keys c)(k \<mapsto> Some v)"
  "cx_resp (cx_Set k v c) = cx_resp c" "cx_user (cx_Set k v c) = cx_user c"
  by (simp_all add: cx_Set_def)

text \<open>A key holds \<^term>\<open>Some s\<close> for a string and \<^term>\<open>None\<close> for a value of another type.\<close>

definition cx_string :: "string \<Rightarrow> 'r Context \<Rightarrow> string" where
  "cx_string k c = (case cx_keys c k of Some (Some s) \<Rightarrow> s | _ \<Rightarrow> [])"

definition GetLoginUID :: "'r Context \<Rightarrow> string" where
  "GetLoginUID c = cx_string ''uid'' c"

definition GetLoginName :: "'r Context \<Rightarrow> string" where
  "GetLoginName c = cx_string ''name'' c"

definition GetLoginRole :: "'r Context \<Rightarrow> string" where
  "GetLoginRole c = cx_string ''role'' c"

definition GetAppID :: "'r Context \<Rightarrow> string" where
  "GetAppID c = hdr_Get (cx_req c) ''Appid''"

definition GetPage :: "'r Context \<Rightarrow> int \<times> int" where
  "GetPage c =
     (let pageIndex = fst (ParseInt (cx_query c ''page_index'') 64);
          pageSize = fst (ParseInt (cx_query c ''page_size'') 64)
      in (if pageIndex \<le> 0 then 1 else pageIndex, if pageSize \<le> 0 then 15 else pageSize))"

datatype role_error = RoleMissing | RoleForbidden

definition role_Admin :: string where "role_Admin = ''admin''"
definition role_SuperAdmin :: string where "role_SuperAdmin = ''superAdmin''"

definition CheckLoginRole :: "'r Context \<Rightarrow> role_error option" where
  "CheckLoginRole c =
     (let role = GetLoginRole c
      in if role = [] then Some RoleMissing
         else if role \<noteq> role_Admin \<and> role \<noteq> role_SuperAdmin then Some RoleForbidden else None)"

definition CheckLoginRoleIsSuperAdmin :: "'r Context \<Rightarrow> role_error option" where
  "CheckLoginRoleIsSuperAdmin c =
     (let role = GetLoginRole c
      in if role = [] then Some RoleMissing
         else if role \<noteq> role_SuperAdmin then Some RoleForbidden else None)"

definition ResponseError :: "string \<Rightarrow> 'r Context \<Rightarrow> 'r Context" where
  "ResponseError err c = do_call (CallJSON 400 (BodyMsg err 400)) c"

definition ResponseErrorf :: "string \<Rightarrow> string option \<Rightarrow> 'r Context \<Rightarrow> 'r Context" where
  "ResponseErrorf msg err c = do_call (CallJSON 400 (BodyMsg msg 400)) c"

definition ResponseErrorWithStatus :: "string \<Rightarrow> int \<Rightarrow> 'r Context \<Rightarrow> 'r Context" where
  "ResponseErrorWithStatus err status c = do_call (CallJSON status (BodyMsg err status)) c"

definition ResponseOK :: "'r Context \<Rightarrow> 'r Context" where
  "ResponseOK c = do_call (CallJSON 200 (BodyStatus 200)) c"

definition Response :: "'r Context \<Rightarrow> 'r Context" where
  "Response c = do_call (CallJSON 200 BodyOther) c"

definition ResponseWithStatus :: "int \<Rightarrow> 'r Context \<Rightarrow> 'r Context" where
  "ResponseWithStatus status c = do_call (CallJSON status BodyOther) c"

section \<open>Errors\<close>

text \<open>
  \<^verbatim>\<open>RenderError\<close> uses the renderer injected into the server, if any: \<open>'r\<close> is the type of injected
  renderers, whose call is recorded; without one the default renderer answers.
\<close>

definition defaultErrorRenderer_Render :: "ErrorSpec \<Rightarrow> 'r Context \<Rightarrow> 'r Context" where
  "defaultErrorRenderer_Render spec c =
     (let status = (if es_TransportStatus spec = 0 then 400 else es_TransportStatus spec)
      in do_call (CallJSON status (BodyMsg (es_DefaultMessage spec) status)) c)"

definition RenderError :: "'r option \<Rightarrow> ErrorSpec \<Rightarrow> 'r Context \<Rightarrow> 'r Context" where
  "RenderError renderer spec c =
     (case renderer of
        None \<Rightarrow> defaultErrorRenderer_Render spec c
      | Some r \<Rightarrow> do_call (CallRender r spec) c)"

lemma RenderError_simps [simp]:
  "cx_keys (RenderError r spec c) = cx_keys c" "cx_user (RenderError r spec c) = cx_user c"
  "cx_resp (RenderError r spec c) = cx_resp c"
  by (simp_all add: RenderError_def defaultErrorRenderer_Render_def Let_def split: option.splits)

text \<open>The calls a rejected request makes: the error is rendered, then the chain is aborted.\<close>

definition render_call :: "'r option \<Rightarrow> ErrorSpec \<Rightarrow> 'r call" where
  "render_call renderer spec =
     (case renderer of
        None \<Rightarrow> let status = (if es_TransportStatus spec = 0 then 400 else es_TransportStatus spec)
                in CallJSON status (BodyMsg (es_DefaultMessage spec) status)
      | Some r \<Rightarrow> CallRender r spec)"

lemma calls_RenderError [simp]: "cx_calls (RenderError r spec c) = cx_calls c @ [render_call r spec]"
  by (simp add: RenderError_def defaultErrorRenderer_Render_def render_call_def Let_def split: option.splits)

lemma GetPage_pos: "0 < fst (GetPage c) \<and> 0 < snd (GetPage c)"
  by (simp add: GetPage_def Let_def)

end
