(* ===== verification/Cors.thy ===== *)
theory Cors
  imports Http_Core
begin

text \<open>
  The cross-origin policy of \<^verbatim>\<open>pkg/wkhttp/secure_cors.go\<close> and \<^verbatim>\<open>CORSMiddleware\<close> of \<^verbatim>\<open>pkg/wkhttp/http.go\<close>:
  the white list, the matching of origins against it, and the middleware that rewrites the response
  headers.  \<^verbatim>\<open>EqualFold\<close> and \<^verbatim>\<open>ToLower\<close> fold ASCII letters here; white lists and origins are ASCII text
  (origins are serialised in ASCII by browsers).
\<close>

section \<open>Operations\<close>

definition headerOrigin :: string where "headerOrigin = ''Origin''"
definition headerACAO :: string where "headerACAO = ''Access-Control-Allow-Origin''"
definition headerACAC :: string where "headerACAC = ''Access-Control-Allow-Credentials''"
definition headerVary :: string where "headerVary = ''Vary''"

lemmas header_names = headerOrigin_def headerACAO_def headerACAC_def headerVary_def

text \<open>\<^verbatim>\<open>nil\<close> and the empty slice are both the empty list.\<close>

fun parse_origin_parts :: "string list \<Rightarrow> string list" where
  "parse_origin_parts [] = []"
| "parse_origin_parts (p # ps) =
     (let s = TrimSpace p
      in if s = [] then parse_origin_parts ps
         else if s = ''*'' then parse_origin_parts ps
         else s # parse_origin_parts ps)"

definition ParseAllowedOrigins :: "string \<Rightarrow> string list" where
  "ParseAllowedOrigins raw = (if raw = [] then [] else parse_origin_parts (split_on (CHR '','') raw))"

definition EqualFold :: "string \<Rightarrow> string \<Rightarrow> bool" where
  "EqualFold s t \<longleftrightarrow> ToLower s = ToLower t"

definition has_vary_origin :: "header \<Rightarrow> bool" where
  "has_vary_origin h \<longleftrightarrow>
     (\<exists>v\<in>set (hdr_Values h headerVary). \<exists>field\<in>set (split_on (CHR '','') v).
        EqualFold (TrimSpace field) headerOrigin)"

definition addVaryOrigin :: "header \<Rightarrow> header" where
  "addVaryOrigin h = (if has_vary_origin h then h else hdr_Add headerVary headerOrigin h)"

text \<open>\<^verbatim>\<open>strings.Index(s, "://")\<close> and the split at it.\<close>

fun split_scheme_at :: "string \<Rightarrow> (string \<times> string) option" where
  "split_scheme_at [] = None"
| "split_scheme_at (c # cs) =
     (if HasPrefix (c # cs) ''://'' then Some ([], drop 3 (c # cs))
      else map_option (\<lambda>(a, b). (c # a, b)) (split_scheme_at cs))"

definition splitScheme :: "string \<Rightarrow> string \<times> string" where
  "splitScheme s = (case split_scheme_at s of Some (scheme, host) \<Rightarrow> (scheme, host) | None \<Rightarrow> ([], s))"

definition matchWildcardOrigin :: "string \<Rightarrow> string \<Rightarrow> bool" where
  "matchWildcardOrigin pattern origin =
     (let (patScheme, patHost) = splitScheme pattern;
          (oriScheme, oriHost) = splitScheme origin
      in if patScheme \<noteq> [] \<and> \<not> EqualFold patScheme oriScheme then False
         else if \<not> HasPrefix patHost ''*.'' then False
         else let suffix = ToLower (tl patHost);
                  oriHostLower = ToLower oriHost
              in length oriHostLower > length suffix \<and> HasSuffix oriHostLower suffix)"

fun IsOriginAllowed :: "string \<Rightarrow> string list \<Rightarrow> bool" where
  "IsOriginAllowed origin [] = False"
| "IsOriginAllowed origin (entry # rest) =
     (if origin = [] then False
      else if entry = [] then IsOriginAllowed origin rest
      else if EqualFold entry origin then True
      else if matchWildcardOrigin entry origin then True
      else IsOriginAllowed origin rest)"

definition SecureCORSOverrideMiddleware :: "string list \<Rightarrow> 'r Context \<Rightarrow> 'r Context" where
  "SecureCORSOverrideMiddleware allowed c =
     (let origin = hdr_Get (cx_req c) headerOrigin;
          h = cx_resp c
      in if origin = [] then do_call CallNext (c\<lparr>cx_resp := hdr_Del headerACAC (hdr_Del headerACAO h)\<rparr>)
         else let h = addVaryOrigin h;
                  h = (if IsOriginAllowed origin allowed
                       then hdr_Set headerACAC ''true'' (hdr_Set headerACAO origin h)
                       else hdr_Del headerACAC (hdr_Del headerACAO h))
              in do_call CallNext (c\<lparr>cx_resp := h\<rparr>))"

definition CORSMiddleware :: "'r Context \<Rightarrow> 'r Context" where
  "CORSMiddleware c =
     (let h = cx_resp c;
          h = hdr_Set headerACAO ''*'' h;
          h = hdr_Set headerACAC ''true'' h;
          h = hdr_Set ''Access-Control-Allow-Headers'' ''Content-Type, Content-Length, Accept-Encoding, X-CSRF-Token, token, accept, origin, Cache-Control, X-Requested-With, appid, noncestr, sign, timestamp, X-Octo-Error-Envelope, X-Octo-Lang, Accept-Language'' h;
          h = hdr_Set ''Access-Control-Expose-Headers'' ''Content-Language, Vary'' h;
          h = hdr_Set ''Access-Control-Allow-Methods'' ''POST, OPTIONS, GET, PUT,DELETE,PATCH'' h;
          c = c\<lparr>cx_resp := h\<rparr>
      in if cx_method c = ''OPTIONS'' then do_call (CallAbortWithStatus 204) c else do_call CallNext c)"

section \<open>Matching\<close>

text \<open>What an entry of the white list means.\<close>

definition origin_matches :: "string \<Rightarrow> string \<Rightarrow> bool" where
  "origin_matches entry origin \<longleftrightarrow>
     ToLower entry = ToLower origin \<or>
     (\<exists>domain sub. snd (splitScheme entry) = ''*.'' @ domain
        \<and> ToLower (snd (splitScheme origin)) = sub @ ''.'' @ ToLower domain \<and> sub \<noteq> []
        \<and> (fst (splitScheme entry) = [] \<or> ToLower (fst (splitScheme entry)) = ToLower (fst (splitScheme origin))))"

lemma lower_dot [simp]: "lower_char (CHR ''.'') = CHR ''.''"
  by (simp add: lower_char_def)

lemma strict_suffix: "length s < length t \<and> HasSuffix t s \<longleftrightarrow> (\<exists>u. t = u @ s \<and> u \<noteq> [])"
proof -
  have "length s < length (u @ s) \<longleftrightarrow> u \<noteq> []" for u by simp
  then show ?thesis unfolding HasSuffix_iff by blast
qed

lemma matchWildcardOrigin_iff:
  "matchWildcardOrigin entry origin \<longleftrightarrow>
     (\<exists>domain sub. snd (splitScheme entry) = ''*.'' @ domain
        \<and> ToLower (snd (splitScheme origin)) = sub @ ''.'' @ ToLower domain \<and> sub \<noteq> []
        \<and> (fst (splitScheme entry) = [] \<or> ToLower (fst (splitScheme entry)) = ToLower (fst (splitScheme origin))))"
proof -
  obtain ps ph os oh where s: "splitScheme entry = (ps, ph)" "splitScheme origin = (os, oh)" by fastforce
  have "matchWildcardOrigin entry origin \<longleftrightarrow>
      (ps = [] \<or> ToLower ps = ToLower os) \<and> HasPrefix ph ''*.'' \<and>
      (length (ToLower (tl ph)) < length (ToLower oh) \<and> HasSuffix (ToLower oh) (ToLower (tl ph)))"
    by (auto simp: matchWildcardOrigin_def s EqualFold_def Let_def)
  then show ?thesis
    unfolding strict_suffix by (auto simp: s HasPrefix_iff)
qed

lemma IsOriginAllowed_iff:
  "IsOriginAllowed origin allowed \<longleftrightarrow>
     origin \<noteq> [] \<and> (\<exists>entry\<in>set allowed. entry \<noteq> [] \<and> origin_matches entry origin)"
proof (induction allowed)
  case (Cons entry rest)
  then show ?case
    by (auto simp: origin_matches_def EqualFold_def matchWildcardOrigin_iff [of entry origin])
qed simp

lemma parse_origin_parts_set:
  "s \<in> set (parse_origin_parts ps) \<longleftrightarrow> s \<noteq> [] \<and> s \<noteq> ''*'' \<and> (\<exists>p\<in>set ps. s = TrimSpace p)"
  by (induction ps) (auto simp: Let_def)

text \<open>
  C25: the configured white list.  \<^verbatim>\<open>ParseAllowedOrigins\<close> yields the trimmed non-empty items between the
  commas except a bare \<^verbatim>\<open>*\<close>, and an origin is allowed exactly if it is not empty and equals an entry up
  to case or is a strict subdomain of a wildcard entry whose scheme, if it has one, agrees.
\<close>

theorem cors_whitelist_correct:
  "(s \<in> set (ParseAllowedOrigins raw) \<longleftrightarrow>
      s \<noteq> [] \<and> s \<noteq> ''*'' \<and> raw \<noteq> [] \<and> (\<exists>p\<in>set (split_on (CHR '','') raw). s = TrimSpace p))
   \<and> (IsOriginAllowed origin allowed \<longleftrightarrow>
      origin \<noteq> [] \<and> (\<exists>entry\<in>set allowed. entry \<noteq> [] \<and> origin_matches entry origin))"
  by (auto simp: ParseAllowedOrigins_def parse_origin_parts_set IsOriginAllowed_iff)

lemma has_vary_addVaryOrigin: "has_vary_origin (addVaryOrigin h)"
proof -
  have "TrimSpace ''Origin'' = ''Origin''" by code_simp
  moreover have "split_on (CHR '','') ''Origin'' = [''Origin'']" by code_simp
  ultimately show ?thesis
    by (auto simp: addVaryOrigin_def has_vary_origin_def hdr_defs header_names EqualFold_def)
qed

lemma addVaryOrigin_idem: "addVaryOrigin (addVaryOrigin h) = addVaryOrigin h"
  using has_vary_addVaryOrigin [of h] by (simp add: addVaryOrigin_def [of "addVaryOrigin h"])

lemma addVaryOrigin_other: "k \<noteq> headerVary \<Longrightarrow> addVaryOrigin h k = h k"
  by (simp add: addVaryOrigin_def hdr_defs)

text \<open>
  C24: whatever headers an earlier middleware wrote, after \<^verbatim>\<open>SecureCORSOverrideMiddleware\<close> the response
  allows credentials exactly for allowed origins: then the allowed origin is the request's own one,
  never \<^verbatim>\<open>*\<close> from upstream; otherwise neither header is present.  Requests with an origin get
  \<^verbatim>\<open>Vary: Origin\<close>, all other headers are untouched and the chain always continues.
\<close>

theorem cors_override_correct:
  "let origin = hdr_Get (cx_req c) headerOrigin;
       h = cx_resp (SecureCORSOverrideMiddleware allowed c)
   in (if IsOriginAllowed origin allowed
       then h headerACAO = [origin] \<and> h headerACAC = [''true'']
       else h headerACAO = [] \<and> h headerACAC = [])
    \<and> (origin \<noteq> [] \<longrightarrow> has_vary_origin h)
    \<and> (\<forall>k. k \<notin> {headerACAO, headerACAC, headerVary} \<longrightarrow> h k = cx_resp c k)
    \<and> cx_calls (SecureCORSOverrideMiddleware allowed c) = cx_calls c @ [CallNext]"
proof -
  have n: "headerACAO \<noteq> headerACAC" "headerVary \<noteq> headerACAO" "headerVary \<noteq> headerACAC"
    by (simp_all add: header_names)
  have v: "has_vary_origin ((addVaryOrigin h)(headerACAO := b, headerACAC := a))" for h a b
    using has_vary_addVaryOrigin [of h] n by (simp add: has_vary_origin_def hdr_Values_def)
  show ?thesis
  proof (cases "hdr_Get (cx_req c) headerOrigin = []")
    case True
    then have "\<not> IsOriginAllowed (hdr_Get (cx_req c) headerOrigin) allowed" by (simp add: IsOriginAllowed_iff)
    with True n show ?thesis
      by (simp add: SecureCORSOverrideMiddleware_def Let_def hdr_Set_def hdr_Del_def)
  next
    case False
    then show ?thesis
      using n v [of "cx_resp c"]
      by (auto simp: SecureCORSOverrideMiddleware_def Let_def hdr_Set_def hdr_Del_def addVaryOrigin_other)
  qed
qed

definition cors_demo :: "unit Context" where
  "cors_demo =
     \<lparr>cx_method = ''GET'', cx_path = ''/'', cx_remote = [], cx_query = (\<lambda>_. []),
      cx_req = (\<lambda>_. [])(headerOrigin := [''https://a.example.com'']), cx_keys = Map.empty, cx_user = None,
      cx_resp = (\<lambda>_. [])(headerACAO := [''*'']), cx_calls = []\<rparr>"

theorem cors_override_correct_witness:
  "cx_resp (SecureCORSOverrideMiddleware [''https://*.example.com''] cors_demo) headerACAO = [''https://a.example.com'']
   \<and> has_vary_origin (cx_resp (SecureCORSOverrideMiddleware [''https://*.example.com''] cors_demo))"
proof -
  have o: "hdr_Get (cx_req cors_demo) headerOrigin = ''https://a.example.com''"
    by (simp add: cors_demo_def hdr_Get_def)
  have a: "IsOriginAllowed ''https://a.example.com'' [''https://*.example.com'']" by code_simp
  show ?thesis
    using cors_override_correct [of cors_demo "[''https://*.example.com'']"]
    unfolding Let_def o if_P [OF a] by blast
qed

end
