(* ===== verification/Token_Bucket.thy ===== *)
theory Token_Bucket
  imports Octo_Prelude Complex_Main
begin

text \<open>
  The script \<^verbatim>\<open>tokenBucketScript\<close> of \<^verbatim>\<open>pkg/wkhttp/ratelimit.go\<close>, which Redis runs atomically for one key.  Numbers
  are rationals here; the script computes with doubles.  The state of a key is its hash, if it exists, and the
  instant at which it expires, on the clock of Redis; the request carries the clock of the process.
\<close>

section \<open>The script\<close>

record bucket =
  bk_tokens :: rat
  bk_ts :: rat

type_synonym bucket_state = "(bucket \<times> rat) option"

text \<open>\<^verbatim>\<open>HMGET\<close> finds nothing once the key has expired.\<close>

definition bucket_read :: "rat \<Rightarrow> bucket_state \<Rightarrow> bucket option" where
  "bucket_read clock st = (case st of None \<Rightarrow> None | Some (b, expires) \<Rightarrow> if clock < expires then Some b else None)"

definition bucket_ttl :: "rat \<Rightarrow> int \<Rightarrow> int" where
  "bucket_ttl rate burst = max 1 \<lceil>of_int burst / rate * 2\<rceil>"

definition bucket_filled :: "rat \<Rightarrow> int \<Rightarrow> rat \<Rightarrow> bucket option \<Rightarrow> rat" where
  "bucket_filled rate burst now state =
     (let tokens = (case state of None \<Rightarrow> of_int burst | Some b \<Rightarrow> bk_tokens b);
          ts = (case state of None \<Rightarrow> now | Some b \<Rightarrow> bk_ts b);
          delta = max 0 (now - ts)
      in min (of_int burst) (tokens + delta * rate))"

definition tokenBucketScript :: "rat \<Rightarrow> int \<Rightarrow> rat \<Rightarrow> rat \<Rightarrow> bucket_state \<Rightarrow> (int \<times> int \<times> int) \<times> bucket_state" where
  "tokenBucketScript rate burst now clock st =
     (if rate \<le> 0 then ((0, 0, 1), st)
      else let ttl = bucket_ttl rate burst;
               state = bucket_read clock st;
               filled = bucket_filled rate burst now state;
               (allowed, filled, retry_after, need_write) =
                 (if filled \<ge> 1 then (1, filled - 1, 0, True)
                  else (0, filled, max 1 \<lceil>(1 - filled) / rate\<rceil>, state = None));
               st = (if need_write then Some (\<lparr>bk_tokens = filled, bk_ts = now\<rparr>, clock + of_int ttl) else st)
           in ((allowed, \<lfloor>filled\<rfloor>, retry_after), st))"

text \<open>The replies to a sequence of requests; \<open>off\<close> is what the clock of Redis is ahead of the processes.\<close>

fun bucket_run :: "rat \<Rightarrow> int \<Rightarrow> rat \<Rightarrow> rat list \<Rightarrow> bucket_state \<Rightarrow> (int \<times> int \<times> int) list \<times> bucket_state" where
  "bucket_run rate burst off [] st = ([], st)"
| "bucket_run rate burst off (now # ts) st =
     (let (r, st) = tokenBucketScript rate burst now (now + off) st;
          (rs, st) = bucket_run rate burst off ts st
      in (r # rs, st))"

definition admitted :: "(int \<times> int \<times> int) list \<Rightarrow> nat" where
  "admitted rs = length (filter (\<lambda>(allowed, _). allowed = 1) rs)"

section \<open>Expiry loses nothing\<close>

text \<open>The states the script leaves behind, and what a state holds at an instant.\<close>

definition bucket_ok :: "rat \<Rightarrow> int \<Rightarrow> rat \<Rightarrow> rat \<Rightarrow> bucket_state \<Rightarrow> bool" where
  "bucket_ok rate burst off now st \<longleftrightarrow>
     (case st of None \<Rightarrow> True
      | Some (b, expires) \<Rightarrow>
          0 \<le> bk_tokens b \<and> bk_ts b \<le> now \<and> expires = bk_ts b + off + of_int (bucket_ttl rate burst))"

definition bucket_level :: "rat \<Rightarrow> int \<Rightarrow> rat \<Rightarrow> bucket_state \<Rightarrow> rat" where
  "bucket_level rate burst now st =
     (case st of None \<Rightarrow> of_int burst | Some (b, _) \<Rightarrow> min (of_int burst) (bk_tokens b + (now - bk_ts b) * rate))"

lemma bucket_ttl_fills:
  assumes "0 < rate" "0 < burst" "of_int (bucket_ttl rate burst) \<le> d"
  shows "of_int burst \<le> d * rate"
proof -
  have "of_int burst / rate * 2 \<le> (of_int \<lceil>of_int burst / rate * 2\<rceil> :: rat)" by (rule le_of_int_ceiling)
  also have "\<dots> \<le> of_int (bucket_ttl rate burst)" by (simp add: bucket_ttl_def)
  also have "\<dots> \<le> d" by (rule assms(3))
  finally have "of_int burst * 2 \<le> d * rate" using assms(1) by (simp add: field_simps)
  moreover have "(0 :: rat) < of_int burst" using assms(2) by simp
  ultimately show ?thesis by linarith
qed

lemma bucket_filled_level:
  assumes "0 < rate" "0 < burst" "bucket_ok rate burst off now st"
  shows "bucket_filled rate burst now (bucket_read (now + off) st) = bucket_level rate burst now st"
proof (cases st)
  case None
  then show ?thesis by (simp add: bucket_filled_def bucket_read_def bucket_level_def)
next
  case (Some p)
  obtain b e where p: "p = (b, e)" by (cases p)
  have ok: "0 \<le> bk_tokens b" "bk_ts b \<le> now" "e = bk_ts b + off + of_int (bucket_ttl rate burst)"
    using assms(3) Some p by (simp_all add: bucket_ok_def)
  show ?thesis
  proof (cases "now + off < e")
    case True
    with Some p ok show ?thesis by (simp add: bucket_filled_def bucket_read_def bucket_level_def max_def)
  next
    case False
    with ok have "of_int burst \<le> (now - bk_ts b) * rate"
      by (intro bucket_ttl_fills assms) linarith
    with False Some p ok show ?thesis by (simp add: bucket_filled_def bucket_read_def bucket_level_def)
  qed
qed

lemma bucket_level_bounds:
  assumes "0 < rate" "0 < burst" "bucket_ok rate burst off now st"
  shows "0 \<le> bucket_level rate burst now st" "bucket_level rate burst now st \<le> of_int burst"
  using assms by (auto simp: bucket_level_def bucket_ok_def split: option.splits)

lemma bucket_level_later:
  assumes "0 < rate" "now \<le> now'"
  shows "bucket_level rate burst now' st \<le> bucket_level rate burst now st + rate * (now' - now)"
proof -
  have "0 \<le> rate * (now' - now)" using assms by simp
  then show ?thesis by (auto simp: bucket_level_def algebra_simps split: option.splits)
qed

lemma bucket_ok_later: "bucket_ok rate burst off now st \<Longrightarrow> now \<le> now' \<Longrightarrow> bucket_ok rate burst off now' st"
  by (auto simp: bucket_ok_def split: option.splits)

section \<open>One request\<close>

lemma script_step:
  assumes r: "0 < rate" and b: "0 < burst" and ok: "bucket_ok rate burst off now st"
    and s: "tokenBucketScript rate burst now (now + off) st = ((a, remaining, retry), st')"
  shows "bucket_ok rate burst off now st'"
    and "a = 1 \<and> 1 \<le> bucket_level rate burst now st \<and> retry = 0 \<and>
           bucket_level rate burst now st' = bucket_level rate burst now st - 1 \<or>
         a = 0 \<and> bucket_level rate burst now st < 1 \<and> retry = max 1 \<lceil>(1 - bucket_level rate burst now st) / rate\<rceil> \<and> st' = st"
    and "remaining = \<lfloor>bucket_level rate burst now st'\<rfloor>"
proof -
  define l where "l = bucket_level rate burst now st"
  have l: "bucket_filled rate burst now (bucket_read (now + off) st) = l"
    unfolding l_def by (rule bucket_filled_level [OF r b ok])
  have lb: "0 \<le> l" "l \<le> of_int burst" unfolding l_def using bucket_level_bounds [OF r b ok] .
  have "st \<noteq> None \<and> bucket_read (now + off) st \<noteq> None" if "l < 1"
  proof -
    have "(1 :: rat) \<le> of_int burst" using b by simp
    moreover have "l = of_int burst" if "bucket_read (now + off) st = None"
      using l that by (simp add: bucket_filled_def)
    ultimately have "bucket_read (now + off) st \<noteq> None" using that by fastforce
    then show ?thesis by (cases st) (auto simp: bucket_read_def)
  qed
  then show "bucket_ok rate burst off now st'"
    and "a = 1 \<and> 1 \<le> bucket_level rate burst now st \<and> retry = 0 \<and>
           bucket_level rate burst now st' = bucket_level rate burst now st - 1 \<or>
         a = 0 \<and> bucket_level rate burst now st < 1 \<and> retry = max 1 \<lceil>(1 - bucket_level rate burst now st) / rate\<rceil> \<and> st' = st"
    and "remaining = \<lfloor>bucket_level rate burst now st'\<rfloor>"
    unfolding l_def [symmetric]
    using s r lb ok l l_def by (auto simp: tokenBucketScript_def Let_def bucket_ok_def bucket_level_def split: if_splits)
qed

section \<open>The rate bound\<close>

lemma admitted_simps [simp]:
  "admitted [] = 0" "admitted ((a, x) # rs) = (if a = 1 then 1 else 0) + admitted rs"
  by (simp_all add: admitted_def)

lemma bucket_run_Cons:
  "tokenBucketScript rate burst t (t + off) st = (r, st') \<Longrightarrow>
    bucket_run rate burst off (t # ts) st = (r # fst (bucket_run rate burst off ts st'), snd (bucket_run rate burst off ts st'))"
  by (simp add: case_prod_beta)

declare bucket_run.simps(2) [simp del]

lemma script_result:
  obtains a m r st' where "tokenBucketScript rate burst t clock st = ((a, m, r), st')"
  by (cases "tokenBucketScript rate burst t clock st") auto

lemma bucket_run_append:
  "bucket_run rate burst off (xs @ ys) st =
     (let (rs, st) = bucket_run rate burst off xs st; (rs', st) = bucket_run rate burst off ys st in (rs @ rs', st))"
  by (induction xs arbitrary: st) (simp_all add: bucket_run.simps(2) case_prod_beta)

lemma length_bucket_run [simp]: "length (fst (bucket_run rate burst off ts st)) = length ts"
  by (induction ts arbitrary: st) (simp_all add: bucket_run.simps(2) case_prod_beta)

lemma bucket_run_level:
  assumes "0 < rate" "0 < burst" "sorted (t # ts)" "bucket_ok rate burst off t st"
  shows "of_nat (admitted (fst (bucket_run rate burst off (t # ts) st)))
           \<le> bucket_level rate burst t st + rate * (last (t # ts) - t)"
  using assms(3,4)
proof (induction ts arbitrary: t st)
  case Nil
  obtain a m r st' where s: "tokenBucketScript rate burst t (t + off) st = ((a, m, r), st')"
    by (rule script_result)
  show ?case
    using script_step(2) [OF assms(1,2) Nil.prems(2) s] bucket_level_bounds(1) [OF assms(1,2) Nil.prems(2)]
    by (auto simp: bucket_run_Cons [OF s])
next
  case (Cons u ts)
  obtain a m r st' where s: "tokenBucketScript rate burst t (t + off) st = ((a, m, r), st')"
    by (rule script_result)
  note step = script_step [OF assms(1,2) Cons.prems(2) s]
  have tu: "t \<le> u" using Cons.prems(1) by simp
  have "of_nat (admitted (fst (bucket_run rate burst off (u # ts) st')))
      \<le> bucket_level rate burst u st' + rate * (last (u # ts) - u)"
    using Cons.prems(1) bucket_ok_later [OF step(1) tu] by (intro Cons.IH) simp_all
  also have "\<dots> \<le> bucket_level rate burst t st' + rate * (u - t) + rate * (last (u # ts) - u)"
    using bucket_level_later [OF assms(1) tu] by simp
  finally have "of_nat (admitted (fst (bucket_run rate burst off (u # ts) st')))
      \<le> bucket_level rate burst t st' + rate * (last (u # ts) - t)"
    by (simp add: algebra_simps)
  moreover have "fst (bucket_run rate burst off (t # u # ts) st) = (a, m, r) # fst (bucket_run rate burst off (u # ts) st')"
    by (simp add: bucket_run_Cons [OF s])
  ultimately show ?case
    using step(2) by auto
qed

lemma bucket_run_ok:
  assumes "0 < rate" "0 < burst" "sorted (ts @ [t])" "\<forall>t\<in>set ts. bucket_ok rate burst off t st" "bucket_ok rate burst off t st"
  shows "bucket_ok rate burst off t (snd (bucket_run rate burst off ts st))"
  using assms(3-5)
proof (induction ts arbitrary: st)
  case (Cons u ts)
  obtain a m r st' where s: "tokenBucketScript rate burst u (u + off) st = ((a, m, r), st')"
    by (rule script_result)
  have "bucket_ok rate burst off u st'"
    using Cons.prems by (intro script_step(1) [OF assms(1,2) _ s]) simp
  then have "bucket_ok rate burst off v st'" if "u \<le> v" for v
    using that by (rule bucket_ok_later)
  then have "bucket_ok rate burst off t (snd (bucket_run rate burst off ts st'))"
    using Cons.prems(1) by (intro Cons.IH) simp_all
  then show ?case by (simp add: bucket_run_Cons [OF s])
qed simp

text \<open>
  C28: In every stretch of the requests for a key, not only from the start, the bucket admits at most \<^verbatim>\<open>burst\<close> plus
  \<^verbatim>\<open>rate\<close> times the duration of the stretch, if the instants do not decrease: neither skipping the write for
  rejected requests nor the expiry of the key gives anything away.
\<close>

theorem tokenBucket_rate_bound:
  assumes "0 < rate" "0 < burst" "sorted (pre @ t # ts @ post)"
  shows "of_nat (admitted (take (length (t # ts)) (drop (length pre) (fst (bucket_run rate burst off (pre @ t # ts @ post) None)))))
           \<le> of_int burst + rate * (last (t # ts) - t)"
proof -
  let ?st = "snd (bucket_run rate burst off pre None)"
  have ok: "bucket_ok rate burst off t ?st"
    using assms(3) by (intro bucket_run_ok assms(1,2)) (auto simp: bucket_ok_def sorted_append)
  have "fst (bucket_run rate burst off (pre @ (t # ts) @ post) None) =
      fst (bucket_run rate burst off pre None) @ fst (bucket_run rate burst off (t # ts) ?st) @
      fst (bucket_run rate burst off post (snd (bucket_run rate burst off (t # ts) ?st)))"
    unfolding bucket_run_append by (simp add: case_prod_beta)
  then have "take (length (t # ts)) (drop (length pre) (fst (bucket_run rate burst off (pre @ t # ts @ post) None)))
      = fst (bucket_run rate burst off (t # ts) ?st)"
    using length_bucket_run [of rate burst off "t # ts" ?st] length_bucket_run [of rate burst off pre None]
    by simp
  moreover have "of_nat (admitted (fst (bucket_run rate burst off (t # ts) ?st)))
      \<le> bucket_level rate burst t ?st + rate * (last (t # ts) - t)"
    using assms(3) by (intro bucket_run_level assms(1,2) ok) (simp add: sorted_append)
  ultimately show ?thesis
    using bucket_level_bounds(2) [OF assms(1,2) ok] by simp
qed

theorem tokenBucket_rate_bound_witness:
  "of_nat (admitted (take 3 (drop 2 (fst (bucket_run 1 2 0 [0, 0, 0, 1, 1, 5] None))))) \<le> (2 + 1 * (1 - 0) :: rat)"
  using tokenBucket_rate_bound [of 1 2 "[0, 0]" 0 "[1, 1]" "[5]" 0] by (simp add: eval_nat_numeral)



text \<open>
  The instants come from the clocks of the processes.  Where these disagree an admitted request of a slow process
  writes an earlier \<^verbatim>\<open>ts\<close> than the stored one, and the next request of a fast process is credited the
  difference again: with a rate of one, a burst of two and clocks ten seconds apart every request is admitted.
\<close>

lemma tokenBucket_clock_skew:
  "admitted (fst (bucket_run 1 2 0 (concat (replicate n [10, 0])) None)) = 2 * n"
proof -
  let ?st = "Some (\<lparr>bk_tokens = 0, bk_ts = 0\<rparr>, 4)"
  have run: "admitted (fst (bucket_run 1 2 0 (concat (replicate n [10, 0])) ?st)) = 2 * n" for n
  proof (induction n)
    case (Suc n)
    have "tokenBucketScript 1 2 10 10 (Some (\<lparr>bk_tokens = 0, bk_ts = 0\<rparr>, 4)) = ((1, 1, 0), Some (\<lparr>bk_tokens = 1, bk_ts = 10\<rparr>, 14))"
      "tokenBucketScript 1 2 0 0 (Some (\<lparr>bk_tokens = 1, bk_ts = 10\<rparr>, 14)) = ((1, 0, 0), Some (\<lparr>bk_tokens = 0, bk_ts = 0\<rparr>, 4))"
      by (simp_all add: tokenBucketScript_def bucket_read_def bucket_filled_def bucket_ttl_def)
    then have "fst (bucket_run 1 2 0 (concat (replicate (Suc n) [10, 0])) ?st)
        = (1, 1, 0) # (1, 0, 0) # fst (bucket_run 1 2 0 (concat (replicate n [10, 0])) ?st)"
      by (simp add: bucket_run_Cons)
    with Suc show ?case by simp
  qed simp
  have "tokenBucketScript 1 2 10 10 None = ((1, 1, 0), Some (\<lparr>bk_tokens = 1, bk_ts = 10\<rparr>, 14))"
    "tokenBucketScript 1 2 0 0 (Some (\<lparr>bk_tokens = 1, bk_ts = 10\<rparr>, 14)) = ((1, 0, 0), Some (\<lparr>bk_tokens = 0, bk_ts = 0\<rparr>, 4))"
    by (simp_all add: tokenBucketScript_def bucket_read_def bucket_filled_def bucket_ttl_def)
  then have "fst (bucket_run 1 2 0 (concat (replicate (Suc m) [10, 0])) None)
      = (1, 1, 0) # (1, 0, 0) # fst (bucket_run 1 2 0 (concat (replicate m [10, 0])) ?st)" for m
    by (simp add: bucket_run_Cons)
  with run show ?thesis by (cases n) simp_all
qed

end
