(* ===== verification/Url.thy ===== *)
theory Url
  imports Octo_Prelude
begin

text \<open>
  \<^verbatim>\<open>url.Parse\<close> of package \<^verbatim>\<open>net/url\<close>: which texts it rejects, and the scheme and the host of those it accepts.
\<close>

definition cut_at :: "char \<Rightarrow> string \<Rightarrow> string \<times> string" where
  "cut_at c s = (case index_by (\<lambda>x. x = c) s of None \<Rightarrow> (s, []) | Some i \<Rightarrow> (take i s, drop (i + 1) s))"

definition last_index :: "char \<Rightarrow> string \<Rightarrow> nat option" where
  "last_index c s = map_option (\<lambda>i. length s - 1 - i) (index_by (\<lambda>x. x = c) (rev s))"

definition letter :: "char \<Rightarrow> bool" where
  "letter c = (let k = of_char c :: nat in (65 \<le> k \<and> k \<le> 90) \<or> (97 \<le> k \<and> k \<le> 122))"

definition digit :: "char \<Rightarrow> bool" where
  "digit c = (digit_val c \<noteq> None)"

text \<open>The scheme and what follows its colon; no value for a text that starts with a colon.\<close>

fun getScheme :: "string \<Rightarrow> string \<Rightarrow> (string \<times> string) option" where
  "getScheme pre [] = Some ([], pre)"
| "getScheme pre (c # cs) =
     (if letter c then getScheme (pre @ [c]) cs
      else if digit c \<or> c \<in> set ''+-.'' then (if pre = [] then Some ([], c # cs) else getScheme (pre @ [c]) cs)
      else if c = CHR '':'' then (if pre = [] then None else Some (pre, cs))
      else Some ([], pre @ c # cs))"

datatype escape_mode = EncPath | EncUserPassword | EncHost | EncZone | EncFragment

definition host_char :: "char \<Rightarrow> bool" where
  "host_char c = (letter c \<or> digit c \<or> c \<in> set ''-_.~!$&()*+,;=:[]<>'' \<or> c \<in> {CHR 0x27, CHR 0x22})"

fun url_unescape :: "escape_mode \<Rightarrow> string \<Rightarrow> string option" where
  "url_unescape mode [] = Some []"
| "url_unescape mode (c # cs) =
     (if c = CHR ''%'' then
        (case cs of
           a # b # rest \<Rightarrow>
             (case (hex_val a, hex_val b) of
                (Some x, Some y) \<Rightarrow>
                  let v = char_of (x * 16 + y) :: char; is25 = (a = CHR ''2'' \<and> b = CHR ''5'')
                  in if mode = EncHost \<and> x < 8 \<and> \<not> is25 then None
                     else if mode = EncZone \<and> \<not> is25 \<and> v \<noteq> CHR '' '' \<and> \<not> host_char v then None
                     else map_option ((#) v) (url_unescape mode rest)
              | _ \<Rightarrow> None)
         | _ \<Rightarrow> None)
      else if (mode = EncHost \<or> mode = EncZone) \<and> of_char c < (128 :: nat) \<and> \<not> host_char c then None
      else map_option ((#) c) (url_unescape mode cs))"

definition validOptionalPort :: "string \<Rightarrow> bool" where
  "validOptionalPort port \<longleftrightarrow> port = [] \<or> (hd port = CHR '':'' \<and> list_all digit (tl port))"

fun find_sub :: "string \<Rightarrow> string \<Rightarrow> nat option" where
  "find_sub p [] = (if p = [] then Some 0 else None)"
| "find_sub p (c # cs) = (if HasPrefix (c # cs) p then Some 0 else map_option Suc (find_sub p cs))"

definition parseHost :: "string \<Rightarrow> string option" where
  "parseHost host =
     (if HasPrefix host ''['' then
        (case last_index (CHR '']'') host of
           None \<Rightarrow> None
         | Some i \<Rightarrow>
             if \<not> validOptionalPort (drop (i + 1) host) then None
             else case find_sub ''%25'' (take i host) of
                    Some zone \<Rightarrow>
                      (case (url_unescape EncHost (take zone host), url_unescape EncZone (drop zone (take i host)),
                             url_unescape EncHost (drop i host)) of
                         (Some h1, Some h2, Some h3) \<Rightarrow> Some (h1 @ h2 @ h3)
                       | _ \<Rightarrow> None)
                  | None \<Rightarrow> url_unescape EncHost host)
      else case last_index (CHR '':'') host of
             None \<Rightarrow> url_unescape EncHost host
           | Some i \<Rightarrow> if \<not> validOptionalPort (drop i host) then None else url_unescape EncHost host)"

definition userinfo_char :: "char \<Rightarrow> bool" where
  "userinfo_char c = (letter c \<or> digit c \<or> c \<in> set ''-._:~!$&()*+,;=%@'' \<or> c = CHR 0x27)"

definition parseAuthority :: "string \<Rightarrow> string option" where
  "parseAuthority authority =
     (case last_index (CHR ''@'') authority of
        None \<Rightarrow> parseHost authority
      | Some i \<Rightarrow>
          (case parseHost (drop (i + 1) authority) of
             None \<Rightarrow> None
           | Some host \<Rightarrow>
               let userinfo = take i authority; (user, password) = cut_at (CHR '':'') userinfo
               in if \<not> list_all userinfo_char userinfo then None
                  else if url_unescape EncUserPassword user = None \<or> url_unescape EncUserPassword password = None then None
                  else Some host))"

definition url_parse_main :: "string \<Rightarrow> (string \<times> string) option" where
  "url_parse_main rawURL =
     (if list_ex (\<lambda>c. of_char c < (32 :: nat) \<or> c = CHR 0x7F) rawURL then None
      else if rawURL = ''*'' then Some ([], [])
      else case getScheme [] rawURL of
             None \<Rightarrow> None
           | Some (scheme, rest) \<Rightarrow>
               let scheme = ToLower scheme; rest = fst (cut_at (CHR ''?'') rest)
               in if \<not> HasPrefix rest ''/'' \<and> scheme \<noteq> [] then Some (scheme, [])
                  else if \<not> HasPrefix rest ''/'' \<and> CHR '':'' \<in> set (fst (cut_at (CHR ''/'') rest)) then None
                  else if (scheme \<noteq> [] \<or> \<not> HasPrefix rest ''///'') \<and> HasPrefix rest ''//'' then
                    (let (authority, path) = (case index_by (\<lambda>c. c = CHR ''/'') (drop 2 rest) of
                                                None \<Rightarrow> (drop 2 rest, []) | Some i \<Rightarrow> (take i (drop 2 rest), drop i (drop 2 rest)))
                     in case parseAuthority authority of
                          None \<Rightarrow> None
                        | Some host \<Rightarrow> if url_unescape EncPath path = None then None else Some (scheme, host))
                  else if url_unescape EncPath rest = None then None
                  else Some (scheme, []))"

text \<open>\<^verbatim>\<open>url.Parse\<close>: scheme and host.\<close>

definition url_Parse :: "string \<Rightarrow> (string \<times> string) option" where
  "url_Parse rawURL =
     (let (u, frag) = cut_at (CHR ''#'') rawURL
      in case url_parse_main u of
           None \<Rightarrow> None
         | Some r \<Rightarrow> if url_unescape EncFragment frag = None then None else Some r)"

text \<open>\<^verbatim>\<open>URL.Hostname\<close>: without port and brackets.\<close>

definition url_Hostname :: "string \<Rightarrow> string" where
  "url_Hostname hostPort =
     (let host = (case last_index (CHR '':'') hostPort of
                    None \<Rightarrow> hostPort
                  | Some colon \<Rightarrow> if validOptionalPort (drop colon hostPort) then take colon hostPort else hostPort)
      in if HasPrefix host ''['' \<and> HasSuffix host '']'' then take (length host - 2) (drop 1 host) else host)"

text \<open>An accepted scheme is in lower case; a URL with a scheme and a host is written with both.\<close>

lemma url_parse_main_lower:
  "url_parse_main u = Some (scheme, host) \<Longrightarrow> ToLower scheme = scheme"
  by (auto simp: url_parse_main_def Let_def split: if_splits option.splits prod.splits)

lemma url_Parse_lower: "url_Parse u = Some (scheme, host) \<Longrightarrow> ToLower scheme = scheme"
  by (auto simp: url_Parse_def dest: url_parse_main_lower split: option.splits prod.splits if_splits)

lemma cut_at_prefix: "\<exists>t. s = fst (cut_at c s) @ t"
  by (cases "index_by (\<lambda>x. x = c) s") (simp_all add: cut_at_def, metis append_take_drop_id)

lemma HasPrefix_cut_at: "HasPrefix (fst (cut_at c s)) p \<Longrightarrow> HasPrefix s p"
  using cut_at_prefix [of s c] by (auto simp: HasPrefix_iff)

lemma getScheme_split: "getScheme pre s = Some (scheme, rest) \<Longrightarrow> scheme \<noteq> [] \<Longrightarrow> pre @ s = scheme @ CHR '':'' # rest"
  by (induction pre s rule: getScheme.induct) (auto split: if_splits)

lemma url_parse_main_host:
  assumes "url_parse_main u = Some (scheme, host)" "scheme \<noteq> []" "host \<noteq> []"
  shows "\<exists>p rest. u = p @ ''://'' @ rest \<and> ToLower p = scheme"
proof -
  obtain p r where g: "getScheme [] u = Some (p, r)" and p: "ToLower p = scheme" and r: "HasPrefix (fst (cut_at (CHR ''?'') r)) ''//''"
    using assms(1,3) by (auto simp: url_parse_main_def Let_def split: if_splits option.splits prod.splits)
  have "p \<noteq> []" using p assms(2) by auto
  from getScheme_split [OF g this] have "u = p @ CHR '':'' # r" by simp
  moreover obtain q where "r = ''//'' @ q" using HasPrefix_cut_at [OF r] by (auto simp: HasPrefix_iff)
  ultimately show ?thesis using p by auto
qed

lemma url_Parse_host:
  assumes "url_Parse u = Some (scheme, host)" "scheme \<noteq> []" "host \<noteq> []"
  shows "\<exists>p rest. u = p @ ''://'' @ rest \<and> ToLower p = scheme"
proof -
  have "url_parse_main (fst (cut_at (CHR ''#'') u)) = Some (scheme, host)"
    using assms(1) by (auto simp: url_Parse_def Let_def split: option.splits prod.splits if_splits)
  from url_parse_main_host [OF this assms(2,3)] obtain p rest
    where "fst (cut_at (CHR ''#'') u) = p @ ''://'' @ rest" "ToLower p = scheme" by blast
  then show ?thesis using cut_at_prefix [of u "CHR ''#''"] by (metis append.assoc)
qed

end
