(* ===== verification/Ip_Addr.thy ===== *)
theory Ip_Addr
  imports Http_Core Url
begin

unbundle bit_operations_syntax

text \<open>
  Addresses: the functions of \<^verbatim>\<open>net/netip\<close> and \<^verbatim>\<open>net\<close> that parse and print IP addresses, as far as they are
  called; on top of them \<^verbatim>\<open>ClientIP\<close> of \<^verbatim>\<open>pkg/wkhttp/ratelimit.go\<close>, the address helpers of \<^verbatim>\<open>pkg/util/ip.go\<close>
  and the request-forgery check of \<^verbatim>\<open>pkg/util/validate_url.go\<close>, where the resolver is an
  argument.  An address is its list of bytes, of length 4 or 16.
\<close>

section \<open>Parsing addresses\<close>

definition parse_octet :: "string \<Rightarrow> nat option" where
  "parse_octet s =
     (if s = [] \<or> (length s > 1 \<and> hd s = CHR ''0'') then None
      else case parse_digits 0 s of Some n \<Rightarrow> if n \<le> 255 then Some n else None | None \<Rightarrow> None)"

definition parse_ipv4 :: "string \<Rightarrow> nat list option" where
  "parse_ipv4 s =
     (case map parse_octet (split_on (CHR ''.'') s) of
        [Some a, Some b, Some c, Some d] \<Rightarrow> Some [a, b, c, d]
      | _ \<Rightarrow> None)"

text \<open>The hexadecimal digits at the start of a text, their value, and the rest.\<close>

fun hex_group :: "nat \<Rightarrow> nat \<Rightarrow> string \<Rightarrow> nat \<times> nat \<times> string" where
  "hex_group n acc [] = (n, acc, [])"
| "hex_group n acc (c # cs) =
     (case hex_val c of None \<Rightarrow> (n, acc, c # cs) | Some d \<Rightarrow> hex_group (n + 1) (acc * 16 + d) cs)"

text \<open>
  The loop of \<^verbatim>\<open>parseIPv6\<close>: \<^verbatim>\<open>ip\<close> are the bytes so far, \<^verbatim>\<open>ell\<close> the position of the ellipsis; it runs at most
  eight times, which the first argument counts.
\<close>

fun ipv6_loop :: "nat \<Rightarrow> nat list \<Rightarrow> nat option \<Rightarrow> string \<Rightarrow> (nat list \<times> nat option \<times> string) option" where
  "ipv6_loop 0 ip ell s = Some (ip, ell, s)"
| "ipv6_loop (Suc n) ip ell s =
     (let (off, acc, rest) = hex_group 0 0 s
      in if off = 0 \<or> off > 4 then None
         else if rest \<noteq> [] \<and> hd rest = CHR ''.'' then
           (if (ell = None \<and> length ip \<noteq> 12) \<or> length ip + 4 > 16 then None
            else case parse_ipv4 s of None \<Rightarrow> None | Some v4 \<Rightarrow> Some (ip @ v4, ell, []))
         else let ip = ip @ [acc div 256, acc mod 256]
              in case rest of
                   [] \<Rightarrow> Some (ip, ell, [])
                 | [c] \<Rightarrow> None
                 | c # c2 # cs \<Rightarrow>
                     if c \<noteq> CHR '':'' then None
                     else if c2 = CHR '':'' then
                       (if ell \<noteq> None then None
                        else if cs = [] then Some (ip, Some (length ip), [])
                        else ipv6_loop n ip (Some (length ip)) cs)
                     else ipv6_loop n ip ell (c2 # cs))"

definition parse_ipv6_body :: "string \<Rightarrow> nat list option" where
  "parse_ipv6_body s =
     (let lead = HasPrefix s ''::'';
          s' = (if lead then drop 2 s else s)
      in if lead \<and> s' = [] then Some (replicate 16 0)
         else case ipv6_loop 8 [] (if lead then Some 0 else None) s' of
                None \<Rightarrow> None
              | Some (ip, ell, rest) \<Rightarrow>
                  if rest \<noteq> [] then None
                  else if length ip < 16 then
                    (case ell of
                       None \<Rightarrow> None
                     | Some e \<Rightarrow> Some (take e ip @ replicate (16 - length ip) 0 @ drop e ip))
                  else if ell \<noteq> None then None else Some ip)"

text \<open>\<^verbatim>\<open>netip.ParseAddr\<close>: the bytes and the zone.\<close>

definition ParseAddr :: "string \<Rightarrow> (nat list \<times> string) option" where
  "ParseAddr s =
     (case index_by (\<lambda>c. c = CHR ''.'' \<or> c = CHR '':'' \<or> c = CHR ''%'') s of
        None \<Rightarrow> None
      | Some i \<Rightarrow>
          if s ! i = CHR ''.'' then map_option (\<lambda>ip. (ip, [])) (parse_ipv4 s)
          else if s ! i = CHR ''%'' then None
          else case index_by (\<lambda>c. c = CHR ''%'') s of
                 None \<Rightarrow> map_option (\<lambda>ip. (ip, [])) (parse_ipv6_body s)
               | Some j \<Rightarrow> if drop (j + 1) s = [] then None
                            else map_option (\<lambda>ip. (ip, drop (j + 1) s)) (parse_ipv6_body (take j s)))"

definition v4_mapped :: "nat list \<Rightarrow> bool" where
  "v4_mapped ip \<longleftrightarrow> length ip = 16 \<and> take 10 ip = replicate 10 0 \<and> ip ! 10 = 255 \<and> ip ! 11 = 255"

text \<open>\<^verbatim>\<open>Addr.Unmap\<close> and \<^verbatim>\<open>net.IP.To4\<close>.\<close>

definition addr_Unmap :: "nat list \<Rightarrow> nat list" where
  "addr_Unmap ip = (if v4_mapped ip then drop 12 ip else ip)"

section \<open>Printing addresses\<close>

definition print_ipv4 :: "nat list \<Rightarrow> string" where
  "print_ipv4 ip = join ''.'' (map nat_dec ip)"

fun nat_hex_text :: "nat \<Rightarrow> string" where
  "nat_hex_text n =
     (if n < 16 then [hex_char n] else nat_hex_text (n div 16) @ [hex_char (n mod 16)])"

declare nat_hex_text.simps [simp del]

fun groups16 :: "nat list \<Rightarrow> nat list" where
  "groups16 (a # b # rest) = (a * 256 + b) # groups16 rest"
| "groups16 _ = []"

text \<open>The first longest run of zero groups: its start and length.\<close>

fun zero_run :: "nat list \<Rightarrow> nat" where
  "zero_run (0 # gs) = Suc (zero_run gs)"
| "zero_run _ = 0"

definition longest_zeros :: "nat list \<Rightarrow> nat \<times> nat" where
  "longest_zeros gs =
     fold (\<lambda>i (st, len). let k = zero_run (drop i gs) in if k > len then (i, k) else (st, len))
       [0..<length gs] (0, 0)"

definition print_ipv6 :: "nat list \<Rightarrow> string" where
  "print_ipv6 ip =
     (let gs = groups16 ip;
          (st, len) = longest_zeros gs
      in if len \<ge> 2
         then join '':'' (map nat_hex_text (take st gs)) @ ''::'' @ join '':'' (map nat_hex_text (drop (st + len) gs))
         else join '':'' (map nat_hex_text gs))"

definition addr_String :: "nat list \<Rightarrow> string" where
  "addr_String ip = (if length ip = 4 then print_ipv4 ip else print_ipv6 ip)"

section \<open>Host and port\<close>

definition SplitHostPort :: "string \<Rightarrow> (string \<times> string) option" where
  "SplitHostPort hp =
     (case last_index (CHR '':'') hp of
        None \<Rightarrow> None
      | Some i \<Rightarrow>
          (let split =
                 (if hd hp = CHR ''['' then
                    (case index_by (\<lambda>c. c = CHR '']'') hp of
                       None \<Rightarrow> None
                     | Some e \<Rightarrow> if e + 1 \<noteq> i then None else Some (drop 1 (take e hp), 1, e + 1))
                  else if CHR '':'' \<in> set (take i hp) then None
                  else Some (take i hp, 0, 0))
           in case split of
                None \<Rightarrow> None
              | Some (host, j, k) \<Rightarrow>
                  if CHR ''['' \<in> set (drop j hp) \<or> CHR '']'' \<in> set (drop k hp) then None
                  else Some (host, drop (i + 1) hp)))"

section \<open>The client's address\<close>

definition canonicalClientIP :: "string \<Rightarrow> string" where
  "canonicalClientIP value =
     (case ParseAddr (TrimSpace value) of
        None \<Rightarrow> []
      | Some (ip, zone) \<Rightarrow> if zone \<noteq> [] then [] else addr_String (addr_Unmap ip))"

definition ClientIP_remote :: "'r Context \<Rightarrow> string" where
  "ClientIP_remote r =
     (case SplitHostPort (TrimSpace (cx_remote r)) of Some (ip, _) \<Rightarrow> canonicalClientIP ip | None \<Rightarrow> [])"

definition ClientIP :: "'r Context \<Rightarrow> string" where
  "ClientIP r =
     (let values = hdr_Values (cx_req r) ''X-Forwarded-For''
      in if length values > 0 then
           let last_value = last values;
               last_value = (case last_index (CHR '','') last_value of
                               Some i \<Rightarrow> drop (i + 1) last_value | None \<Rightarrow> last_value);
               candidate = TrimSpace last_value
           in if candidate = [] then [] else canonicalClientIP candidate
         else let values = hdr_Values (cx_req r) ''X-Real-Ip''
              in if length values > 0 then
                   (if length values \<noteq> 1 then []
                    else let candidate = TrimSpace (values ! 0)
                         in if candidate \<noteq> [] then canonicalClientIP candidate else ClientIP_remote r)
                 else ClientIP_remote r)"

text \<open>\<^verbatim>\<open>GetClientPublicIP\<close> takes the first non-blank entry instead; it is meant for display only.\<close>

definition GetClientPublicIP :: "'r Context \<Rightarrow> string" where
  "GetClientPublicIP r =
     (case find (\<lambda>ip. TrimSpace ip \<noteq> []) (split_on (CHR '','') (hdr_Get (cx_req r) ''X-Forwarded-For'')) of
        Some ip \<Rightarrow> TrimSpace ip
      | None \<Rightarrow>
          let ip = TrimSpace (hdr_Get (cx_req r) ''X-Real-Ip'')
          in if ip \<noteq> [] then ip
             else case SplitHostPort (TrimSpace (cx_remote r)) of Some (ip, _) \<Rightarrow> ip | None \<Rightarrow> [])"

definition IsIntranet :: "string \<Rightarrow> bool" where
  "IsIntranet ipStr =
     (if HasPrefix ipStr ''10.'' \<or> HasPrefix ipStr ''192.168.'' then True
      else if HasPrefix ipStr ''172.'' then
        let arr = split_on (CHR ''.'') ipStr
        in if length arr \<noteq> 4 then False
           else let (second, err) = ParseInt (arr ! 1) 64
                in if err \<noteq> None then False else 16 \<le> second \<and> second \<le> 31
      else False)"

section \<open>Private networks\<close>

text \<open>The network addresses and prefix lengths that \<^verbatim>\<open>init\<close> parses.\<close>

definition privateNetworks :: "(nat list \<times> nat) list" where
  "privateNetworks =
     [([10, 0, 0, 0], 8), ([172, 16, 0, 0], 12), ([192, 168, 0, 0], 16), ([127, 0, 0, 0], 8),
      ([169, 254, 0, 0], 16), (replicate 15 0 @ [1], 128), (0xfc # replicate 15 0, 7),
      (0xfe # 0x80 # replicate 14 0, 10)]"

text \<open>\<^verbatim>\<open>IPNet.Contains\<close>: the leading bits of the address, as 4 bytes if it is a mapped one, are those of the network.\<close>

definition prefix_eq :: "nat \<Rightarrow> nat list \<Rightarrow> nat list \<Rightarrow> bool" where
  "prefix_eq n xs ys \<longleftrightarrow>
     take (n div 8) xs = take (n div 8) ys \<and>
     (n mod 8 \<noteq> 0 \<longrightarrow> xs ! (n div 8) div 2 ^ (8 - n mod 8) = ys ! (n div 8) div 2 ^ (8 - n mod 8))"

definition net_Contains :: "nat list \<times> nat \<Rightarrow> nat list \<Rightarrow> bool" where
  "net_Contains network ip =
     (let (net, n) = network; ip = addr_Unmap ip
      in length ip = length net \<and> prefix_eq n ip net)"

definition isPrivateIP :: "nat list \<Rightarrow> bool" where
  "isPrivateIP ip \<longleftrightarrow> (\<exists>network\<in>set privateNetworks. net_Contains network ip)"

datatype url_error =
    InvalidURL
  | UnsupportedScheme string
  | EmptyHost
  | PrivateIP "nat list"
  | ResolutionFailed string string
  | ResolvesToPrivate string "nat list"

text \<open>\<^verbatim>\<open>net.ParseIP\<close> rejects zones.\<close>

definition ParseIP :: "string \<Rightarrow> nat list option" where
  "ParseIP s = (case ParseAddr s of Some (ip, []) \<Rightarrow> Some ip | _ \<Rightarrow> None)"

definition ValidateExternalURL :: "(string \<Rightarrow> string + nat list list) \<Rightarrow> string \<Rightarrow> url_error option" where
  "ValidateExternalURL LookupIP rawURL =
     (case url_Parse rawURL of
        None \<Rightarrow> Some InvalidURL
      | Some (u_Scheme, u_Host) \<Rightarrow>
          let scheme = ToLower u_Scheme; host = url_Hostname u_Host
          in if scheme \<noteq> ''http'' \<and> scheme \<noteq> ''https'' then Some (UnsupportedScheme scheme)
             else if host = [] then Some EmptyHost
             else case ParseIP host of
                    Some ip \<Rightarrow> if isPrivateIP ip then Some (PrivateIP ip) else None
                  | None \<Rightarrow>
                      (case LookupIP host of
                         Inl e \<Rightarrow> Some (ResolutionFailed host e)
                       | Inr ips \<Rightarrow> map_option (ResolvesToPrivate host) (find isPrivateIP ips)))"

section \<open>Printed addresses are read back\<close>

lemma parse_octet_nat_dec [simp]: "n \<le> 255 \<Longrightarrow> parse_octet (nat_dec n) = Some n"
  by (cases "n = 0") (auto simp: parse_octet_def hd_nat_dec_pos nat_dec_less_10 digit_val_0_iff [THEN iffD2])

lemma dot_not_in_nat_dec [simp]:
  "CHR ''.'' \<notin> set (nat_dec n)" "CHR '':'' \<notin> set (nat_dec n)" "CHR ''%'' \<notin> set (nat_dec n)"
  by (auto dest!: nat_dec_digits simp: digit_val_def)

lemma print_ipv4_split:
  "print_ipv4 [a, b, c, d] = nat_dec a @ CHR ''.'' # nat_dec b @ CHR ''.'' # nat_dec c @ CHR ''.'' # nat_dec d"
  by (simp add: print_ipv4_def)

lemma split_on_print_ipv4 [simp]:
  "split_on (CHR ''.'') (print_ipv4 [a, b, c, d]) = map nat_dec [a, b, c, d]"
  by (simp add: print_ipv4_split split_on_append_sep split_on_no_sep)

lemma parse_print_ipv4:
  "a \<le> 255 \<Longrightarrow> b \<le> 255 \<Longrightarrow> c \<le> 255 \<Longrightarrow> d \<le> 255 \<Longrightarrow>
    parse_ipv4 (print_ipv4 [a, b, c, d]) = Some [a, b, c, d]"
  by (simp add: parse_ipv4_def)

lemma print_ipv4_chars: "x \<in> set (print_ipv4 [a, b, c, d]) \<Longrightarrow> x = CHR ''.'' \<or> (\<exists>k. digit_val x = Some k)"
  by (auto simp: print_ipv4_split dest: nat_dec_digits)

lemma print_ipv4_visible [simp]: "TrimSpace (print_ipv4 [a, b, c, d]) = print_ipv4 [a, b, c, d]"
  by (rule TrimSpace_visible) (auto dest!: print_ipv4_chars intro: digit_visible)

lemma index_dot_print_ipv4:
  "index_by (\<lambda>c. c = CHR ''.'' \<or> c = CHR '':'' \<or> c = CHR ''%'') (print_ipv4 [a, b, c, d]) = Some (length (nat_dec a))"
  unfolding print_ipv4_split by (rule index_by_append) (auto dest!: nat_dec_digits simp: digit_val_def)

lemma ParseAddr_print_ipv4:
  "a \<le> 255 \<Longrightarrow> b \<le> 255 \<Longrightarrow> c \<le> 255 \<Longrightarrow> d \<le> 255 \<Longrightarrow>
    ParseAddr (print_ipv4 [a, b, c, d]) = Some ([a, b, c, d], [])"
  unfolding ParseAddr_def index_dot_print_ipv4
  by (simp add: parse_print_ipv4) (simp add: print_ipv4_split nth_append)

lemma addr_Unmap_v4 [simp]: "addr_Unmap [a, b, c, d] = [a, b, c, d]"
  by (simp add: addr_Unmap_def v4_mapped_def)

lemma canonicalClientIP_v4:
  "a \<le> 255 \<Longrightarrow> b \<le> 255 \<Longrightarrow> c \<le> 255 \<Longrightarrow> d \<le> 255 \<Longrightarrow>
    canonicalClientIP (print_ipv4 [a, b, c, d]) = print_ipv4 [a, b, c, d]"
  by (simp add: canonicalClientIP_def ParseAddr_print_ipv4 addr_String_def)

text \<open>The same address written as an IPv4-mapped IPv6 one.\<close>

lemma digit_hex_val: "digit_val c = Some d \<Longrightarrow> hex_val c = Some d"
  by (auto simp: digit_val_def hex_val_def Let_def split: if_splits)

lemma hex_group_digits:
  "\<forall>c\<in>set xs. \<exists>d. digit_val c = Some d \<Longrightarrow> hex_val y = None \<Longrightarrow>
    \<exists>v. hex_group n acc (xs @ y # ys) = (n + length xs, v, y # ys)"
proof (induction xs arbitrary: n acc)
  case (Cons x xs)
  then obtain d where "hex_val x = Some d" by (auto dest: digit_hex_val)
  with Cons.IH [of "n + 1" "acc * 16 + d"] Cons.prems show ?case by auto
qed simp

lemma nat_dec_octet_length: "n \<le> 255 \<Longrightarrow> 0 < length (nat_dec n) \<and> length (nat_dec n) \<le> 3"
  by (cases "n < 10"; cases "n < 100") (auto simp: nat_dec_less_10 nat_dec_ge_10)

lemma ipv6_loop_v4_tail:
  assumes "a \<le> 255" "b \<le> 255" "c \<le> 255" "d \<le> 255"
  shows "ipv6_loop (Suc n) [255, 255] (Some 0) (print_ipv4 [a, b, c, d]) = Some ([255, 255, a, b, c, d], Some 0, [])"
proof -
  obtain v where "hex_group 0 0 (print_ipv4 [a, b, c, d])
      = (length (nat_dec a), v, CHR ''.'' # nat_dec b @ CHR ''.'' # nat_dec c @ CHR ''.'' # nat_dec d)"
    using hex_group_digits [of "nat_dec a" "CHR ''.''" 0 0] nat_dec_digits
    by (fastforce simp: print_ipv4_split hex_val_def)
  then show ?thesis
    using parse_print_ipv4 [OF assms] nat_dec_octet_length [OF assms(1)] by simp
qed

lemma ipv6_loop_mapped:
  assumes "a \<le> 255" "b \<le> 255" "c \<le> 255" "d \<le> 255"
  shows "ipv6_loop 8 [] (Some 0) (''ffff:'' @ print_ipv4 [a, b, c, d]) = Some ([255, 255, a, b, c, d], Some 0, [])"
proof -
  obtain x xs where x: "print_ipv4 [a, b, c, d] = x # xs"
    by (cases "print_ipv4 [a, b, c, d]") (simp_all add: print_ipv4_split)
  then have nx: "x \<noteq> CHR '':''" using print_ipv4_chars [of x a b c d] by (auto simp: digit_val_def)
  have tail: "ipv6_loop 7 [255, 255] (Some 0) (x # xs) = Some ([255, 255, a, b, c, d], Some 0, [])"
    using ipv6_loop_v4_tail [OF assms, of 6] by (simp only: x) simp
  have "hex_group 0 0 (''ffff:'' @ x # xs) = (4, 65535, '':'' @ x # xs)"
    by (simp add: hex_val_def)
  moreover have "(8 :: nat) = Suc 7" by simp
  ultimately show ?thesis
    unfolding x using nx tail by (simp only: ipv6_loop.simps(2) Let_def prod.case) simp
qed

lemma parse_mapped_v4:
  assumes "a \<le> 255" "b \<le> 255" "c \<le> 255" "d \<le> 255"
  shows "ParseAddr (''::ffff:'' @ print_ipv4 [a, b, c, d]) = Some (replicate 10 0 @ [255, 255, a, b, c, d], [])"
proof -
  have "index_by (\<lambda>c. c = CHR ''%'') (print_ipv4 [a, b, c, d]) = None"
    by (auto simp: index_by_None dest!: print_ipv4_chars simp: digit_val_def)
  moreover have "parse_ipv6_body (''::ffff:'' @ print_ipv4 [a, b, c, d]) = Some (replicate 10 0 @ [255, 255, a, b, c, d])"
    using ipv6_loop_mapped [OF assms] by (simp add: parse_ipv6_body_def HasPrefix_def del: ipv6_loop.simps)
  ultimately show ?thesis
    by (simp add: ParseAddr_def)
qed

lemma TrimSpace_mapped_v4 [simp]:
  "TrimSpace (''::ffff:'' @ print_ipv4 [a, b, c, d]) = ''::ffff:'' @ print_ipv4 [a, b, c, d]"
  by (rule TrimSpace_visible) (auto dest!: print_ipv4_chars intro: digit_visible)

lemma canonicalClientIP_mapped_v4:
  "a \<le> 255 \<Longrightarrow> b \<le> 255 \<Longrightarrow> c \<le> 255 \<Longrightarrow> d \<le> 255 \<Longrightarrow>
    canonicalClientIP (''::ffff:'' @ print_ipv4 [a, b, c, d]) = print_ipv4 [a, b, c, d]"
  unfolding canonicalClientIP_def TrimSpace_mapped_v4
  by (simp only: parse_mapped_v4) (simp add: addr_Unmap_def v4_mapped_def addr_String_def numeral_eq_Suc)

section \<open>The client's address cannot be chosen by the client\<close>

lemma last_index_None: "c \<notin> set s \<Longrightarrow> last_index c s = None"
  by (auto simp: last_index_def index_by_None)

lemma last_index_append:
  assumes "c \<notin> set x"
  shows "last_index c (pre @ c # x) = Some (length pre)"
proof -
  have "index_by (\<lambda>y. y = c) (rev x @ c # rev pre) = Some (length (rev x))"
    using assms by (intro index_by_append) auto
  then show ?thesis by (simp add: last_index_def)
qed

lemma canonicalClientIP_blank: "TrimSpace x = [] \<Longrightarrow> canonicalClientIP x = []"
  by (simp add: canonicalClientIP_def ParseAddr_def)

lemma canonicalClientIP_trim: "canonicalClientIP (TrimSpace x) = canonicalClientIP x"
  by (simp add: canonicalClientIP_def)

lemma ClientIP_last_entry:
  assumes "hdr_Values (cx_req r) ''X-Forwarded-For'' = vs @ [v]"
    and "(v = x \<or> v = pre @ CHR '','' # x) \<and> CHR '','' \<notin> set x"
  shows "ClientIP r = canonicalClientIP x"
proof -
  have "(case last_index (CHR '','') v of Some i \<Rightarrow> drop (i + 1) v | None \<Rightarrow> v) = x"
    using assms(2) by (auto simp: last_index_None last_index_append)
  then show ?thesis
    using assms(1) by (simp add: ClientIP_def Let_def canonicalClientIP_trim canonicalClientIP_blank)
qed

text \<open>
  C26: Behind a proxy that appends the address it saw to the last line of \<^verbatim>\<open>X-Forwarded-For\<close>, as a new entry or a
  new line, \<^verbatim>\<open>ClientIP\<close> is the canonical text of that address whatever other lines, entries and headers the
  client sent; and an IPv4 address gives one and the same key whether the proxy writes it plainly or as an
  IPv4-mapped IPv6 address.
\<close>

theorem ClientIP_unspoofable:
  assumes "hdr_Values (cx_req r) ''X-Forwarded-For'' = vs @ [v]"
    and "(v = x \<or> v = pre @ CHR '','' # x) \<and> CHR '','' \<notin> set x"
  shows "ClientIP r = canonicalClientIP x \<and>
    (a \<le> 255 \<and> b \<le> 255 \<and> c \<le> 255 \<and> d \<le> 255 \<and>
      TrimSpace x \<in> {print_ipv4 [a, b, c, d], ''::ffff:'' @ print_ipv4 [a, b, c, d]} \<longrightarrow>
      ClientIP r = print_ipv4 [a, b, c, d])"
  using ClientIP_last_entry [OF assms] canonicalClientIP_trim [of x]
    canonicalClientIP_v4 [of a b c d] canonicalClientIP_mapped_v4 [of a b c d]
  by auto

definition ip_request :: "string list \<Rightarrow> unit Context" where
  "ip_request xff =
     \<lparr>cx_method = ''GET'', cx_path = ''/'', cx_remote = ''10.0.0.1:80'', cx_query = (\<lambda>_. []),
      cx_req = (\<lambda>k. if k = ''X-Forwarded-For'' then xff else []), cx_keys = Map.empty, cx_user = None,
      cx_resp = (\<lambda>_. []), cx_calls = []\<rparr>"

theorem ClientIP_unspoofable_witness:
  "ClientIP (ip_request [''6.6.6.6'', ''1.2.3.4,::ffff:9.8.7.6'']) = print_ipv4 [9, 8, 7, 6]"
proof -
  have eq: "''::ffff:9.8.7.6'' = ''::ffff:'' @ print_ipv4 [9, 8, 7, 6]"
    by code_simp
  have "TrimSpace ''::ffff:9.8.7.6'' = ''::ffff:'' @ print_ipv4 [9, 8, 7, 6]"
    unfolding eq by (rule TrimSpace_mapped_v4)
  then show ?thesis
    using ClientIP_unspoofable [of "ip_request [''6.6.6.6'', ''1.2.3.4,::ffff:9.8.7.6'']" "[''6.6.6.6'']"
        "''1.2.3.4,::ffff:9.8.7.6''" "''::ffff:9.8.7.6''" "''1.2.3.4''" 9 8 7 6]
    by (auto simp: hdr_Values_def ip_request_def)
qed

section \<open>Private addresses\<close>

text \<open>
  The ranges in numbers: \<^verbatim>\<open>10/8\<close>, \<^verbatim>\<open>172.16/12\<close>, \<^verbatim>\<open>192.168/16\<close>, \<^verbatim>\<open>127/8\<close> and \<^verbatim>\<open>169.254/16\<close>; the IPv6
  loopback, \<^verbatim>\<open>fc00::/7\<close> and \<^verbatim>\<open>fe80::/10\<close>.
\<close>

definition internal_address :: "nat list \<Rightarrow> bool" where
  "internal_address bytes \<longleftrightarrow>
     (let bs = addr_Unmap bytes; a = bs ! 0; b = bs ! 1
      in length bs = 4 \<and>
           (a = 10 \<or> (a = 172 \<and> 16 \<le> b \<and> b < 32) \<or> (a = 192 \<and> b = 168) \<or> a = 127 \<or> (a = 169 \<and> b = 254)) \<or>
         length bs = 16 \<and>
           (bs = replicate 15 0 @ [1] \<or> (0xfc \<le> a \<and> a < 0xfe) \<or> (a = 0xfe \<and> 0x80 \<le> b \<and> b < 0xc0)))"

lemma div_eq_range: "0 < k \<Longrightarrow> n div k = m \<longleftrightarrow> m * k \<le> n \<and> n < Suc m * k" for n :: nat
proof
  assume "0 < k" "n div k = m"
  then show "m * k \<le> n \<and> n < Suc m * k"
    using dividend_less_times_div [of k n] times_div_less_eq_dividend [of k n] by (auto simp: mult.commute)
next
  assume "0 < k" "m * k \<le> n \<and> n < Suc m * k"
  then show "n div k = m" by (intro div_nat_eqI) (simp_all add: mult.commute)
qed

lemma take_1_eq: "take (Suc 0) bs = [x] \<longleftrightarrow> bs \<noteq> [] \<and> bs ! 0 = x"
  by (cases bs) auto

lemma take_2_eq: "take 2 bs = [x, y] \<longleftrightarrow> 2 \<le> length bs \<and> bs ! 0 = x \<and> bs ! 1 = y"
proof (cases bs)
  case (Cons a as)
  then show ?thesis by (cases as) auto
qed simp

lemmas private_defs = isPrivateIP_def privateNetworks_def net_Contains_def prefix_eq_def internal_address_def Let_def

lemma isPrivateIP_v4: "length (addr_Unmap ip) = 4 \<Longrightarrow> isPrivateIP ip = internal_address ip"
  by (cases "addr_Unmap ip = []") (simp_all add: private_defs take_1_eq take_2_eq div_eq_range)

lemma isPrivateIP_v6: "length (addr_Unmap ip) = 16 \<Longrightarrow> isPrivateIP ip = internal_address ip"
  by (cases "addr_Unmap ip = []") (simp_all add: private_defs take_1_eq take_2_eq div_eq_range)

lemma isPrivateIP_internal: "isPrivateIP ip = internal_address ip"
proof -
  have "isPrivateIP ip = internal_address ip" if "length (addr_Unmap ip) \<noteq> 4" "length (addr_Unmap ip) \<noteq> 16"
    using that by (simp add: private_defs)
  then show ?thesis using isPrivateIP_v4 isPrivateIP_v6 by blast
qed

text \<open>
  C27: \<^verbatim>\<open>ValidateExternalURL\<close> accepts a URL exactly when it parses, its scheme, put in lower case, is HTTP or HTTPS, it
  has a host, and no address the host stands for is internal: the host itself if it is an IP address, in IPv4
  or IPv6 notation or IPv4-mapped, and otherwise every address the resolver returns.
\<close>

theorem ValidateExternalURL_correct:
  "ValidateExternalURL LookupIP rawURL = None \<longleftrightarrow>
     (\<exists>scheme u_Host host. url_Parse rawURL = Some (scheme, u_Host) \<and> scheme \<in> {''http'', ''https''} \<and>
        host = url_Hostname u_Host \<and> host \<noteq> [] \<and>
        (case ParseIP host of
           Some ip \<Rightarrow> \<not> internal_address ip
         | None \<Rightarrow> \<exists>ips. LookupIP host = Inr ips \<and> (\<forall>ip\<in>set ips. \<not> internal_address ip)))"
proof (cases "url_Parse rawURL")
  case (Some p)
  obtain scheme u_Host where p: "p = (scheme, u_Host)" by force
  then have "ToLower scheme = scheme" using Some url_Parse_lower by blast
  then show ?thesis
    using Some p by (cases "ParseIP (url_Hostname u_Host)"; cases "LookupIP (url_Hostname u_Host)")
      (auto simp: ValidateExternalURL_def Let_def find_None_iff isPrivateIP_internal split: if_splits)
qed (simp add: ValidateExternalURL_def)

theorem ValidateExternalURL_correct_witness:
  "ValidateExternalURL (\<lambda>_. Inr [[8, 8, 8, 8]]) ''HTTP://u@h:80/x?q'' = None \<and>
   ValidateExternalURL (\<lambda>_. Inr [[8, 8, 8, 8], replicate 10 0 @ [255, 255, 10, 0, 0, 1]]) ''HTTP://u@h:80/x?q'' \<noteq> None"
proof -
  have p: "ParseIP ''h'' = None" and u: "url_Parse ''HTTP://u@h:80/x?q'' = Some (''http'', ''h:80'')"
    and h: "url_Hostname ''h:80'' = ''h''" and i: "\<not> internal_address [8, 8, 8, 8]"
    "internal_address (replicate 10 0 @ [255, 255, 10, 0, 0, 1])"
    by code_simp+
  show ?thesis using i by (simp add: ValidateExternalURL_correct p u h del: One_nat_def)
qed

text \<open>
  The unspecified addresses \<^verbatim>\<open>0.0.0.0\<close> and \<^verbatim>\<open>::\<close>, which reach the local host on common systems, are accepted.
\<close>

lemma ValidateExternalURL_unspecified: "ValidateExternalURL LookupIP ''http://0.0.0.0/'' = None"
proof -
  have "ParseIP ''0.0.0.0'' = Some [0, 0, 0, 0]" "\<not> isPrivateIP [0, 0, 0, 0]" "ToLower ''http'' = ''http''"
    "url_Parse ''http://0.0.0.0/'' = Some (''http'', ''0.0.0.0'')" "url_Hostname ''0.0.0.0'' = ''0.0.0.0''" by code_simp+
  then show ?thesis by (simp add: ValidateExternalURL_def)
qed

lemma HasPrefix_to_sep:
  "c \<notin> set xs \<Longrightarrow> c \<notin> set p \<Longrightarrow> HasPrefix (xs @ c # ys) (p @ c # q) \<longleftrightarrow> xs = p \<and> HasPrefix ys q"
proof (induction xs arbitrary: p)
  case Nil
  then show ?case by (cases p) (auto simp: HasPrefix_def)
next
  case (Cons x xs)
  then show ?case by (cases p) (auto simp: HasPrefix_def)
qed

lemma nat_dec_inject [simp]: "nat_dec m = nat_dec n \<longleftrightarrow> m = n"
  by (metis option.inject parse_digits_nat_dec)

lemma print_ipv4_prefix:
  "HasPrefix (print_ipv4 [a, b, c, d]) (nat_dec k @ ''.'') \<longleftrightarrow> a = k"
  "HasPrefix (print_ipv4 [a, b, c, d]) (nat_dec k @ ''.'' @ nat_dec l @ ''.'') \<longleftrightarrow> a = k \<and> b = l"
  by (simp_all add: print_ipv4_split HasPrefix_to_sep) (simp_all add: HasPrefix_def)

text \<open>\<^verbatim>\<open>IsIntranet\<close>, which works on the text of an address, decides the RFC 1918 ranges.\<close>

lemma IsIntranet_correct:
  assumes "b \<le> 255"
  shows "IsIntranet (print_ipv4 [a, b, c, d]) \<longleftrightarrow> a = 10 \<or> (a = 172 \<and> 16 \<le> b \<and> b \<le> 31) \<or> (a = 192 \<and> b = 168)"
proof -
  have eqs: "''10.'' = nat_dec 10 @ ''.''" "''172.'' = nat_dec 172 @ ''.''" "''192.168.'' = nat_dec 192 @ ''.'' @ nat_dec 168 @ ''.''"
    by code_simp+
  have "ParseInt (nat_dec b) 64 = (int b, None)" using assms by (intro ParseInt_nat_dec) simp
  then show ?thesis
    unfolding IsIntranet_def eqs print_ipv4_prefix by (simp add: Let_def)
qed

end
