(* ===== verification/Auth.thy ===== *)
theory Auth
  imports Http_Core
begin

text \<open>
  Authentication: the key-value cache interface (\<^verbatim>\<open>pkg/cache/cache.go\<close>) with its in-memory
  implementation (\<^verbatim>\<open>common/cache.go\<close>), the token parser (\<^verbatim>\<open>pkg/wkhttp/token_parser.go\<close>), the user in the
  request context (\<^verbatim>\<open>pkg/wkhttp/userinfo.go\<close>) and \<^verbatim>\<open>AuthMiddleware\<close> (\<^verbatim>\<open>pkg/wkhttp/http.go\<close>).  The locale
  \<open>kv_cache\<close> is the contract of the cache, proved for the in-memory cache; what the middleware does
  with a logged-in token follows from the contract alone.
\<close>

section \<open>The cache\<close>

record 'm cache_ops =
  cache_Set :: "string \<Rightarrow> string \<Rightarrow> 'm \<Rightarrow> 'm \<times> string option"
  cache_Delete :: "string \<Rightarrow> 'm \<Rightarrow> 'm \<times> string option"
  cache_SetAndExpire :: "string \<Rightarrow> string \<Rightarrow> int \<Rightarrow> 'm \<Rightarrow> 'm \<times> string option"
  cache_Get :: "string \<Rightarrow> 'm \<Rightarrow> string \<times> string option"

locale kv_cache =
  fixes ops :: "'m cache_ops"
  assumes get_set: "cache_Set ops k v m = (m', None) \<Longrightarrow> cache_Get ops k m' = (v, None)"
    and get_set_other: "cache_Set ops k v m = (m', None) \<Longrightarrow> k' \<noteq> k \<Longrightarrow> cache_Get ops k' m' = cache_Get ops k' m"
    and get_set_expire: "cache_SetAndExpire ops k v d m = (m', None) \<Longrightarrow> cache_Get ops k m' = (v, None)"
    and get_delete: "cache_Delete ops k m = (m', None) \<Longrightarrow> fst (cache_Get ops k m') = []"
    and get_delete_other: "cache_Delete ops k m = (m', None) \<Longrightarrow> k' \<noteq> k \<Longrightarrow> cache_Get ops k' m' = cache_Get ops k' m"

record MemoryCache =
  cacheMap :: "string \<rightharpoonup> string"

definition NewMemoryCache :: MemoryCache where
  "NewMemoryCache = \<lparr>cacheMap = Map.empty\<rparr>"

definition MemoryCache_Set :: "string \<Rightarrow> string \<Rightarrow> MemoryCache \<Rightarrow> MemoryCache \<times> string option" where
  "MemoryCache_Set key value m = (m\<lparr>cacheMap := (cacheMap m)(key \<mapsto> value)\<rparr>, None)"

text \<open>The in-memory cache ignores the expiry.\<close>

definition MemoryCache_SetAndExpire :: "string \<Rightarrow> string \<Rightarrow> int \<Rightarrow> MemoryCache \<Rightarrow> MemoryCache \<times> string option" where
  "MemoryCache_SetAndExpire key value expire m = (m\<lparr>cacheMap := (cacheMap m)(key \<mapsto> value)\<rparr>, None)"

definition MemoryCache_Get :: "string \<Rightarrow> MemoryCache \<Rightarrow> string \<times> string option" where
  "MemoryCache_Get key m = (case cacheMap m key of None \<Rightarrow> [] | Some v \<Rightarrow> v, None)"

definition MemoryCache_Delete :: "string \<Rightarrow> MemoryCache \<Rightarrow> MemoryCache \<times> string option" where
  "MemoryCache_Delete key m = (m\<lparr>cacheMap := (cacheMap m)(key := None)\<rparr>, None)"

definition memory_ops :: "MemoryCache cache_ops" where
  "memory_ops =
     \<lparr>cache_Set = MemoryCache_Set, cache_Delete = MemoryCache_Delete,
      cache_SetAndExpire = MemoryCache_SetAndExpire, cache_Get = MemoryCache_Get\<rparr>"

interpretation memory: kv_cache memory_ops
  by unfold_locales
    (auto simp: memory_ops_def MemoryCache_Set_def MemoryCache_Get_def MemoryCache_Delete_def
      MemoryCache_SetAndExpire_def)

section \<open>Token parsers\<close>

text \<open>Errors with the sentinels of the package and the wrapping that \<^verbatim>\<open>errors.Is\<close> looks through.\<close>

datatype token_error =
    ErrTokenMissing
  | ErrTokenNotFound
  | ErrTokenInvalid
  | ErrOther string
  | ErrWrap string "token_error list"

fun err_is :: "token_error \<Rightarrow> token_error \<Rightarrow> bool" where
  "err_is (ErrWrap m es) target \<longleftrightarrow> ErrWrap m es = target \<or> (\<exists>e\<in>set es. err_is e target)"
| "err_is e target \<longleftrightarrow> e = target"

definition legacyTokenParser_Parse ::
  "'m cache_ops \<Rightarrow> string \<Rightarrow> 'm \<Rightarrow> string \<Rightarrow> token_error + UserInfo" where
  "legacyTokenParser_Parse ops tokenPrefix m token =
     (if TrimSpace token = [] then Inl ErrTokenMissing
      else let (uidAndName, err) = cache_Get ops (tokenPrefix @ token) m
           in if err \<noteq> None \<or> TrimSpace uidAndName = [] then Inl ErrTokenNotFound
              else let parts = split_on (CHR ''@'') uidAndName
                   in if length parts < 2 then Inl ErrTokenInvalid
                      else Inr \<lparr>ui_UID = parts ! 0, ui_Name = parts ! 1,
                                ui_Role = (if length parts > 2 then parts ! 2 else []), ui_Language = []\<rparr>)"

text \<open>The boxes of the server: the injected parser and renderer, \<^term>\<open>None\<close> when reset.\<close>

record ('r, 'p) WKHttp =
  wk_errorRenderer :: "'r option"
  wk_tokenParser :: "'p option"

definition SetErrorRenderer :: "'r option \<Rightarrow> ('r, 'p) WKHttp \<Rightarrow> ('r, 'p) WKHttp" where
  "SetErrorRenderer r l = (case r of None \<Rightarrow> l\<lparr>wk_errorRenderer := None\<rparr> | Some x \<Rightarrow> l\<lparr>wk_errorRenderer := Some x\<rparr>)"

definition SetTokenParser :: "'p option \<Rightarrow> ('r, 'p) WKHttp \<Rightarrow> ('r, 'p) WKHttp" where
  "SetTokenParser p l = (case p of None \<Rightarrow> l\<lparr>wk_tokenParser := None\<rparr> | Some x \<Rightarrow> l\<lparr>wk_tokenParser := Some x\<rparr>)"

definition getTokenParser :: "('r, 'p) WKHttp \<Rightarrow> 'p option" where
  "getTokenParser l = wk_tokenParser l"

definition auth_spec :: "string \<Rightarrow> string \<Rightarrow> ErrorSpec" where
  "auth_spec code msg =
     \<lparr>es_Code = code, es_DefaultMessage = msg, es_TransportStatus = 401, es_SemanticStatus = 401,
      es_Details = [], es_Internal = False\<rparr>"

definition token_missing_spec :: ErrorSpec where
  "token_missing_spec = auth_spec ''err.shared.auth.token_missing'' (''token'' @ map char_of [0xE4, 0xB8, 0x8D, 0xE8, 0x83, 0xBD, 0xE4, 0xB8, 0xBA, 0xE7, 0xA9, 0xBA, 0xEF, 0xBC, 0x8C, 0xE8, 0xAF, 0xB7, 0xE5, 0x85, 0x88, 0xE7, 0x99, 0xBB, 0xE5, 0xBD, 0x95, 0xEF, 0xBC, 0x81 :: nat])"

definition authErrorSpec :: "token_error \<Rightarrow> ErrorSpec" where
  "authErrorSpec err =
     (if err_is err ErrTokenMissing then token_missing_spec
      else if err_is err ErrTokenInvalid then auth_spec ''err.shared.auth.token_invalid'' (''token'' @ map char_of [0xE6, 0x9C, 0x89, 0xE8, 0xAF, 0xAF, 0xEF, 0xBC, 0x81 :: nat])
      else if err_is err ErrTokenNotFound then auth_spec ''err.shared.auth.required'' (map char_of [0xE8, 0xAF, 0xB7, 0xE5, 0x85, 0x88, 0xE7, 0x99, 0xBB, 0xE5, 0xBD, 0x95, 0xEF, 0xBC, 0x81 :: nat])
      else auth_spec ''err.shared.auth.required'' (map char_of [0xE8, 0xAF, 0xB7, 0xE5, 0x85, 0x88, 0xE7, 0x99, 0xBB, 0xE5, 0xBD, 0x95, 0xEF, 0xBC, 0x81 :: nat]))"

section \<open>The user in the context\<close>

definition WithUser :: "UserInfo \<Rightarrow> 'r Context \<Rightarrow> 'r Context" where
  "WithUser info c = c\<lparr>cx_user := Some info\<rparr>"

definition UserFromCtx :: "'r Context \<Rightarrow> UserInfo \<times> bool" where
  "UserFromCtx c =
     (case cx_user c of
        None \<Rightarrow> (\<lparr>ui_UID = [], ui_Name = [], ui_Role = [], ui_Language = []\<rparr>, False)
      | Some info \<Rightarrow> (info, True))"

section \<open>The middleware\<close>

text \<open>An injected parser \<open>'p\<close> is run by \<^verbatim>\<open>run\<close>.\<close>

definition AuthMiddleware ::
  "('p \<Rightarrow> string \<Rightarrow> token_error + UserInfo) \<Rightarrow> ('r, 'p) WKHttp \<Rightarrow> 'm cache_ops \<Rightarrow> string \<Rightarrow> 'm \<Rightarrow>
   'r Context \<Rightarrow> 'r Context" where
  "AuthMiddleware run l ops tokenPrefix m c =
     (let token = hdr_Get (cx_req c) ''Token''
      in if token = [] then do_call CallAbort (RenderError (wk_errorRenderer l) token_missing_spec c)
         else let parsed = (case getTokenParser l of
                              None \<Rightarrow> legacyTokenParser_Parse ops tokenPrefix m token
                            | Some p \<Rightarrow> run p token)
              in case parsed of
                   Inl err \<Rightarrow> do_call CallAbort (RenderError (wk_errorRenderer l) (authErrorSpec err) c)
                 | Inr info \<Rightarrow>
                     let c = cx_Set ''uid'' (ui_UID info) c;
                         c = cx_Set ''name'' (ui_Name info) c;
                         c = (if ui_Role info \<noteq> [] then cx_Set ''role'' (ui_Role info) c else c);
                         c = WithUser info c
                     in do_call CallNext c)"

definition GetLoginUID_cache :: "string \<Rightarrow> string \<Rightarrow> 'm cache_ops \<Rightarrow> 'm \<Rightarrow> string" where
  "GetLoginUID_cache token tokenPrefix ops m =
     (let (uid, err) = cache_Get ops (tokenPrefix @ token) m in if err \<noteq> None then [] else uid)"

section \<open>What the middleware guarantees\<close>

lemma authErrorSpec_401: "es_TransportStatus (authErrorSpec e) = 401 \<and> es_SemanticStatus (authErrorSpec e) = 401"
  by (simp add: authErrorSpec_def token_missing_spec_def auth_spec_def)

lemma render_call_not_Next [simp]: "render_call r spec \<noteq> CallNext" "CallNext \<noteq> render_call r spec"
  by (simp_all add: render_call_def Let_def split: option.splits)

text \<open>The parse the middleware relies on.\<close>

definition auth_parse ::
  "('p \<Rightarrow> string \<Rightarrow> token_error + UserInfo) \<Rightarrow> ('r, 'p) WKHttp \<Rightarrow> 'm cache_ops \<Rightarrow> string \<Rightarrow> 'm \<Rightarrow>
   string \<Rightarrow> token_error + UserInfo" where
  "auth_parse run l ops tokenPrefix m token =
     (if token = [] then Inl ErrTokenMissing
      else case wk_tokenParser l of
             None \<Rightarrow> legacyTokenParser_Parse ops tokenPrefix m token
           | Some p \<Rightarrow> run p token)"

text \<open>
  C5: the middleware fails closed.  With any parser, cache and renderer, a request is passed on exactly
  when its token is parsed to a user; then the context carries that user and nothing else is called.
  Otherwise the error is rendered with status 401, the chain is aborted, the next handler is not
  called, and neither the keys nor the user of the context change.
\<close>

theorem AuthMiddleware_fail_closed:
  "case auth_parse run l ops tokenPrefix m (hdr_Get (cx_req c) ''Token'') of
     Inr info \<Rightarrow>
       cx_calls (AuthMiddleware run l ops tokenPrefix m c) = cx_calls c @ [CallNext]
       \<and> cx_user (AuthMiddleware run l ops tokenPrefix m c) = Some info
       \<and> GetLoginUID (AuthMiddleware run l ops tokenPrefix m c) = ui_UID info
       \<and> GetLoginName (AuthMiddleware run l ops tokenPrefix m c) = ui_Name info
   | Inl err \<Rightarrow>
       \<exists>spec. es_TransportStatus spec = 401
       \<and> cx_calls (AuthMiddleware run l ops tokenPrefix m c)
           = cx_calls c @ [render_call (wk_errorRenderer l) spec, CallAbort]
       \<and> cx_keys (AuthMiddleware run l ops tokenPrefix m c) = cx_keys c
       \<and> cx_user (AuthMiddleware run l ops tokenPrefix m c) = cx_user c"
proof (cases "hdr_Get (cx_req c) ''Token'' = []")
  case True
  have "es_TransportStatus token_missing_spec = 401" by (simp add: token_missing_spec_def auth_spec_def)
  with True show ?thesis
    by (auto simp: auth_parse_def AuthMiddleware_def)
next
  case False
  let ?p = "auth_parse run l ops tokenPrefix m (hdr_Get (cx_req c) ''Token'')"
  have p: "(case getTokenParser l of None \<Rightarrow> legacyTokenParser_Parse ops tokenPrefix m (hdr_Get (cx_req c) ''Token'')
      | Some p \<Rightarrow> run p (hdr_Get (cx_req c) ''Token'')) = ?p"
    using False by (simp add: auth_parse_def getTokenParser_def)
  show ?thesis
  proof (cases ?p)
    case (Inl err)
    then have "AuthMiddleware run l ops tokenPrefix m c
        = do_call CallAbort (RenderError (wk_errorRenderer l) (authErrorSpec err) c)"
      using False p by (simp add: AuthMiddleware_def Let_def)
    then show ?thesis using Inl authErrorSpec_401 by auto
  next
    case (Inr info)
    then show ?thesis
      using False p
      by (simp add: AuthMiddleware_def Let_def WithUser_def GetLoginUID_def GetLoginName_def cx_string_def)
  qed
qed

context kv_cache
begin

lemma login_parsed:
  assumes "cache_Get ops (prefix @ token) m' = (uid @ ''@'' @ name @ ''@'' @ role, None)"
    and "CHR ''@'' \<notin> set uid \<union> set name \<union> set role" and "TrimSpace token \<noteq> []"
    and "TrimSpace (uid @ ''@'' @ name @ ''@'' @ role) \<noteq> []"
  shows "legacyTokenParser_Parse ops prefix m' token =
    Inr \<lparr>ui_UID = uid, ui_Name = name, ui_Role = role, ui_Language = []\<rparr>"
proof -
  have "split_on (CHR ''@'') (uid @ ''@'' @ name @ ''@'' @ role) = [uid, name, role]"
    using assms(2) by (simp add: split_on_append_sep split_on_no_sep)
  then show ?thesis
    using assms(1,3,4) by (simp add: legacyTokenParser_Parse_def)
qed

lemma logout_rejected:
  assumes "cache_Delete ops (prefix @ token) m = (m', None)"
  shows "\<exists>e. legacyTokenParser_Parse ops prefix m' token = Inl e"
  using get_delete [OF assms] by (auto simp: legacyTokenParser_Parse_def split: prod.splits)

lemma session:
  assumes "wk_tokenParser l = None" and "hdr_Get (cx_req c) ''Token'' = token"
    and "TrimSpace token \<noteq> []" and "CHR ''@'' \<notin> set uid \<union> set name \<union> set role"
    and "TrimSpace (uid @ ''@'' @ name @ ''@'' @ role) \<noteq> []"
    and "cache_Get ops (prefix @ token) m1 = (uid @ ''@'' @ name @ ''@'' @ role, None)"
    and "cache_Delete ops (prefix @ token) m1 = (m2, None)"
  shows "cx_user (AuthMiddleware run l ops prefix m1 c)
       = Some \<lparr>ui_UID = uid, ui_Name = name, ui_Role = role, ui_Language = []\<rparr>
    \<and> cx_calls (AuthMiddleware run l ops prefix m1 c) = cx_calls c @ [CallNext]
    \<and> CallNext \<notin> set (drop (length (cx_calls c)) (cx_calls (AuthMiddleware run l ops prefix m2 c)))"
proof -
  have ne: "token \<noteq> []"
    using assms(3) by auto
  note login = login_parsed [OF assms(6,4,3,5)]
  obtain e where logout: "legacyTokenParser_Parse ops prefix m2 token = Inl e"
    using logout_rejected [OF assms(7)] by blast
  show ?thesis
    using ne login logout assms(1,2)
    by (auto simp: AuthMiddleware_def getTokenParser_def WithUser_def Let_def)
qed

end

text \<open>
  login and logout through a cache that keeps the contract.  After a token has been stored with
  \<^verbatim>\<open>uid@name@role\<close> a request with that token reaches the next handler with exactly this user, and after
  the token has been deleted it is rejected.
\<close>

theorem auth_login_logout:
  assumes "kv_cache ops" and "wk_tokenParser l = None" and "hdr_Get (cx_req c) ''Token'' = token"
    and "TrimSpace token \<noteq> []" and "CHR ''@'' \<notin> set uid \<union> set name \<union> set role"
    and "TrimSpace (uid @ ''@'' @ name @ ''@'' @ role) \<noteq> []"
    and "cache_Set ops (prefix @ token) (uid @ ''@'' @ name @ ''@'' @ role) m = (m1, None)"
    and "cache_Delete ops (prefix @ token) m1 = (m2, None)"
  shows "cx_user (AuthMiddleware run l ops prefix m1 c)
       = Some \<lparr>ui_UID = uid, ui_Name = name, ui_Role = role, ui_Language = []\<rparr>
    \<and> cx_calls (AuthMiddleware run l ops prefix m1 c) = cx_calls c @ [CallNext]
    \<and> CallNext \<notin> set (drop (length (cx_calls c)) (cx_calls (AuthMiddleware run l ops prefix m2 c)))"
  by (rule kv_cache.session [OF assms(1-6) kv_cache.get_set [OF assms(1,7)] assms(8)])

definition auth_demo_ctx :: "unit Context" where
  "auth_demo_ctx =
     \<lparr>cx_method = ''GET'', cx_path = ''/'', cx_remote = [], cx_query = (\<lambda>_. []),
      cx_req = (\<lambda>_. [])(''Token'' := [''t1'']), cx_keys = Map.empty, cx_user = None, cx_resp = (\<lambda>_. []), cx_calls = []\<rparr>"

definition auth_demo_run :: "MemoryCache \<Rightarrow> unit Context" where
  "auth_demo_run m =
     AuthMiddleware (\<lambda>(p :: unit) t. Inl ErrTokenMissing) \<lparr>wk_errorRenderer = None, wk_tokenParser = None\<rparr>
       memory_ops ''token:'' m auth_demo_ctx"

theorem auth_login_logout_witness:
  "\<exists>m1 m2. cx_user (auth_demo_run m1) = Some \<lparr>ui_UID = ''u'', ui_Name = ''n'', ui_Role = ''admin'', ui_Language = []\<rparr>
     \<and> cx_calls (auth_demo_run m1) = [CallNext] \<and> CallNext \<notin> set (cx_calls (auth_demo_run m2))"
proof -
  obtain m1 where m1: "cache_Set memory_ops (''token:'' @ ''t1'') (''u'' @ ''@'' @ ''n'' @ ''@'' @ ''admin'') NewMemoryCache = (m1, None)"
    by (simp add: memory_ops_def MemoryCache_Set_def)
  obtain m2 where m2: "cache_Delete memory_ops (''token:'' @ ''t1'') m1 = (m2, None)"
    by (simp add: memory_ops_def MemoryCache_Delete_def)
  have t: "TrimSpace ''t1'' \<noteq> []" "TrimSpace (''u'' @ ''@'' @ ''n'' @ ''@'' @ ''admin'') \<noteq> []"
    by (rule TrimSpace_nonblank [of "CHR ''t''"], simp, simp add: visible_def, rule TrimSpace_nonblank [of "CHR ''u''"], simp, simp add: visible_def)
  have h: "hdr_Get (cx_req auth_demo_ctx) ''Token'' = ''t1''" "cx_calls auth_demo_ctx = []"
    by (simp_all add: auth_demo_ctx_def hdr_Get_def)
  have "CHR ''@'' \<notin> set ''u'' \<union> set ''n'' \<union> set ''admin''" by simp
  from auth_login_logout [OF memory.kv_cache_axioms _ h(1) t(1) this t(2) m1 m2,
      of "\<lparr>wk_errorRenderer = None, wk_tokenParser = None\<rparr>" "\<lambda>(p :: unit) t. Inl ErrTokenMissing"]
  show ?thesis
    unfolding auth_demo_run_def h(2) by auto
qed

end
