(* ===== verification/Ratelimit.thy ===== *)
theory Ratelimit
  imports Token_Bucket Ip_Addr Auth
begin

text \<open>
  The rate limiting middlewares of \<^verbatim>\<open>pkg/wkhttp/ratelimit.go\<close> and the environment variables of
  \<^verbatim>\<open>ratelimit_helper.go\<close>.  The world of a limiter is the hash of every Redis key, whether Redis answers, the two
  clocks, and the warnings logged.  Response header names are the canonical forms that \<^verbatim>\<open>Header.Set\<close> stores.
\<close>

section \<open>The limiter\<close>

record keyedLimiter =
  kl_keyPrefix :: string
  kl_rps :: rat
  kl_burst :: int
  kl_lastDegradeWarn :: int

definition degradeWarnInterval :: int where
  "degradeWarnInterval = 30"

text \<open>\<^verbatim>\<open>rw_script\<close> tells what the call of the script meets: an answer, an error, or a value of another shape.\<close>

datatype redis_value = RInt int | RArr "redis_value list" | ROther

datatype script_fault = NoFault | EvalError | WrongShape redis_value

record rate_world =
  rw_keys :: "string \<Rightarrow> bucket_state"
  rw_fault :: script_fault
  rw_now :: rat
  rw_clock :: rat
  rw_log :: "int list"

definition newKeyedLimiter :: "string \<Rightarrow> rat \<Rightarrow> int \<Rightarrow> keyedLimiter go" where
  "newKeyedLimiter keyPrefix rps burst =
     (if rps \<le> 0 then Panic ''wkhttp.newKeyedLimiter: rps must be > 0''
      else if burst \<le> 0 then Panic (''wkhttp.newKeyedLimiter: burst must be > 0 (got '' @ int_dec burst @ '')'')
      else Ret \<lparr>kl_keyPrefix = keyPrefix, kl_rps = rps, kl_burst = burst, kl_lastDegradeWarn = 0\<rparr>)"

definition logDegrade :: "keyedLimiter \<Rightarrow> rate_world \<Rightarrow> keyedLimiter \<times> rate_world" where
  "logDegrade k w =
     (let now = \<lfloor>rw_now w\<rfloor>; prev = kl_lastDegradeWarn k
      in if now - prev < degradeWarnInterval then (k, w)
         else (k\<lparr>kl_lastDegradeWarn := now\<rparr>, w\<lparr>rw_log := rw_log w @ [now]\<rparr>))"

definition script_Run :: "string \<Rightarrow> rat \<Rightarrow> int \<Rightarrow> rate_world \<Rightarrow> (string + redis_value) \<times> rate_world" where
  "script_Run key rps burst w =
     (case rw_fault w of
        EvalError \<Rightarrow> (Inl ''redis eval failed'', w)
      | WrongShape v \<Rightarrow> (Inr v, w)
      | NoFault \<Rightarrow>
          let ((allowed, remaining, retry), st) = tokenBucketScript rps burst (rw_now w) (rw_clock w) (rw_keys w key)
          in (Inr (RArr [RInt allowed, RInt remaining, RInt retry]), w\<lparr>rw_keys := (rw_keys w)(key := st)\<rparr>))"

definition as_int64 :: "redis_value \<Rightarrow> int" where
  "as_int64 v = (case v of RInt i \<Rightarrow> i | _ \<Rightarrow> 0)"

type_synonym verdict = "bool \<times> int \<times> int \<times> bool"

definition allow :: "string \<Rightarrow> keyedLimiter \<Rightarrow> rate_world \<Rightarrow> verdict \<times> keyedLimiter \<times> rate_world" where
  "allow key k w =
     (let (res, w) = script_Run (kl_keyPrefix k @ key) (kl_rps k) (kl_burst k) w
      in case res of
           Inl err \<Rightarrow> ((True, kl_burst k, 0, True), logDegrade k w)
         | Inr (RArr [allowedN, remainingN, retryAfterN]) \<Rightarrow>
             let rem = as_int64 remainingN;
                 rem = (if rem < 0 then 0 else rem);
                 rem = (if rem > kl_burst k then kl_burst k else rem)
             in ((as_int64 allowedN = 1, rem, as_int64 retryAfterN, False), k, w)
         | Inr _ \<Rightarrow> ((True, kl_burst k, 0, True), logDegrade k w))"

section \<open>The middlewares\<close>

definition setRateLimitHeaders :: "string \<Rightarrow> int \<Rightarrow> int \<Rightarrow> bool \<Rightarrow> int \<Rightarrow> header \<Rightarrow> header" where
  "setRateLimitHeaders scope burst remaining allowed retryAfter h =
     (let h = hdr_Set ''X-Ratelimit-Limit'' (int_dec burst) h;
          h = hdr_Set ''X-Ratelimit-Remaining'' (int_dec remaining) h;
          h = hdr_Set ''X-Ratelimit-Scope'' scope h
      in if \<not> allowed then hdr_Set ''Retry-After'' (int_dec retryAfter) h else h)"

definition rateLimitErrorSpec :: "int \<Rightarrow> ErrorSpec" where
  "rateLimitErrorSpec retryAfter =
     \<lparr>es_Code = ''err.shared.rate.limited'', es_DefaultMessage = map char_of [0xE8, 0xAF, 0xB7, 0xE6, 0xB1, 0x82, 0xE8, 0xBF, 0x87, 0xE4, 0xBA, 0x8E, 0xE9, 0xA2, 0x91, 0xE7, 0xB9, 0x81, 0xEF, 0xBC, 0x8C, 0xE8, 0xAF, 0xB7, 0xE7, 0xA8, 0x8D, 0xE5, 0x90, 0x8E, 0xE5, 0x86, 0x8D, 0xE8, 0xAF, 0x95 :: nat],
      es_TransportStatus = 429, es_SemanticStatus = 429, es_Details = [(''retry_after'', retryAfter)], es_Internal = False\<rparr>"

definition unknownIPKey :: string where
  "unknownIPKey = ''__unknown_ip__''"

text \<open>What all three do once they know the key.\<close>

definition limit_request ::
  "'r option \<Rightarrow> string \<Rightarrow> string \<Rightarrow> keyedLimiter \<Rightarrow> rate_world \<Rightarrow> 'r Context \<Rightarrow> 'r Context \<times> keyedLimiter \<times> rate_world" where
  "limit_request renderer scope key kl w c =
     (let ((allowed, remaining, retryAfter, _), kl, w) = allow key kl w;
          c = c\<lparr>cx_resp := setRateLimitHeaders scope (kl_burst kl) remaining allowed retryAfter (cx_resp c)\<rparr>
      in if \<not> allowed then (do_call CallAbort (RenderError renderer (rateLimitErrorSpec retryAfter) c), kl, w)
         else (do_call CallNext c, kl, w))"

definition ip_key :: "'r Context \<Rightarrow> string" where
  "ip_key c = (let ip = ClientIP c in if ip = [] then unknownIPKey else ip)"

definition RateLimitMiddleware ::
  "('r, 'p) WKHttp \<Rightarrow> string list \<Rightarrow> keyedLimiter \<Rightarrow> rate_world \<Rightarrow> 'r Context \<Rightarrow> 'r Context \<times> keyedLimiter \<times> rate_world" where
  "RateLimitMiddleware l excludePaths kl w c =
     (if cx_path c \<in> set excludePaths then (do_call CallNext c, kl, w)
      else limit_request (wk_errorRenderer l) ''ip'' (ip_key c) kl w c)"

definition StrictIPRateLimitMiddleware ::
  "('r, 'p) WKHttp \<Rightarrow> string \<Rightarrow> keyedLimiter \<Rightarrow> rate_world \<Rightarrow> 'r Context \<Rightarrow> 'r Context \<times> keyedLimiter \<times> rate_world" where
  "StrictIPRateLimitMiddleware l tag kl w c = limit_request (wk_errorRenderer l) (''strict:'' @ tag) (ip_key c) kl w c"

definition UIDRateLimitMiddleware ::
  "('r, 'p) WKHttp \<Rightarrow> keyedLimiter \<Rightarrow> rate_world \<Rightarrow> 'r Context \<Rightarrow> 'r Context \<times> keyedLimiter \<times> rate_world" where
  "UIDRateLimitMiddleware l kl w c =
     (case cx_keys c ''uid'' of
        None \<Rightarrow> (do_call CallNext c, kl, w)
      | Some uid \<Rightarrow>
          (case uid of
             None \<Rightarrow> (do_call CallNext c, kl, w)
           | Some uid \<Rightarrow>
               if uid = [] then (do_call CallNext c, kl, w)
               else limit_request (wk_errorRenderer l) ''uid'' uid kl w c))"

text \<open>The limiters the constructors create.\<close>

definition ip_limiter :: "rat \<Rightarrow> int \<Rightarrow> keyedLimiter go" where
  "ip_limiter rps burst = newKeyedLimiter ''ratelimit:ip:'' rps burst"

definition strict_limiter :: "string \<Rightarrow> rat \<Rightarrow> int \<Rightarrow> keyedLimiter go" where
  "strict_limiter tag rps burst = newKeyedLimiter (''ratelimit:strict:'' @ tag @ '':'') rps burst"

definition uid_limiter :: "rat \<Rightarrow> int \<Rightarrow> keyedLimiter go" where
  "uid_limiter rps burst = newKeyedLimiter ''ratelimit:uid:'' rps burst"

section \<open>Settings from the environment\<close>

text \<open>\<^verbatim>\<open>strconv.ParseFloat\<close> is an argument.\<close>

definition ParseRPSFromEnv :: "(string \<Rightarrow> string) \<Rightarrow> (string \<Rightarrow> string + rat) \<Rightarrow> string \<Rightarrow> rat \<Rightarrow> rat" where
  "ParseRPSFromEnv getenv ParseFloat key def =
     (let v = getenv key
      in if v = [] then def
         else case ParseFloat v of Inl err \<Rightarrow> def | Inr n \<Rightarrow> if n \<le> 0 then def else n)"

definition ParseBurstFromEnv :: "(string \<Rightarrow> string) \<Rightarrow> string \<Rightarrow> int \<Rightarrow> int" where
  "ParseBurstFromEnv getenv key def =
     (let v = getenv key
      in if v = [] then def
         else let (n, err) = ParseInt v 64 in if err \<noteq> None \<or> n \<le> 0 then def else n)"

section \<open>Verdicts\<close>

definition limiter_ok :: "keyedLimiter \<Rightarrow> bool" where
  "limiter_ok k \<longleftrightarrow> 0 < kl_rps k \<and> 0 < kl_burst k"

lemma newKeyedLimiter_ok: "newKeyedLimiter p rps burst = Ret k \<Longrightarrow> limiter_ok k \<and> kl_keyPrefix k = p"
  by (auto simp: newKeyedLimiter_def limiter_ok_def split: if_splits)

lemma env_limiter_starts:
  assumes "0 < rps" "0 < burst"
  shows "\<exists>k. newKeyedLimiter p (ParseRPSFromEnv getenv ParseFloat rkey rps) (ParseBurstFromEnv getenv bkey burst) = Ret k"
  using assms
  by (auto simp: newKeyedLimiter_def ParseRPSFromEnv_def ParseBurstFromEnv_def Let_def split: sum.splits prod.splits)

lemma logDegrade_simps [simp]:
  "kl_burst (fst (logDegrade k w)) = kl_burst k" "rw_keys (snd (logDegrade k w)) = rw_keys w"
  by (simp_all add: logDegrade_def Let_def)

lemma allow_ok:
  assumes "limiter_ok k" "rw_fault w = NoFault"
    and "tokenBucketScript (kl_rps k) (kl_burst k) (rw_now w) (rw_clock w) (rw_keys w (kl_keyPrefix k @ key)) = ((a, m, r), st)"
  shows "allow key k w =
    ((a = 1, min (kl_burst k) (max 0 m), r, False), k, w\<lparr>rw_keys := (rw_keys w)(kl_keyPrefix k @ key := st)\<rparr>)"
  using assms by (auto simp: allow_def script_Run_def as_int64_def limiter_ok_def)

lemma limit_request_ok:
  assumes "limiter_ok k" "rw_fault w = NoFault"
    and "tokenBucketScript (kl_rps k) (kl_burst k) (rw_now w) (rw_clock w) (rw_keys w (kl_keyPrefix k @ key)) = ((a, m, r), st)"
    and "limit_request renderer scope key k w c = (c', k', w')"
  shows "k' = k \<and> w' = w\<lparr>rw_keys := (rw_keys w)(kl_keyPrefix k @ key := st)\<rparr> \<and>
    cx_calls c' = cx_calls c @ (if a = 1 then [CallNext] else [render_call renderer (rateLimitErrorSpec r), CallAbort]) \<and>
    cx_resp c' = setRateLimitHeaders scope (kl_burst k) (min (kl_burst k) (max 0 m)) (a = 1) r (cx_resp c)"
  using assms(4) by (auto simp: limit_request_def allow_ok [OF assms(1-3)] split: if_splits)

section \<open>The quota of an address\<close>

text \<open>Requests in the order Redis sees them, each with the instant on the clock of the process that serves it.\<close>

fun serve_all ::
  "('r, 'p) WKHttp \<Rightarrow> string list \<Rightarrow> rat \<Rightarrow> keyedLimiter \<Rightarrow> rate_world \<Rightarrow> (rat \<times> 'r Context) list \<Rightarrow> 'r Context list" where
  "serve_all l excludePaths off kl w [] = []"
| "serve_all l excludePaths off kl w ((t, c) # reqs) =
     (let (c', kl, w) = RateLimitMiddleware l excludePaths kl (w\<lparr>rw_now := t, rw_clock := t + off\<rparr>) c
      in c' # serve_all l excludePaths off kl w reqs)"

definition passes :: "'r Context \<Rightarrow> bool" where
  "passes c \<longleftrightarrow> CallNext \<in> set (cx_calls c)"

lemma serve_admitted:
  assumes "limiter_ok kl" "rw_fault w = NoFault" "\<forall>(t, c)\<in>set reqs. cx_path c \<notin> set ex \<and> cx_calls c = []"
  shows "length (filter (\<lambda>((t, c), c'). ip_key c = ip \<and> passes c') (zip reqs (serve_all l ex off kl w reqs)))
    = admitted (fst (bucket_run (kl_rps kl) (kl_burst kl) off (map fst (filter (\<lambda>(t, c). ip_key c = ip) reqs))
        (rw_keys w (kl_keyPrefix kl @ ip))))"
  using assms(2,3)
proof (induction reqs arbitrary: w)
  case (Cons p reqs)
  obtain t c where p: "p = (t, c)" by (cases p)
  let ?w = "w\<lparr>rw_now := t, rw_clock := t + off\<rparr>" and ?k = "kl_keyPrefix kl @ ip_key c"
  obtain a m r st where s: "tokenBucketScript (kl_rps kl) (kl_burst kl) t (t + off) (rw_keys w ?k) = ((a, m, r), st)"
    by (rule script_result)
  obtain c' k' w' where l: "limit_request (wk_errorRenderer l) ''ip'' (ip_key c) kl ?w c = (c', k', w')"
    by (cases "limit_request (wk_errorRenderer l) ''ip'' (ip_key c) kl ?w c") auto
  have eff: "k' = kl" "w' = ?w\<lparr>rw_keys := (rw_keys w)(?k := st)\<rparr>" "passes c' \<longleftrightarrow> a = 1"
    using limit_request_ok [OF assms(1) _ _ l, of a m r st] s Cons.prems p
    by (auto simp: passes_def)
  have run: "serve_all l ex off kl w (p # reqs) = c' # serve_all l ex off kl w' reqs"
    using Cons.prems p l eff(1) by (simp add: RateLimitMiddleware_def)
  have IH: "length (filter (\<lambda>((t, c), c'). ip_key c = ip \<and> passes c') (zip reqs (serve_all l ex off kl w' reqs)))
    = admitted (fst (bucket_run (kl_rps kl) (kl_burst kl) off (map fst (filter (\<lambda>(t, c). ip_key c = ip) reqs))
        (rw_keys w' (kl_keyPrefix kl @ ip))))"
    using Cons.prems eff(2) by (intro Cons.IH) simp_all
  show ?case
  proof (cases "ip_key c = ip")
    case True
    then have st: "rw_keys w' (kl_keyPrefix kl @ ip) = st" by (simp add: eff(2))
    from s True have s': "tokenBucketScript (kl_rps kl) (kl_burst kl) t (t + off) (rw_keys w (kl_keyPrefix kl @ ip)) = ((a, m, r), st)"
      by simp
    show ?thesis unfolding run using IH st True p eff(3) by (simp add: bucket_run_Cons [OF s'])
  next
    case False
    then have "rw_keys w' (kl_keyPrefix kl @ ip) = rw_keys w (kl_keyPrefix kl @ ip)" by (simp add: eff(2))
    then show ?thesis unfolding run using IH False p by simp
  qed
qed simp

text \<open>The requests that the proxy in front of the service attributes to an address.\<close>

definition attributed :: "string \<Rightarrow> 'r Context \<Rightarrow> bool" where
  "attributed x c \<longleftrightarrow>
     (let values = hdr_Values (cx_req c) ''X-Forwarded-For''
      in values \<noteq> [] \<and> (last values = x \<or> HasSuffix (last values) ('','' @ x)))"

lemma attributed_ip_key:
  assumes "attributed (print_ipv4 [a, b, c, d]) r" "a \<le> 255" "b \<le> 255" "c \<le> 255" "d \<le> 255"
  shows "ip_key r = print_ipv4 [a, b, c, d]"
proof -
  let ?x = "print_ipv4 [a, b, c, d]"
  have "CHR '','' \<notin> set ?x" by (auto dest!: print_ipv4_chars simp: digit_val_def)
  moreover obtain vs v where "hdr_Values (cx_req r) ''X-Forwarded-For'' = vs @ [v]"
    using assms(1) by (cases "hdr_Values (cx_req r) ''X-Forwarded-For''" rule: rev_cases) (simp_all add: attributed_def)
  moreover from this obtain pre where "v = ?x \<or> v = pre @ CHR '','' # ?x"
    using assms(1) by (auto simp: attributed_def HasSuffix_iff)
  ultimately have "ClientIP r = canonicalClientIP ?x" by (intro ClientIP_last_entry) simp_all
  moreover have "?x \<noteq> []" by (simp add: print_ipv4_split)
  ultimately show ?thesis
    by (simp add: ip_key_def canonicalClientIP_v4 assms)
qed

lemma length_filter_mono: "(\<And>x. x \<in> set xs \<Longrightarrow> P x \<Longrightarrow> Q x) \<Longrightarrow> length (filter P xs) \<le> length (filter Q xs)"
  by (induction xs) (auto intro: le_SucI)


definition rate_server :: "(unit, unit) WKHttp" where
  "rate_server = \<lparr>wk_errorRenderer = None, wk_tokenParser = None\<rparr>"

definition rate_world0 :: rate_world where
  "rate_world0 = \<lparr>rw_keys = (\<lambda>_. None), rw_fault = NoFault, rw_now = 0, rw_clock = 0, rw_log = []\<rparr>"


section \<open>Verdicts and failures\<close>

text \<open>
  While Redis answers, a limited request is decided on one bucket and changes no other: with a token left the
  request goes on and one token is gone; otherwise it is answered with status 429 and a \<^verbatim>\<open>Retry-After\<close> of at least
  one second, the chain is aborted, and the bucket is unchanged.  In both cases the remaining quota in the headers
  is that of the bucket.
\<close>

theorem limit_request_decides:
  assumes "limiter_ok k" "rw_fault w = NoFault" "rw_clock w = rw_now w + off"
    and "bucket_ok (kl_rps k) (kl_burst k) off (rw_now w) (rw_keys w (kl_keyPrefix k @ key))"
    and "limit_request renderer scope key k w c = (c', k', w')"
  shows "let level = (\<lambda>w. bucket_level (kl_rps k) (kl_burst k) (rw_now w) (rw_keys w (kl_keyPrefix k @ key))) in
    (\<forall>other. other \<noteq> kl_keyPrefix k @ key \<longrightarrow> rw_keys w' other = rw_keys w other) \<and>
    cx_resp c' ''X-Ratelimit-Limit'' = [int_dec (kl_burst k)] \<and>
    cx_resp c' ''X-Ratelimit-Remaining'' = [int_dec \<lfloor>level w'\<rfloor>] \<and>
    (if 1 \<le> level w then cx_calls c' = cx_calls c @ [CallNext] \<and> level w' = level w - 1
     else level w' = level w \<and>
       (\<exists>retry\<ge>1. cx_calls c' = cx_calls c @ [render_call renderer (rateLimitErrorSpec retry), CallAbort] \<and>
          cx_resp c' ''Retry-After'' = [int_dec retry]))"
proof -
  let ?level = "\<lambda>st. bucket_level (kl_rps k) (kl_burst k) (rw_now w) st"
  obtain a m r st where s: "tokenBucketScript (kl_rps k) (kl_burst k) (rw_now w) (rw_now w + off) (rw_keys w (kl_keyPrefix k @ key))
      = ((a, m, r), st)" by (rule script_result)
  have k: "0 < kl_rps k" "0 < kl_burst k" using assms(1) by (simp_all add: limiter_ok_def)
  note step = script_step [OF k assms(4) s]
  note eff = limit_request_ok [OF assms(1,2) s [folded assms(3)] assms(5)]
  have "0 \<le> ?level st" "?level st \<le> of_int (kl_burst k)"
    using bucket_level_bounds [OF k step(1)] by simp_all
  then have "0 \<le> \<lfloor>?level st\<rfloor>" "\<lfloor>?level st\<rfloor> \<le> kl_burst k" by linarith+
  then have m: "min (kl_burst k) (max 0 m) = \<lfloor>?level st\<rfloor>" unfolding step(3) by simp
  from eff m have w': "rw_keys w' (kl_keyPrefix k @ key) = st" "rw_now w' = rw_now w" 
    and resp: "cx_resp c' = setRateLimitHeaders scope (kl_burst k) \<lfloor>?level st\<rfloor> (a = 1) r (cx_resp c)"
    by auto
  have "cx_resp c' ''X-Ratelimit-Limit'' = [int_dec (kl_burst k)]"
    "cx_resp c' ''X-Ratelimit-Remaining'' = [int_dec \<lfloor>?level st\<rfloor>]"
    "a \<noteq> 1 \<Longrightarrow> cx_resp c' ''Retry-After'' = [int_dec r]"
    by (simp_all add: resp setRateLimitHeaders_def hdr_Set_def Let_def)
  moreover have "\<exists>retry\<ge>1. cx_calls c' = cx_calls c @ [render_call renderer (rateLimitErrorSpec retry), CallAbort] \<and>
      cx_resp c' ''Retry-After'' = [int_dec retry]" if "a \<noteq> 1"
    using that eff step(2) calculation(3) by (intro exI [of _ r]) auto
  ultimately show ?thesis
    using step(2) eff by (auto simp: w' Let_def)
qed

theorem limit_request_decides_witness:
  "let kl = \<lparr>kl_keyPrefix = ''p:'', kl_rps = 1, kl_burst = 2, kl_lastDegradeWarn = 0\<rparr>;
       (c', k', w') = limit_request None ''ip'' ''k'' kl rate_world0 (ip_request [])
   in cx_calls c' = [CallNext] \<and> bucket_level 1 2 (rw_now w') (rw_keys w' ''p:k'') = 1"
proof -
  let ?kl = "\<lparr>kl_keyPrefix = ''p:'', kl_rps = 1, kl_burst = 2, kl_lastDegradeWarn = 0\<rparr>"
  obtain c' k' w' where l: "limit_request None ''ip'' ''k'' ?kl rate_world0 (ip_request []) = (c', k', w')"
    by (cases "limit_request None ''ip'' ''k'' ?kl rate_world0 (ip_request [])") auto
  then show ?thesis
    using limit_request_decides [OF _ _ _ _ l, of 0]
    by (simp add: limiter_ok_def rate_world0_def bucket_ok_def bucket_level_def ip_request_def Let_def)
qed

text \<open>The script's answer is not the array the limiter expects.\<close>

definition reply_shape :: "redis_value \<Rightarrow> bool" where
  "reply_shape v = (case v of RArr [_, _, _] \<Rightarrow> True | _ \<Rightarrow> False)"

definition redis_fails :: "rate_world \<Rightarrow> bool" where
  "redis_fails w = (case rw_fault w of NoFault \<Rightarrow> False | EvalError \<Rightarrow> True | WrongShape v \<Rightarrow> \<not> reply_shape v)"

lemma limit_request_degraded:
  assumes "redis_fails w"
  shows "limit_request renderer scope key k w c =
    (do_call CallNext (c\<lparr>cx_resp := setRateLimitHeaders scope (kl_burst k) (kl_burst k) True 0 (cx_resp c)\<rparr>), logDegrade k w)"
  using assms
  by (auto simp: limit_request_def allow_def script_Run_def redis_fails_def reply_shape_def
      split: script_fault.splits redis_value.splits list.splits prod.splits) (metis fst_conv logDegrade_simps(1))+

text \<open>
  The limiters fail open: when the script cannot be run or answers in another shape, every middleware lets the request
  go on, no bucket changes, and a warning is logged unless one was logged in the last thirty seconds.
\<close>

theorem RateLimit_fails_open:
  assumes "redis_fails w"
    and "(c', k', w') \<in> {RateLimitMiddleware l ex k w c, StrictIPRateLimitMiddleware l tag k w c, UIDRateLimitMiddleware l k w c}"
  shows "cx_calls c' = cx_calls c @ [CallNext] \<and> rw_keys w' = rw_keys w \<and> (k', w') \<in> {(k, w), logDegrade k w} \<and>
    rw_log w' \<in> {rw_log w, rw_log w @ [\<lfloor>rw_now w\<rfloor>]}"
proof -
  have "(c', k', w') \<in> {(do_call CallNext c, k, w)} \<union>
      {limit_request (wk_errorRenderer l) scope key k w c | scope key. True}"
    using assms(2) by (auto simp: RateLimitMiddleware_def StrictIPRateLimitMiddleware_def UIDRateLimitMiddleware_def
        split: if_splits option.splits)
  then consider "(c', k', w') = (do_call CallNext c, k, w)"
    | scope key where "(c', k', w') = limit_request (wk_errorRenderer l) scope key k w c" by blast
  then show ?thesis
  proof cases
    case 2
    then show ?thesis
      unfolding limit_request_degraded [OF assms(1)] by (cases "logDegrade k w") (auto simp: logDegrade_def Let_def split: if_splits)
  qed simp
qed

theorem RateLimit_fails_open_witness:
  "let kl = \<lparr>kl_keyPrefix = ''ratelimit:uid:'', kl_rps = 1, kl_burst = 2, kl_lastDegradeWarn = 0\<rparr>;
       (c', k', w') = StrictIPRateLimitMiddleware rate_server ''login'' kl (rate_world0\<lparr>rw_fault := EvalError\<rparr>) (ip_request [])
   in cx_calls c' = [CallNext] \<and> rw_keys w' = (\<lambda>_. None)"
proof -
  let ?kl = "\<lparr>kl_keyPrefix = ''ratelimit:uid:'', kl_rps = 1, kl_burst = 2, kl_lastDegradeWarn = 0\<rparr>"
  let ?w = "rate_world0\<lparr>rw_fault := EvalError\<rparr>"
  obtain c' k' w' where r: "StrictIPRateLimitMiddleware rate_server ''login'' ?kl ?w (ip_request []) = (c', k', w')"
    by (cases "StrictIPRateLimitMiddleware rate_server ''login'' ?kl ?w (ip_request [])") auto
  have "redis_fails ?w" by (simp add: redis_fails_def)
  from RateLimit_fails_open [OF this, of c' k' w' rate_server "[]" ?kl "ip_request []" "''login''"] r
  show ?thesis by (simp add: rate_world0_def ip_request_def)
qed

section \<open>Degradation warnings under concurrency\<close>

text \<open>
  \<^verbatim>\<open>logDegrade\<close> is called by any number of goroutines: each loads the last warning time and, if it is old enough,
  tries to replace it by a compare-and-swap before it logs.
\<close>

datatype warn_pc = Idle | Loaded int int

record warn_state =
  ws_last :: int
  ws_log :: "int list"
  ws_pc :: "nat \<Rightarrow> warn_pc"

definition warn_init :: warn_state where
  "warn_init = \<lparr>ws_last = 0, ws_log = [], ws_pc = (\<lambda>_. Idle)\<rparr>"

inductive logDegrade_step :: "warn_state \<Rightarrow> warn_state \<Rightarrow> bool" where
  load: "ws_pc s i = Idle \<Longrightarrow> \<not> now - ws_last s < degradeWarnInterval \<Longrightarrow>
    logDegrade_step s (s\<lparr>ws_pc := (ws_pc s)(i := Loaded now (ws_last s))\<rparr>)"
| swapped: "ws_pc s i = Loaded now prev \<Longrightarrow> ws_last s = prev \<Longrightarrow>
    logDegrade_step s (s\<lparr>ws_last := now, ws_log := ws_log s @ [now], ws_pc := (ws_pc s)(i := Idle)\<rparr>)"
| lost: "ws_pc s i = Loaded now prev \<Longrightarrow> ws_last s \<noteq> prev \<Longrightarrow>
    logDegrade_step s (s\<lparr>ws_pc := (ws_pc s)(i := Idle)\<rparr>)"

inductive_cases logDegrade_stepE: "logDegrade_step s s'"

definition warn_inv :: "warn_state \<Rightarrow> bool" where
  "warn_inv s \<longleftrightarrow> successively (\<lambda>x y. x + degradeWarnInterval \<le> y) (0 # ws_log s) \<and> last (0 # ws_log s) = ws_last s \<and>
     (\<forall>i now prev. ws_pc s i = Loaded now prev \<longrightarrow> prev + degradeWarnInterval \<le> now)"

lemma warn_inv_step: "logDegrade_step s s' \<Longrightarrow> warn_inv s \<Longrightarrow> warn_inv s'"
  by (erule logDegrade_stepE)
    (auto simp: warn_inv_def successively_append_iff [of _ "0 # _", simplified] split: if_splits)

text \<open>
  However the goroutines of a limiter interleave, two warnings are never less than thirty seconds apart; and whenever
  thirty seconds have passed, an undisturbed caller logs one, as the sequential \<^verbatim>\<open>logDegrade\<close> does.
\<close>

theorem logDegrade_throttled:
  assumes "logDegrade_step\<^sup>*\<^sup>* warn_init s"
  shows "(\<forall>i j. i < j \<and> j < length (ws_log s) \<longrightarrow> ws_log s ! i + 30 \<le> ws_log s ! j) \<and>
    (ws_pc s i = Idle \<and> 30 \<le> now - ws_last s \<longrightarrow>
      (\<exists>s'. logDegrade_step\<^sup>*\<^sup>* s s' \<and> ws_log s' = ws_log s @ [now] \<and> ws_last s' = now \<and> ws_pc s' = ws_pc s))"
proof -
  from assms have "warn_inv s"
  proof (induction rule: rtranclp_induct)
    case base
    show ?case by (simp add: warn_inv_def warn_init_def)
  qed (rule warn_inv_step)
  then have "sorted_wrt (\<lambda>x y. x + 30 \<le> y) (0 # ws_log s)"
    by (subst successively_conv_sorted_wrt [symmetric]) (auto simp: warn_inv_def degradeWarnInterval_def intro!: transpI)
  then have gaps: "\<forall>i j. i < j \<and> j < length (ws_log s) \<longrightarrow> ws_log s ! i + 30 \<le> ws_log s ! j"
    by (auto dest: sorted_wrt_nth_less)
  let ?s1 = "s\<lparr>ws_pc := (ws_pc s)(i := Loaded now (ws_last s))\<rparr>"
  let ?s2 = "?s1\<lparr>ws_last := now, ws_log := ws_log ?s1 @ [now], ws_pc := (ws_pc ?s1)(i := Idle)\<rparr>"
  have "logDegrade_step\<^sup>*\<^sup>* s ?s2" if "ws_pc s i = Idle" "30 \<le> now - ws_last s"
  proof -
    have "logDegrade_step s ?s1" using that by (intro load) (simp_all add: degradeWarnInterval_def)
    moreover have "logDegrade_step ?s1 ?s2" by (rule swapped) simp_all
    ultimately show ?thesis by (rule converse_rtranclp_into_rtranclp [OF _ r_into_rtranclp])
  qed
  moreover have "ws_pc ?s2 = ws_pc s" if "ws_pc s i = Idle" using that by auto
  ultimately show ?thesis using gaps by (intro conjI impI exI [of _ ?s2]) auto
qed

theorem logDegrade_throttled_witness:
  "let s = \<lparr>ws_last = 100, ws_log = [100], ws_pc = (\<lambda>_. Idle)\<rparr>
   in \<exists>s'. logDegrade_step\<^sup>*\<^sup>* s s' \<and> ws_log s' = [100, 130]"
proof -
  let ?s = "\<lparr>ws_last = 100, ws_log = [100], ws_pc = (\<lambda>_. Idle)\<rparr>"
  have "\<exists>s'. logDegrade_step\<^sup>*\<^sup>* warn_init s' \<and> ws_log s' = [100] \<and> ws_last s' = 100 \<and> ws_pc s' = (\<lambda>_. Idle)"
    using logDegrade_throttled [OF rtranclp.rtrancl_refl, of 0 100] by (simp add: warn_init_def)
  then obtain s' where "logDegrade_step\<^sup>*\<^sup>* warn_init s'" "s' = ?s"
    by (metis (full_types) warn_state.surjective old.unit.exhaust)
  then show ?thesis using logDegrade_throttled [of ?s 0 130] by auto
qed

end
