(* ===== verification/Json.thy ===== *)
theory Json
  imports Octo_Prelude "HOL-Library.List_Lexorder" "HOL-Library.Char_ord" "HOL-Library.Multiset"
begin

text \<open>
  Package \<^verbatim>\<open>encoding/json\<close> as far as it is called: values, the decoder (with its treatment of escapes, of invalid
  UTF-8 and of deep nesting), the encoder of Go maps, slices and strings, and the decoding of values into Go
  variables.  On top of it \<^verbatim>\<open>pkg/util/json.go\<close>.  A number keeps its text, as \<^verbatim>\<open>json.Number\<close> does.
\<close>

section \<open>Values\<close>

datatype json =
    JNull
  | JBool bool
  | JNum string
  | JStr string
  | JArr "json list"
  | JObj "(string \<times> json) list"

abbreviation JInt :: "int \<Rightarrow> json" where
  "JInt i \<equiv> JNum (int_dec i)"

text \<open>The last of several equal keys counts.\<close>

definition obj_get :: "(string \<times> json) list \<Rightarrow> string \<Rightarrow> json option" where
  "obj_get kvs k = map_of (rev kvs) k"

text \<open>A Go map is encoded with its keys in order.\<close>

definition jmap :: "(string \<times> json) list \<Rightarrow> json" where
  "jmap kvs = JObj (sort_key fst kvs)"

section \<open>UTF-8\<close>

text \<open>The length of the character a text starts with, 0 if it is empty or starts with an invalid one.\<close>

abbreviation utf8_cont :: "nat \<Rightarrow> bool" where
  "utf8_cont b \<equiv> 128 \<le> b \<and> b \<le> 191"

fun rune_len :: "nat list \<Rightarrow> nat" where
  "rune_len [] = 0"
| "rune_len (a # bs) =
     (if a < 128 then 1
      else if 194 \<le> a \<and> a \<le> 223 then (case bs of b # _ \<Rightarrow> if utf8_cont b then 2 else 0 | _ \<Rightarrow> 0)
      else if 224 \<le> a \<and> a \<le> 239 then
        (case bs of b # c # _ \<Rightarrow>
           if (if a = 224 then 160 else 128) \<le> b \<and> b \<le> (if a = 237 then 159 else 191) \<and> utf8_cont c then 3 else 0
         | _ \<Rightarrow> 0)
      else if 240 \<le> a \<and> a \<le> 244 then
        (case bs of b # c # d # _ \<Rightarrow>
           if (if a = 240 then 144 else 128) \<le> b \<and> b \<le> (if a = 244 then 143 else 191) \<and> utf8_cont c \<and> utf8_cont d
           then 4 else 0
         | _ \<Rightarrow> 0)
      else 0)"

definition utf8_len :: "string \<Rightarrow> nat" where
  "utf8_len s = rune_len (map of_char (take 4 s))"

definition utf8_encode :: "nat \<Rightarrow> string" where
  "utf8_encode r = map char_of
     (if r < 128 then [r]
      else if r < 2048 then [192 + r div 64, 128 + r mod 64]
      else if r < 65536 then [224 + r div 4096, 128 + r div 64 mod 64, 128 + r mod 64]
      else [240 + r div 262144, 128 + r div 4096 mod 64, 128 + r div 64 mod 64, 128 + r mod 64])"

definition rune_error :: string where
  "rune_error = map char_of [239, 191, 189 :: nat]"

lemma rune_len_take:
  assumes "rune_len bs = n" "0 < n"
  shows "n \<le> length bs \<and> n \<le> 4 \<and> (\<forall>ys. rune_len (take n bs @ ys) = n)"
proof (cases bs)
  case (Cons a as)
  consider "a < 128" | b cs where "as = b # cs" | "a \<ge> 128" "as = []" by (metis list.exhaust not_less)
  then show ?thesis
  proof cases
    case 2
    note as = 2
    show ?thesis
    proof (cases cs)
      case Nil
      then show ?thesis using assms Cons as by (auto split: if_splits)
    next
      case (Cons c ds)
      then show ?thesis using assms \<open>bs = a # as\<close> as by (cases ds) (auto split: if_splits)
    qed
  qed (use assms Cons in \<open>auto split: if_splits\<close>)
qed (use assms in simp)

lemma utf8_len_le: "utf8_len s \<le> length s"
proof (cases "utf8_len s = 0")
  case False
  then show ?thesis using rune_len_take [of "map of_char (take 4 s)" "utf8_len s"] by (auto simp: utf8_len_def)
qed simp

lemma utf8_len_prefix:
  assumes "utf8_len s = n" "0 < n"
  shows "utf8_len (take n s @ t) = n"
proof -
  have r: "n \<le> 4" "n \<le> length s" "\<And>ys. rune_len (take n (map of_char (take 4 s)) @ ys) = n"
    using rune_len_take [of "map of_char (take 4 s)" n] assms by (auto simp: utf8_len_def)
  have "map of_char (take 4 (take n s @ t)) = take n (map of_char (take 4 s)) @ map of_char (take (4 - n) t)"
    using r(1,2) by (simp add: take_map min_def)
  then show ?thesis unfolding utf8_len_def using r(3) by metis
qed

lemma utf8_len_ascii: "(of_char c :: nat) < 128 \<Longrightarrow> utf8_len (c # cs) = 1"
  by (simp add: utf8_len_def)

function utf8_valid :: "string \<Rightarrow> bool" where
  "utf8_valid s = (if s = [] then True else if utf8_len s = 0 then False else utf8_valid (drop (utf8_len s) s))"
  by pat_completeness auto
termination by (relation "measure length") auto

declare utf8_valid.simps [simp del]

section \<open>Decoding texts\<close>

definition json_space :: "char \<Rightarrow> bool" where
  "json_space c \<longleftrightarrow> of_char c \<in> {32, 9, 13, 10 :: nat}"

definition skip_space :: "string \<Rightarrow> string" where
  "skip_space s = dropWhile json_space s"

definition hex4 :: "string \<Rightarrow> nat option" where
  "hex4 s = (case map hex_val (take 4 s) of
     [Some a, Some b, Some c, Some d] \<Rightarrow> Some (((a * 16 + b) * 16 + c) * 16 + d) | _ \<Rightarrow> None)"

text \<open>What follows a backslash: the bytes it stands for and the rest.\<close>

definition json_escape :: "string \<Rightarrow> (string \<times> string) option" where
  "json_escape s =
     (case s of
        [] \<Rightarrow> None
      | c # cs \<Rightarrow>
          if c \<in> {CHR 0x22, CHR 0x5C, CHR ''/''} then Some ([c], cs)
          else if c = CHR ''b'' then Some ([CHR 0x08], cs)
          else if c = CHR ''f'' then Some ([CHR 0x0C], cs)
          else if c = CHR ''n'' then Some ([CHR 0x0A], cs)
          else if c = CHR ''r'' then Some ([CHR 0x0D], cs)
          else if c = CHR ''t'' then Some ([CHR 0x09], cs)
          else if c = CHR ''u'' then
            (case hex4 cs of
               None \<Rightarrow> None
             | Some r \<Rightarrow>
                 let rest = drop 4 cs
                 in if r < 0xD800 \<or> 0xE000 \<le> r then Some (utf8_encode r, rest)
                    else if r < 0xDC00 \<and> take 2 rest = [CHR 0x5C, CHR ''u''] then
                      (case hex4 (drop 2 rest) of
                         Some r2 \<Rightarrow> if 0xDC00 \<le> r2 \<and> r2 < 0xE000
                                     then Some (utf8_encode ((r - 0xD800) * 0x400 + (r2 - 0xDC00) + 0x10000), drop 6 rest)
                                     else Some (rune_error, rest)
                       | None \<Rightarrow> Some (rune_error, rest))
                    else Some (rune_error, rest))
          else None)"

lemma json_escape_length: "json_escape s = Some (out, rest) \<Longrightarrow> length rest < length s"
  by (auto simp: json_escape_def Let_def split: list.splits if_splits option.splits)

text \<open>The characters of a string up to its closing quote; invalid UTF-8 becomes the replacement character.\<close>

function json_chars :: "string \<Rightarrow> (string \<times> string) option" where
  "json_chars [] = None"
| "json_chars (c # cs) =
     (if c = CHR 0x22 then Some ([], cs)
      else if c = CHR 0x5C then
        (case json_escape cs of None \<Rightarrow> None | Some (out, rest) \<Rightarrow> map_option (map_prod ((@) out) id) (json_chars rest))
      else if of_char c < (32 :: nat) then None
      else let n = utf8_len (c # cs)
           in if n = 0 then map_option (map_prod ((@) rune_error) id) (json_chars cs)
              else map_option (map_prod ((@) (take n (c # cs))) id) (json_chars (drop n (c # cs))))"
  by pat_completeness auto
termination by (relation "measure length") (auto dest: json_escape_length)

declare json_chars.simps(2) [simp del]

definition is_digit :: "char \<Rightarrow> bool" where
  "is_digit c \<longleftrightarrow> digit_val c \<noteq> None"

text \<open>A number: sign, integer part without superfluous zeros, fraction, exponent.\<close>

definition json_int_part :: "string \<Rightarrow> (string \<times> string) option" where
  "json_int_part s =
     (case s of [] \<Rightarrow> None
      | c # cs \<Rightarrow> if c = CHR ''0'' then Some ([c], cs)
                  else if is_digit c then Some (takeWhile is_digit s, dropWhile is_digit s) else None)"

definition json_frac_part :: "string \<Rightarrow> (string \<times> string) option" where
  "json_frac_part s =
     (if s \<noteq> [] \<and> hd s = CHR ''.'' then
        (let ds = takeWhile is_digit (tl s) in if ds = [] then None else Some (CHR ''.'' # ds, dropWhile is_digit (tl s)))
      else Some ([], s))"

definition json_exp_part :: "string \<Rightarrow> (string \<times> string) option" where
  "json_exp_part s =
     (if s \<noteq> [] \<and> hd s \<in> {CHR ''e'', CHR ''E''} then
        (let sg = (if tl s \<noteq> [] \<and> hd (tl s) \<in> {CHR ''+'', CHR ''-''} then [hd (tl s)] else []);
             r = drop (length sg) (tl s); ds = takeWhile is_digit r
         in if ds = [] then None else Some (hd s # sg @ ds, dropWhile is_digit r))
      else Some ([], s))"

definition json_number :: "string \<Rightarrow> (string \<times> string) option" where
  "json_number s =
     (let sg = (if s \<noteq> [] \<and> hd s = CHR ''-'' then ''-'' else [])
      in case json_int_part (drop (length sg) s) of
           None \<Rightarrow> None
         | Some (i, r) \<Rightarrow>
             (case json_frac_part r of
                None \<Rightarrow> None
              | Some (f, r) \<Rightarrow>
                  (case json_exp_part r of None \<Rightarrow> None | Some (e, r) \<Rightarrow> Some (sg @ i @ f @ e, r))))"

text \<open>
  Values: the first argument is fuel, of which the length of the text is enough; the second is the nesting that is
  still allowed.
\<close>

fun json_value :: "nat \<Rightarrow> int \<Rightarrow> string \<Rightarrow> (json \<times> string) option"
  and json_elems :: "nat \<Rightarrow> int \<Rightarrow> string \<Rightarrow> (json list \<times> string) option"
  and json_members :: "nat \<Rightarrow> int \<Rightarrow> string \<Rightarrow> ((string \<times> json) list \<times> string) option"
where
  "json_value 0 d s = None"
| "json_value (Suc n) d s =
     (case skip_space s of
        [] \<Rightarrow> None
      | c # cs \<Rightarrow>
          if c = CHR 0x22 then map_option (map_prod JStr id) (json_chars cs)
          else if c = CHR ''['' then
            (if d \<le> 0 then None
             else if HasPrefix (skip_space cs) '']'' then Some (JArr [], tl (skip_space cs))
             else map_option (map_prod JArr id) (json_elems n (d - 1) cs))
          else if c = CHR 0x7B then
            (if d \<le> 0 then None
             else if HasPrefix (skip_space cs) [CHR 0x7D] then Some (JObj [], tl (skip_space cs))
             else map_option (map_prod JObj id) (json_members n (d - 1) cs))
          else if HasPrefix (c # cs) ''true'' then Some (JBool True, drop 4 (c # cs))
          else if HasPrefix (c # cs) ''false'' then Some (JBool False, drop 5 (c # cs))
          else if HasPrefix (c # cs) ''null'' then Some (JNull, drop 4 (c # cs))
          else map_option (map_prod JNum id) (json_number (c # cs)))"
| "json_elems 0 d s = None"
| "json_elems (Suc n) d s =
     (case json_value n d s of
        None \<Rightarrow> None
      | Some (v, r) \<Rightarrow>
          (case skip_space r of
             [] \<Rightarrow> None
           | c # cs \<Rightarrow>
               if c = CHR '']'' then Some ([v], cs)
               else if c = CHR '','' then map_option (map_prod ((#) v) id) (json_elems n d cs)
               else None))"
| "json_members 0 d s = None"
| "json_members (Suc n) d s =
     (case skip_space s of
        [] \<Rightarrow> None
      | q # qs \<Rightarrow>
          if q \<noteq> CHR 0x22 then None
          else case json_chars qs of
                 None \<Rightarrow> None
               | Some (k, r) \<Rightarrow>
                   (case skip_space r of
                      [] \<Rightarrow> None
                    | c # cs \<Rightarrow>
                        if c \<noteq> CHR '':'' then None
                        else case json_value n d cs of
                               None \<Rightarrow> None
                             | Some (v, r) \<Rightarrow>
                                 (case skip_space r of
                                    [] \<Rightarrow> None
                                  | c # cs \<Rightarrow>
                                      if c = CHR 0x7D then Some ([(k, v)], cs)
                                      else if c = CHR '','' then map_option (map_prod ((#) (k, v)) id) (json_members n d cs)
                                      else None)))"

definition json_max_depth :: int where
  "json_max_depth = 10000"

text \<open>\<^verbatim>\<open>Decoder.Decode\<close> reads one value and leaves the rest; \<^verbatim>\<open>json.Unmarshal\<close> wants nothing after it.\<close>

definition json_Decode :: "string \<Rightarrow> (json \<times> string) option" where
  "json_Decode s = json_value (length s) json_max_depth s"

definition json_Unmarshal :: "string \<Rightarrow> json option" where
  "json_Unmarshal s =
     (case json_Decode s of Some (v, r) \<Rightarrow> if skip_space r = [] then Some v else None | None \<Rightarrow> None)"

section \<open>Encoding values\<close>

definition json_u00 :: "nat \<Rightarrow> string" where
  "json_u00 k = CHR 0x5C # ''u00'' @ [hex_char (k div 16), hex_char (k mod 16)]"

function json_esc :: "string \<Rightarrow> string" where
  "json_esc [] = []"
| "json_esc (c # cs) =
     (let k = of_char c :: nat; n = utf8_len (c # cs)
      in if c \<in> {CHR 0x22, CHR 0x5C} then CHR 0x5C # c # json_esc cs
         else if c = CHR 0x0A then CHR 0x5C # ''n'' @ json_esc cs
         else if c = CHR 0x0D then CHR 0x5C # ''r'' @ json_esc cs
         else if c = CHR 0x09 then CHR 0x5C # ''t'' @ json_esc cs
         else if k < 32 \<or> c \<in> {CHR ''<'', CHR ''>'', CHR ''&''} then json_u00 k @ json_esc cs
         else if n = 0 then CHR 0x5C # ''ufffd'' @ json_esc cs
         else if take n (c # cs) = map char_of [226, 128, 168 :: nat] then CHR 0x5C # ''u2028'' @ json_esc (drop n (c # cs))
         else if take n (c # cs) = map char_of [226, 128, 169 :: nat] then CHR 0x5C # ''u2029'' @ json_esc (drop n (c # cs))
         else take n (c # cs) @ json_esc (drop n (c # cs)))"
  by pat_completeness auto
termination by (relation "measure length") auto

declare json_esc.simps(2) [simp del]

definition json_quote :: "string \<Rightarrow> string" where
  "json_quote s = CHR 0x22 # json_esc s @ [CHR 0x22]"

fun json_print :: "json \<Rightarrow> string"
  and json_print_elems :: "json list \<Rightarrow> string"
  and json_print_members :: "(string \<times> json) list \<Rightarrow> string"
where
  "json_print JNull = ''null''"
| "json_print (JBool b) = (if b then ''true'' else ''false'')"
| "json_print (JNum t) = t"
| "json_print (JStr s) = json_quote s"
| "json_print (JArr vs) = CHR ''['' # json_print_elems vs @ '']''"
| "json_print (JObj kvs) = CHR 0x7B # json_print_members kvs @ [CHR 0x7D]"
| "json_print_elems [] = []"
| "json_print_elems [v] = json_print v"
| "json_print_elems (v # w # vs) = json_print v @ CHR '','' # json_print_elems (w # vs)"
| "json_print_members [] = []"
| "json_print_members [(k, v)] = json_quote k @ CHR '':'' # json_print v"
| "json_print_members ((k, v) # m # kvs) = json_quote k @ CHR '':'' # json_print v @ CHR '','' # json_print_members (m # kvs)"

section \<open>What is encoded is decoded\<close>

lemma utf8_valid_Nil [simp]: "utf8_valid []"
  by (simp add: utf8_valid.simps)

lemma utf8_valid_Cons:
  "utf8_valid (c # cs) \<longleftrightarrow> 0 < utf8_len (c # cs) \<and> utf8_valid (drop (utf8_len (c # cs)) (c # cs))"
  by (subst utf8_valid.simps) simp

lemma json_chars_simps:
  "json_chars (CHR 0x22 # cs) = Some ([], cs)"
  "json_escape cs = Some (out, rest) \<Longrightarrow> json_chars (CHR 0x5C # cs) = map_option (map_prod ((@) out) id) (json_chars rest)"
  by (simp_all add: json_chars.simps(2))

lemma json_chars_rune:
  assumes "c \<noteq> CHR 0x22" "c \<noteq> CHR 0x5C" "32 \<le> (of_char c :: nat)" "utf8_len (c # cs) = n" "0 < n"
  shows "json_chars (take n (c # cs) @ t) = map_option (map_prod ((@) (take n (c # cs))) id) (json_chars t)"
proof -
  obtain m where n: "n = Suc m" using assms(5) by (cases n) auto
  have len: "m \<le> length cs" using utf8_len_le [of "c # cs"] assms(4) by (simp add: n)
  have "utf8_len (take n (c # cs) @ t) = n" by (rule utf8_len_prefix [OF assms(4,5)])
  then have u: "utf8_len (c # (take m cs @ t)) = n" by (simp add: n)
  have "json_chars (c # (take m cs @ t)) =
      map_option (map_prod ((@) (take n (c # take m cs @ t))) id) (json_chars (drop n (c # take m cs @ t)))"
    using assms(1-3,5) by (simp only: json_chars.simps(2) u Let_def) simp
  moreover have "take n (c # take m cs @ t) = take n (c # cs)" "drop n (c # take m cs @ t) = t"
    using len by (simp_all add: n min_absorb2)
  ultimately show ?thesis using len by (simp add: n min_absorb2)
qed

lemma hex_val_0: "hex_val (CHR ''0'') = Some 0"
  by (simp add: hex_val_def)

lemma json_escape_u00:
  assumes "k < 128"
  shows "json_escape (''u00'' @ [hex_char (k div 16), hex_char (k mod 16)] @ t) = Some ([char_of k], t)"
proof -
  have "k div 16 < 16" "k mod 16 < 16" using assms by auto
  then have "hex4 (''00'' @ [hex_char (k div 16), hex_char (k mod 16)] @ t) = Some k"
    using hex_val_0 by (simp add: hex4_def)
  moreover have "utf8_encode k = [char_of k]" using assms by (simp add: utf8_encode_def)
  ultimately show ?thesis using assms by (simp add: json_escape_def)
qed

lemma json_escape_line_separators:
  "json_escape (''u2028'' @ t) = Some (map char_of [226, 128, 168 :: nat], t)"
  "json_escape (''u2029'' @ t) = Some (map char_of [226, 128, 169 :: nat], t)"
  by (simp_all add: json_escape_def hex4_def hex_val_def utf8_encode_def)

lemma json_escape_letters:
  "c \<in> {CHR 0x22, CHR 0x5C} \<Longrightarrow> json_escape (c # t) = Some ([c], t)"
  "json_escape (CHR ''n'' # t) = Some ([CHR 0x0A], t)" "json_escape (CHR ''r'' # t) = Some ([CHR 0x0D], t)"
  "json_escape (CHR ''t'' # t) = Some ([CHR 0x09], t)"
  by (auto simp: json_escape_def)

lemma json_chars_esc: "utf8_valid s \<Longrightarrow> json_chars (json_esc s @ CHR 0x22 # rest) = Some (s, rest)"
proof (induction "length s" arbitrary: s rule: less_induct)
  case less
  show ?case
  proof (cases s)
    case Nil
    then show ?thesis by (simp add: json_chars_simps)
  next
    case (Cons c cs)
    define n where "n = utf8_len (c # cs)"
    have n: "0 < n" and val: "utf8_valid (drop n (c # cs))"
      using less.prems Cons by (simp_all add: utf8_valid_Cons n_def)
    have IH: "json_chars (json_esc (drop n (c # cs)) @ CHR 0x22 # rest) = Some (drop n (c # cs), rest)"
      using n val Cons by (intro less.hyps) simp_all
    have ascii: "drop n (c # cs) = cs" if "(of_char c :: nat) < 128" using utf8_len_ascii [OF that] by (simp add: n_def)
    consider (q) "c \<in> {CHR 0x22, CHR 0x5C}" | (nl) "c \<in> {CHR 0x0A, CHR 0x0D, CHR 0x09}"
      | (u) "c \<notin> {CHR 0x22, CHR 0x5C, CHR 0x0A, CHR 0x0D, CHR 0x09}" "of_char c < (32 :: nat) \<or> c \<in> {CHR ''<'', CHR ''>'', CHR ''&''}"
      | (other) "c \<notin> {CHR 0x22, CHR 0x5C, CHR 0x0A, CHR 0x0D, CHR 0x09}" "\<not> (of_char c < (32 :: nat) \<or> c \<in> {CHR ''<'', CHR ''>'', CHR ''&''})"
      by blast
    then show ?thesis
    proof cases
      case q
      then have "drop n (c # cs) = cs" by (intro ascii) auto
      with q IH Cons show ?thesis by (auto simp: json_esc.simps(2) json_chars_simps json_escape_letters)
    next
      case nl
      then have "drop n (c # cs) = cs" by (intro ascii) auto
      with nl IH Cons show ?thesis by (auto simp: json_esc.simps(2) json_chars_simps json_escape_letters)
    next
      case u
      have k: "(of_char c :: nat) < 128" using u(2) by (elim disjE insertE emptyE) simp_all
      have e: "json_esc (c # cs) = json_u00 (of_char c) @ json_esc cs" using u by (simp only: json_esc.simps(2) Let_def) auto
      show ?thesis
        using IH unfolding Cons e ascii [OF k]
        by (simp add: json_u00_def json_chars_simps(2) [OF json_escape_u00 [OF k, simplified]])
    next
      case other
      show ?thesis
      proof (cases "take n (c # cs) \<in> {map char_of [226, 128, 168 :: nat], map char_of [226, 128, 169 :: nat]}")
        case True
        then have "c # cs = map char_of [226, 128, 168 :: nat] @ drop n (c # cs) \<and> json_esc (c # cs) = CHR 0x5C # ''u2028'' @ json_esc (drop n (c # cs)) \<or>
          c # cs = map char_of [226, 128, 169 :: nat] @ drop n (c # cs) \<and> json_esc (c # cs) = CHR 0x5C # ''u2029'' @ json_esc (drop n (c # cs))"
          using other n append_take_drop_id [of n "c # cs"] by (auto simp only: json_esc.simps(2) Let_def n_def [symmetric]) auto
        then show ?thesis
          using IH Cons json_escape_line_separators by (auto simp: json_chars_simps)
      next
        case False
        then have "json_esc (c # cs) = take n (c # cs) @ json_esc (drop n (c # cs))"
          using other n by (simp only: json_esc.simps(2) Let_def n_def [symmetric]) simp
        moreover have "json_chars (take n (c # cs) @ t) = map_option (map_prod ((@) (take n (c # cs))) id) (json_chars t)" for t
          using other n by (intro json_chars_rune) (simp_all add: n_def)
        ultimately show ?thesis using IH Cons by (simp add: append_take_drop_id)
      qed
    qed
  qed
qed

text \<open>Values the encoder makes: integers, valid UTF-8, and nesting within the limit.\<close>

primrec json_ok :: "json \<Rightarrow> int \<Rightarrow> bool" where
  "json_ok JNull = (\<lambda>d. True)"
| "json_ok (JBool b) = (\<lambda>d. True)"
| "json_ok (JNum t) = (\<lambda>d. \<exists>i. t = int_dec i)"
| "json_ok (JStr s) = (\<lambda>d. utf8_valid s)"
| "json_ok (JArr vs) = (\<lambda>d. 0 < d \<and> list_all (\<lambda>f. f (d - 1)) (map json_ok vs))"
| "json_ok (JObj kvs) = (\<lambda>d. 0 < d \<and> list_all (\<lambda>(k, f). utf8_valid k \<and> f (d - 1)) (map (map_prod id json_ok) kvs))"

definition json_end :: "string \<Rightarrow> bool" where
  "json_end rest \<longleftrightarrow> (case rest of [] \<Rightarrow> True | c # _ \<Rightarrow> c \<in> {CHR '','', CHR '']'', CHR 0x7D})"

lemma digit_facts:
  assumes "digit_val c = Some k"
  shows "is_digit c" "\<not> json_space c" "c \<notin> {CHR 0x22, CHR ''['', CHR 0x7B, CHR ''t'', CHR ''f'', CHR ''n'', CHR '']'', CHR 0x7D, CHR ''-''}"
proof -
  have "48 \<le> (of_char c :: nat) \<and> of_char c \<le> (57 :: nat)" using assms by (simp add: digit_val_def Let_def split: if_splits)
  then show "is_digit c" "\<not> json_space c" "c \<notin> {CHR 0x22, CHR ''['', CHR 0x7B, CHR ''t'', CHR ''f'', CHR ''n'', CHR '']'', CHR 0x7D, CHR ''-''}"
    using assms by (auto simp: is_digit_def json_space_def)
qed

lemma int_dec_head: "\<exists>c cs. int_dec i = c # cs \<and> (c = CHR ''-'' \<or> (\<exists>k. digit_val c = Some k))"
proof (cases "i < 0")
  case False
  obtain c cs where c: "nat_dec (nat i) = c # cs" by (cases "nat_dec (nat i)") auto
  then obtain k where "digit_val c = Some k" using nat_dec_digits [of c "nat i"] by auto
  with c False show ?thesis by (auto simp: int_dec_def)
qed (simp add: int_dec_def)

lemma json_int_part_nat_dec:
  assumes "rest = [] \<or> \<not> is_digit (hd rest)"
  shows "json_int_part (nat_dec n @ rest) = Some (nat_dec n, rest)"
proof (cases "n = 0")
  case True
  then show ?thesis by (simp add: nat_dec_less_10 json_int_part_def)
next
  case False
  obtain c cs where c: "nat_dec n = c # cs" by (cases "nat_dec n") auto
  have "\<forall>x\<in>set (nat_dec n). is_digit x" using nat_dec_digits by (auto simp: is_digit_def)
  then have "takeWhile is_digit (nat_dec n @ rest) = nat_dec n" "dropWhile is_digit (nat_dec n @ rest) = rest" "is_digit c"
    using assms c by (auto simp: takeWhile_append dropWhile_append takeWhile_eq_Nil_iff dropWhile_eq_self_iff)
  moreover have "c \<noteq> CHR ''0''" using hd_nat_dec_pos [of n] False c by simp
  ultimately show ?thesis by (simp add: json_int_part_def c)
qed

lemma json_number_int:
  assumes "json_end rest"
  shows "json_number (int_dec i @ rest) = Some (int_dec i, rest)"
proof -
  have r: "rest = [] \<or> \<not> is_digit (hd rest) \<and> hd rest \<noteq> CHR ''.'' \<and> hd rest \<notin> {CHR ''e'', CHR ''E''}"
    using assms by (cases rest) (auto simp: json_end_def is_digit_def digit_val_def)
  then have fe: "json_frac_part rest = Some ([], rest)" "json_exp_part rest = Some ([], rest)"
    by (auto simp: json_frac_part_def json_exp_part_def)
  have ip: "json_int_part (nat_dec n @ rest) = Some (nat_dec n, rest)" for n using r by (intro json_int_part_nat_dec) auto
  have "hd (nat_dec n @ rest) \<noteq> CHR ''-''" for n
    using nat_dec_not_nondigit [of "CHR ''-''" n] by (cases "nat_dec n") auto
  then show ?thesis by (simp add: json_number_def int_dec_def ip fe)
qed

lemma json_print_head:
  "json_ok v d \<Longrightarrow> \<exists>c cs. json_print v = c # cs \<and> \<not> json_space c \<and> c \<noteq> CHR '']'' \<and> c \<noteq> CHR 0x7D"
  using int_dec_head digit_facts(2,3)
  by (cases v) (fastforce simp: json_space_def json_quote_def)+

lemma skip_space_print [simp]: "json_ok v d \<Longrightarrow> skip_space (json_print v @ t) = json_print v @ t"
  using json_print_head [of v d] by (auto simp: skip_space_def)

lemma skip_space_punct [simp]:
  "skip_space (CHR '','' # t) = CHR '','' # t" "skip_space (CHR '']'' # t) = CHR '']'' # t"
  "skip_space (CHR 0x7D # t) = CHR 0x7D # t" "skip_space (CHR '':'' # t) = CHR '':'' # t"
  "skip_space (CHR 0x22 # t) = CHR 0x22 # t" "skip_space (CHR ''['' # t) = CHR ''['' # t"
  "skip_space (CHR 0x7B # t) = CHR 0x7B # t"
  by (simp_all add: skip_space_def json_space_def)

lemma json_end_simps [simp]: "json_end []" "json_end (CHR '','' # t)" "json_end (CHR '']'' # t)" "json_end (CHR 0x7D # t)"
  by (simp_all add: json_end_def)

lemma json_value_print:
  "json_ok v d \<Longrightarrow> length (json_print v) \<le> n \<Longrightarrow> json_end rest \<Longrightarrow> json_value n d (json_print v @ rest) = Some (v, rest)"
  and json_elems_print:
  "vs \<noteq> [] \<Longrightarrow> list_all (\<lambda>v. json_ok v d) vs \<Longrightarrow> length (json_print_elems vs) < n \<Longrightarrow>
    json_elems n d (json_print_elems vs @ CHR '']'' # rest) = Some (vs, rest)"
  and json_members_print:
  "kvs \<noteq> [] \<Longrightarrow> list_all (\<lambda>(k, v). utf8_valid k \<and> json_ok v d) kvs \<Longrightarrow> length (json_print_members kvs) < n \<Longrightarrow>
    json_members n d (json_print_members kvs @ CHR 0x7D # rest) = Some (kvs, rest)"
proof (induction v and vs and kvs arbitrary: d n rest and d n rest and d n rest rule: json_print_json_print_elems_json_print_members.induct)
  case 1
  then show ?case by (cases n) (simp_all add: skip_space_def json_space_def HasPrefix_def)
next
  case (2 b)
  then show ?case by (cases n; cases b) (simp_all add: skip_space_def json_space_def HasPrefix_def)
next
  case (3 t)
  then obtain i c cs where i: "t = int_dec i" "int_dec i = c # cs" "c = CHR ''-'' \<or> (\<exists>k. digit_val c = Some k)"
    using int_dec_head by fastforce
  then have "\<not> json_space c" "c \<notin> {CHR 0x22, CHR ''['', CHR 0x7B, CHR ''t'', CHR ''f'', CHR ''n''}"
    using digit_facts(2,3) by (fastforce simp: json_space_def)+
  moreover have "json_number (c # cs @ rest) = Some (c # cs, rest)"
    using json_number_int [OF 3(3), of i] i(2) by simp
  ultimately show ?case using 3 i by (cases n) (simp_all add: skip_space_def HasPrefix_def)
next
  case (4 s)
  then show ?case by (cases n) (simp_all add: json_quote_def json_chars_esc)
next
  case (5 vs)
  then obtain m where n: "n = Suc m" by (cases n) auto
  show ?case
  proof (cases vs)
    case Nil
    with 5 show ?thesis by (simp add: n HasPrefix_def)
  next
    case (Cons v ws)
    obtain c cs where "json_print_elems vs = c # cs" "\<not> json_space c" "c \<noteq> CHR '']''"
      using json_print_head [of v "d - 1"] 5(2) Cons by (cases ws) auto
    then have "\<not> HasPrefix (skip_space (json_print_elems vs @ CHR '']'' # rest)) '']''"
      by (simp add: skip_space_def HasPrefix_def)
    moreover have "json_elems m (d - 1) (json_print_elems vs @ CHR '']'' # rest) = Some (vs, rest)"
      using 5(2,3) Cons n by (intro 5(1)) (simp_all add: list_all_iff)
    ultimately show ?thesis using 5(2) by (simp add: n)
  qed
next
  case (6 kvs)
  then obtain m where n: "n = Suc m" by (cases n) auto
  show ?case
  proof (cases kvs)
    case Nil
    with 6 show ?thesis by (simp add: n HasPrefix_def)
  next
    case (Cons kv ws)
    obtain cs where "json_print_members kvs = CHR 0x22 # cs"
      using Cons by (cases kv; cases ws) (auto simp: json_quote_def)
    then have "\<not> HasPrefix (skip_space (json_print_members kvs @ CHR 0x7D # rest)) [CHR 0x7D]"
      by (simp add: HasPrefix_def)
    moreover have "json_members m (d - 1) (json_print_members kvs @ CHR 0x7D # rest) = Some (kvs, rest)"
      using 6(2,3) Cons n by (intro 6(1)) (auto simp: list_all_iff)
    ultimately show ?thesis using 6(2) by (simp add: n)
  qed
next
  case (8 v)
  then obtain m where n: "n = Suc m" by (cases n) auto
  have "json_value m d (json_print v @ CHR '']'' # rest) = Some (v, CHR '']'' # rest)"
    using 8(3,4) n by (intro 8(1)) simp_all
  then show ?case by (simp add: n)
next
  case (9 v w vs)
  then obtain m where n: "n = Suc m" by (cases n) auto
  have "json_value m d (json_print v @ CHR '','' # json_print_elems (w # vs) @ CHR '']'' # rest)
      = Some (v, CHR '','' # json_print_elems (w # vs) @ CHR '']'' # rest)"
    using 9(4,5) n by (intro 9(1)) simp_all
  moreover have "json_elems m d (json_print_elems (w # vs) @ CHR '']'' # rest) = Some (w # vs, rest)"
    using 9(4,5) n by (intro 9(2)) simp_all
  ultimately show ?case by (simp add: n)
next
  case (11 k v)
  then obtain m where n: "n = Suc m" by (cases n) auto
  have "json_value m d (json_print v @ CHR 0x7D # rest) = Some (v, CHR 0x7D # rest)"
    using 11(3,4) n by (intro 11(1)) simp_all
  then show ?case using 11(3) by (simp add: n json_quote_def json_chars_esc)
next
  case (12 k v m' kvs)
  then obtain m where n: "n = Suc m" by (cases n) auto
  have "json_value m d (json_print v @ CHR '','' # json_print_members (m' # kvs) @ CHR 0x7D # rest)
      = Some (v, CHR '','' # json_print_members (m' # kvs) @ CHR 0x7D # rest)"
    using 12(4,5) n by (intro 12(1)) simp_all
  moreover have "json_members m d (json_print_members (m' # kvs) @ CHR 0x7D # rest) = Some (m' # kvs, rest)"
    using 12(4,5) n by (intro 12(2)) simp_all
  ultimately show ?case using 12(4) by (simp add: n json_quote_def json_chars_esc)
qed simp_all

lemma json_Decode_print: "json_ok v json_max_depth \<Longrightarrow> json_Decode (json_print v) = Some (v, [])"
  using json_value_print [of v json_max_depth "length (json_print v)" "[]"] by (simp add: json_Decode_def)

lemma json_Unmarshal_print: "json_ok v json_max_depth \<Longrightarrow> json_Unmarshal (json_print v) = Some v"
  by (simp add: json_Unmarshal_def json_Decode_print skip_space_def)

section \<open>Maps\<close>

lemma map_of_perm:
  assumes "distinct (map fst xs)" "mset xs = mset ys"
  shows "map_of xs k = map_of ys k"
proof -
  have "distinct (map fst ys)" using assms by (metis mset_eq_imp_distinct_iff mset_map)
  moreover have "set xs = set ys" using assms(2) by (rule mset_eq_setD)
  ultimately show ?thesis
    using assms(1) map_of_eq_Some_iff [of xs k] map_of_eq_Some_iff [of ys k] by (metis option.exhaust_sel)
qed

lemma obj_get_distinct: "distinct (map fst kvs) \<Longrightarrow> obj_get kvs k = map_of kvs k"
  unfolding obj_get_def by (rule map_of_perm) (simp_all add: rev_map [symmetric])

lemma obj_get_jmap:
  assumes "distinct (map fst kvs)"
  shows "obj_get (sort_key fst kvs) k = map_of kvs k"
proof -
  have "distinct (map fst (sort_key fst kvs))" using assms by (metis mset_eq_imp_distinct_iff mset_map mset_sort)
  then have "obj_get (sort_key fst kvs) k = map_of (sort_key fst kvs) k" by (rule obj_get_distinct)
  also have "\<dots> = map_of kvs k" using \<open>distinct (map fst (sort_key fst kvs))\<close> by (rule map_of_perm) simp
  finally show ?thesis .
qed

lemma json_ok_jmap: "json_ok (jmap kvs) d \<longleftrightarrow> 0 < d \<and> (\<forall>(k, v)\<in>set kvs. utf8_valid k \<and> json_ok v (d - 1))"
  by (auto simp: jmap_def list_all_iff split: prod.splits)

section \<open>Decoding into Go variables\<close>

text \<open>
  Fields of a struct are matched without regard to case; \<^verbatim>\<open>null\<close> leaves a variable as it was; a value of the wrong
  type is an error.
\<close>

definition dec_string :: "json \<Rightarrow> string option" where
  "dec_string v = (case v of JStr s \<Rightarrow> Some s | _ \<Rightarrow> None)"

definition dec_int :: "nat \<Rightarrow> json \<Rightarrow> int option" where
  "dec_int bits v = (case v of JNum t \<Rightarrow> (case ParseInt t bits of (n, None) \<Rightarrow> Some n | _ \<Rightarrow> None) | _ \<Rightarrow> None)"

definition dec_uint :: "nat \<Rightarrow> json \<Rightarrow> nat option" where
  "dec_uint bits v = (case v of JNum t \<Rightarrow> (case ParseUint t bits of (n, None) \<Rightarrow> Some n | _ \<Rightarrow> None) | _ \<Rightarrow> None)"

definition dec_field :: "(json \<Rightarrow> 'a option) \<Rightarrow> 'a \<Rightarrow> string \<Rightarrow> (string \<times> json) list \<Rightarrow> 'a option" where
  "dec_field conv dflt name kvs =
     fold (\<lambda>(k, v) acc. if ToLower k = ToLower name \<and> v \<noteq> JNull \<and> acc \<noteq> None then conv v else acc) kvs (Some dflt)"

definition dec_list :: "(json \<Rightarrow> 'a option) \<Rightarrow> 'a \<Rightarrow> json \<Rightarrow> 'a list option" where
  "dec_list conv dflt v =
     (case v of JArr vs \<Rightarrow> those (map (\<lambda>v. if v = JNull then Some dflt else conv v) vs) | _ \<Rightarrow> None)"

section \<open>Package util\<close>

text \<open>\<^verbatim>\<open>ToJson\<close> of a value that \<^verbatim>\<open>json.Marshal\<close> can encode, as all values here are.\<close>

definition ToJson :: "json \<Rightarrow> string" where
  "ToJson v = json_print v"

datatype json_error = JsonSyntax | JsonType

text \<open>\<^verbatim>\<open>ReadJsonByByte\<close>; the target variable is given by the conversion of a value to its type.\<close>

definition ReadJsonByByte :: "(json \<Rightarrow> 'a option) \<Rightarrow> string \<Rightarrow> json_error + 'a" where
  "ReadJsonByByte conv body =
     (case json_Decode body of
        None \<Rightarrow> Inl JsonSyntax
      | Some (v, _) \<Rightarrow> (case conv v of None \<Rightarrow> Inl JsonType | Some x \<Rightarrow> Inr x))"

definition dec_map :: "json \<Rightarrow> (string \<times> json) list option option" where
  "dec_map v = (case v of JObj kvs \<Rightarrow> Some (Some kvs) | JNull \<Rightarrow> Some None | _ \<Rightarrow> None)"

definition JsonToMap :: "string \<Rightarrow> json_error + (string \<times> json) list option" where
  "JsonToMap s = ReadJsonByByte dec_map s"

text \<open>
  C36: A Go map that is encoded and decoded again has the same entries: keys and strings of valid UTF-8, whatever they
  contain, integers, and values nested up to the decoder's limit.
\<close>

theorem ToJson_JsonToMap:
  assumes "json_ok (jmap kvs) json_max_depth" "distinct (map fst kvs)"
  shows "\<exists>m. JsonToMap (ToJson (jmap kvs)) = Inr (Some m) \<and> obj_get m = map_of kvs"
proof (intro exI conjI)
  show "JsonToMap (ToJson (jmap kvs)) = Inr (Some (sort_key fst kvs))"
    using json_Decode_print [OF assms(1)] by (simp add: JsonToMap_def ReadJsonByByte_def ToJson_def jmap_def dec_map_def)
  show "obj_get (sort_key fst kvs) = map_of kvs" by (rule ext) (rule obj_get_jmap [OF assms(2)])
qed

lemma utf8_valid_ascii: "\<forall>c\<in>set s. (of_char c :: nat) < 128 \<Longrightarrow> utf8_valid s"
  by (induction s) (simp_all add: utf8_valid_Cons utf8_len_ascii)

theorem ToJson_JsonToMap_witness:
  "\<exists>m. JsonToMap (ToJson (jmap [(''name'', JStr ''a<b''), (''id'', JInt (- 7)), (''tags'', JArr [JNull, JBool True])])) = Inr (Some m) \<and>
     obj_get m ''name'' = Some (JStr ''a<b'')"
proof -
  have "json_ok (jmap [(''name'', JStr ''a<b''), (''id'', JInt (- 7)), (''tags'', JArr [JNull, JBool True])]) json_max_depth"
    by (auto simp: json_ok_jmap json_max_depth_def intro!: utf8_valid_ascii)
  from ToJson_JsonToMap [OF this] show ?thesis by auto
qed

lemma utf8_valid_append: "utf8_valid a \<Longrightarrow> utf8_valid b \<Longrightarrow> utf8_valid (a @ b)"
proof (induction "length a" arbitrary: a rule: less_induct)
  case less
  show ?case
  proof (cases a)
    case (Cons c cs)
    define n where "n = utf8_len a"
    have n: "0 < n" "utf8_valid (drop n a)" using less.prems(1) Cons by (simp_all add: utf8_valid_Cons n_def)
    have le: "n \<le> length a" using utf8_len_le [of a] by (simp add: n_def)
    have "utf8_len (take n a @ drop n a @ b) = n" using n(1) by (intro utf8_len_prefix) (simp_all add: n_def)
    then have len: "utf8_len (a @ b) = n" by (simp flip: append_assoc)
    have "utf8_valid (drop n a @ b)" using n less.prems(2) Cons by (intro less.hyps) simp_all
    moreover have "drop n (a @ b) = drop n a @ b" using le by simp
    ultimately show ?thesis using len n(1) by (subst utf8_valid.simps) simp
  qed (use less.prems in simp)
qed

lemma digits_ascii: "digit_val c = Some k \<Longrightarrow> (of_char c :: nat) < 128"
  by (auto simp: digit_val_def Let_def split: if_splits)

lemma utf8_valid_nat_dec [simp]: "utf8_valid (nat_dec n)"
  using nat_dec_digits digits_ascii by (blast intro: utf8_valid_ascii)

lemma utf8_valid_int_dec [simp]: "utf8_valid (int_dec i)"
  using utf8_valid_append [of "''-''" "nat_dec (nat (- i))"] by (auto simp: int_dec_def utf8_valid_ascii)

section \<open>Decoded strings are valid UTF-8\<close>

text \<open>Every string and key of a decoded value is valid UTF-8, whatever bytes were read.\<close>

lemma utf8_valid_single: "utf8_len w = length w \<Longrightarrow> utf8_valid w"
  by (cases w) (simp_all add: utf8_valid_Cons)

lemma utf8_valid_encode:
  assumes "r < 0xD800 \<or> 0xE000 \<le> r" "r < 0x110000"
  shows "utf8_valid (utf8_encode r)"
proof (rule utf8_valid_single)
  have q: "r div 4096 = r div 64 div 64" "r div 262144 = r div 4096 div 64" by (simp_all flip: div_mult2_eq)
  have d: "r = 4096 * (r div 4096) + 64 * (r div 64 mod 64) + r mod 64"
    using div_mult_mod_eq [of r 64] div_mult_mod_eq [of "r div 64" 64] unfolding q(1) by linarith
  have e: "r div 4096 = 64 * (r div 262144) + r div 4096 mod 64"
    using div_mult_mod_eq [of "r div 4096" 64] unfolding q(2) by linarith
  have m: "r mod 64 < 64" "r div 64 mod 64 < 64" "r div 4096 mod 64 < 64" by simp_all
  consider "r < 128" | "128 \<le> r" "r < 2048" | "2048 \<le> r" "r < 65536" | "65536 \<le> r" by linarith
  then show "utf8_len (utf8_encode r) = length (utf8_encode r)"
  proof cases
    case 2
    moreover have "2 \<le> r div 64" "r div 64 < 32" using 2 by linarith+
    ultimately show ?thesis using m by (auto simp: utf8_encode_def utf8_len_def)
  next
    case 3
    moreover have "r div 4096 < 16" using 3 by linarith
    moreover have "r div 4096 = 0 \<Longrightarrow> 32 \<le> r div 64 mod 64" "r div 4096 = 13 \<Longrightarrow> r div 64 mod 64 \<le> 31"
      using 3 assms(1) d m by linarith+
    ultimately show ?thesis using m by (auto simp: utf8_encode_def utf8_len_def)
  next
    case 4
    moreover have "r div 262144 < 5" using assms by linarith
    moreover have "r div 262144 = 0 \<Longrightarrow> 16 \<le> r div 4096 mod 64" "r div 262144 = 4 \<Longrightarrow> r div 4096 mod 64 \<le> 15"
      using 4 assms(2) d e m by linarith+
    ultimately show ?thesis using m by (auto simp: utf8_encode_def utf8_len_def)
  qed (simp add: utf8_encode_def utf8_len_def)
qed

lemma utf8_valid_rune_error: "utf8_valid rune_error"
  by (rule utf8_valid_single) (simp add: rune_error_def utf8_len_def)

lemma hex_val_bound: "hex_val c = Some k \<Longrightarrow> k < 16"
  by (auto simp: hex_val_def Let_def split: if_splits)

lemma hex4_bound: "hex4 s = Some r \<Longrightarrow> r < 0x10000"
  by (auto simp: hex4_def split: list.splits option.splits dest!: hex_val_bound)

lemma utf8_valid_char: "(of_char c :: nat) < 128 \<Longrightarrow> utf8_valid [c]"
  by (rule utf8_valid_single) (simp add: utf8_len_ascii)

lemma json_escape_valid: "json_escape s = Some (out, rest) \<Longrightarrow> utf8_valid out"
  by (auto simp: json_escape_def Let_def utf8_valid_rune_error split: list.splits if_splits option.splits
      dest!: hex4_bound intro!: utf8_valid_encode utf8_valid_char)

lemma json_chars_valid: "json_chars s = Some (out, rest) \<Longrightarrow> utf8_valid out"
proof (induction s arbitrary: out rest rule: json_chars.induct)
  case (2 c cs)
  have v: "utf8_valid (take n (c # cs))" if "n = utf8_len (c # cs)" "n \<noteq> 0" for n
    using that utf8_len_prefix [of "c # cs" n "[]"] utf8_len_le [of "c # cs"] by (intro utf8_valid_single) simp
  show ?case
    using "2.prems" "2.IH" v
    by (auto simp: json_chars.simps(2) [of c cs] Let_def utf8_valid_rune_error split: if_splits option.splits
        dest: json_escape_valid intro!: utf8_valid_append)
qed simp

primrec json_utf8 :: "json \<Rightarrow> bool" where
  "json_utf8 JNull = True"
| "json_utf8 (JBool b) = True"
| "json_utf8 (JNum t) = True"
| "json_utf8 (JStr s) = utf8_valid s"
| "json_utf8 (JArr vs) = list_all id (map json_utf8 vs)"
| "json_utf8 (JObj kvs) = list_all (\<lambda>(k, b). utf8_valid k \<and> b) (map (map_prod id json_utf8) kvs)"

lemma json_value_utf8:
  "json_value n d s = Some (v, r) \<Longrightarrow> json_utf8 v"
  "json_elems n d s = Some (vs, r) \<Longrightarrow> list_all json_utf8 vs"
  "json_members n d s = Some (kvs, r) \<Longrightarrow> list_all (\<lambda>(k, v). utf8_valid k \<and> json_utf8 v) kvs"
proof (induction n d s and n d s and n d s arbitrary: v r and vs r and kvs r rule: json_value_json_elems_json_members.induct)
  case (2 n d s)
  then show ?case
    by (fastforce simp: list_all_iff Let_def dest: json_chars_valid split: list.splits if_splits option.splits prod.splits)
next
  case (4 n d s)
  then show ?case by (auto split: list.splits if_splits option.splits prod.splits)
next
  case (6 n d s)
  then show ?case
    by (fastforce dest: json_chars_valid split: list.split_asm if_split_asm option.split_asm prod.split_asm)
qed simp_all

lemma json_Unmarshal_utf8: "json_Unmarshal s = Some v \<Longrightarrow> json_utf8 v"
  by (auto simp: json_Unmarshal_def json_Decode_def dest: json_value_utf8(1) split: option.splits if_splits prod.splits)

end
