(* ===== verification/Visibility.thy ===== *)
theory Visibility
  imports Json
begin

text \<open>
  Package \<^verbatim>\<open>contract/searchmsg\<close>: \<^verbatim>\<open>ExtractVisibility\<close>, which reads from the bytes of a message who may find it, and
  the vectors that its users in several repositories test against.
\<close>

section \<open>Reading the visibility of a message\<close>

datatype vis_error =
    PayloadNotObject
  | PayloadNull
  | PayloadTrailing
  | VisiblesNull
  | VisiblesNotArray
  | VisiblesEmpty

text \<open>\<^verbatim>\<open>json.Unmarshal\<close> into a string variable: \<^verbatim>\<open>null\<close> leaves it empty.\<close>

definition unmarshal_string :: "json \<Rightarrow> string option" where
  "unmarshal_string v = (if v = JNull then Some [] else dec_string v)"

fun valid_uids :: "json list \<Rightarrow> string list" where
  "valid_uids [] = []"
| "valid_uids (raw # elems) =
     (case unmarshal_string raw of
        None \<Rightarrow> valid_uids elems
      | Some s \<Rightarrow> if s \<noteq> [] then s # valid_uids elems else valid_uids elems)"

definition ExtractVisibility :: "string \<Rightarrow> vis_error + string \<times> string list option" where
  "ExtractVisibility payload =
     (case json_Decode payload of
        None \<Rightarrow> Inl PayloadNotObject
      | Some (v, rest) \<Rightarrow>
          (case dec_map v of
             None \<Rightarrow> Inl PayloadNotObject
           | Some None \<Rightarrow> Inl PayloadNull
           | Some (Some obj) \<Rightarrow>
               if skip_space rest \<noteq> [] then Inl PayloadTrailing
               else let spaceID = (case obj_get obj ''space_id'' of
                                     None \<Rightarrow> []
                                   | Some raw \<Rightarrow> (case unmarshal_string raw of Some s \<Rightarrow> s | None \<Rightarrow> []))
                    in case obj_get obj ''visibles'' of
                         None \<Rightarrow> Inr (spaceID, None)
                       | Some rawVis \<Rightarrow>
                           (case rawVis of
                              JNull \<Rightarrow> Inl VisiblesNull
                            | JArr elems \<Rightarrow>
                                let out = valid_uids elems
                                in if length out = 0 then Inl VisiblesEmpty else Inr (spaceID, Some out)
                            | _ \<Rightarrow> Inl VisiblesNotArray)))"

section \<open>The shared vectors\<close>

record VisibilityVector =
  vv_Name :: string
  vv_Payload :: string
  vv_WantErr :: bool
  vv_WantSpaceID :: string
  vv_WantVisibles :: "string list option"

text \<open>The payloads are written with a tilde for each double quote.\<close>

definition qt :: "string \<Rightarrow> string" where
  "qt s = map (\<lambda>c. if c = CHR ''~'' then CHR 0x22 else c) s"

definition FailClosedVisibilityVectors :: "VisibilityVector list" where
  "FailClosedVisibilityVectors =
     map (\<lambda>(name, payload, err, space, vis).
            \<lparr>vv_Name = name, vv_Payload = payload, vv_WantErr = err, vv_WantSpaceID = space, vv_WantVisibles = vis\<rparr>)
     [(''broadcast/no_visibles_key'', qt ''{~type~:1,~content~:~hello group~}'', False, [], None),
      (''broadcast/no_visibles_with_space_id'', qt ''{~type~:1,~content~:~hi~,~space_id~:~space_42~}'', False, ''space_42'', None),
      (''valid/visibles_single_uid'', qt ''{~type~:99,~content~:~you were removed~,~visibles~:[~u_alice~]}'', False, [], Some [''u_alice'']),
      (''valid/visibles_multi_uid_with_space'', qt ''{~content~:~x~,~visibles~:[~u_a~,~u_b~],~space_id~:~s1~}'', False, ''s1'', Some [''u_a'', ''u_b'']),
      (''tolerant/space_id_number_does_not_drop_visibles'', qt ''{~content~:~x~,~space_id~:123,~visibles~:[~u_a~,~u_b~]}'', False, [], Some [''u_a'', ''u_b'']),
      (''valid/visibles_mixed_skips_non_string'', qt ''{~content~:~x~,~visibles~:[~u_a~,123,null,~u_b~]}'', False, [], Some [''u_a'', ''u_b'']),
      (''failclosed/payload_not_json'', qt ''{not valid json'', True, [], None),
      (''failclosed/payload_top_level_array'', qt ''[~a~,~b~]'', True, [], None),
      (''failclosed/payload_top_level_scalar'', qt ''~just a string~'', True, [], None),
      (''failclosed/payload_json_null'', qt ''null'', True, [], None),
      (''failclosed/payload_trailing_data'', qt ''{~content~:~x~} garbage'', True, [], None),
      (''failclosed/payload_trailing_bracket'', qt ''{~content~:~x~}]'', True, [], None),
      (''failclosed/payload_trailing_brace'', qt ''{~content~:~x~}}'', True, [], None),
      (''failclosed/visibles_object_not_array'', qt ''{~content~:~x~,~visibles~:{~u_a~:true}}'', True, [], None),
      (''failclosed/visibles_string_not_array'', qt ''{~content~:~x~,~visibles~:~u_a~}'', True, [], None),
      (''failclosed/visibles_empty_array'', qt ''{~content~:~x~,~visibles~:[]}'', True, [], None),
      (''failclosed/visibles_null'', qt ''{~content~:~x~,~visibles~:null}'', True, [], None),
      (''failclosed/visibles_all_non_string'', qt ''{~content~:~x~,~visibles~:[123,456,null]}'', True, [], None),
      (''failclosed/visibles_all_empty_string'', qt ''{~content~:~x~,~visibles~:[~~,~~]}'', True, [], None)]"

definition meets_vector :: "VisibilityVector \<Rightarrow> bool" where
  "meets_vector v =
     (case ExtractVisibility (vv_Payload v) of
        Inl _ \<Rightarrow> vv_WantErr v
      | Inr (space, vis) \<Rightarrow> \<not> vv_WantErr v \<and> space = vv_WantSpaceID v \<and> vis = vv_WantVisibles v)"

text \<open>\<^verbatim>\<open>ExtractVisibility\<close> meets every vector of the shared list.\<close>

theorem ExtractVisibility_vectors: "list_all meets_vector FailClosedVisibilityVectors"
  by code_simp

section \<open>Fail closed\<close>

lemma valid_uids_eq: "valid_uids vs = filter (\<lambda>s. s \<noteq> []) (List.map_filter dec_string vs)"
  by (induction vs) (auto simp: unmarshal_string_def dec_string_def List.map_filter_simps split: json.splits)

text \<open>
  C6: A message is passed on for everyone only if its payload is exactly one JSON object without a \<^verbatim>\<open>visibles\<close> key, and
  for a white list only if \<^verbatim>\<open>visibles\<close> is an array whose strings that are not empty, at least one, are that list;
  in every other case the result is an error.  The space is the string of \<^verbatim>\<open>space_id\<close>, or empty.
\<close>

theorem ExtractVisibility_correct:
  "ExtractVisibility payload = Inr (space, vis) \<longleftrightarrow>
     (\<exists>obj rest. json_Decode payload = Some (JObj obj, rest) \<and> skip_space rest = [] \<and>
        space = (case obj_get obj ''space_id'' of Some (JStr s) \<Rightarrow> s | _ \<Rightarrow> []) \<and>
        (case vis of
           None \<Rightarrow> obj_get obj ''visibles'' = None
         | Some uids \<Rightarrow> \<exists>vs. obj_get obj ''visibles'' = Some (JArr vs) \<and> uids \<noteq> [] \<and>
                          uids = filter (\<lambda>s. s \<noteq> []) (List.map_filter dec_string vs)))"
proof -
  have sp: "(case obj_get obj ''space_id'' of None \<Rightarrow> [] | Some raw \<Rightarrow> (case unmarshal_string raw of Some s \<Rightarrow> s | None \<Rightarrow> []))
      = (case obj_get obj ''space_id'' of Some (JStr s) \<Rightarrow> s | _ \<Rightarrow> [])" for obj
    by (auto simp: unmarshal_string_def dec_string_def split: option.splits json.splits)
  show ?thesis
  proof (cases "json_Decode payload")
    case (Some p)
    obtain v rest where p: "p = (v, rest)" by (cases p)
    show ?thesis
    proof (cases v)
      case (JObj obj)
      then show ?thesis
        unfolding ExtractVisibility_def sp valid_uids_eq
        by (cases "obj_get obj ''visibles''") (auto simp: Some p dec_map_def Let_def split: json.splits option.splits)
    qed (simp_all add: ExtractVisibility_def Some p dec_map_def)
  qed (simp add: ExtractVisibility_def)
qed

section \<open>Payloads encoded here\<close>

lemma ExtractVisibility_ToJson:
  assumes "json_ok (jmap kvs) json_max_depth" "distinct (map fst kvs)"
  shows "ExtractVisibility (ToJson (jmap kvs)) =
    (let spaceID = (case map_of kvs ''space_id'' of Some (JStr s) \<Rightarrow> s | _ \<Rightarrow> [])
     in case map_of kvs ''visibles'' of
          None \<Rightarrow> Inr (spaceID, None)
        | Some JNull \<Rightarrow> Inl VisiblesNull
        | Some (JArr vs) \<Rightarrow> if valid_uids vs = [] then Inl VisiblesEmpty else Inr (spaceID, Some (valid_uids vs))
        | Some _ \<Rightarrow> Inl VisiblesNotArray)"
  using json_Decode_print [OF assms(1)]
  by (auto simp: ExtractVisibility_def ToJson_def jmap_def dec_map_def skip_space_def obj_get_jmap [OF assms(2)] Let_def
      unmarshal_string_def dec_string_def split: option.splits json.splits)

lemma valid_uids_JStr: "\<forall>u\<in>set us. u \<noteq> [] \<Longrightarrow> valid_uids (map JStr us) = us"
  by (induction us) (auto simp: unmarshal_string_def dec_string_def)

end
