(* ===== verification/Message_Types.thy ===== *)
theory Message_Types
  imports Octo_Prelude "HOL-Library.Word"
begin

unbundle bit_operations_syntax

text \<open>
  Package \<^verbatim>\<open>common\<close>: content types and their display texts (\<^verbatim>\<open>msg.go\<close>), channel and call types (\<^verbatim>\<open>constant.go\<close>),
  and the channel two users share, whose name orders them by a CRC-32 (\<^verbatim>\<open>pkg/util/hash.go\<close>).
\<close>

section \<open>Content types\<close>

text \<open>The named constants and their numbers; a content type may be any integer.\<close>

datatype ContentType =
    Text | Image | GIF | Voice | Video | Location
  | Card | File | MultipleForward | VectorSticker | EmojiSticker | RichText
  | InviteJoinOrganization | ContentError | SignalError | CMD | Tip | FriendApply
  | GroupCreate | GroupMemberAdd | GroupMemberRemove | FriendSure | GroupUpdate | RevokeMessage
  | GroupMemberScanJoin | GroupTransferGrouper | GroupMemberInvite | GroupMemberBeRemove | GroupMemberQuit | GroupUpgrade
  | HotlineAssignTo | HotlineSolved | HotlineReopen | VideoCallResult

fun ContentType_Int :: "ContentType \<Rightarrow> int" where
  "ContentType_Int Text = 1"
| "ContentType_Int Image = 2"
| "ContentType_Int GIF = 3"
| "ContentType_Int Voice = 4"
| "ContentType_Int Video = 5"
| "ContentType_Int Location = 6"
| "ContentType_Int Card = 7"
| "ContentType_Int File = 8"
| "ContentType_Int MultipleForward = 11"
| "ContentType_Int VectorSticker = 12"
| "ContentType_Int EmojiSticker = 13"
| "ContentType_Int RichText = 14"
| "ContentType_Int InviteJoinOrganization = 16"
| "ContentType_Int ContentError = 97"
| "ContentType_Int SignalError = 98"
| "ContentType_Int CMD = 99"
| "ContentType_Int Tip = 2000"
| "ContentType_Int FriendApply = 1000"
| "ContentType_Int GroupCreate = 1001"
| "ContentType_Int GroupMemberAdd = 1002"
| "ContentType_Int GroupMemberRemove = 1003"
| "ContentType_Int FriendSure = 1004"
| "ContentType_Int GroupUpdate = 1005"
| "ContentType_Int RevokeMessage = 1006"
| "ContentType_Int GroupMemberScanJoin = 1007"
| "ContentType_Int GroupTransferGrouper = 1008"
| "ContentType_Int GroupMemberInvite = 1009"
| "ContentType_Int GroupMemberBeRemove = 1020"
| "ContentType_Int GroupMemberQuit = 1021"
| "ContentType_Int GroupUpgrade = 1022"
| "ContentType_Int HotlineAssignTo = 1200"
| "ContentType_Int HotlineSolved = 1201"
| "ContentType_Int HotlineReopen = 1202"
| "ContentType_Int VideoCallResult = 9989"

definition GetDisplayText :: "int \<Rightarrow> string" where
  "GetDisplayText contentType =
     (if contentType = ContentType_Int Text then map char_of [0xE6, 0x96, 0x87, 0xE6, 0x9C, 0xAC, 0xE6, 0xB6, 0x88, 0xE6, 0x81, 0xAF :: nat]
      else if contentType = ContentType_Int Image then map char_of [0xE5, 0x9B, 0xBE, 0xE7, 0x89, 0x87, 0xE6, 0xB6, 0x88, 0xE6, 0x81, 0xAF :: nat]
      else if contentType = ContentType_Int GIF then ''GIF''
      else if contentType = ContentType_Int Voice then map char_of [0xE8, 0xAF, 0xAD, 0xE9, 0x9F, 0xB3 :: nat]
      else if contentType = ContentType_Int Video then map char_of [0xE8, 0xA7, 0x86, 0xE9, 0xA2, 0x91 :: nat]
      else if contentType = ContentType_Int Location then map char_of [0xE4, 0xBD, 0x8D, 0xE7, 0xBD, 0xAE :: nat]
      else if contentType = ContentType_Int Card then map char_of [0xE5, 0x90, 0x8D, 0xE7, 0x89, 0x87 :: nat]
      else if contentType = ContentType_Int File then map char_of [0xE6, 0x96, 0x87, 0xE4, 0xBB, 0xB6 :: nat]
      else if contentType = ContentType_Int MultipleForward then map char_of [0xE5, 0x90, 0x88, 0xE5, 0xB9, 0xB6, 0xE8, 0xBD, 0xAC, 0xE5, 0x8F, 0x91, 0xE6, 0xB6, 0x88, 0xE6, 0x81, 0xAF :: nat]
      else if contentType = ContentType_Int VectorSticker then map char_of [0xE8, 0xB4, 0xB4, 0xE7, 0xBA, 0xB8 :: nat]
      else if contentType = ContentType_Int EmojiSticker then ''emoji''
      else if contentType = ContentType_Int RichText then map char_of [0xE5, 0xAF, 0x8C, 0xE6, 0x96, 0x87, 0xE6, 0x9C, 0xAC, 0xE6, 0xB6, 0x88, 0xE6, 0x81, 0xAF :: nat]
      else map char_of [0xE6, 0x9C, 0xAA, 0xE7, 0x9F, 0xA5, 0xE6, 0xB6, 0x88, 0xE6, 0x81, 0xAF, 0xE7, 0xB1, 0xBB, 0xE5, 0x9E, 0x8B :: nat])"

definition ContentType_String :: "int \<Rightarrow> string" where
  "ContentType_String c =
     (if c = ContentType_Int Text then ''Text''
      else if c = ContentType_Int Image then ''Image''
      else if c = ContentType_Int GIF then ''GIF''
      else if c = ContentType_Int Voice then ''Voice''
      else if c = ContentType_Int CMD then ''CMD''
      else if c = ContentType_Int FriendApply then ''FriendApply''
      else if c = ContentType_Int GroupCreate then ''GroupCreate''
      else if c = ContentType_Int GroupMemberAdd then ''GroupMemberAdd''
      else if c = ContentType_Int GroupMemberRemove then ''GroupMemberRemove''
      else if c = ContentType_Int FriendSure then ''FriendSure''
      else if c = ContentType_Int GroupUpdate then ''GroupUpdate''
      else if c = ContentType_Int RevokeMessage then ''RevokeMessage''
      else int_dec c)"

section \<open>Channel and call types\<close>

datatype ChannelType =
    ChannelTypeNone | ChannelTypePerson | ChannelTypeGroup | ChannelTypeCustomerService
  | ChannelTypeCommunity | ChannelTypeCommunityTopic | ChannelTypeInfo

fun ChannelType_Uint8 :: "ChannelType \<Rightarrow> nat" where
  "ChannelType_Uint8 ChannelTypeNone = 0"
| "ChannelType_Uint8 ChannelTypePerson = 1"
| "ChannelType_Uint8 ChannelTypeGroup = 2"
| "ChannelType_Uint8 ChannelTypeCustomerService = 3"
| "ChannelType_Uint8 ChannelTypeCommunity = 4"
| "ChannelType_Uint8 ChannelTypeCommunityTopic = 5"
| "ChannelType_Uint8 ChannelTypeInfo = 6"

definition RTCResultTypeCancel :: int where "RTCResultTypeCancel = 0"
definition RTCResultTypeHangup :: int where "RTCResultTypeHangup = 1"
definition RTCResultTypeMissed :: int where "RTCResultTypeMissed = 2"
definition RTCResultTypeRefuse :: int where "RTCResultTypeRefuse = 3"

section \<open>Hash\<close>

text \<open>\<^verbatim>\<open>crc32.ChecksumIEEE\<close>: the reflected polynomial \<^verbatim>\<open>0xEDB88320\<close>, one bit at a time.\<close>

definition crc32_bit :: "32 word \<Rightarrow> 32 word" where
  "crc32_bit r = (if bit r 0 then drop_bit 1 r XOR 0xEDB88320 else drop_bit 1 r)"

definition crc32_byte :: "char \<Rightarrow> 32 word \<Rightarrow> 32 word" where
  "crc32_byte c r = (crc32_bit ^^ 8) (r XOR of_char c)"

definition HashCrc32 :: "string \<Rightarrow> 32 word" where
  "HashCrc32 str = NOT (fold crc32_byte str (NOT 0))"

section \<open>Channels of two users\<close>

definition GetFakeChannelIDWith :: "string \<Rightarrow> string \<Rightarrow> string" where
  "GetFakeChannelIDWith fromUID toUID =
     (let fromUIDHash = HashCrc32 fromUID; toUIDHash = HashCrc32 toUID
      in if fromUIDHash > toUIDHash then fromUID @ ''@'' @ toUID else toUID @ ''@'' @ fromUID)"

definition IsFakeChannel :: "string \<Rightarrow> bool" where
  "IsFakeChannel channelID = str_Contains channelID ''@''"

definition GetToChannelIDWithFakeChannelID :: "string \<Rightarrow> string \<Rightarrow> string" where
  "GetToChannelIDWithFakeChannelID fakeChannelID uid =
     (let channelIDs = split_on (CHR ''@'') fakeChannelID
      in if length channelIDs = 2
         then (if channelIDs ! 0 = uid then channelIDs ! 1 else channelIDs ! 0)
         else fakeChannelID)"

lemma fake_channel_cases:
  "GetFakeChannelIDWith a b = a @ ''@'' @ b \<or> GetFakeChannelIDWith a b = b @ ''@'' @ a"
  by (simp add: GetFakeChannelIDWith_def Let_def)

lemma split_fake_channel:
  "CHR ''@'' \<notin> set a \<Longrightarrow> CHR ''@'' \<notin> set b \<Longrightarrow> split_on (CHR ''@'') (a @ ''@'' @ b) = [a, b]"
  using split_on_append_sep [of "CHR ''@''" a b] by (simp add: split_on_no_sep)



text \<open>Distinct content types have distinct numbers, so a number in a payload names at most one of them.\<close>

lemma ContentType_Int_inject [simp]: "ContentType_Int x = ContentType_Int y \<longleftrightarrow> x = y"
  by (cases x; simp; cases y; simp)

end
