(* ===== verification/Im_Client.thy ===== *)
theory Im_Client
  imports Json Message_Types "HOL-Library.Monad_Syntax"
begin

text \<open>
  The calls of the messaging service in \<^verbatim>\<open>config/msg.go\<close> and \<^verbatim>\<open>config/stream.go\<close>, with the requests of
  \<^verbatim>\<open>pkg/network\<close> they make.  The library that performs a request and the one that reads single fields of an answer
  (\<^verbatim>\<open>sendgrid/rest\<close>, \<^verbatim>\<open>gjson\<close>) are fields of the context.  Every call returns its result and the requests it made.
  A slice that may be \<^verbatim>\<open>nil\<close> is an option.
\<close>

section \<open>Requests\<close>

text \<open>\<^verbatim>\<open>base64.StdEncoding\<close>, the form in which a byte slice is put into JSON.\<close>

definition b64_char :: "nat \<Rightarrow> char" where
  "b64_char k =
     (if k < 26 then char_of (65 + k) else if k < 52 then char_of (71 + k) else if k < 62 then char_of (k - 4)
      else if k = 62 then CHR ''+'' else CHR ''/'')"

definition b64_val :: "char \<Rightarrow> nat option" where
  "b64_val c = (let k = of_char c :: nat in
     if 65 \<le> k \<and> k \<le> 90 then Some (k - 65) else if 97 \<le> k \<and> k \<le> 122 then Some (k - 71)
     else if 48 \<le> k \<and> k \<le> 57 then Some (k + 4) else if c = CHR ''+'' then Some 62 else if c = CHR ''/'' then Some 63 else None)"

fun b64_encode :: "nat list \<Rightarrow> string" where
  "b64_encode [] = []"
| "b64_encode [a] = [b64_char (a div 4), b64_char (a mod 4 * 16), CHR ''='', CHR ''='']"
| "b64_encode [a, b] = [b64_char (a div 4), b64_char (a mod 4 * 16 + b div 16), b64_char (b mod 16 * 4), CHR ''='']"
| "b64_encode (a # b # c # bs) =
     b64_char (a div 4) # b64_char (a mod 4 * 16 + b div 16) # b64_char (b mod 16 * 4 + c div 64) # b64_char (c mod 64)
     # b64_encode bs"

fun b64_quads :: "string \<Rightarrow> nat list option" where
  "b64_quads [] = Some []"
| "b64_quads (w # x # y # z # cs) =
     (case (b64_val w, b64_val x) of
        (Some p, Some q) \<Rightarrow>
          (if y = CHR ''='' then (if z = CHR ''='' \<and> cs = [] then Some [p * 4 + q div 16] else None)
           else case b64_val y of
                  None \<Rightarrow> None
                | Some r \<Rightarrow>
                    if z = CHR ''='' then (if cs = [] then Some [p * 4 + q div 16, q mod 16 * 16 + r div 4] else None)
                    else case b64_val z of
                           None \<Rightarrow> None
                         | Some s \<Rightarrow> map_option (\<lambda>bs. (p * 4 + q div 16) # (q mod 16 * 16 + r div 4) # (r mod 4 * 64 + s) # bs) (b64_quads cs))
      | _ \<Rightarrow> None)"
| "b64_quads _ = None"

definition json_bytes :: "string \<Rightarrow> json" where
  "json_bytes s = JStr (b64_encode (map of_char s))"

text \<open>The decoder skips line breaks.\<close>

definition dec_bytes :: "json \<Rightarrow> string option" where
  "dec_bytes v =
     (case v of JStr s \<Rightarrow> map_option (map char_of) (b64_quads (filter (\<lambda>c. c \<noteq> CHR 0x0A \<and> c \<noteq> CHR 0x0D) s)) | _ \<Rightarrow> None)"

record rest_Request =
  rq_Method :: string
  rq_BaseURL :: string
  rq_QueryParams :: "(string \<times> string) list"
  rq_Body :: string
  rq_Headers :: "(string \<times> string) list"

record rest_Response =
  rs_StatusCode :: int
  rs_Body :: string

record im_context =
  im_APIURL :: string
  im_ManagerToken :: string
  im_Test :: bool
  im_GroupUpgradeWhenMemberCount :: int
  im_API :: "rest_Request \<Rightarrow> string + rest_Response"
  im_gjson_Int :: "string \<Rightarrow> string \<Rightarrow> string \<Rightarrow> int"
  im_gjson_String :: "string \<Rightarrow> string \<Rightarrow> string \<Rightarrow> string"

text \<open>
  Errors: the transport failed, the answer is no JSON of the expected type, the service gave a reason, or only a
  status.  The string is the operation where the message names one.
\<close>

datatype im_error =
    Transport string
  | BadJson json_error
  | ServiceMsg string json
  | ServiceStatus string int
  | ResultNil
  | StreamNoMissing

type_synonym 'a im = "(im_error + 'a) \<times> rest_Request list"

definition wkIMManagerTokenHeader :: "im_context \<Rightarrow> (string \<times> string) list" where
  "wkIMManagerTokenHeader c = (if im_ManagerToken c = [] then [] else [(''token'', im_ManagerToken c)])"

definition network_RequestBoy :: "im_context \<Rightarrow> string \<Rightarrow> string \<Rightarrow> (string \<times> string) list \<Rightarrow> string \<Rightarrow> (string + rest_Response) \<times> rest_Request list" where
  "network_RequestBoy c url body headers method =
     (let request = \<lparr>rq_Method = method, rq_BaseURL = url, rq_QueryParams = [], rq_Body = body, rq_Headers = headers\<rparr>
      in (im_API c request, [request]))"

definition network_Post :: "im_context \<Rightarrow> string \<Rightarrow> string \<Rightarrow> (string \<times> string) list \<Rightarrow> (string + rest_Response) \<times> rest_Request list" where
  "network_Post c url body headers = network_RequestBoy c url body headers ''POST''"

definition network_Get :: "im_context \<Rightarrow> string \<Rightarrow> (string \<times> string) list \<Rightarrow> (string \<times> string) list \<Rightarrow> (string + rest_Response) \<times> rest_Request list" where
  "network_Get c url queryParams headers =
     (let request = \<lparr>rq_Method = ''GET'', rq_BaseURL = url, rq_QueryParams = queryParams, rq_Body = [], rq_Headers = headers\<rparr>
      in (im_API c request, [request]))"

text \<open>The check of an answer, with the operation its messages name; \<^verbatim>\<open>handlerIMError\<close> names none.\<close>

definition service_error :: "string \<Rightarrow> rest_Response \<Rightarrow> im_error option" where
  "service_error name resp =
     (if rs_StatusCode resp \<noteq> 200 then
        (if rs_StatusCode resp = 400 then
           (case JsonToMap (rs_Body resp) of
              Inl err \<Rightarrow> Some (BadJson err)
            | Inr resultMap \<Rightarrow>
                (case resultMap of
                   None \<Rightarrow> Some (ServiceStatus name (rs_StatusCode resp))
                 | Some m \<Rightarrow>
                     (case obj_get m ''msg'' of
                        None \<Rightarrow> Some (ServiceStatus name (rs_StatusCode resp))
                      | Some msg \<Rightarrow> if msg = JNull then Some (ServiceStatus name (rs_StatusCode resp)) else Some (ServiceMsg name msg))))
         else Some (ServiceStatus name (rs_StatusCode resp)))
      else None)"

definition handlerIMError :: "rest_Response \<Rightarrow> im_error option" where
  "handlerIMError resp = service_error [] resp"

text \<open>The two forms of a call: one that only checks the answer, and one that decodes it.\<close>

definition im_exec :: "im_context \<Rightarrow> string \<Rightarrow> json \<Rightarrow> unit im" where
  "im_exec c path req =
     (let (resp, rqs) = network_Post c (im_APIURL c @ path) (ToJson req) (wkIMManagerTokenHeader c)
      in case resp of
           Inl err \<Rightarrow> (Inl (Transport err), rqs)
         | Inr resp \<Rightarrow> (case handlerIMError resp of Some e \<Rightarrow> (Inl e, rqs) | None \<Rightarrow> (Inr (), rqs)))"

definition decode_answer :: "(json \<Rightarrow> 'a option) \<Rightarrow> (string + rest_Response) \<times> rest_Request list \<Rightarrow> 'a im" where
  "decode_answer conv r =
     (case r of
        (Inl err, rqs) \<Rightarrow> (Inl (Transport err), rqs)
      | (Inr resp, rqs) \<Rightarrow>
          (case handlerIMError resp of
             Some e \<Rightarrow> (Inl e, rqs)
           | None \<Rightarrow> (case ReadJsonByByte conv (rs_Body resp) of Inl e \<Rightarrow> (Inl (BadJson e), rqs) | Inr x \<Rightarrow> (Inr x, rqs))))"

definition im_fetch :: "im_context \<Rightarrow> (json \<Rightarrow> 'a option) \<Rightarrow> string \<Rightarrow> json \<Rightarrow> 'a im" where
  "im_fetch c conv path req = decode_answer conv (network_Post c (im_APIURL c @ path) (ToJson req) (wkIMManagerTokenHeader c))"

definition im_get :: "im_context \<Rightarrow> (json \<Rightarrow> 'a option) \<Rightarrow> string \<Rightarrow> (string \<times> string) list \<Rightarrow> 'a im" where
  "im_get c conv path query = decode_answer conv (network_Get c (im_APIURL c @ path) query (wkIMManagerTokenHeader c))"

text \<open>JSON of slices: \<^verbatim>\<open>nil\<close> is \<^verbatim>\<open>null\<close>.\<close>

definition json_list :: "('a \<Rightarrow> json) \<Rightarrow> 'a list option \<Rightarrow> json" where
  "json_list f xs = (case xs of None \<Rightarrow> JNull | Some xs \<Rightarrow> JArr (map f xs))"

abbreviation json_strs :: "string list option \<Rightarrow> json" where
  "json_strs \<equiv> json_list JStr"

text \<open>Pointers and slices that may be \<^verbatim>\<open>null\<close> in an answer.\<close>

definition dec_null :: "(json \<Rightarrow> 'a option) \<Rightarrow> json \<Rightarrow> 'a option option" where
  "dec_null conv v = (if v = JNull then Some None else map_option Some (conv v))"

section \<open>Request structures\<close>

text \<open>Each with its JSON form, the fields in the order and under the names of their tags.\<close>

record MsgHeader =
  mh_NoPersist :: int
  mh_RedDot :: int
  mh_SyncOnce :: int

definition json_MsgHeader :: "MsgHeader \<Rightarrow> json" where
  "json_MsgHeader r = JObj [(''no_persist'', JInt (mh_NoPersist r)),
     (''red_dot'', JInt (mh_RedDot r)),
     (''sync_once'', JInt (mh_SyncOnce r))]"

record ChannelReq =
  ch_ChannelID :: string
  ch_ChannelType :: nat

record Channel =
  cl_ChannelID :: string
  cl_ChannelType :: nat

definition json_Channel :: "Channel \<Rightarrow> json" where
  "json_Channel r = JObj [(''channel_id'', JStr (cl_ChannelID r)),
     (''channel_type'', JInt (int (cl_ChannelType r)))]"

record ChannelCreateReq =
  cc_ChannelID :: string
  cc_ChannelType :: nat
  cc_Ban :: int
  cc_Large :: int
  cc_Subscribers :: "string list option"

definition json_ChannelCreateReq :: "ChannelCreateReq \<Rightarrow> json" where
  "json_ChannelCreateReq r = JObj [(''channel_id'', JStr (cc_ChannelID r)),
     (''channel_type'', JInt (int (cc_ChannelType r))),
     (''ban'', JInt (cc_Ban r)),
     (''large'', JInt (cc_Large r)),
     (''subscribers'', json_strs (cc_Subscribers r))]"

record ChannelInfoCreateReq =
  ci_ChannelID :: string
  ci_ChannelType :: nat
  ci_Ban :: int
  ci_Large :: int
  ci_Disband :: int

definition json_ChannelInfoCreateReq :: "ChannelInfoCreateReq \<Rightarrow> json" where
  "json_ChannelInfoCreateReq r = JObj [(''channel_id'', JStr (ci_ChannelID r)),
     (''channel_type'', JInt (int (ci_ChannelType r))),
     (''ban'', JInt (ci_Ban r)),
     (''large'', JInt (ci_Large r)),
     (''disband'', JInt (ci_Disband r))]"

record DeleteConversationReq =
  dc_UID :: string
  dc_ChannelID :: string
  dc_ChannelType :: nat

definition json_DeleteConversationReq :: "DeleteConversationReq \<Rightarrow> json" where
  "json_DeleteConversationReq r = JObj [(''uid'', JStr (dc_UID r)),
     (''channel_id'', JStr (dc_ChannelID r)),
     (''channel_type'', JInt (int (dc_ChannelType r)))]"

text \<open>The black and white list requests embed a \<^verbatim>\<open>ChannelReq\<close>.\<close>

record ChannelBlacklistReq = ChannelReq +
  bl_UIDs :: "string list option"

definition json_ChannelBlacklistReq :: "ChannelBlacklistReq \<Rightarrow> json" where
  "json_ChannelBlacklistReq r = JObj [(''channel_id'', JStr (ch_ChannelID r)), (''channel_type'', JInt (int (ch_ChannelType r))),
     (''uids'', json_strs (bl_UIDs r))]"

record ChannelWhitelistReq = ChannelReq +
  wl_UIDs :: "string list option"

definition json_ChannelWhitelistReq :: "ChannelWhitelistReq \<Rightarrow> json" where
  "json_ChannelWhitelistReq r = JObj [(''channel_id'', JStr (ch_ChannelID r)), (''channel_type'', JInt (int (ch_ChannelType r))),
     (''uids'', json_strs (wl_UIDs r))]"

record SubscriberAddReq =
  sa_ChannelID :: string
  sa_ChannelType :: nat
  sa_Reset :: int
  sa_Subscribers :: "string list option"

definition json_SubscriberAddReq :: "SubscriberAddReq \<Rightarrow> json" where
  "json_SubscriberAddReq r = JObj [(''channel_id'', JStr (sa_ChannelID r)),
     (''channel_type'', JInt (int (sa_ChannelType r))),
     (''reset'', JInt (sa_Reset r)),
     (''subscribers'', json_strs (sa_Subscribers r))]"

record SubscriberRemoveReq =
  sr_ChannelID :: string
  sr_ChannelType :: nat
  sr_Subscribers :: "string list option"

definition json_SubscriberRemoveReq :: "SubscriberRemoveReq \<Rightarrow> json" where
  "json_SubscriberRemoveReq r = JObj [(''channel_id'', JStr (sr_ChannelID r)),
     (''channel_type'', JInt (int (sr_ChannelType r))),
     (''subscribers'', json_strs (sr_Subscribers r))]"

record ClearConversationUnreadReq =
  cu_UID :: string
  cu_ChannelID :: string
  cu_ChannelType :: nat
  cu_Unread :: int
  cu_MessageSeq :: nat

definition json_ClearConversationUnreadReq :: "ClearConversationUnreadReq \<Rightarrow> json" where
  "json_ClearConversationUnreadReq r = JObj [(''uid'', JStr (cu_UID r)),
     (''channel_id'', JStr (cu_ChannelID r)),
     (''channel_type'', JInt (int (cu_ChannelType r))),
     (''unread'', JInt (cu_Unread r)),
     (''message_seq'', JInt (int (cu_MessageSeq r)))]"

record SyncChannelMessageReq =
  sm_LoginUID :: string
  sm_DeviceUUID :: string
  sm_ChannelID :: string
  sm_ChannelType :: nat
  sm_StartMessageSeq :: nat
  sm_EndMessageSeq :: nat
  sm_Limit :: int
  sm_PullMode :: int

definition json_SyncChannelMessageReq :: "SyncChannelMessageReq \<Rightarrow> json" where
  "json_SyncChannelMessageReq r = JObj [(''login_uid'', JStr (sm_LoginUID r)),
     (''device_uuid'', JStr (sm_DeviceUUID r)),
     (''channel_id'', JStr (sm_ChannelID r)),
     (''channel_type'', JInt (int (sm_ChannelType r))),
     (''start_message_seq'', JInt (int (sm_StartMessageSeq r))),
     (''end_message_seq'', JInt (int (sm_EndMessageSeq r))),
     (''limit'', JInt (sm_Limit r)),
     (''pull_mode'', JInt (sm_PullMode r))]"

record MsgSyncReq =
  my_UID :: string
  my_MessageSeq :: nat
  my_Limit :: int

definition json_MsgSyncReq :: "MsgSyncReq \<Rightarrow> json" where
  "json_MsgSyncReq r = JObj [(''uid'', JStr (my_UID r)),
     (''message_seq'', JInt (int (my_MessageSeq r))),
     (''limit'', JInt (my_Limit r))]"

record SyncackReq =
  sk_UID :: string
  sk_LastMessageSeq :: nat

definition json_SyncackReq :: "SyncackReq \<Rightarrow> json" where
  "json_SyncackReq r = JObj [(''uid'', JStr (sk_UID r)),
     (''last_message_seq'', JInt (int (sk_LastMessageSeq r)))]"

record MessageRevokeReq =
  mr_ChannelID :: string
  mr_ChannelType :: nat
  mr_MessageIDs :: "nat list option"

definition json_MessageRevokeReq :: "MessageRevokeReq \<Rightarrow> json" where
  "json_MessageRevokeReq r = JObj [(''channel_id'', JStr (mr_ChannelID r)),
     (''channel_type'', JInt (int (mr_ChannelType r))),
     (''message_ids'', json_list (\<lambda>n. JInt (int n)) (mr_MessageIDs r))]"

record ChannelDeleteReq =
  cd_ChannelID :: string
  cd_ChannelType :: nat

definition json_ChannelDeleteReq :: "ChannelDeleteReq \<Rightarrow> json" where
  "json_ChannelDeleteReq r = JObj [(''channel_id'', JStr (cd_ChannelID r)),
     (''channel_type'', JInt (int (cd_ChannelType r)))]"

record SearchUserMessageReq =
  su_UID :: string
  su_Payload :: "(string \<times> json) list option"
  su_PayloadTypes :: "int list option"
  su_FromUID :: string
  su_ChannelID :: string
  su_ChannelType :: nat
  su_Topic :: string
  su_Limit :: int
  su_Page :: int
  su_StartTime :: int
  su_EndTime :: int
  su_Highlights :: "string list option"

definition json_SearchUserMessageReq :: "SearchUserMessageReq \<Rightarrow> json" where
  "json_SearchUserMessageReq r = JObj [(''uid'', JStr (su_UID r)),
     (''payload'', (case su_Payload r of None \<Rightarrow> JNull | Some m \<Rightarrow> jmap m)),
     (''payload_types'', json_list JInt (su_PayloadTypes r)),
     (''from_uid'', JStr (su_FromUID r)),
     (''channel_id'', JStr (su_ChannelID r)),
     (''channel_type'', JInt (int (su_ChannelType r))),
     (''topic'', JStr (su_Topic r)),
     (''limit'', JInt (su_Limit r)),
     (''page'', JInt (su_Page r)),
     (''start_time'', JInt (su_StartTime r)),
     (''end_time'', JInt (su_EndTime r)),
     (''highlights'', json_strs (su_Highlights r))]"

record MsgSearchReq =
  ms_LoginUID :: string
  ms_ChannelID :: string
  ms_ChannelType :: nat
  ms_MessageSeqs :: "nat list option"
  ms_MessageIds :: "int list option"
  ms_ClientMsgNos :: "string list option"

definition json_MsgSearchReq :: "MsgSearchReq \<Rightarrow> json" where
  "json_MsgSearchReq r = JObj [(''login_uid'', JStr (ms_LoginUID r)),
     (''channel_id'', JStr (ms_ChannelID r)),
     (''channel_type'', JInt (int (ms_ChannelType r))),
     (''message_seqs'', json_list (\<lambda>n. JInt (int n)) (ms_MessageSeqs r)),
     (''message_ids'', json_list JInt (ms_MessageIds r)),
     (''client_msg_nos'', json_strs (ms_ClientMsgNos r))]"

record MsgSendReq =
  sd_Header :: MsgHeader
  sd_Setting :: nat
  sd_FromUID :: string
  sd_ChannelID :: string
  sd_ChannelType :: nat
  sd_StreamNo :: string
  sd_Subscribers :: "string list option"
  sd_Payload :: string

definition json_MsgSendReq :: "MsgSendReq \<Rightarrow> json" where
  "json_MsgSendReq r = JObj [(''header'', json_MsgHeader (sd_Header r)),
     (''setting'', JInt (int (sd_Setting r))),
     (''from_uid'', JStr (sd_FromUID r)),
     (''channel_id'', JStr (sd_ChannelID r)),
     (''channel_type'', JInt (int (sd_ChannelType r))),
     (''stream_no'', JStr (sd_StreamNo r)),
     (''subscribers'', json_strs (sd_Subscribers r)),
     (''payload'', json_bytes (sd_Payload r))]"

record MsgSendBatch =
  sb_Header :: MsgHeader
  sb_FromUID :: string
  sb_Subscribers :: "string list option"
  sb_Payload :: string

definition json_MsgSendBatch :: "MsgSendBatch \<Rightarrow> json" where
  "json_MsgSendBatch r = JObj [(''header'', json_MsgHeader (sb_Header r)),
     (''from_uid'', JStr (sb_FromUID r)),
     (''subscribers'', json_strs (sb_Subscribers r)),
     (''payload'', json_bytes (sb_Payload r))]"

record MessageStreamStartReq =
  st_Header :: MsgHeader
  st_ClientMsgNo :: string
  st_FromUID :: string
  st_ChannelID :: string
  st_ChannelType :: nat
  st_Payload :: string

definition json_MessageStreamStartReq :: "MessageStreamStartReq \<Rightarrow> json" where
  "json_MessageStreamStartReq r = JObj [(''header'', json_MsgHeader (st_Header r)),
     (''client_msg_no'', JStr (st_ClientMsgNo r)),
     (''from_uid'', JStr (st_FromUID r)),
     (''channel_id'', JStr (st_ChannelID r)),
     (''channel_type'', JInt (int (st_ChannelType r))),
     (''payload'', json_bytes (st_Payload r))]"

record MessageStreamEndReq =
  se_StreamNo :: string
  se_ChannelID :: string
  se_ChannelType :: nat

definition json_MessageStreamEndReq :: "MessageStreamEndReq \<Rightarrow> json" where
  "json_MessageStreamEndReq r = JObj [(''stream_no'', JStr (se_StreamNo r)),
     (''channel_id'', JStr (se_ChannelID r)),
     (''channel_type'', JInt (int (se_ChannelType r)))]"

section \<open>Answers\<close>

record UpdateIMTokenResp =
  ut_Status :: int

definition dec_UpdateIMTokenResp :: "json \<Rightarrow> UpdateIMTokenResp option" where
  "dec_UpdateIMTokenResp v =
     (case v of
        JObj kvs \<Rightarrow>
          do {
            x0 \<leftarrow> dec_field (dec_int 64) (0) ''status'' kvs;
            Some \<lparr>ut_Status = x0\<rparr>
          }
      | _ \<Rightarrow> None)"

record ChannelMaxSeqResp =
  cm_MessageSeq :: nat

definition dec_ChannelMaxSeqResp :: "json \<Rightarrow> ChannelMaxSeqResp option" where
  "dec_ChannelMaxSeqResp v =
     (case v of
        JObj kvs \<Rightarrow>
          do {
            x0 \<leftarrow> dec_field (dec_uint 32) (0) ''message_seq'' kvs;
            Some \<lparr>cm_MessageSeq = x0\<rparr>
          }
      | _ \<Rightarrow> None)"

record OnlinestatusResp =
  os_UID :: string
  os_DeviceFlag :: nat
  os_LastOffline :: int
  os_Online :: int

definition dec_OnlinestatusResp :: "json \<Rightarrow> OnlinestatusResp option" where
  "dec_OnlinestatusResp v =
     (case v of
        JObj kvs \<Rightarrow>
          do {
            x0 \<leftarrow> dec_field (dec_string) ([]) ''uid'' kvs;
            x1 \<leftarrow> dec_field (dec_uint 8) (0) ''device_flag'' kvs;
            x2 \<leftarrow> dec_field (dec_int 64) (0) ''last_offline'' kvs;
            x3 \<leftarrow> dec_field (dec_int 64) (0) ''online'' kvs;
            Some \<lparr>os_UID = x0, os_DeviceFlag = x1, os_LastOffline = x2, os_Online = x3\<rparr>
          }
      | _ \<Rightarrow> None)"

record StreamItemResp =
  si_StreamSeq :: nat
  si_ClientMsgNo :: string
  si_Blob :: string

definition dec_StreamItemResp :: "json \<Rightarrow> StreamItemResp option" where
  "dec_StreamItemResp v =
     (case v of
        JObj kvs \<Rightarrow>
          do {
            x0 \<leftarrow> dec_field (dec_uint 32) (0) ''stream_seq'' kvs;
            x1 \<leftarrow> dec_field (dec_string) ([]) ''client_msg_no'' kvs;
            x2 \<leftarrow> dec_field (dec_bytes) ([]) ''blob'' kvs;
            Some \<lparr>si_StreamSeq = x0, si_ClientMsgNo = x1, si_Blob = x2\<rparr>
          }
      | _ \<Rightarrow> None)"

definition zero_header :: MsgHeader where
  "zero_header = \<lparr>mh_NoPersist = 0, mh_RedDot = 0, mh_SyncOnce = 0\<rparr>"

definition dec_MsgHeader :: "json \<Rightarrow> MsgHeader option" where
  "dec_MsgHeader v =
     (case v of
        JObj kvs \<Rightarrow>
          do {
            x0 \<leftarrow> dec_field (dec_int 64) 0 ''no_persist'' kvs;
            x1 \<leftarrow> dec_field (dec_int 64) 0 ''red_dot'' kvs;
            x2 \<leftarrow> dec_field (dec_int 64) 0 ''sync_once'' kvs;
            Some \<lparr>mh_NoPersist = x0, mh_RedDot = x1, mh_SyncOnce = x2\<rparr>
          }
      | _ \<Rightarrow> None)"

record MessageResp =
  me_Header :: MsgHeader
  me_Setting :: nat
  me_MessageIDStr :: string
  me_MessageID :: int
  me_MessageSeq :: nat
  me_ClientMsgNo :: string
  me_Expire :: nat
  me_FromUID :: string
  me_ToUID :: string
  me_ChannelID :: string
  me_ChannelType :: nat
  me_Timestamp :: int
  me_Payload :: string
  me_StreamNo :: string
  me_Streams :: "StreamItemResp option list option"
  me_IsDeleted :: int
  me_VoiceStatus :: int

definition dec_MessageResp :: "json \<Rightarrow> MessageResp option" where
  "dec_MessageResp v =
     (case v of
        JObj kvs \<Rightarrow>
          do {
            x0 \<leftarrow> dec_field (dec_MsgHeader) (zero_header) ''header'' kvs;
            x1 \<leftarrow> dec_field (dec_uint 8) (0) ''setting'' kvs;
            x2 \<leftarrow> dec_field (dec_string) ([]) ''message_idstr'' kvs;
            x3 \<leftarrow> dec_field (dec_int 64) (0) ''message_id'' kvs;
            x4 \<leftarrow> dec_field (dec_uint 32) (0) ''message_seq'' kvs;
            x5 \<leftarrow> dec_field (dec_string) ([]) ''client_msg_no'' kvs;
            x6 \<leftarrow> dec_field (dec_uint 32) (0) ''expire'' kvs;
            x7 \<leftarrow> dec_field (dec_string) ([]) ''from_uid'' kvs;
            x8 \<leftarrow> dec_field (dec_string) ([]) ''to_uid'' kvs;
            x9 \<leftarrow> dec_field (dec_string) ([]) ''channel_id'' kvs;
            x10 \<leftarrow> dec_field (dec_uint 8) (0) ''channel_type'' kvs;
            x11 \<leftarrow> dec_field (dec_int 32) (0) ''timestamp'' kvs;
            x12 \<leftarrow> dec_field (dec_bytes) ([]) ''payload'' kvs;
            x13 \<leftarrow> dec_field (dec_string) ([]) ''stream_no'' kvs;
            x14 \<leftarrow> dec_field (\<lambda>v. map_option Some (dec_list (dec_null dec_StreamItemResp) None v)) (None) ''streams'' kvs;
            x15 \<leftarrow> dec_field (dec_int 64) (0) ''is_deleted'' kvs;
            x16 \<leftarrow> dec_field (dec_int 64) (0) ''voice_status'' kvs;
            Some \<lparr>me_Header = x0, me_Setting = x1, me_MessageIDStr = x2, me_MessageID = x3, me_MessageSeq = x4, me_ClientMsgNo = x5, me_Expire = x6, me_FromUID = x7, me_ToUID = x8, me_ChannelID = x9, me_ChannelType = x10, me_Timestamp = x11, me_Payload = x12, me_StreamNo = x13, me_Streams = x14, me_IsDeleted = x15, me_VoiceStatus = x16\<rparr>
          }
      | _ \<Rightarrow> None)"

record SyncChannelMessageResp =
  sc_StartMessageSeq :: nat
  sc_EndMessageSeq :: nat
  sc_PullMode :: int
  sc_Messages :: "MessageResp option list option"

definition dec_SyncChannelMessageResp :: "json \<Rightarrow> SyncChannelMessageResp option" where
  "dec_SyncChannelMessageResp v =
     (case v of
        JObj kvs \<Rightarrow>
          do {
            x0 \<leftarrow> dec_field (dec_uint 32) (0) ''start_message_seq'' kvs;
            x1 \<leftarrow> dec_field (dec_uint 32) (0) ''end_message_seq'' kvs;
            x2 \<leftarrow> dec_field (dec_int 64) (0) ''pull_mode'' kvs;
            x3 \<leftarrow> dec_field (\<lambda>v. map_option Some (dec_list (dec_null dec_MessageResp) None v)) (None) ''messages'' kvs;
            Some \<lparr>sc_StartMessageSeq = x0, sc_EndMessageSeq = x1, sc_PullMode = x2, sc_Messages = x3\<rparr>
          }
      | _ \<Rightarrow> None)"

record ConversationResp =
  cr_ChannelID :: string
  cr_ChannelType :: nat
  cr_Unread :: int
  cr_Timestamp :: int
  cr_LastMessage :: "MessageResp option"

definition dec_ConversationResp :: "json \<Rightarrow> ConversationResp option" where
  "dec_ConversationResp v =
     (case v of
        JObj kvs \<Rightarrow>
          do {
            x0 \<leftarrow> dec_field (dec_string) ([]) ''channel_id'' kvs;
            x1 \<leftarrow> dec_field (dec_uint 8) (0) ''channel_type'' kvs;
            x2 \<leftarrow> dec_field (dec_int 64) (0) ''unread'' kvs;
            x3 \<leftarrow> dec_field (dec_int 64) (0) ''timestamp'' kvs;
            x4 \<leftarrow> dec_field (\<lambda>v. map_option Some (dec_MessageResp v)) (None) ''last_message'' kvs;
            Some \<lparr>cr_ChannelID = x0, cr_ChannelType = x1, cr_Unread = x2, cr_Timestamp = x3, cr_LastMessage = x4\<rparr>
          }
      | _ \<Rightarrow> None)"

record SyncUserConversationResp =
  uc_ChannelID :: string
  uc_ChannelType :: nat
  uc_Unread :: int
  uc_Timestamp :: int
  uc_LastMsgSeq :: int
  uc_LastClientMsgNo :: string
  uc_OffsetMsgSeq :: int
  uc_Version :: int
  uc_Recents :: "MessageResp option list option"

definition dec_SyncUserConversationResp :: "json \<Rightarrow> SyncUserConversationResp option" where
  "dec_SyncUserConversationResp v =
     (case v of
        JObj kvs \<Rightarrow>
          do {
            x0 \<leftarrow> dec_field (dec_string) ([]) ''channel_id'' kvs;
            x1 \<leftarrow> dec_field (dec_uint 8) (0) ''channel_type'' kvs;
            x2 \<leftarrow> dec_field (dec_int 64) (0) ''unread'' kvs;
            x3 \<leftarrow> dec_field (dec_int 64) (0) ''timestamp'' kvs;
            x4 \<leftarrow> dec_field (dec_int 64) (0) ''last_msg_seq'' kvs;
            x5 \<leftarrow> dec_field (dec_string) ([]) ''last_client_msg_no'' kvs;
            x6 \<leftarrow> dec_field (dec_int 64) (0) ''offset_msg_seq'' kvs;
            x7 \<leftarrow> dec_field (dec_int 64) (0) ''version'' kvs;
            x8 \<leftarrow> dec_field (\<lambda>v. map_option Some (dec_list (dec_null dec_MessageResp) None v)) (None) ''recents'' kvs;
            Some \<lparr>uc_ChannelID = x0, uc_ChannelType = x1, uc_Unread = x2, uc_Timestamp = x3, uc_LastMsgSeq = x4, uc_LastClientMsgNo = x5, uc_OffsetMsgSeq = x6, uc_Version = x7, uc_Recents = x8\<rparr>
          }
      | _ \<Rightarrow> None)"

record SearchUserMessageResp =
  sp_Total :: int
  sp_Limit :: int
  sp_Page :: int
  sp_Messages :: "MessageResp option list option"

definition dec_SearchUserMessageResp :: "json \<Rightarrow> SearchUserMessageResp option" where
  "dec_SearchUserMessageResp v =
     (case v of
        JObj kvs \<Rightarrow>
          do {
            x0 \<leftarrow> dec_field (dec_int 64) (0) ''total'' kvs;
            x1 \<leftarrow> dec_field (dec_int 64) (0) ''limit'' kvs;
            x2 \<leftarrow> dec_field (dec_int 64) (0) ''page'' kvs;
            x3 \<leftarrow> dec_field (\<lambda>v. map_option Some (dec_list (dec_null dec_MessageResp) None v)) (None) ''messages'' kvs;
            Some \<lparr>sp_Total = x0, sp_Limit = x1, sp_Page = x2, sp_Messages = x3\<rparr>
          }
      | _ \<Rightarrow> None)"

definition dec_ptr_list :: "(json \<Rightarrow> 'a option) \<Rightarrow> json \<Rightarrow> 'a option list option option" where
  "dec_ptr_list conv v = dec_null (dec_list (dec_null conv) None) v"

section \<open>The calls\<close>

record UpdateIMTokenReq =
  uq_UID :: string
  uq_Token :: string
  uq_DeviceFlag :: nat
  uq_DeviceLevel :: nat

definition UpdateIMToken :: "im_context \<Rightarrow> UpdateIMTokenReq \<Rightarrow>  UpdateIMTokenResp option im" where
  "UpdateIMToken c req =
     im_fetch c (dec_null dec_UpdateIMTokenResp) ''/user/token''
       (jmap [(''uid'', JStr (uq_UID req)), (''token'', JStr (uq_Token req)),
          (''device_level'', JInt (int (uq_DeviceLevel req))), (''device_flag'', JInt (int (uq_DeviceFlag req)))])"

definition QuitUserDevice :: "im_context \<Rightarrow> string \<Rightarrow> int \<Rightarrow>  unit im" where
  "QuitUserDevice c uid deviceFlag =
     (let (resp, rqs) = network_Post c (im_APIURL c @ ''/user/device_quit'')
            (ToJson (jmap [(''uid'', JStr uid), (''device_flag'', JInt deviceFlag)])) (wkIMManagerTokenHeader c)
      in case resp of
           Inl err \<Rightarrow> (Inl (Transport err), rqs)
         | Inr resp \<Rightarrow> if rs_StatusCode resp \<noteq> 200 then (Inl (ServiceStatus [] (rs_StatusCode resp)), rqs) else (Inr (), rqs))"

definition SendMessageBatch :: "im_context \<Rightarrow> MsgSendBatch \<Rightarrow>  unit im" where
  "SendMessageBatch c req =
     (let (resp, rqs) = network_Post c (im_APIURL c @ ''/message/sendbatch'') (ToJson (json_MsgSendBatch req)) (wkIMManagerTokenHeader c)
      in case resp of
           Inl err \<Rightarrow> (Inl (Transport err), rqs)
         | Inr resp \<Rightarrow> (case service_error ''SendMessageBatch'' resp of Some e \<Rightarrow> (Inl e, rqs) | None \<Rightarrow> (Inr (), rqs)))"

record MsgSendResp =
  sx_MessageID :: int
  sx_ClientMsgNo :: string
  sx_MessageSeq :: nat

text \<open>The sequence number is converted to 32 bits.\<close>

definition SendMessageWithResult :: "im_context \<Rightarrow> MsgSendReq \<Rightarrow>  MsgSendResp im" where
  "SendMessageWithResult c req =
     (let (resp, rqs) = network_Post c (im_APIURL c @ ''/message/send'') (ToJson (json_MsgSendReq req)) (wkIMManagerTokenHeader c)
      in case resp of
           Inl err \<Rightarrow> (Inl (Transport err), rqs)
         | Inr resp \<Rightarrow>
             (case service_error ''SendMessage'' resp of
                Some e \<Rightarrow> (Inl e, rqs)
              | None \<Rightarrow>
                  let messageID = im_gjson_Int c (rs_Body resp) ''data'' ''message_id'';
                      messageSeq = im_gjson_Int c (rs_Body resp) ''data'' ''message_seq'';
                      clientMsgNo = im_gjson_String c (rs_Body resp) ''data'' ''client_msg_no''
                  in (Inr \<lparr>sx_MessageID = messageID, sx_ClientMsgNo = clientMsgNo, sx_MessageSeq = nat (messageSeq mod 2 ^ 32)\<rparr>, rqs)))"

definition SendMessage :: "im_context \<Rightarrow> MsgSendReq \<Rightarrow>  unit im" where
  "SendMessage c req =
     (case SendMessageWithResult c req of (Inl e, rqs) \<Rightarrow> (Inl e, rqs) | (Inr _, rqs) \<Rightarrow> (Inr (), rqs))"

definition IMCreateOrUpdateChannelInfo :: "im_context \<Rightarrow> ChannelInfoCreateReq \<Rightarrow>  unit im" where
  "IMCreateOrUpdateChannelInfo c req =
     im_exec c ''/channel/info'' (json_ChannelInfoCreateReq req)"

definition IMCreateOrUpdateChannel :: "im_context \<Rightarrow> ChannelCreateReq \<Rightarrow>  unit im" where
  "IMCreateOrUpdateChannel c req =
     im_exec c ''/channel'' (json_ChannelCreateReq req)"

definition IMBlacklistAdd :: "im_context \<Rightarrow> ChannelBlacklistReq \<Rightarrow>  unit im" where
  "IMBlacklistAdd c req =
     im_exec c ''/channel/blacklist_add'' (json_ChannelBlacklistReq req)"

definition IMBlacklistSet :: "im_context \<Rightarrow> ChannelBlacklistReq \<Rightarrow>  unit im" where
  "IMBlacklistSet c req =
     im_exec c ''/channel/blacklist_set'' (json_ChannelBlacklistReq req)"

definition IMBlacklistRemove :: "im_context \<Rightarrow> ChannelBlacklistReq \<Rightarrow>  unit im" where
  "IMBlacklistRemove c req =
     im_exec c ''/channel/blacklist_remove'' (json_ChannelBlacklistReq req)"

definition IMWhitelistAdd :: "im_context \<Rightarrow> ChannelWhitelistReq \<Rightarrow>  unit im" where
  "IMWhitelistAdd c req =
     im_exec c ''/channel/whitelist_add'' (json_ChannelWhitelistReq req)"

definition IMWhitelistSet :: "im_context \<Rightarrow> ChannelWhitelistReq \<Rightarrow>  unit im" where
  "IMWhitelistSet c req =
     im_exec c ''/channel/whitelist_set'' (json_ChannelWhitelistReq req)"

definition IMWhitelistRemove :: "im_context \<Rightarrow> ChannelWhitelistReq \<Rightarrow>  unit im" where
  "IMWhitelistRemove c req =
     im_exec c ''/channel/whitelist_remove'' (json_ChannelWhitelistReq req)"

definition IMAddSubscriber :: "im_context \<Rightarrow> SubscriberAddReq \<Rightarrow>  unit im" where
  "IMAddSubscriber c req =
     (let (resp, rqs) = network_Post c (im_APIURL c @ ''/channel/subscriber_add'') (ToJson (json_SubscriberAddReq req)) (wkIMManagerTokenHeader c)
      in case resp of
           Inl err \<Rightarrow> (Inl (Transport err), rqs)
         | Inr resp \<Rightarrow> if rs_StatusCode resp \<noteq> 200 then (Inl (ServiceStatus ''IMAddSubscriber'' (rs_StatusCode resp)), rqs) else (Inr (), rqs))"

definition IMRemoveSubscriber :: "im_context \<Rightarrow> SubscriberRemoveReq \<Rightarrow>  unit im" where
  "IMRemoveSubscriber c req =
     im_exec c ''/channel/subscriber_remove'' (json_SubscriberRemoveReq req)"

definition IMGetConversations :: "im_context \<Rightarrow> string \<Rightarrow>  ConversationResp option list option im" where
  "IMGetConversations c uid =
     im_get c (dec_ptr_list dec_ConversationResp) ''/conversations'' [(''uid'', uid)]"

definition IMClearConversationUnread :: "im_context \<Rightarrow> ClearConversationUnreadReq \<Rightarrow>  unit im" where
  "IMClearConversationUnread c req =
     im_exec c ''/conversations/setUnread'' (json_ClearConversationUnreadReq req)"

definition IMDeleteConversation :: "im_context \<Rightarrow> DeleteConversationReq \<Rightarrow>  unit im" where
  "IMDeleteConversation c req =
     im_exec c ''/conversations/delete'' (json_DeleteConversationReq req)"

definition IMSyncUserConversation :: "im_context \<Rightarrow> string \<Rightarrow> int \<Rightarrow> int \<Rightarrow> string \<Rightarrow> Channel option list option \<Rightarrow>  SyncUserConversationResp option list option im" where
  "IMSyncUserConversation c uid version msgCount lastMsgSeqs larges =
     im_fetch c (dec_ptr_list dec_SyncUserConversationResp) ''/conversation/sync''
       (jmap [(''uid'', JStr uid), (''version'', JInt version), (''last_msg_seqs'', JStr lastMsgSeqs), (''msg_count'', JInt msgCount),
          (''larges'', json_list (\<lambda>l. case l of None \<Rightarrow> JNull | Some l \<Rightarrow> json_Channel l) larges)])"

definition IMGetChannelMaxSeq :: "im_context \<Rightarrow> string \<Rightarrow> nat \<Rightarrow>  ChannelMaxSeqResp option im" where
  "IMGetChannelMaxSeq c channelID channelType =
     im_get c (dec_null dec_ChannelMaxSeqResp) ''/channel/max_message_seq'' [(''channel_id'', channelID), (''channel_type'', nat_dec channelType)]"

definition IMGetWithChannelAndSeqs :: "im_context \<Rightarrow> string \<Rightarrow> nat \<Rightarrow> string \<Rightarrow> nat list option \<Rightarrow>  SyncChannelMessageResp option im" where
  "IMGetWithChannelAndSeqs c channelID channelType loginUID seqs =
     im_fetch c (dec_null dec_SyncChannelMessageResp) ''/messages''
       (jmap [(''channel_id'', JStr channelID), (''channel_type'', JInt (int channelType)),
          (''message_seqs'', json_list (\<lambda>n. JInt (int n)) seqs), (''login_uid'', JStr loginUID)])"

definition IMSyncChannelMessage :: "im_context \<Rightarrow> SyncChannelMessageReq \<Rightarrow>  SyncChannelMessageResp option im" where
  "IMSyncChannelMessage c req =
     im_fetch c (dec_null dec_SyncChannelMessageResp) ''/channel/messagesync'' (json_SyncChannelMessageReq req)"

definition IMSyncMessage :: "im_context \<Rightarrow> MsgSyncReq \<Rightarrow>  MessageResp option list option im" where
  "IMSyncMessage c req =
     im_fetch c (dec_ptr_list dec_MessageResp) ''/message/sync'' (json_MsgSyncReq req)"

definition IMSyncMessageAck :: "im_context \<Rightarrow> SyncackReq \<Rightarrow>  unit im" where
  "IMSyncMessageAck c req =
     im_exec c ''/message/syncack'' (json_SyncackReq req)"

definition IMRevokeMessage :: "im_context \<Rightarrow> MessageRevokeReq \<Rightarrow>  unit im" where
  "IMRevokeMessage c req =
     im_exec c ''/message/revoke'' (json_MessageRevokeReq req)"

definition IMDelChannel :: "im_context \<Rightarrow> ChannelDeleteReq \<Rightarrow>  unit im" where
  "IMDelChannel c req =
     im_exec c ''/channel/delete'' (json_ChannelDeleteReq req)"

definition IMSearchUserMessages :: "im_context \<Rightarrow> SearchUserMessageReq \<Rightarrow>  SearchUserMessageResp option im" where
  "IMSearchUserMessages c req =
     im_fetch c (dec_null dec_SearchUserMessageResp) ''/plugins/wk.plugin.search/usersearch'' (json_SearchUserMessageReq req)"

definition IMSearchMessages :: "im_context \<Rightarrow> MsgSearchReq \<Rightarrow>  SyncChannelMessageResp option im" where
  "IMSearchMessages c req =
     im_fetch c (dec_null dec_SyncChannelMessageResp) ''/messages'' (json_MsgSearchReq req)"

definition IMSOnlineStatus :: "im_context \<Rightarrow> string list option \<Rightarrow>  OnlinestatusResp option list option im" where
  "IMSOnlineStatus c uids =
     (if im_Test c then (Inr None, [])
      else im_fetch c (dec_ptr_list dec_OnlinestatusResp) ''/user/onlinestatus'' (json_strs uids))"

definition IMStreamStart :: "im_context \<Rightarrow> MessageStreamStartReq \<Rightarrow>  string im" where
  "IMStreamStart c req =
     (case im_fetch c dec_map ''/streammessage/start'' (json_MessageStreamStartReq req) of
        (Inl e, rqs) \<Rightarrow> (Inl e, rqs)
      | (Inr resultMap, rqs) \<Rightarrow>
          (case resultMap of
             None \<Rightarrow> (Inl ResultNil, rqs)
           | Some m \<Rightarrow> (case obj_get m ''stream_no'' of Some (JStr s) \<Rightarrow> (Inr s, rqs) | _ \<Rightarrow> (Inl StreamNoMissing, rqs))))"

definition IMStreamEnd :: "im_context \<Rightarrow> MessageStreamEndReq \<Rightarrow>  unit im" where
  "IMStreamEnd c req =
     im_exec c ''/streammessage/end'' (json_MessageStreamEndReq req)"

text \<open>\<^verbatim>\<open>SyncackReq.Check\<close>.\<close>

datatype syncack_error = EmptyUID | ZeroSeq

definition SyncackReq_Check :: "SyncackReq \<Rightarrow> syncack_error option" where
  "SyncackReq_Check s =
     (if TrimSpace (sk_UID s) = [] then Some EmptyUID else if sk_LastMessageSeq s = 0 then Some ZeroSeq else None)"

section \<open>The payload of a message\<close>

text \<open>
  \<^verbatim>\<open>GetPayloadMap\<close> keeps the decoded map; decoding again gives the same one.  \<^verbatim>\<open>GetContentType\<close> asserts that the
  \<^verbatim>\<open>type\<close> is a number.
\<close>

definition GetPayloadMap :: "MessageResp \<Rightarrow> json_error + (string \<times> json) list option" where
  "GetPayloadMap m = ReadJsonByByte dec_map (me_Payload m)"

definition assertion_msg :: string where
  "assertion_msg = ''interface conversion''"

definition GetContentType :: "MessageResp \<Rightarrow> int go" where
  "GetContentType m =
     (case GetPayloadMap m of
        Inl err \<Rightarrow> Ret 0
      | Inr payloadMap \<Rightarrow>
          (case (case payloadMap of None \<Rightarrow> None | Some p \<Rightarrow> obj_get p ''type'') of
             Some (JNum t) \<Rightarrow> Ret (fst (ParseInt t 64))
           | _ \<Rightarrow> Panic assertion_msg))"

section \<open>Bytes in JSON\<close>

lemma b64_val_char: "k < 64 \<Longrightarrow> b64_val (b64_char k) = Some k"
  by (auto simp: b64_val_def b64_char_def Let_def)

lemma b64_char_ne: "k < 64 \<Longrightarrow> b64_char k \<noteq> CHR ''='' \<and> b64_char k \<noteq> CHR 0x0A \<and> b64_char k \<noteq> CHR 0x0D"
  using b64_val_char [of k] by (auto simp: b64_val_def)

lemma b64_quads_encode: "\<forall>b\<in>set bs. b < 256 \<Longrightarrow> b64_quads (b64_encode bs) = Some bs"
proof (induction bs rule: b64_encode.induct)
  case (2 a)
  then have "a div 4 < 64" "a mod 4 * 16 < 64" by auto
  then show ?case by (simp add: b64_val_char)
next
  case (3 a b)
  then have "a div 4 < 64" "a mod 4 * 16 + b div 16 < 64" "b mod 16 * 4 < 64" "b div 16 < 16" by auto
  then show ?case by (simp add: b64_val_char b64_char_ne)
next
  case (4 a b c bs)
  then have "a div 4 < 64" "a mod 4 * 16 + b div 16 < 64" "b mod 16 * 4 + c div 64 < 64" "c mod 64 < 64" "b div 16 < 16" "c div 64 < 4" by auto
  with 4 show ?case by (simp add: b64_val_char b64_char_ne)
qed simp

definition b64_alphabet :: "char \<Rightarrow> bool" where
  "b64_alphabet c \<longleftrightarrow> c = CHR ''='' \<or> b64_val c \<noteq> None"

lemma b64_alphabet_facts:
  assumes "b64_alphabet c"
  shows "c \<noteq> CHR 0x0A" "c \<noteq> CHR 0x0D" "(of_char c :: nat) < 128"
  using assms by (auto simp: b64_alphabet_def b64_val_def Let_def split: if_splits)

lemma b64_encode_alphabet: "\<forall>b\<in>set bs. b < 256 \<Longrightarrow> c \<in> set (b64_encode bs) \<Longrightarrow> b64_alphabet c"
proof (induction bs rule: b64_encode.induct)
  case (4 a b d bs)
  then have "a div 4 < 64" "a mod 4 * 16 + b div 16 < 64" "b mod 16 * 4 + d div 64 < 64" "d mod 64 < 64" by auto
  with 4 show ?case by (auto simp: b64_alphabet_def b64_val_char)
next
  case (3 a b)
  then have "a div 4 < 64" "a mod 4 * 16 + b div 16 < 64" "b mod 16 * 4 < 64" by auto
  with 3 show ?case by (auto simp: b64_alphabet_def b64_val_char)
next
  case (2 a)
  then have "a div 4 < 64" "a mod 4 * 16 < 64" by auto
  with 2 show ?case by (auto simp: b64_alphabet_def b64_val_char)
qed simp

lemma bytes_256: "\<forall>b\<in>set (map of_char s). b < (256 :: nat)"
  by auto

lemma dec_bytes_json_bytes [simp]: "dec_bytes (json_bytes s) = Some s"
proof -
  let ?e = "b64_encode (map of_char s)"
  have "filter (\<lambda>c. c \<noteq> CHR 0x0A \<and> c \<noteq> CHR 0x0D) ?e = ?e"
    using b64_alphabet_facts b64_encode_alphabet [OF bytes_256] by (simp add: filter_id_conv)
  then show ?thesis
    using b64_quads_encode [OF bytes_256, of s] by (simp add: dec_bytes_def json_bytes_def comp_def)
qed

lemma json_ok_bytes [simp]: "json_ok (json_bytes s) d"
  unfolding json_bytes_def json_ok.simps
  using b64_alphabet_facts(3) b64_encode_alphabet [OF bytes_256] by (blast intro: utf8_valid_ascii)

end
