(* ===== verification/Im_Messages.thy ===== *)
theory Im_Messages
  imports Im_Client Visibility
begin

unbundle bit_operations_syntax

text \<open>
  The system messages and commands: \<^verbatim>\<open>config/msg.go\<close> (friend requests, revocation, commands, message settings),
  \<^verbatim>\<open>msg_group.go\<close>, \<^verbatim>\<open>msg_channel.go\<close>, \<^verbatim>\<open>msg_personal.go\<close> and \<^verbatim>\<open>msg_rtc.go\<close>.  A payload is the text of its JSON;
  texts shown to users are their UTF-8 bytes.  Slices of pointers may hold \<^verbatim>\<open>nil\<close>, whose dereference panics.
\<close>

section \<open>Texts\<close>

definition txt_friend :: string where
  "txt_friend = map char_of [0xE4, 0xBD, 0xA0, 0xE4, 0xBB, 0xAC, 0xE5, 0xB7, 0xB2, 0xE7, 0xBB, 0x8F, 0xE6, 0x98, 0xAF, 0xE5, 0xA5, 0xBD, 0xE5, 0x8F, 0x8B, 0xE4, 0xBA, 0x86, 0xEF, 0xBC, 0x8C, 0xE5, 0x8F, 0xAF, 0xE4, 0xBB, 0xA5, 0xE6, 0x84, 0x89, 0xE5, 0xBF, 0xAB, 0xE7, 0x9A, 0x84, 0xE8, 0x81, 0x8A, 0xE5, 0xA4, 0xA9, 0xE4, 0xBA, 0x86, 0xEF, 0xBC, 0x81 :: nat]"

definition txt_invite :: string where
  "txt_invite = map char_of [0xE9, 0x82, 0x80, 0xE8, 0xAF, 0xB7 :: nat]"

definition txt_join :: string where
  "txt_join = map char_of [0xE5, 0x8A, 0xA0, 0xE5, 0x85, 0xA5, 0xE7, 0xBE, 0xA4, 0xE8, 0x81, 0x8A :: nat]"

definition txt_user :: string where
  "txt_user = map char_of [0xE7, 0x94, 0xA8, 0xE6, 0x88, 0xB7 :: nat]"

definition txt_gone :: string where
  "txt_gone = map char_of [0xE5, 0xB7, 0xB2, 0xE6, 0xB3, 0xA8, 0xE9, 0x94, 0x80, 0xEF, 0xBC, 0x8C, 0xE6, 0x97, 0xA0, 0xE6, 0xB3, 0x95, 0xE6, 0xB7, 0xBB, 0xE5, 0x8A, 0xA0, 0xE5, 0x88, 0xB0, 0xE7, 0xBE, 0xA4, 0xE8, 0x81, 0x8A :: nat]"

definition txt_name :: string where
  "txt_name = map char_of [0xE4, 0xBF, 0xAE, 0xE6, 0x94, 0xB9, 0xE7, 0xBE, 0xA4, 0xE5, 0x90, 0x8D, 0xE4, 0xB8, 0xBA, 0x22 :: nat]"

definition txt_nonotice :: string where
  "txt_nonotice = map char_of [0xE6, 0xB8, 0x85, 0xE7, 0xA9, 0xBA, 0xE4, 0xBA, 0x86, 0xE7, 0xBE, 0xA4, 0xE5, 0x85, 0xAC, 0xE5, 0x91, 0x8A :: nat]"

definition txt_notice :: string where
  "txt_notice = map char_of [0xE4, 0xBF, 0xAE, 0xE6, 0x94, 0xB9, 0xE7, 0xBE, 0xA4, 0xE5, 0x85, 0xAC, 0xE5, 0x91, 0x8A, 0xE4, 0xB8, 0xBA, 0x22 :: nat]"

definition txt_mute :: string where
  "txt_mute = map char_of [0xE5, 0xBC, 0x80, 0xE5, 0x90, 0xAF, 0xE4, 0xBA, 0x86, 0xE7, 0xBE, 0xA4, 0xE7, 0xA6, 0x81, 0xE8, 0xA8, 0x80 :: nat]"

definition txt_unmute :: string where
  "txt_unmute = map char_of [0xE5, 0x85, 0xB3, 0xE9, 0x97, 0xAD, 0xE4, 0xBA, 0x86, 0xE7, 0xBE, 0xA4, 0xE7, 0xA6, 0x81, 0xE8, 0xA8, 0x80 :: nat]"

definition txt_confirm :: string where
  "txt_confirm = map char_of [0xE5, 0xB7, 0xB2, 0xE5, 0x90, 0xAF, 0xE7, 0x94, 0xA8, 0xE2, 0x80, 0x9C, 0xE7, 0xBE, 0xA4, 0xE8, 0x81, 0x8A, 0xE9, 0x82, 0x80, 0xE8, 0xAF, 0xB7, 0xE7, 0xA1, 0xAE, 0xE8, 0xAE, 0xA4, 0xE2, 0x80, 0x9D, 0xEF, 0xBC, 0x8C, 0xE7, 0xBE, 0xA4, 0xE6, 0x88, 0x90, 0xE5, 0x91, 0x98, 0xE9, 0x9C, 0x80, 0xE7, 0xBE, 0xA4, 0xE4, 0xB8, 0xBB, 0xE6, 0x88, 0x96, 0xE7, 0xAE, 0xA1, 0xE7, 0x90, 0x86, 0xE5, 0x91, 0x98, 0xE7, 0xA1, 0xAE, 0xE8, 0xAE, 0xA4, 0xE6, 0x89, 0x8D, 0xE8, 0x83, 0xBD, 0xE9, 0x82, 0x80, 0xE8, 0xAF, 0xB7, 0xE6, 0x9C, 0x8B, 0xE5, 0x8F, 0x8B, 0xE8, 0xBF, 0x9B, 0xE7, 0xBE, 0xA4, 0xE3, 0x80, 0x82 :: nat]"

definition txt_noconfirm :: string where
  "txt_noconfirm = map char_of [0xE5, 0xB7, 0xB2, 0xE6, 0x81, 0xA2, 0xE5, 0xA4, 0x8D, 0xE9, 0xBB, 0x98, 0xE8, 0xAE, 0xA4, 0xE8, 0xBF, 0x9B, 0xE7, 0xBE, 0xA4, 0xE6, 0x96, 0xB9, 0xE5, 0xBC, 0x8F, 0xE3, 0x80, 0x82 :: nat]"

definition txt_unban :: string where
  "txt_unban = map char_of [0xE8, 0xA7, 0xA3, 0xE7, 0xA6, 0x81, 0xE4, 0xBA, 0x86, 0xE8, 0xAF, 0xA5, 0xE7, 0xBE, 0xA4 :: nat]"

definition txt_ban :: string where
  "txt_ban = map char_of [0xE5, 0xB0, 0x81, 0xE7, 0xA6, 0x81, 0xE4, 0xBA, 0x86, 0xE8, 0xAF, 0xA5, 0xE7, 0xBE, 0xA4 :: nat]"

definition txt_over :: string where
  "txt_over = map char_of [0xE7, 0xBE, 0xA4, 0xE6, 0x88, 0x90, 0xE5, 0x91, 0x98, 0xE8, 0xB6, 0x85, 0xE8, 0xBF, 0x87 :: nat]"

definition txt_super :: string where
  "txt_super = map char_of [0xEF, 0xBC, 0x8C, 0xE5, 0xB0, 0x86, 0xE8, 0x87, 0xAA, 0xE5, 0x8A, 0xA8, 0xE5, 0x8D, 0x87, 0xE7, 0xBA, 0xA7, 0xE4, 0xB8, 0xBA, 0xE8, 0xB6, 0x85, 0xE7, 0xBA, 0xA7, 0xE7, 0xBE, 0xA4 :: nat]"

definition txt_you :: string where
  "txt_you = map char_of [0xE4, 0xBD, 0xA0, 0xE8, 0xA2, 0xAB :: nat]"

definition txt_removed :: string where
  "txt_removed = map char_of [0xE7, 0xA7, 0xBB, 0xE9, 0x99, 0xA4, 0xE7, 0xBE, 0xA4, 0xE8, 0x81, 0x8A :: nat]"

definition txt_took :: string where
  "txt_took = map char_of [0xE5, 0xB0, 0x86 :: nat]"

definition txt_out :: string where
  "txt_out = map char_of [0xE7, 0xA7, 0xBB, 0xE9, 0x99, 0xA4, 0xE7, 0xBE, 0xA4, 0xE8, 0x81, 0x8A :: nat]"

definition txt_lq :: string where
  "txt_lq = map char_of [0xE2, 0x80, 0x9C :: nat]"

definition txt_via :: string where
  "txt_via = map char_of [0xE2, 0x80, 0x9D, 0xE9, 0x80, 0x9A, 0xE8, 0xBF, 0x87, 0xE2, 0x80, 0x9C :: nat]"

definition txt_qr :: string where
  "txt_qr = map char_of [0xE2, 0x80, 0x9D, 0xE7, 0x9A, 0x84, 0xE4, 0xBA, 0x8C, 0xE7, 0xBB, 0xB4, 0xE7, 0xA0, 0x81, 0xE5, 0x8A, 0xA0, 0xE5, 0x85, 0xA5, 0xE7, 0xBE, 0xA4, 0xE8, 0x81, 0x8A :: nat]"

definition txt_owner :: string where
  "txt_owner = map char_of [0xE2, 0x80, 0x9D, 0xE5, 0xB7, 0xB2, 0xE6, 0x88, 0x90, 0xE4, 0xB8, 0xBA, 0xE6, 0x96, 0xB0, 0xE7, 0xBE, 0xA4, 0xE4, 0xB8, 0xBB :: nat]"

definition txt_wants :: string where
  "txt_wants = map char_of [0xE2, 0x80, 0x9C, 0xE6, 0x83, 0xB3, 0xE9, 0x82, 0x80, 0xE8, 0xAF, 0xB7 :: nat]"

definition txt_friends :: string where
  "txt_friends = map char_of [0xE4, 0xBD, 0x8D, 0xE6, 0x9C, 0x8B, 0xE5, 0x8F, 0x8B, 0xE5, 0x8A, 0xA0, 0xE5, 0x85, 0xA5, 0xE7, 0xBE, 0xA4, 0xE8, 0x81, 0x8A :: nat]"

definition txt_quit :: string where
  "txt_quit = map char_of [0xE2, 0x80, 0x9C, 0xE9, 0x80, 0x80, 0xE5, 0x87, 0xBA, 0xE7, 0xBE, 0xA4, 0xE8, 0x81, 0x8A :: nat]"

definition txt_cancel :: string where
  "txt_cancel = map char_of [0xE9, 0x80, 0x9A, 0xE8, 0xAF, 0x9D, 0xE5, 0x8F, 0x96, 0xE6, 0xB6, 0x88 :: nat]"

definition txt_missed :: string where
  "txt_missed = map char_of [0xE6, 0x9C, 0xAA, 0xE6, 0x8E, 0xA5, 0xE5, 0x90, 0xAC :: nat]"

definition txt_refused :: string where
  "txt_refused = map char_of [0xE9, 0x80, 0x9A, 0xE8, 0xAF, 0x9D, 0xE6, 0x8B, 0x92, 0xE7, 0xBB, 0x9D :: nat]"

definition txt_duration :: string where
  "txt_duration = map char_of [0xE9, 0x80, 0x9A, 0xE8, 0xAF, 0x9D, 0xE6, 0x97, 0xB6, 0xE9, 0x95, 0xBF, 0xEF, 0xBC, 0x9A :: nat]"

lemmas txt_defs = txt_friend_def txt_invite_def txt_join_def txt_user_def txt_gone_def txt_name_def txt_nonotice_def txt_notice_def txt_mute_def txt_unmute_def txt_confirm_def txt_noconfirm_def txt_unban_def txt_ban_def txt_over_def txt_super_def txt_you_def txt_removed_def txt_took_def txt_out_def txt_lq_def txt_via_def txt_qr_def txt_owner_def txt_wants_def txt_friends_def txt_quit_def txt_cancel_def txt_missed_def txt_refused_def txt_duration_def

section \<open>Message settings\<close>

record Setting =
  sg_Receipt :: bool
  sg_NoUpdateConversation :: bool
  sg_Signal :: bool

definition encodeBool :: "bool \<Rightarrow> 8 word" where
  "encodeBool b = (if b then 1 else 0)"

definition Setting_ToUint8 :: "Setting \<Rightarrow> 8 word" where
  "Setting_ToUint8 s =
     push_bit 7 (encodeBool (sg_Receipt s)) OR push_bit 6 (encodeBool (sg_NoUpdateConversation s)) OR
     push_bit 5 (encodeBool (sg_Signal s))"

definition SettingFromUint8 :: "8 word \<Rightarrow> Setting" where
  "SettingFromUint8 v =
     \<lparr>sg_Receipt = drop_bit 7 v AND 1 > 0, sg_NoUpdateConversation = drop_bit 6 v AND 1 > 0, sg_Signal = drop_bit 5 v AND 1 > 0\<rparr>"

section \<open>Commands\<close>

definition CMDTyping :: string where "CMDTyping = ''typing''"
definition CMDFriendDeleted :: string where "CMDFriendDeleted = ''friendDeleted''"
definition CMDGroupMemberUpdate :: string where "CMDGroupMemberUpdate = ''memberUpdate''"
definition CMDChannelUpdate :: string where "CMDChannelUpdate = ''channelUpdate''"

abbreviation person_channel :: nat where "person_channel \<equiv> ChannelType_Uint8 ChannelTypePerson"
abbreviation group_channel :: nat where "group_channel \<equiv> ChannelType_Uint8 ChannelTypeGroup"

definition msg_send :: "MsgHeader \<Rightarrow> string \<Rightarrow> nat \<Rightarrow> (string \<times> json) list \<Rightarrow> MsgSendReq" where
  "msg_send header channelID channelType payload =
     \<lparr>sd_Header = header, sd_Setting = 0, sd_FromUID = [], sd_ChannelID = channelID, sd_ChannelType = channelType,
      sd_StreamNo = [], sd_Subscribers = None, sd_Payload = ToJson (jmap payload)\<rparr>"

definition header_once :: MsgHeader where
  "header_once = \<lparr>mh_NoPersist = 0, mh_RedDot = 0, mh_SyncOnce = 1\<rparr>"

definition header_red :: MsgHeader where
  "header_red = \<lparr>mh_NoPersist = 0, mh_RedDot = 1, mh_SyncOnce = 0\<rparr>"

record MsgCMDReq =
  mc_NoPersist :: bool
  mc_FromUID :: string
  mc_ChannelID :: string
  mc_ChannelType :: nat
  mc_Subscribers :: "string list option"
  mc_CMD :: string
  mc_Param :: "(string \<times> json) list option"

definition cmd_request :: "MsgCMDReq \<Rightarrow> MsgSendReq" where
  "cmd_request req =
     (let contentMap = [(''cmd'', JStr (mc_CMD req)), (''type'', JInt (ContentType_Int CMD))] @
            (case mc_Param req of None \<Rightarrow> [] | Some param \<Rightarrow> [(''param'', jmap param)]);
          setting = \<lparr>sg_Receipt = False, sg_NoUpdateConversation = True, sg_Signal = False\<rparr>
      in \<lparr>sd_Header = \<lparr>mh_NoPersist = (if mc_NoPersist req then 1 else 0), mh_RedDot = 0, mh_SyncOnce = 1\<rparr>,
          sd_Setting = unat (Setting_ToUint8 setting), sd_FromUID = mc_FromUID req, sd_ChannelID = mc_ChannelID req,
          sd_ChannelType = mc_ChannelType req, sd_StreamNo = [], sd_Subscribers = mc_Subscribers req,
          sd_Payload = ToJson (jmap contentMap)\<rparr>)"

definition SendCMD :: "im_context \<Rightarrow> MsgCMDReq \<Rightarrow> unit im" where
  "SendCMD c req = SendMessage c (cmd_request req)"

definition SendTyping :: "im_context \<Rightarrow> string \<Rightarrow> nat \<Rightarrow> string \<Rightarrow> unit im" where
  "SendTyping c channelID channelType fromUID =
     SendCMD c \<lparr>mc_NoPersist = True, mc_FromUID = [], mc_ChannelID = channelID, mc_ChannelType = channelType, mc_Subscribers = None,
       mc_CMD = CMDTyping,
       mc_Param = Some [(''from_uid'', JStr fromUID), (''channel_id'', JStr channelID), (''channel_type'', JInt (int channelType))]\<rparr>"

record MsgRevokeReq =
  rv_FromUID :: string
  rv_Operator :: string
  rv_OperatorName :: string
  rv_ChannelID :: string
  rv_ChannelType :: nat
  rv_MessageID :: int

definition SendRevoke :: "im_context \<Rightarrow> MsgRevokeReq \<Rightarrow> unit im" where
  "SendRevoke c req =
     SendCMD c \<lparr>mc_NoPersist = False, mc_FromUID = rv_FromUID req, mc_ChannelID = rv_ChannelID req, mc_ChannelType = rv_ChannelType req,
       mc_Subscribers = None, mc_CMD = ''messageRevoke'', mc_Param = Some [(''message_id'', JStr (int_dec (rv_MessageID req)))]\<rparr>"

section \<open>Friends\<close>

record MsgFriendApplyReq =
  fa_ApplyUID :: string
  fa_ApplyName :: string
  fa_ToUID :: string
  fa_Remark :: string
  fa_Token :: string

definition SendFriendApply :: "im_context \<Rightarrow> MsgFriendApplyReq \<Rightarrow> unit im" where
  "SendFriendApply c req =
     SendMessage c (msg_send header_once (fa_ToUID req) person_channel
       [(''apply_uid'', JStr (fa_ApplyUID req)), (''apply_name'', JStr (fa_ApplyName req)), (''to_uid'', JStr (fa_ToUID req)),
        (''remark'', JStr (fa_Remark req)), (''token'', JStr (fa_Token req)), (''type'', JInt (ContentType_Int FriendApply))])"

record MsgFriendSureReq =
  fs_ToUID :: string
  fs_FromUID :: string
  fs_FromName :: string

definition SendFriendSure :: "im_context \<Rightarrow> MsgFriendSureReq \<Rightarrow> unit im" where
  "SendFriendSure c req =
     SendMessage c (msg_send header_once (fs_ToUID req) person_channel
       [(''sure_uid'', JStr (fs_FromUID req)), (''sure_name'', JStr (fs_FromName req)), (''to_uid'', JStr (fs_ToUID req)),
        (''content'', JStr (txt_friend)),
        (''type'', JInt (ContentType_Int FriendSure))])"

record MsgFriendDeleteReq =
  fd_FromUID :: string
  fd_ToUID :: string

definition SendFriendDelete :: "im_context \<Rightarrow> MsgFriendDeleteReq \<Rightarrow> unit im" where
  "SendFriendDelete c req =
     SendCMD c \<lparr>mc_NoPersist = False, mc_FromUID = [], mc_ChannelID = fd_FromUID req, mc_ChannelType = person_channel, mc_Subscribers = None,
       mc_CMD = CMDFriendDeleted, mc_Param = Some [(''uid'', JStr (fd_ToUID req))]\<rparr>"

section \<open>Channel updates\<close>

definition SendChannelUpdateWithFromUID :: "im_context \<Rightarrow> ChannelReq \<Rightarrow> ChannelReq \<Rightarrow> string \<Rightarrow> unit im" where
  "SendChannelUpdateWithFromUID c channel updateChannel fromUID =
     SendCMD c \<lparr>mc_NoPersist = False, mc_FromUID = fromUID, mc_ChannelID = ch_ChannelID channel, mc_ChannelType = ch_ChannelType channel,
       mc_Subscribers = None, mc_CMD = CMDChannelUpdate,
       mc_Param = Some [(''channel_id'', JStr (ch_ChannelID updateChannel)), (''channel_type'', JInt (int (ch_ChannelType updateChannel)))]\<rparr>"

definition SendChannelUpdate :: "im_context \<Rightarrow> ChannelReq \<Rightarrow> ChannelReq \<Rightarrow> unit im" where
  "SendChannelUpdate c channel updateChannel = SendChannelUpdateWithFromUID c channel updateChannel []"

definition SendChannelUpdateToGroup :: "im_context \<Rightarrow> string \<Rightarrow> unit im" where
  "SendChannelUpdateToGroup c groupNo =
     (let channelReq = \<lparr>ch_ChannelID = groupNo, ch_ChannelType = group_channel\<rparr>
      in SendChannelUpdateWithFromUID c channelReq channelReq [])"

definition SendChannelUpdateToUser :: "im_context \<Rightarrow> string \<Rightarrow> ChannelReq \<Rightarrow> unit im" where
  "SendChannelUpdateToUser c uid channel =
     SendChannelUpdateWithFromUID c \<lparr>ch_ChannelID = uid, ch_ChannelType = person_channel\<rparr> channel []"

section \<open>Groups\<close>

record UserBaseVo =
  ub_UID :: string
  ub_Name :: string

definition json_UserBaseVo :: "UserBaseVo \<Rightarrow> json" where
  "json_UserBaseVo u = JObj [(''uid'', JStr (ub_UID u)), (''name'', JStr (ub_Name u))]"

definition json_members_ptr :: "UserBaseVo option list \<Rightarrow> json" where
  "json_members_ptr ms = JArr (map (\<lambda>m. case m of None \<Rightarrow> JNull | Some u \<Rightarrow> json_UserBaseVo u) ms)"

text \<open>The placeholders \<^verbatim>\<open>{0},{1},...\<close> for the members.\<close>

definition placeholder :: "nat \<Rightarrow> string" where
  "placeholder i = CHR 0x7B # nat_dec i @ [CHR 0x7D]"

definition placeholders :: "nat \<Rightarrow> string" where
  "placeholders n = join '','' (map placeholder [0..<n])"

record MsgGroupCreateReq =
  gc_Creator :: string
  gc_CreatorName :: string
  gc_GroupNo :: string
  gc_Version :: int
  gc_Members :: "UserBaseVo option list option"

text \<open>The members other than the creator.\<close>

fun other_members :: "string \<Rightarrow> UserBaseVo option list \<Rightarrow> UserBaseVo option list go" where
  "other_members creator [] = Ret []"
| "other_members creator (None # ms) = Panic nil_deref"
| "other_members creator (Some m # ms) =
     (if ub_UID m = creator then other_members creator ms
      else go_bind (other_members creator ms) (\<lambda>rest. Ret (Some m # rest)))"

definition SendGroupCreate :: "im_context \<Rightarrow> MsgGroupCreateReq \<Rightarrow> unit im go" where
  "SendGroupCreate c req =
     (let members = (case gc_Members req of None \<Rightarrow> [] | Some ms \<Rightarrow> ms)
      in go_bind (other_members (gc_Creator req) members) (\<lambda>newMembers.
           let content = gc_CreatorName req @ txt_invite @ placeholders (length newMembers) @ txt_join
           in Ret (SendMessage c (msg_send header_red (gc_GroupNo req) group_channel
                [(''creator'', JStr (gc_Creator req)), (''creator_name'', JStr (gc_CreatorName req)), (''content'', JStr content),
                 (''version'', JInt (gc_Version req)), (''extra'', json_members_ptr newMembers),
                 (''type'', JInt (ContentType_Int GroupCreate))]))))"

definition SendUnableAddDestoryAccountInGroup :: "im_context \<Rightarrow> MsgGroupCreateReq \<Rightarrow> unit im go" where
  "SendUnableAddDestoryAccountInGroup c req =
     (let members = (case gc_Members req of None \<Rightarrow> [] | Some ms \<Rightarrow> ms)
      in go_bind (other_members (gc_Creator req) members) (\<lambda>newMembers.
           let content = txt_user @ placeholders (length newMembers) @ txt_gone
           in Ret (SendMessage c (msg_send header_red (gc_GroupNo req) group_channel
                [(''content'', JStr content), (''extra'', json_members_ptr newMembers), (''type'', JInt (ContentType_Int Tip))]))))"

record MsgGroupUpdateReq =
  gu_GroupNo :: string
  gu_Operator :: string
  gu_OperatorName :: string
  gu_Attr :: string
  gu_Data :: "(string \<times> string) list option"

definition data_get :: "(string \<times> string) list option \<Rightarrow> string \<Rightarrow> string" where
  "data_get m k = (case m of None \<Rightarrow> [] | Some kvs \<Rightarrow> (case map_of kvs k of None \<Rightarrow> [] | Some v \<Rightarrow> v))"

definition group_update_content :: "string \<Rightarrow> (string \<times> string) list option \<Rightarrow> string" where
  "group_update_content attr data =
     placeholder 0 @
     (if attr = ''name'' then txt_name @ data_get data ''name'' @ [CHR 0x22]
      else if attr = ''notice'' then
        (if data_get data ''notice'' = [] then txt_nonotice else txt_notice @ data_get data ''notice'' @ [CHR 0x22])
      else if attr = ''forbidden'' then (if data_get data ''forbidden'' = ''1'' then txt_mute else txt_unmute)
      else if attr = ''invite'' then (if data_get data ''invite'' = ''1'' then txt_confirm else txt_noconfirm)
      else if attr = ''status'' then (if data_get data ''status'' = ''1'' then txt_unban else txt_ban)
      else [])"

definition SendGroupUpdate :: "im_context \<Rightarrow> MsgGroupUpdateReq \<Rightarrow> unit im" where
  "SendGroupUpdate c req =
     SendMessage c (msg_send header_red (gu_GroupNo req) group_channel
       [(''content'', JStr (group_update_content (gu_Attr req) (gu_Data req))),
        (''extra'', JArr [json_UserBaseVo \<lparr>ub_UID = gu_Operator req, ub_Name = gu_OperatorName req\<rparr>]),
        (''data'', case gu_Data req of None \<Rightarrow> JNull | Some kvs \<Rightarrow> jmap (map (map_prod id JStr) kvs)),
        (''type'', JInt (ContentType_Int GroupUpdate))])"

record MsgGroupMemberAddReq =
  ga_Operator :: string
  ga_OperatorName :: string
  ga_GroupNo :: string
  ga_Members :: "UserBaseVo option list option"

definition SendGroupMemberAdd :: "im_context \<Rightarrow> MsgGroupMemberAddReq \<Rightarrow> unit im" where
  "SendGroupMemberAdd c req =
     (let members = (case ga_Members req of None \<Rightarrow> [] | Some ms \<Rightarrow> ms);
          content = ga_OperatorName req @ txt_invite @ placeholders (length members) @ txt_join
      in SendMessage c (msg_send header_red (ga_GroupNo req) group_channel
           [(''from_uid'', JStr (ga_Operator req)), (''from_name'', JStr (ga_OperatorName req)), (''content'', JStr content),
            (''extra'', json_members_ptr members), (''type'', JInt (ContentType_Int GroupMemberAdd))]))"

definition SendGroupUpgrade :: "im_context \<Rightarrow> string \<Rightarrow> unit im" where
  "SendGroupUpgrade c groupNo =
     SendMessage c (msg_send header_red groupNo group_channel
       [(''content'', JStr (txt_over @ int_dec (im_GroupUpgradeWhenMemberCount c) @ txt_super)),
        (''type'', JInt (ContentType_Int GroupUpgrade))])"

record MsgGroupMemberRemoveReq =
  gr_Operator :: string
  gr_OperatorName :: string
  gr_GroupNo :: string
  gr_Members :: "UserBaseVo option list option"

fun member_uids :: "UserBaseVo option list \<Rightarrow> string list go" where
  "member_uids [] = Ret []"
| "member_uids (None # ms) = Panic nil_deref"
| "member_uids (Some m # ms) = go_bind (member_uids ms) (\<lambda>rest. Ret (ub_UID m # rest))"

definition be_remove_request :: "MsgGroupMemberRemoveReq \<Rightarrow> string list \<Rightarrow> MsgSendReq" where
  "be_remove_request req subscribers =
     (let setting = \<lparr>sg_Receipt = False, sg_NoUpdateConversation = True, sg_Signal = False\<rparr>
      in (msg_send header_red (gr_GroupNo req) group_channel
            [(''content'', JStr (txt_you @ placeholder 0 @ txt_removed)), (''visibles'', JArr (map JStr subscribers)),
             (''extra'', JArr [json_UserBaseVo \<lparr>ub_UID = gr_Operator req, ub_Name = gr_OperatorName req\<rparr>]),
             (''type'', JInt (ContentType_Int GroupMemberBeRemove))])
          \<lparr>sd_Setting := unat (Setting_ToUint8 setting), sd_Subscribers := Some subscribers\<rparr>)"

definition SendGroupMemberBeRemove :: "im_context \<Rightarrow> MsgGroupMemberRemoveReq \<Rightarrow> unit im go" where
  "SendGroupMemberBeRemove c req =
     (let members = (case gr_Members req of None \<Rightarrow> [] | Some ms \<Rightarrow> ms)
      in if length members \<le> 0 then Ret (Inr (), [])
         else go_bind (member_uids members) (\<lambda>subscribers. Ret (SendMessage c (be_remove_request req subscribers))))"

definition SendGroupMemberRemove :: "im_context \<Rightarrow> MsgGroupMemberRemoveReq \<Rightarrow> unit im" where
  "SendGroupMemberRemove c req =
     (let members = (case gr_Members req of None \<Rightarrow> [] | Some ms \<Rightarrow> ms);
          content = gr_OperatorName req @ txt_took @ placeholders (length members) @ txt_out
      in SendMessage c (msg_send header_red (gr_GroupNo req) group_channel
           [(''content'', JStr content), (''extra'', json_members_ptr members), (''type'', JInt (ContentType_Int GroupMemberRemove))]))"

record MsgGroupMemberScanJoin =
  gj_GroupNo :: string
  gj_Generator :: string
  gj_GeneratorName :: string
  gj_Scaner :: string
  gj_ScanerName :: string

definition SendGroupMemberScanJoin :: "im_context \<Rightarrow> MsgGroupMemberScanJoin \<Rightarrow> unit im" where
  "SendGroupMemberScanJoin c req =
     SendMessage c (msg_send header_red (gj_GroupNo req) group_channel
       [(''content'', JStr (txt_lq @ placeholder 0 @ txt_via @ placeholder 1 @ txt_qr)),
        (''extra'', JArr [json_UserBaseVo \<lparr>ub_UID = gj_Scaner req, ub_Name = gj_ScanerName req\<rparr>,
           json_UserBaseVo \<lparr>ub_UID = gj_Generator req, ub_Name = gj_GeneratorName req\<rparr>]),
        (''type'', JInt (ContentType_Int GroupMemberScanJoin))])"

record MsgGroupTransferGrouper =
  gt_GroupNo :: string
  gt_OldGrouper :: string
  gt_OldGrouperName :: string
  gt_NewGrouper :: string
  gt_NewGrouperName :: string

definition SendGroupTransferGrouper :: "im_context \<Rightarrow> MsgGroupTransferGrouper \<Rightarrow> unit im" where
  "SendGroupTransferGrouper c req =
     SendMessage c (msg_send header_red (gt_GroupNo req) group_channel
       [(''content'', JStr (txt_lq @ placeholder 0 @ txt_owner)),
        (''extra'', JArr [json_UserBaseVo \<lparr>ub_UID = gt_NewGrouper req, ub_Name = gt_NewGrouperName req\<rparr>]),
        (''type'', JInt (ContentType_Int GroupTransferGrouper))])"

record MsgGroupMemberInviteReq =
  gi_GroupNo :: string
  gi_InviteNo :: string
  gi_Inviter :: string
  gi_InviterName :: string
  gi_Num :: int
  gi_Subscribers :: "string list option"

definition invite_request :: "MsgGroupMemberInviteReq \<Rightarrow> MsgSendReq" where
  "invite_request req =
     msg_send header_red (gi_GroupNo req) group_channel
       [(''content'', JStr (txt_lq @ placeholder 0 @ txt_wants @ int_dec (gi_Num req) @ txt_friends)),
        (''extra'', JArr [json_UserBaseVo \<lparr>ub_UID = gi_Inviter req, ub_Name = gi_InviterName req\<rparr>]),
        (''invite_no'', JStr (gi_InviteNo req)), (''type'', JInt (ContentType_Int GroupMemberInvite)),
        (''visibles'', json_strs (gi_Subscribers req))]"

definition SendGroupMemberInviteReq :: "im_context \<Rightarrow> MsgGroupMemberInviteReq \<Rightarrow> unit im" where
  "SendGroupMemberInviteReq c req = SendMessage c (invite_request req)"

definition exit_request :: "string \<Rightarrow> string \<Rightarrow> string \<Rightarrow> string list option \<Rightarrow> MsgSendReq" where
  "exit_request groupNo uid name visibleUids =
     msg_send header_red groupNo group_channel
       [(''content'', JStr (txt_lq @ placeholder 0 @ txt_quit)), (''type'', JInt (ContentType_Int GroupMemberQuit)),
        (''extra'', JArr [json_UserBaseVo \<lparr>ub_UID = uid, ub_Name = name\<rparr>]), (''visibles'', json_strs visibleUids)]"

definition SendGroupExit :: "im_context \<Rightarrow> string \<Rightarrow> string \<Rightarrow> string \<Rightarrow> string list option \<Rightarrow> unit im" where
  "SendGroupExit c groupNo uid name visibleUids = SendMessage c (exit_request groupNo uid name visibleUids)"

definition SendGroupMemberUpdate :: "im_context \<Rightarrow> string \<Rightarrow> unit im" where
  "SendGroupMemberUpdate c groupNo =
     SendCMD c \<lparr>mc_NoPersist = False, mc_FromUID = [], mc_ChannelID = groupNo, mc_ChannelType = group_channel, mc_Subscribers = None,
       mc_CMD = CMDGroupMemberUpdate, mc_Param = Some [(''group_no'', JStr groupNo)]\<rparr>"

section \<open>Personal messages\<close>

record PersonalMsgOptions =
  po_Header :: MsgHeader
  po_Setting :: nat
  po_StreamNo :: string
  po_Subscribers :: "string list option"

text \<open>A Go map as an association list with distinct keys.\<close>

definition map_put :: "string \<Rightarrow> json \<Rightarrow> (string \<times> json) list \<Rightarrow> (string \<times> json) list" where
  "map_put k v m = (k, v) # filter (\<lambda>(k', _). k' \<noteq> k) m"

definition map_delete :: "string \<Rightarrow> (string \<times> json) list \<Rightarrow> (string \<times> json) list" where
  "map_delete k m = filter (\<lambda>(k', _). k' \<noteq> k) m"

definition NewPersonalMsgSendReq ::
  "string \<Rightarrow> string \<Rightarrow> (string \<times> json) list option \<Rightarrow> string \<Rightarrow> PersonalMsgOptions \<Rightarrow> MsgSendReq" where
  "NewPersonalMsgSendReq channelID fromUID payload senderSpaceID opts =
     (let payload = (case payload of None \<Rightarrow> [] | Some p \<Rightarrow> p);
          payload = (if senderSpaceID \<noteq> [] then map_put ''space_id'' (JStr senderSpaceID) payload
                     else map_delete ''space_id'' payload)
      in \<lparr>sd_Header = po_Header opts, sd_Setting = po_Setting opts, sd_FromUID = fromUID, sd_ChannelID = channelID,
          sd_ChannelType = person_channel, sd_StreamNo = po_StreamNo opts, sd_Subscribers = po_Subscribers opts,
          sd_Payload = ToJson (jmap payload)\<rparr>)"

section \<open>Calls\<close>

definition pad2 :: "int \<Rightarrow> string" where
  "pad2 n = (if n < 10 then CHR ''0'' # int_dec n else int_dec n)"

definition formatSecond :: "int \<Rightarrow> string" where
  "formatSecond t =
     (let second = rem t 60; min = quo t 60 in pad2 min @ '':'' @ pad2 second)"

record P2pRtcMessageReq =
  rt_FromUID :: string
  rt_ToUID :: string
  rt_CallType :: int
  rt_ResultType :: int
  rt_Second :: int

definition rtc_content :: "int \<Rightarrow> int \<Rightarrow> string" where
  "rtc_content resultType second =
     (if resultType = RTCResultTypeCancel then txt_cancel
      else if resultType = RTCResultTypeMissed then txt_missed
      else if resultType = RTCResultTypeRefuse then txt_refused
      else if resultType = RTCResultTypeHangup then txt_duration @ formatSecond second
      else [])"

definition SendRTCCallResult :: "im_context \<Rightarrow> P2pRtcMessageReq \<Rightarrow> unit im" where
  "SendRTCCallResult c req =
     SendMessage c ((msg_send header_red (rt_ToUID req) person_channel
       [(''type'', JInt (ContentType_Int VideoCallResult)), (''content'', JStr (rtc_content (rt_ResultType req) (rt_Second req))),
        (''second'', JInt (rt_Second req)), (''call_type'', JInt (rt_CallType req)), (''result_type'', JInt (rt_ResultType req))])
       \<lparr>sd_FromUID := rt_FromUID req\<rparr>)"

section \<open>Settings\<close>

text \<open>
  The setting byte holds the three flags in its upper bits: reading it back gives the flags, and the flags of a byte
  give its upper three bits.
\<close>

theorem Setting_roundtrip:
  "SettingFromUint8 (Setting_ToUint8 s) = s \<and> Setting_ToUint8 (SettingFromUint8 v) = v AND 0xE0"
proof
  show "SettingFromUint8 (Setting_ToUint8 s) = s"
    by (cases s; cases "sg_Receipt s"; cases "sg_NoUpdateConversation s"; cases "sg_Signal s")
      (simp_all add: SettingFromUint8_def Setting_ToUint8_def encodeBool_def)
  have b: "drop_bit n v AND 1 > 0 \<longleftrightarrow> bit v n" for n
    by (simp add: and_one_eq mod2_eq_if even_drop_bit_iff_not_bit word_greater_zero_iff)
  show "Setting_ToUint8 (SettingFromUint8 v) = v AND 0xE0"
  proof (rule bit_word_eqI)
    fix n
    assume "n < LENGTH(8)"
    then have "n \<in> {0, 1, 2, 3, 4, 5, 6, 7}" by auto
    then show "bit (Setting_ToUint8 (SettingFromUint8 v)) n \<longleftrightarrow> bit (v AND 0xE0) n"
      by (elim insertE emptyE)
        (simp_all add: SettingFromUint8_def Setting_ToUint8_def encodeBool_def b bit_or_iff bit_and_iff bit_push_bit_iff)
  qed
qed

section \<open>What is sent\<close>

lemma utf8_valid_placeholder [simp]: "utf8_valid (placeholder i)"
  unfolding placeholder_def using nat_dec_digits digits_ascii by (fastforce intro!: utf8_valid_ascii)

lemma utf8_valid_txts [simp]: "utf8_valid txt_you" "utf8_valid txt_removed" "utf8_valid txt_lq" "utf8_valid txt_quit"
  "utf8_valid txt_wants" "utf8_valid txt_friends"
  by code_simp+

text \<open>What the service reads as the payload of a request to send a message.\<close>

definition sent_payload :: "rest_Request \<Rightarrow> string option" where
  "sent_payload rq =
     (case json_Unmarshal (rq_Body rq) of
        Some (JObj kvs) \<Rightarrow> (case obj_get kvs ''payload'' of Some v \<Rightarrow> dec_bytes v | None \<Rightarrow> None)
      | _ \<Rightarrow> None)"

lemma SendMessage_request:
  "snd (SendMessage c req) =
     [\<lparr>rq_Method = ''POST'', rq_BaseURL = im_APIURL c @ ''/message/send'', rq_QueryParams = [],
       rq_Body = ToJson (json_MsgSendReq req), rq_Headers = wkIMManagerTokenHeader c\<rparr>]"
  by (auto simp: SendMessage_def SendMessageWithResult_def network_Post_def network_RequestBoy_def Let_def
      split: sum.splits option.splits)

definition send_ok :: "MsgSendReq \<Rightarrow> bool" where
  "send_ok req \<longleftrightarrow> utf8_valid (sd_FromUID req) \<and> utf8_valid (sd_ChannelID req) \<and> utf8_valid (sd_StreamNo req) \<and>
     (\<forall>us. sd_Subscribers req = Some us \<longrightarrow> (\<forall>u\<in>set us. utf8_valid u))"

lemma json_ok_MsgSendReq: "send_ok req \<Longrightarrow> json_ok (json_MsgSendReq req) json_max_depth"
  by (auto simp: send_ok_def json_MsgSendReq_def json_MsgHeader_def json_list_def json_max_depth_def list_all_iff
      intro!: utf8_valid_ascii split: option.splits)

lemma sent_payload_SendMessage:
  assumes "send_ok req" "snd (SendMessage c req) = [rq]"
  shows "sent_payload rq = Some (sd_Payload req)"
proof -
  have "rq_Body rq = json_print (json_MsgSendReq req)" using assms(2) by (auto simp: SendMessage_request ToJson_def)
  then have "json_Unmarshal (rq_Body rq) = Some (json_MsgSendReq req)"
    using json_Unmarshal_print [OF json_ok_MsgSendReq [OF assms(1)]] by simp
  then show ?thesis by (simp add: sent_payload_def json_MsgSendReq_def obj_get_def)
qed

definition delivers_to :: "string list \<Rightarrow> unit im \<Rightarrow> bool" where
  "delivers_to us r \<longleftrightarrow>
     (\<exists>rq payload. snd r = [rq] \<and> sent_payload rq = Some payload \<and> ExtractVisibility payload = Inr ([], Some us))"

definition uids_ok :: "string list \<Rightarrow> bool" where
  "uids_ok us \<longleftrightarrow> us \<noteq> [] \<and> (\<forall>u\<in>set us. u \<noteq> [] \<and> utf8_valid u)"

lemma delivers_toI:
  assumes "send_ok req" "sd_Payload req = ToJson (jmap kvs)" "json_ok (jmap kvs) json_max_depth" "distinct (map fst kvs)"
    and "map_of kvs ''visibles'' = Some (JArr (map JStr us))" "map_of kvs ''space_id'' = None" "uids_ok us"
  shows "delivers_to us (SendMessage c req)"
proof -
  obtain rq where rq: "snd (SendMessage c req) = [rq]" by (simp add: SendMessage_request)
  have "valid_uids (map JStr us) = us" using assms(7) by (intro valid_uids_JStr) (simp add: uids_ok_def)
  then have "ExtractVisibility (sd_Payload req) = Inr ([], Some us)"
    using assms(5-7) by (simp add: assms(2) ExtractVisibility_ToJson [OF assms(3,4)] uids_ok_def)
  with rq sent_payload_SendMessage [OF assms(1) rq] show ?thesis by (auto simp: delivers_to_def)
qed

lemma json_ok_user: "utf8_valid uid \<Longrightarrow> utf8_valid name \<Longrightarrow> 0 < d \<Longrightarrow> json_ok (json_UserBaseVo \<lparr>ub_UID = uid, ub_Name = name\<rparr>) d"
  by (simp add: json_UserBaseVo_def utf8_valid_ascii)

lemma json_ok_uids: "uids_ok us \<Longrightarrow> list_all (\<lambda>f. f d) (map (json_ok \<circ> JStr) us)"
  by (auto simp: uids_ok_def list_all_iff)

lemma member_uids_Some: "member_uids (map Some ms) = Ret (map ub_UID ms)"
  by (induction ms) simp_all

lemma sd_msg_send [simp]:
  "sd_Payload (msg_send h ch t kvs) = ToJson (jmap kvs)"
  "send_ok (msg_send h ch t kvs) \<longleftrightarrow> utf8_valid ch"
  "send_ok ((msg_send h ch t kvs)\<lparr>sd_Setting := x, sd_Subscribers := Some us\<rparr>) \<longleftrightarrow> utf8_valid ch \<and> (\<forall>u\<in>set us. utf8_valid u)"
  by (simp_all add: msg_send_def send_ok_def)

lemmas payload_ok = json_ok_jmap json_max_depth_def json_ok_user json_ok_uids json_list_def utf8_valid_ascii

lemma be_remove_delivers:
  assumes "uids_ok us" "utf8_valid (gr_GroupNo req)" "utf8_valid (gr_Operator req)" "utf8_valid (gr_OperatorName req)"
  shows "delivers_to us (SendMessage c (be_remove_request req us))"
  unfolding be_remove_request_def Let_def
  by (rule delivers_toI [where kvs =
        "[(''content'', JStr (txt_you @ placeholder 0 @ txt_removed)), (''visibles'', JArr (map JStr us)),
          (''extra'', JArr [json_UserBaseVo \<lparr>ub_UID = gr_Operator req, ub_Name = gr_OperatorName req\<rparr>]),
          (''type'', JInt (ContentType_Int GroupMemberBeRemove))]"])
    (use assms in \<open>auto simp: payload_ok uids_ok_def intro!: utf8_valid_append\<close>)

lemma invite_delivers:
  assumes "uids_ok us" "gi_Subscribers req = Some us" "utf8_valid (gi_GroupNo req)" "utf8_valid (gi_InviteNo req)"
    "utf8_valid (gi_Inviter req)" "utf8_valid (gi_InviterName req)"
  shows "delivers_to us (SendGroupMemberInviteReq c req)"
  unfolding SendGroupMemberInviteReq_def invite_request_def
  by (rule delivers_toI [OF _ sd_msg_send(1)]) (use assms in \<open>auto simp: payload_ok intro!: utf8_valid_append\<close>)

lemma exit_delivers:
  assumes "uids_ok us" "utf8_valid groupNo" "utf8_valid uid" "utf8_valid name"
  shows "delivers_to us (SendGroupExit c groupNo uid name (Some us))"
  unfolding SendGroupExit_def exit_request_def
  by (rule delivers_toI [OF _ sd_msg_send(1)]) (use assms in \<open>auto simp: payload_ok intro!: utf8_valid_append\<close>)

text \<open>
  C30: The three messages meant for some members only reach the search index with exactly these members as their white
  list: what \<^verbatim>\<open>ExtractVisibility\<close> reads from the payload bytes that the service decodes from the request is the list
  of removed members, of the invitation's subscribers, and of the members who may see the exit; names and texts may
  contain anything that is valid UTF-8.
\<close>

theorem directed_messages_visible:
  assumes "gr_Members removal = Some (map Some ms)" "uids_ok (map ub_UID ms)"
    and "utf8_valid (gr_GroupNo removal)" "utf8_valid (gr_Operator removal)" "utf8_valid (gr_OperatorName removal)"
    and "gi_Subscribers invite = Some us" "uids_ok us"
    and "utf8_valid (gi_GroupNo invite)" "utf8_valid (gi_InviteNo invite)" "utf8_valid (gi_Inviter invite)" "utf8_valid (gi_InviterName invite)"
    and "utf8_valid groupNo" "utf8_valid uid" "utf8_valid name"
  shows "(\<exists>r. SendGroupMemberBeRemove c removal = Ret r \<and> delivers_to (map ub_UID ms) r) \<and>
    delivers_to us (SendGroupMemberInviteReq c invite) \<and>
    delivers_to us (SendGroupExit c groupNo uid name (Some us))"
proof (intro conjI)
  have "ms \<noteq> []" using assms(2) by (auto simp: uids_ok_def)
  then show "\<exists>r. SendGroupMemberBeRemove c removal = Ret r \<and> delivers_to (map ub_UID ms) r"
    using be_remove_delivers [OF assms(2-5)] by (simp add: SendGroupMemberBeRemove_def assms(1) member_uids_Some)
qed (use invite_delivers exit_delivers assms in blast)+

definition demo_im :: im_context where
  "demo_im = \<lparr>im_APIURL = ''http://im'', im_ManagerToken = ''t'', im_Test = False, im_GroupUpgradeWhenMemberCount = 1000,
     im_API = (\<lambda>_. Inr \<lparr>rs_StatusCode = 200, rs_Body = [CHR 0x7B, CHR 0x7D]\<rparr>), im_gjson_Int = (\<lambda>_ _ _. 0), im_gjson_String = (\<lambda>_ _ _. [])\<rparr>"

theorem directed_messages_visible_witness:
  "delivers_to [''u1''] (SendGroupExit demo_im ''g'' ''u2'' ''Bob'' (Some [''u1'']))"
  using directed_messages_visible [of
      "\<lparr>gr_Operator = ''o'', gr_OperatorName = ''O'', gr_GroupNo = ''g'', gr_Members = Some [Some \<lparr>ub_UID = ''u3'', ub_Name = ''C''\<rparr>]\<rparr>"
      "[\<lparr>ub_UID = ''u3'', ub_Name = ''C''\<rparr>]"
      "\<lparr>gi_GroupNo = ''g'', gi_InviteNo = ''1'', gi_Inviter = ''o'', gi_InviterName = ''O'', gi_Num = 1, gi_Subscribers = Some [''u1'']\<rparr>"
      "[''u1'']" "''g''" "''u2''" "''Bob''" demo_im]
  by (simp add: uids_ok_def utf8_valid_ascii)

text \<open>
  Nothing checks that the invitation and the exit have such a list: a \<^verbatim>\<open>nil\<close> slice is sent as \<^verbatim>\<open>null\<close>, which the
  index rejects.
\<close>

lemma exit_without_list:
  assumes "utf8_valid uid" "utf8_valid name"
  shows "ExtractVisibility (sd_Payload (exit_request groupNo uid name None)) = Inl VisiblesNull"
proof -
  have "json_ok (jmap [(''content'', JStr (txt_lq @ placeholder 0 @ txt_quit)), (''type'', JInt (ContentType_Int GroupMemberQuit)),
        (''extra'', JArr [json_UserBaseVo \<lparr>ub_UID = uid, ub_Name = name\<rparr>]), (''visibles'', json_strs None)]) json_max_depth"
    using assms by (auto simp: payload_ok intro!: utf8_valid_append)
  from ExtractVisibility_ToJson [OF this] show ?thesis
    by (simp add: exit_request_def msg_send_def json_list_def)
qed

text \<open>
  The space of a personal message is the sender's: whatever \<^verbatim>\<open>space_id\<close> the payload of the client carries, under any
  of its values and types, the space that \<^verbatim>\<open>ExtractVisibility\<close> reads from the bytes sent is the one of the server,
  and empty if the server has none.
\<close>

theorem NewPersonalMsgSendReq_space:
  assumes "json_ok (jmap p) json_max_depth" "distinct (map fst p)" "utf8_valid senderSpaceID"
    and "ExtractVisibility (sd_Payload (NewPersonalMsgSendReq channelID fromUID (Some p) senderSpaceID opts)) = Inr (space, vis)"
  shows "space = senderSpaceID"
proof -
  define q where "q = (if senderSpaceID \<noteq> [] then map_put ''space_id'' (JStr senderSpaceID) p else map_delete ''space_id'' p)"
  have keys: "distinct (map fst (map_delete ''space_id'' p))" "''space_id'' \<notin> fst ` set (map_delete ''space_id'' p)"
    using assms(2) by (auto simp: map_delete_def distinct_map_filter)
  then have d: "distinct (map fst q)"
    by (auto simp: q_def map_put_def map_delete_def)
  have "json_ok (jmap q) json_max_depth"
    using assms(1,3) by (auto simp: json_ok_jmap q_def map_put_def map_delete_def utf8_valid_ascii)
  moreover have "sd_Payload (NewPersonalMsgSendReq channelID fromUID (Some p) senderSpaceID opts) = ToJson (jmap q)"
    by (simp add: NewPersonalMsgSendReq_def q_def Let_def)
  moreover have "map_of q ''space_id'' = (if senderSpaceID \<noteq> [] then Some (JStr senderSpaceID) else None)"
    using keys(2) by (auto simp: q_def map_put_def map_of_eq_None_iff)
  ultimately show ?thesis
    using assms(4) ExtractVisibility_ToJson [OF _ d] by (auto simp: Let_def split: option.splits json.splits if_splits)
qed

theorem NewPersonalMsgSendReq_space_witness:
  "\<exists>vis. ExtractVisibility (sd_Payload (NewPersonalMsgSendReq ''u2'' ''u1'' (Some [(''content'', JStr ''hi''), (''space_id'', JStr ''evil'')])
     ''s1'' \<lparr>po_Header = header_once, po_Setting = 0, po_StreamNo = [], po_Subscribers = None\<rparr>)) = Inr (''s1'', vis)"
proof -
  let ?p = "[(''content'', JStr ''hi''), (''space_id'', JStr ''evil'')]"
  let ?o = "\<lparr>po_Header = header_once, po_Setting = 0, po_StreamNo = [], po_Subscribers = None\<rparr>"
  let ?x = "ExtractVisibility (sd_Payload (NewPersonalMsgSendReq ''u2'' ''u1'' (Some ?p) ''s1'' ?o))"
  have ok: "json_ok (jmap ?p) json_max_depth" "utf8_valid ''s1''"
    by (simp_all add: json_ok_jmap json_max_depth_def utf8_valid_ascii)
  obtain space vis where x: "?x = Inr (space, vis)"
  proof -
    have "isl ?x = False" by code_simp
    then show thesis using that by (cases ?x) auto
  qed
  moreover have "space = ''s1''" by (rule NewPersonalMsgSendReq_space [OF ok(1) _ ok(2) x]) simp
  ultimately show ?thesis by blast
qed

section \<open>Calls\<close>

lemma service_error_None: "service_error name resp = None \<longleftrightarrow> rs_StatusCode resp = 200"
  by (auto simp: service_error_def split: sum.splits option.splits)

definition one_checked_call :: "im_context \<Rightarrow> unit im \<Rightarrow> bool" where
  "one_checked_call c r \<longleftrightarrow>
     (\<exists>rq. snd r = [rq] \<and> rq_Method rq = ''POST'' \<and> HasPrefix (rq_BaseURL rq) (im_APIURL c) \<and> rq_Headers rq = wkIMManagerTokenHeader c \<and>
        (fst r = Inr () \<longleftrightarrow> (\<exists>resp. im_API c rq = Inr resp \<and> rs_StatusCode resp = 200)))"

lemmas call_defs = network_Post_def network_RequestBoy_def Let_def handlerIMError_def

lemma im_exec_one [simp]: "one_checked_call c (im_exec c path req)"
  by (auto simp: one_checked_call_def im_exec_def call_defs service_error_None split: sum.splits option.splits)
     (metis option.distinct(1) service_error_None)+

lemma SendMessage_one [simp]: "one_checked_call c (SendMessage c req)"
  by (auto simp: one_checked_call_def SendMessage_def SendMessageWithResult_def call_defs service_error_None split: sum.splits option.splits)
     (metis option.distinct(1) service_error_None)+

lemma QuitUserDevice_one [simp]: "one_checked_call c (QuitUserDevice c uid f)"
  by (auto simp: one_checked_call_def QuitUserDevice_def call_defs split: sum.splits)

lemma IMAddSubscriber_one [simp]: "one_checked_call c (IMAddSubscriber c req)"
  by (auto simp: one_checked_call_def IMAddSubscriber_def call_defs split: sum.splits)

lemma SendMessageBatch_one [simp]: "one_checked_call c (SendMessageBatch c req)"
  by (auto simp: one_checked_call_def SendMessageBatch_def call_defs service_error_None split: sum.splits option.splits)
     (metis option.distinct(1) service_error_None)+

lemmas exec_calls = IMCreateOrUpdateChannelInfo_def IMCreateOrUpdateChannel_def IMBlacklistAdd_def IMBlacklistSet_def
  IMBlacklistRemove_def IMWhitelistAdd_def IMWhitelistSet_def IMWhitelistRemove_def IMRemoveSubscriber_def
  IMClearConversationUnread_def IMDeleteConversation_def IMSyncMessageAck_def IMRevokeMessage_def IMDelChannel_def IMStreamEnd_def

lemmas send_calls = SendCMD_def SendTyping_def SendRevoke_def SendFriendApply_def SendFriendSure_def SendFriendDelete_def
  SendChannelUpdate_def SendChannelUpdateToGroup_def SendChannelUpdateToUser_def SendChannelUpdateWithFromUID_def SendGroupUpdate_def
  SendGroupMemberAdd_def SendGroupUpgrade_def SendGroupMemberRemove_def SendGroupMemberScanJoin_def SendGroupTransferGrouper_def
  SendGroupMemberInviteReq_def SendGroupExit_def SendGroupMemberUpdate_def SendRTCCallResult_def



text \<open>
  \<^verbatim>\<open>GetContentType\<close> fails exactly on payloads that are JSON but have no numeric \<^verbatim>\<open>type\<close>: the unchecked type assertion
  panics there, while a payload that is no JSON object gives 0.
\<close>

theorem GetContentType_panics:
  "(\<exists>msg. GetContentType m = Panic msg) \<longleftrightarrow>
     (\<exists>rest. json_Decode (me_Payload m) = Some (JNull, rest)) \<or>
     (\<exists>kvs rest. json_Decode (me_Payload m) = Some (JObj kvs, rest) \<and> (\<nexists>t. obj_get kvs ''type'' = Some (JNum t)))"
  by (auto simp: GetContentType_def GetPayloadMap_def ReadJsonByByte_def dec_map_def split: option.splits json.splits)

text \<open>The content type of a message that was encoded here is read back.\<close>

lemma GetContentType_sent:
  assumes "json_ok (jmap kvs) json_max_depth" "distinct (map fst kvs)" "map_of kvs ''type'' = Some (JInt n)" "is_int64 n"
    and "me_Payload m = ToJson (jmap kvs)"
  shows "GetContentType m = Ret n"
  using json_Decode_print [OF assms(1)] assms(3) ParseInt_int_dec [OF assms(4)]
  by (simp add: GetContentType_def GetPayloadMap_def ReadJsonByByte_def assms(5) ToJson_def jmap_def dec_map_def obj_get_jmap [OF assms(2)])

end
