(* ===== verification/Richtext.thy ===== *)
theory Richtext
  imports Json Url Message_Types "HOL-Library.Monad_Syntax"
begin

text \<open>
  \<^verbatim>\<open>common/richtext.go\<close>: messages that mix text and images.  A payload is read (in the form with blocks or the old
  one with a string), checked before it is accepted, given the plain text the server computes, and displayed.
\<close>

section \<open>Payloads\<close>

definition RichTextBlockText :: string where
  "RichTextBlockText = ''text''"

definition RichTextBlockImage :: string where
  "RichTextBlockImage = ''image''"

definition RichTextImagePlaceholder :: string where
  "RichTextImagePlaceholder = ''['' @ map char_of [0xE5, 0x9B, 0xBE, 0xE7, 0x89, 0x87 :: nat] @ '']''"

definition RichTextMaxPayloadBytes :: nat where
  "RichTextMaxPayloadBytes = 1048576"

datatype richtext_error =
    ErrRichTextPayloadTooLarge
  | ErrRichTextEmptyContent
  | ErrRichTextUnknownBlock
  | ErrRichTextTextEmpty
  | ErrRichTextImageNoURL
  | ErrRichTextImageBadScheme
  | ErrRichTextImageNoSize
  | RichTextJsonError

record RichTextBlock =
  rb_Type :: string
  rb_Text :: string
  rb_URL :: string
  rb_Width :: int
  rb_Height :: int
  rb_Size :: int
  rb_Name :: string

text \<open>The content of a payload is a slice and may be \<^verbatim>\<open>nil\<close>.\<close>

record RichTextPayload =
  rp_Content :: "RichTextBlock list option"
  rp_Plain :: string

section \<open>JSON\<close>

definition zero_block :: RichTextBlock where
  "zero_block = \<lparr>rb_Type = [], rb_Text = [], rb_URL = [], rb_Width = 0, rb_Height = 0, rb_Size = 0, rb_Name = []\<rparr>"

definition dec_RichTextBlock :: "json \<Rightarrow> RichTextBlock option" where
  "dec_RichTextBlock v =
     (case v of
        JObj kvs \<Rightarrow>
          do {
            typ \<leftarrow> dec_field dec_string [] ''type'' kvs;
            txt \<leftarrow> dec_field dec_string [] ''text'' kvs;
            url \<leftarrow> dec_field dec_string [] ''url'' kvs;
            width \<leftarrow> dec_field (dec_int 64) 0 ''width'' kvs;
            height \<leftarrow> dec_field (dec_int 64) 0 ''height'' kvs;
            sz \<leftarrow> dec_field (dec_int 64) 0 ''size'' kvs;
            name \<leftarrow> dec_field dec_string [] ''name'' kvs;
            Some \<lparr>rb_Type = typ, rb_Text = txt, rb_URL = url, rb_Width = width, rb_Height = height,
                  rb_Size = sz, rb_Name = name\<rparr>
          }
      | _ \<Rightarrow> None)"

text \<open>A member that is left out when it has the zero value.\<close>

definition omit_str :: "string \<Rightarrow> string \<Rightarrow> (string \<times> json) list" where
  "omit_str name s = (if s = [] then [] else [(name, JStr s)])"

definition omit_int :: "string \<Rightarrow> int \<Rightarrow> (string \<times> json) list" where
  "omit_int name i = (if i = 0 then [] else [(name, JInt i)])"

definition json_RichTextBlock :: "RichTextBlock \<Rightarrow> json" where
  "json_RichTextBlock b =
     JObj ([(''type'', JStr (rb_Type b))] @ omit_str ''text'' (rb_Text b) @ omit_str ''url'' (rb_URL b) @
           omit_int ''width'' (rb_Width b) @ omit_int ''height'' (rb_Height b) @ omit_int ''size'' (rb_Size b) @
           omit_str ''name'' (rb_Name b))"

definition json_RichTextPayload :: "RichTextPayload \<Rightarrow> json" where
  "json_RichTextPayload p =
     JObj [(''content'', case rp_Content p of None \<Rightarrow> JNull | Some bs \<Rightarrow> JArr (map json_RichTextBlock bs)),
           (''plain'', JStr (rp_Plain p))]"

text \<open>A field of type \<^verbatim>\<open>json.RawMessage\<close> keeps the value, \<^verbatim>\<open>null\<close> included.\<close>

definition raw_field :: "string \<Rightarrow> (string \<times> json) list \<Rightarrow> json option" where
  "raw_field name kvs = fold (\<lambda>(k, v) acc. if ToLower k = ToLower name then Some v else acc) kvs None"

definition RichTextPayload_UnmarshalJSON :: "string \<Rightarrow> RichTextPayload option" where
  "RichTextPayload_UnmarshalJSON data =
     do {
       v \<leftarrow> json_Unmarshal data;
       kvs \<leftarrow> (case v of JObj kvs \<Rightarrow> Some kvs | JNull \<Rightarrow> Some [] | _ \<Rightarrow> None);
       plain \<leftarrow> dec_field dec_string [] ''plain'' kvs;
       (case raw_field ''content'' kvs of
          None \<Rightarrow> Some \<lparr>rp_Content = None, rp_Plain = plain\<rparr>
        | Some JNull \<Rightarrow> Some \<lparr>rp_Content = None, rp_Plain = plain\<rparr>
        | Some content \<Rightarrow>
            (case dec_list dec_RichTextBlock zero_block content of
               Some blocks \<Rightarrow> Some \<lparr>rp_Content = Some blocks, rp_Plain = plain\<rparr>
             | None \<Rightarrow>
                 do {
                   s \<leftarrow> dec_string content;
                   Some \<lparr>rp_Content = Some [zero_block\<lparr>rb_Type := RichTextBlockText, rb_Text := s\<rparr>],
                         rp_Plain = (if plain = [] then s else plain)\<rparr>
                 }))
     }"

section \<open>Plain text\<close>

definition block_plain :: "RichTextBlock \<Rightarrow> string" where
  "block_plain blk =
     (if rb_Type blk = RichTextBlockImage then RichTextImagePlaceholder
      else if rb_Type blk = RichTextBlockText then rb_Text blk
      else if rb_Text blk \<noteq> [] then rb_Text blk else [])"

definition BuildRichTextPlain :: "RichTextBlock list \<Rightarrow> string" where
  "BuildRichTextPlain content = fold (\<lambda>blk b. b @ block_plain blk) content []"

text \<open>The blocks of a slice: a loop over \<^verbatim>\<open>nil\<close> does nothing.\<close>

definition blocks :: "RichTextPayload \<Rightarrow> RichTextBlock list" where
  "blocks p = (case rp_Content p of None \<Rightarrow> [] | Some bs \<Rightarrow> bs)"

definition FillPlain :: "RichTextPayload \<Rightarrow> RichTextPayload \<times> string" where
  "FillPlain p = (let plain = BuildRichTextPlain (blocks p) in (p\<lparr>rp_Plain := plain\<rparr>, plain))"

definition FillPlainBounded :: "RichTextPayload \<Rightarrow> RichTextPayload \<times> string \<times> richtext_error option" where
  "FillPlainBounded p =
     (let (p, plain) = FillPlain p; out = json_print (json_RichTextPayload p)
      in if length out > RichTextMaxPayloadBytes then (p, plain, Some ErrRichTextPayloadTooLarge) else (p, plain, None))"

section \<open>Checks\<close>

definition isAllowedImageURLScheme :: "string \<Rightarrow> bool" where
  "isAllowedImageURLScheme raw =
     (case url_Parse (TrimSpace raw) of
        None \<Rightarrow> False
      | Some (u_Scheme, u_Host) \<Rightarrow> if ToLower u_Scheme \<in> {''http'', ''https''} then u_Host \<noteq> [] else False)"

fun ValidateRichTextBlocks :: "RichTextBlock list \<Rightarrow> richtext_error option" where
  "ValidateRichTextBlocks [] = None"
| "ValidateRichTextBlocks (blk # content) =
     (if rb_Type blk = RichTextBlockText then
        (if TrimSpace (rb_Text blk) = [] then Some ErrRichTextTextEmpty else ValidateRichTextBlocks content)
      else if rb_Type blk = RichTextBlockImage then
        (if TrimSpace (rb_URL blk) = [] then Some ErrRichTextImageNoURL
         else if \<not> isAllowedImageURLScheme (rb_URL blk) then Some ErrRichTextImageBadScheme
         else if rb_Width blk \<le> 0 \<or> rb_Height blk \<le> 0 then Some ErrRichTextImageNoSize
         else ValidateRichTextBlocks content)
      else Some ErrRichTextUnknownBlock)"

definition ValidateRichTextPayload :: "string \<Rightarrow> richtext_error + RichTextPayload" where
  "ValidateRichTextPayload data =
     (if length data > RichTextMaxPayloadBytes then Inl ErrRichTextPayloadTooLarge
      else case RichTextPayload_UnmarshalJSON data of
             None \<Rightarrow> Inl RichTextJsonError
           | Some p \<Rightarrow>
               if length (blocks p) = 0 then Inl ErrRichTextEmptyContent
               else case ValidateRichTextBlocks (blocks p) of
                      Some err \<Rightarrow> Inl err
                    | None \<Rightarrow> Inr p)"

definition GetRichTextDisplayText :: "string \<Rightarrow> string" where
  "GetRichTextDisplayText payload =
     (if length payload = 0 then GetDisplayText (ContentType_Int RichText)
      else case RichTextPayload_UnmarshalJSON payload of
             None \<Rightarrow> GetDisplayText (ContentType_Int RichText)
           | Some p \<Rightarrow>
               if TrimSpace (rp_Plain p) \<noteq> [] then rp_Plain p
               else let plain = BuildRichTextPlain (blocks p)
                    in if plain \<noteq> [] then plain else GetDisplayText (ContentType_Int RichText))"


section \<open>What is stored is read back\<close>

definition no_key :: "string \<Rightarrow> (string \<times> json) list \<Rightarrow> bool" where
  "no_key name kvs \<longleftrightarrow> (\<forall>kv\<in>set kvs. ToLower (fst kv) \<noteq> ToLower name)"

lemma dec_fold_skip:
  "no_key name xs \<Longrightarrow>
   fold (\<lambda>(k, v) acc. if ToLower k = ToLower name \<and> v \<noteq> JNull \<and> acc \<noteq> None then conv v else acc) xs r = r"
  by (induction xs) (auto simp: no_key_def)

lemma dec_field_skip:
  "no_key name xs \<Longrightarrow> dec_field conv dflt name (xs @ ys) = dec_field conv dflt name ys"
  "no_key name ys \<Longrightarrow> dec_field conv dflt name (xs @ ys) = dec_field conv dflt name xs"
  by (simp_all only: dec_field_def fold_append comp_def dec_fold_skip)

lemma dec_omit:
  "dec_field dec_string [] name (omit_str name s) = Some s"
  "is_int64 i \<Longrightarrow> dec_field (dec_int 64) 0 name (omit_int name i) = Some i"
  by (simp_all add: omit_str_def omit_int_def dec_field_def dec_string_def dec_int_def ParseInt_int_dec)

lemma no_key_simps:
  "no_key name [(k, v)] \<longleftrightarrow> ToLower k \<noteq> ToLower name"
  "no_key name (xs @ ys) \<longleftrightarrow> no_key name xs \<and> no_key name ys"
  "ToLower k \<noteq> ToLower name \<Longrightarrow> no_key name (omit_str k s)"
  "ToLower k \<noteq> ToLower name \<Longrightarrow> no_key name (omit_int k i)"
  by (auto simp: no_key_def omit_str_def omit_int_def)

definition block_int64 :: "RichTextBlock \<Rightarrow> bool" where
  "block_int64 b \<longleftrightarrow> is_int64 (rb_Width b) \<and> is_int64 (rb_Height b) \<and> is_int64 (rb_Size b)"

definition block_utf8 :: "RichTextBlock \<Rightarrow> bool" where
  "block_utf8 b \<longleftrightarrow> utf8_valid (rb_Type b) \<and> utf8_valid (rb_Text b) \<and> utf8_valid (rb_URL b) \<and> utf8_valid (rb_Name b)"

lemma dec_json_block: "block_int64 b \<Longrightarrow> dec_RichTextBlock (json_RichTextBlock b) = Some b"
  by (simp add: json_RichTextBlock_def dec_RichTextBlock_def block_int64_def dec_field_skip dec_omit no_key_simps lower_char_def
      dec_field_def [of dec_string "[]" _ "[_]"] dec_string_def del: append.append_Cons)

lemma json_ok_JObj: "json_ok (JObj kvs) d \<longleftrightarrow> 0 < d \<and> (\<forall>(k, v)\<in>set kvs. utf8_valid k \<and> json_ok v (d - 1))"
  by (auto simp: list_all_iff split: prod.splits)

lemma json_ok_JArr: "json_ok (JArr vs) d \<longleftrightarrow> 0 < d \<and> (\<forall>v\<in>set vs. json_ok v (d - 1))"
  by (auto simp: list_all_iff)

lemma ParseInt_range: "ParseInt t 64 = (n, None) \<Longrightarrow> is_int64 n"
  by (auto simp: ParseInt_def is_int64_def Let_def split: if_splits prod.splits)

lemma dec_int_range: "dec_int 64 v = Some n \<Longrightarrow> is_int64 n"
  by (auto simp: dec_int_def intro: ParseInt_range split: json.splits prod.splits option.splits)

lemma dec_field_pred:
  assumes "dec_field conv dflt name kvs = Some x" "P dflt" "\<And>k v x. (k, v) \<in> set kvs \<Longrightarrow> conv v = Some x \<Longrightarrow> P x"
  shows "P x"
  using assms
proof (induction kvs arbitrary: x rule: rev_induct)
  case (snoc kv kvs)
  then show ?case by (cases kv) (auto simp: dec_field_def split: if_splits)
qed (simp add: dec_field_def)

lemma dec_string_field_utf8:
  "dec_field dec_string [] name kvs = Some s \<Longrightarrow> json_utf8 (JObj kvs) \<Longrightarrow> utf8_valid s"
  by (erule dec_field_pred) (auto simp: dec_string_def list_all_iff split: json.splits)

lemma dec_int_field_range: "dec_field (dec_int 64) 0 name kvs = Some i \<Longrightarrow> is_int64 i"
  by (erule dec_field_pred) (auto simp: is_int64_def [of 0] dest: dec_int_range)

lemma dec_block_ok: "dec_RichTextBlock v = Some b \<Longrightarrow> json_utf8 v \<Longrightarrow> block_utf8 b \<and> block_int64 b"
  by (auto simp: dec_RichTextBlock_def block_utf8_def block_int64_def dec_int_field_range split: json.splits Option.bind_splits
      simp del: json_utf8.simps intro: dec_string_field_utf8)

definition payload_ok :: "RichTextPayload \<Rightarrow> bool" where
  "payload_ok p \<longleftrightarrow> utf8_valid (rp_Plain p) \<and> (\<forall>b\<in>set (blocks p). block_utf8 b \<and> block_int64 b)"

lemma json_ok_block: "block_utf8 b \<Longrightarrow> 1 < d \<Longrightarrow> json_ok (json_RichTextBlock b) d"
  by (auto simp: json_RichTextBlock_def json_ok_JObj omit_str_def omit_int_def block_utf8_def utf8_valid_ascii simp del: json_ok.simps(6))

lemma json_ok_payload: "payload_ok p \<Longrightarrow> json_ok (json_RichTextPayload p) json_max_depth"
  by (auto simp: json_RichTextPayload_def json_ok_JObj json_ok_JArr payload_ok_def blocks_def json_max_depth_def utf8_valid_ascii
      intro!: json_ok_block split: option.splits simp del: json_ok.simps(5,6))

lemma dec_list_blocks:
  "\<forall>b\<in>set bs. block_int64 b \<Longrightarrow> dec_list dec_RichTextBlock zero_block (JArr (map json_RichTextBlock bs)) = Some bs"
proof (induction bs)
  case (Cons b bs)
  have "json_RichTextBlock b \<noteq> JNull" by (simp add: json_RichTextBlock_def)
  with Cons show ?case by (simp add: dec_list_def dec_json_block)
qed (simp add: dec_list_def)

lemma RichTextPayload_roundtrip:
  assumes "payload_ok p"
  shows "RichTextPayload_UnmarshalJSON (json_print (json_RichTextPayload p)) = Some p"
proof -
  have "json_Unmarshal (json_print (json_RichTextPayload p)) = Some (json_RichTextPayload p)"
    using json_ok_payload [OF assms] by (rule json_Unmarshal_print)
  moreover have "\<forall>b\<in>set (blocks p). block_int64 b" using assms by (simp add: payload_ok_def)
  ultimately show ?thesis
    by (cases "rp_Content p")
      (simp_all add: RichTextPayload_UnmarshalJSON_def json_RichTextPayload_def raw_field_def dec_field_def dec_string_def
         lower_char_def dec_list_blocks blocks_def)
qed

lemma raw_field_mem: "raw_field name kvs = Some v \<Longrightarrow> \<exists>k. (k, v) \<in> set kvs"
  by (induction kvs rule: rev_induct) (auto simp: raw_field_def split: if_splits)

lemma those_map_mem: "those (map f vs) = Some xs \<Longrightarrow> x \<in> set xs \<Longrightarrow> \<exists>v\<in>set vs. f v = Some x"
  by (induction vs arbitrary: xs) (auto split: option.splits)

lemma zero_block_ok: "block_utf8 zero_block \<and> block_int64 zero_block"
  by (simp add: zero_block_def block_utf8_def block_int64_def is_int64_def)

lemma dec_blocks_ok:
  assumes "dec_list dec_RichTextBlock zero_block v = Some bs" "json_utf8 v" "b \<in> set bs"
  shows "block_utf8 b \<and> block_int64 b"
proof -
  obtain vs where v: "v = JArr vs" and vs: "those (map (\<lambda>v. if v = JNull then Some zero_block else dec_RichTextBlock v) vs) = Some bs"
    using assms(1) by (auto simp: dec_list_def split: json.splits)
  obtain e where "e \<in> set vs" "(if e = JNull then Some zero_block else dec_RichTextBlock e) = Some b"
    using those_map_mem [OF vs assms(3)] by blast
  moreover from this have "json_utf8 e" using assms(2) v by (simp add: list_all_iff)
  ultimately show ?thesis using zero_block_ok dec_block_ok by (auto split: if_splits)
qed

text \<open>Whatever bytes were read, the payload has valid texts and 64-bit numbers.\<close>

lemma UnmarshalJSON_ok:
  assumes "RichTextPayload_UnmarshalJSON data = Some p"
  shows "payload_ok p"
proof -
  obtain v kvs plain where v: "json_Unmarshal data = Some v" and k: "(case v of JObj kvs \<Rightarrow> Some kvs | JNull \<Rightarrow> Some [] | _ \<Rightarrow> None) = Some kvs"
    and plain: "dec_field dec_string [] ''plain'' kvs = Some plain"
    using assms by (auto simp: RichTextPayload_UnmarshalJSON_def split: Option.bind_splits)
  have kvs: "json_utf8 (JObj kvs)" using k json_Unmarshal_utf8 [OF v] by (auto split: json.splits)
  then have u: "json_utf8 w" if "raw_field ''content'' kvs = Some w" for w
    using raw_field_mem [OF that] by (auto simp: list_all_iff)
  have pl: "utf8_valid plain" using plain kvs by (rule dec_string_field_utf8)
  let ?no = "Some \<lparr>rp_Content = None, rp_Plain = plain\<rparr>"
  let ?blocks = "\<lambda>w. case dec_list dec_RichTextBlock zero_block w of
      Some bs \<Rightarrow> Some \<lparr>rp_Content = Some bs, rp_Plain = plain\<rparr>
    | None \<Rightarrow> Option.bind (dec_string w) (\<lambda>s. Some \<lparr>rp_Content = Some [zero_block\<lparr>rb_Type := RichTextBlockText, rb_Text := s\<rparr>],
        rp_Plain = (if plain = [] then s else plain)\<rparr>)"
  have c: "(case raw_field ''content'' kvs of None \<Rightarrow> ?no | Some JNull \<Rightarrow> ?no | Some w \<Rightarrow> ?blocks w) = Some p"
    using assms v k plain by (simp add: RichTextPayload_UnmarshalJSON_def)
  show ?thesis
  proof (cases "raw_field ''content'' kvs")
    case None
    with c pl show ?thesis by (auto simp: payload_ok_def blocks_def)
  next
    case (Some w)
    with c have c: "(if w = JNull then ?no else ?blocks w) = Some p" by (cases w; hypsubst_thin; simp)
    show ?thesis
    proof (cases "w = JNull")
      case True
      with c pl show ?thesis by (auto simp: payload_ok_def blocks_def)
    next
      case False
      show ?thesis
      proof (cases "dec_list dec_RichTextBlock zero_block w")
        case None
        with c False obtain s where s: "dec_string w = Some s" and p: "p = \<lparr>rp_Content = Some [zero_block\<lparr>rb_Type := RichTextBlockText, rb_Text := s\<rparr>],
            rp_Plain = (if plain = [] then s else plain)\<rparr>" by (auto split: Option.bind_splits)
        have "utf8_valid s" using s u [OF Some] by (auto simp: dec_string_def split: json.splits)
        then show ?thesis using pl zero_block_ok
          by (simp add: p payload_ok_def blocks_def block_utf8_def block_int64_def RichTextBlockText_def utf8_valid_ascii)
      next
        case (Some bs)
        with c False have "p = \<lparr>rp_Content = Some bs, rp_Plain = plain\<rparr>" by simp
        then show ?thesis using pl dec_blocks_ok [OF Some u [OF \<open>raw_field ''content'' kvs = Some w\<close>]] by (simp add: payload_ok_def blocks_def)
      qed
    qed
  qed
qed

lemma BuildRichTextPlain_concat: "BuildRichTextPlain content = concat (map block_plain content)"
proof -
  have "fold (\<lambda>blk b. b @ block_plain blk) content b = b @ concat (map block_plain content)" for b
    by (induction content arbitrary: b) simp_all
  then show ?thesis by (simp add: BuildRichTextPlain_def)
qed

section \<open>Properties\<close>

lemma url_Parse_Nil: "url_Parse [] = Some ([], [])"
  by code_simp

lemma isAllowedImageURLScheme_iff:
  "isAllowedImageURLScheme raw \<longleftrightarrow>
     (\<exists>scheme host. url_Parse (TrimSpace raw) = Some (scheme, host) \<and> scheme \<in> {''http'', ''https''} \<and> host \<noteq> [])"
  by (auto simp: isAllowedImageURLScheme_def url_Parse_lower split: option.splits prod.splits if_splits)

text \<open>The blocks a writer may send.\<close>

definition valid_block :: "RichTextBlock \<Rightarrow> bool" where
  "valid_block b \<longleftrightarrow>
     (rb_Type b = ''text'' \<and> TrimSpace (rb_Text b) \<noteq> []) \<or>
     (rb_Type b = ''image'' \<and> isAllowedImageURLScheme (rb_URL b) \<and> 0 < rb_Width b \<and> 0 < rb_Height b)"

lemma ValidateRichTextBlocks_None: "ValidateRichTextBlocks content = None \<longleftrightarrow> list_all valid_block content"
  by (induction content)
    (auto simp: valid_block_def RichTextBlockText_def RichTextBlockImage_def isAllowedImageURLScheme_iff url_Parse_Nil)

lemma ValidateRichTextPayload_Inr:
  "ValidateRichTextPayload data = Inr p \<longleftrightarrow>
     length data \<le> RichTextMaxPayloadBytes \<and> RichTextPayload_UnmarshalJSON data = Some p \<and>
     blocks p \<noteq> [] \<and> list_all valid_block (blocks p)"
  by (auto simp: ValidateRichTextPayload_def ValidateRichTextBlocks_None [symmetric] split: option.splits)

definition sample_payload :: RichTextPayload where
  "sample_payload =
     \<lparr>rp_Content = Some [zero_block\<lparr>rb_Type := ''text'', rb_Text := ''hi''\<rparr>,
                         zero_block\<lparr>rb_Type := ''image'', rb_URL := ''HTTPS://h/a.png'', rb_Width := 2, rb_Height := 3\<rparr>],
      rp_Plain = ''made up''\<rparr>"

lemma json_esc_ascii:
  assumes "32 \<le> (of_char c :: nat)" "(of_char c :: nat) < 128" "c \<notin> {CHR ''<'', CHR ''>'', CHR ''&'', CHR 0x22, CHR 0x5C}"
  shows "json_esc (c # cs) = c # json_esc cs"
proof -
  have "c \<noteq> CHR 0x0A" "c \<noteq> CHR 0x0D" "c \<noteq> CHR 0x09" using assms(1) by auto
  moreover have "utf8_len (c # cs) = 1" using assms(2) by (simp add: utf8_len_ascii)
  ultimately show ?thesis using assms by (subst json_esc.simps(2)) (simp add: Let_def)
qed

lemma json_esc_rune:
  assumes "utf8_len w = length w" "w = c # cs" "128 \<le> (of_char c :: nat)" "(of_char c :: nat) \<noteq> 226"
  shows "json_esc (w @ t) = w @ json_esc t"
proof -
  have "utf8_len (w @ t) = length w" using utf8_len_prefix [of w "length w" t] assms(1,2) by simp
  moreover have "c \<notin> {CHR 0x22, CHR 0x5C, CHR 0x0A, CHR 0x0D, CHR 0x09, CHR ''<'', CHR ''>'', CHR ''&''}" "c \<noteq> char_of (226 :: nat)"
    using assms(3,4) by auto
  ultimately show ?thesis using assms(2,3) by (simp add: json_esc.simps(2) [of c "cs @ t"] Let_def)
qed

lemma json_quote_placeholder: "length (json_quote (''hi'' @ RichTextImagePlaceholder)) = 12"
proof -
  have "json_esc (map char_of [0xE5, 0x9B, 0xBE :: nat] @ map char_of [0xE7, 0x89, 0x87 :: nat] @ '']'') =
      map char_of [0xE5, 0x9B, 0xBE :: nat] @ map char_of [0xE7, 0x89, 0x87 :: nat] @ '']''"
    by (subst json_esc_rune, simp add: utf8_len_def, simp, simp, simp,
        subst json_esc_rune, simp add: utf8_len_def, simp, simp, simp, simp add: json_esc_ascii)
  then show ?thesis by (simp add: json_quote_def RichTextImagePlaceholder_def json_esc_ascii)
qed

lemma sample_length:
  assumes "rp_Content p = rp_Content sample_payload" "length (json_quote (rp_Plain p)) \<le> 12"
  shows "length (json_print (json_RichTextPayload p)) \<le> RichTextMaxPayloadBytes"
  using assms(2)
  by (simp add: json_RichTextPayload_def json_RichTextBlock_def assms(1) sample_payload_def zero_block_def omit_str_def omit_int_def
      int_dec_def nat_dec_less_10 RichTextMaxPayloadBytes_def json_quote_def json_esc_ascii)

lemma sample_payload_facts:
  "RichTextPayload_UnmarshalJSON (json_print (json_RichTextPayload sample_payload)) = Some sample_payload"
  "length (json_print (json_RichTextPayload sample_payload)) \<le> RichTextMaxPayloadBytes"
  "blocks sample_payload \<noteq> []" "\<forall>b\<in>set (blocks sample_payload). valid_block b"
proof -
  show "RichTextPayload_UnmarshalJSON (json_print (json_RichTextPayload sample_payload)) = Some sample_payload"
    by (rule RichTextPayload_roundtrip) code_simp
  show "length (json_print (json_RichTextPayload sample_payload)) \<le> RichTextMaxPayloadBytes"
    by (rule sample_length) (simp_all add: sample_payload_def json_quote_def json_esc_ascii)
  have "TrimSpace ''hi'' = ''hi''" and t: "TrimSpace ''HTTPS://h/a.png'' = ''HTTPS://h/a.png''"
    by (rule TrimSpace_visible; simp add: visible_def)+
  moreover have "url_Parse ''HTTPS://h/a.png'' = Some (''https'', ''h'')" by code_simp
  with t have "isAllowedImageURLScheme ''HTTPS://h/a.png''" by (simp add: isAllowedImageURLScheme_iff)
  ultimately show "blocks sample_payload \<noteq> []" "\<forall>b\<in>set (blocks sample_payload). valid_block b"
    by (simp_all add: sample_payload_def blocks_def zero_block_def valid_block_def)
qed

text \<open>
  \<^verbatim>\<open>ValidateRichTextPayload\<close> accepts bytes exactly when there are at most 1048576 of them, they are a payload,
  in the new or the old form, and it has at least one block, each a text that is not blank or an image with an
  absolute HTTP or HTTPS address and positive width and height.
\<close>

theorem ValidateRichTextPayload_correct:
  "ValidateRichTextPayload data = Inr p \<longleftrightarrow>
     length data \<le> 1048576 \<and> RichTextPayload_UnmarshalJSON data = Some p \<and> blocks p \<noteq> [] \<and> (\<forall>b\<in>set (blocks p). valid_block b)"
  by (auto simp: ValidateRichTextPayload_Inr list_all_iff RichTextMaxPayloadBytes_def)

theorem ValidateRichTextPayload_correct_witness:
  "ValidateRichTextPayload (json_print (json_RichTextPayload sample_payload)) = Inr sample_payload"
  using sample_payload_facts unfolding ValidateRichTextPayload_correct RichTextMaxPayloadBytes_def by blast

text \<open>
  The address of every image of an accepted payload begins, after white space, with \<^verbatim>\<open>http://\<close> or
  \<^verbatim>\<open>https://\<close> in some letter case: no \<^verbatim>\<open>data:\<close>, \<^verbatim>\<open>javascript:\<close> or relative address passes.
\<close>

theorem richtext_image_url:
  assumes "ValidateRichTextPayload data = Inr p" "b \<in> set (blocks p)" "rb_Type b = ''image''"
  shows "\<exists>scheme rest. TrimSpace (rb_URL b) = scheme @ ''://'' @ rest \<and> ToLower scheme \<in> {''http'', ''https''}"
proof -
  have "valid_block b" using assms(1,2) by (auto simp: ValidateRichTextPayload_Inr list_all_iff)
  then have "isAllowedImageURLScheme (rb_URL b)" using assms(3) by (simp add: valid_block_def)
  then show ?thesis
    using url_Parse_host [of "TrimSpace (rb_URL b)"] by (fastforce simp: isAllowedImageURLScheme_iff)
qed

theorem richtext_image_url_witness:
  "ValidateRichTextPayload (json_print (json_RichTextPayload sample_payload)) = Inr sample_payload \<and>
   (\<exists>scheme rest. TrimSpace ''HTTPS://h/a.png'' = scheme @ ''://'' @ rest \<and> ToLower scheme \<in> {''http'', ''https''})"
proof
  show v: "ValidateRichTextPayload (json_print (json_RichTextPayload sample_payload)) = Inr sample_payload"
    using sample_payload_facts by (simp add: ValidateRichTextPayload_Inr list_all_iff)
  show "\<exists>scheme rest. TrimSpace ''HTTPS://h/a.png'' = scheme @ ''://'' @ rest \<and> ToLower scheme \<in> {''http'', ''https''}"
    using richtext_image_url [OF v, of "blocks sample_payload ! 1"] by (simp add: sample_payload_def blocks_def zero_block_def del: One_nat_def)
qed

lemma utf8_valid_block_plain: "block_utf8 b \<Longrightarrow> utf8_valid (block_plain b)"
proof -
  have "utf8_valid RichTextImagePlaceholder" by code_simp
  then show "block_utf8 b \<Longrightarrow> utf8_valid (block_plain b)" by (auto simp: block_plain_def block_utf8_def)
qed

lemma utf8_valid_concat: "\<forall>s\<in>set ss. utf8_valid s \<Longrightarrow> utf8_valid (concat ss)"
  by (induction ss) (auto intro: utf8_valid_append)

lemma block_plain_nonempty: "valid_block b \<Longrightarrow> block_plain b \<noteq> []"
  by (auto simp: valid_block_def block_plain_def RichTextImagePlaceholder_def RichTextBlockText_def RichTextBlockImage_def)

text \<open>
  C14: What a client claims as the plain text of a message is never shown.  If a payload is accepted and the server
  fills in the plain text within the size limit, the stored bytes pass the same checks with the same blocks, and the
  text displayed for them is the texts of the blocks in order, with the placeholder for each image.
\<close>

theorem richtext_stored_display:
  assumes "ValidateRichTextPayload data = Inr p" "FillPlainBounded p = (p', plain, None)"
  shows "blocks p' = blocks p \<and> ValidateRichTextPayload (json_print (json_RichTextPayload p')) = Inr p' \<and>
     GetRichTextDisplayText (json_print (json_RichTextPayload p')) = concat (map block_plain (blocks p))"
proof -
  have acc: "blocks p \<noteq> []" "list_all valid_block (blocks p)" and u: "RichTextPayload_UnmarshalJSON data = Some p"
    using assms(1) by (simp_all add: ValidateRichTextPayload_Inr)
  have p': "p' = p\<lparr>rp_Plain := concat (map block_plain (blocks p))\<rparr>"
    and len: "length (json_print (json_RichTextPayload p')) \<le> RichTextMaxPayloadBytes"
    using assms(2) by (auto simp: FillPlainBounded_def FillPlain_def BuildRichTextPlain_concat Let_def split: if_splits)
  have b: "blocks p' = blocks p" by (simp add: p' blocks_def)
  have "payload_ok p'"
    using UnmarshalJSON_ok [OF u] b by (auto simp: payload_ok_def p' intro!: utf8_valid_concat utf8_valid_block_plain)
  then have r: "RichTextPayload_UnmarshalJSON (json_print (json_RichTextPayload p')) = Some p'"
    by (rule RichTextPayload_roundtrip)
  have "concat (map block_plain (blocks p)) \<noteq> []" using acc block_plain_nonempty by (cases "blocks p") auto
  then have "GetRichTextDisplayText (json_print (json_RichTextPayload p')) = concat (map block_plain (blocks p))"
    using r b by (simp add: GetRichTextDisplayText_def BuildRichTextPlain_concat p' json_RichTextPayload_def)
  then show ?thesis using b r len acc by (simp add: ValidateRichTextPayload_Inr)
qed

theorem richtext_stored_display_witness:
  "GetRichTextDisplayText (json_print (json_RichTextPayload (fst (FillPlain sample_payload)))) =
     concat (map block_plain (blocks sample_payload))"
proof -
  have "ValidateRichTextPayload (json_print (json_RichTextPayload sample_payload)) = Inr sample_payload"
    using sample_payload_facts by (simp add: ValidateRichTextPayload_Inr list_all_iff)
  moreover have "\<not> length (json_print (json_RichTextPayload (fst (FillPlain sample_payload)))) > RichTextMaxPayloadBytes"
    unfolding not_less
  proof (rule sample_length)
    have "rp_Plain (fst (FillPlain sample_payload)) = ''hi'' @ RichTextImagePlaceholder"
      by (simp add: FillPlain_def BuildRichTextPlain_concat Let_def sample_payload_def blocks_def block_plain_def zero_block_def
          RichTextBlockText_def RichTextBlockImage_def)
    then show "length (json_quote (rp_Plain (fst (FillPlain sample_payload)))) \<le> 12" using json_quote_placeholder by simp
  qed (simp add: FillPlain_def Let_def)
  then have "FillPlainBounded sample_payload = (fst (FillPlain sample_payload), snd (FillPlain sample_payload), None)"
    by (simp add: FillPlainBounded_def prod.case_eq_if)
  ultimately show ?thesis using richtext_stored_display by blast
qed

text \<open>A payload of the old form is shown as its string.\<close>

lemma richtext_old_form:
  assumes "utf8_valid s" "TrimSpace s \<noteq> []"
  shows "GetRichTextDisplayText (json_print (JObj [(''content'', JStr s)])) = s"
proof -
  have "json_ok (JObj [(''content'', JStr s)]) json_max_depth"
    using assms(1) by (simp add: json_max_depth_def utf8_valid_ascii)
  from json_Unmarshal_print [OF this] show ?thesis
    using assms(2) by (simp add: GetRichTextDisplayText_def RichTextPayload_UnmarshalJSON_def dec_field_def raw_field_def
        dec_list_def dec_string_def lower_char_def blocks_def)
qed

end
