(* ===== verification/Util_Text.thy ===== *)
theory Util_Text
  imports Json Uuid
begin

text \<open>
  Text helpers of package \<^verbatim>\<open>util\<close>: \<^verbatim>\<open>string.go\<close>, the substring and signing functions of \<^verbatim>\<open>common.go\<close> and
  \<^verbatim>\<open>sign.go\<close>, \<^verbatim>\<open>base62.go\<close>, \<^verbatim>\<open>page.go\<close>, \<^verbatim>\<open>stringbuffer.go\<close> and \<^verbatim>\<open>qreflect.go\<close>.
\<close>

section \<open>Names\<close>

definition isUpper :: "char \<Rightarrow> bool" where
  "isUpper b \<longleftrightarrow> 65 \<le> (of_char b :: nat) \<and> (of_char b :: nat) \<le> 90"

definition isLower :: "char \<Rightarrow> bool" where
  "isLower b \<longleftrightarrow> 97 \<le> (of_char b :: nat) \<and> (of_char b :: nat) \<le> 122"

definition isDigit :: "char \<Rightarrow> bool" where
  "isDigit b \<longleftrightarrow> 48 \<le> (of_char b :: nat) \<and> (of_char b :: nat) \<le> 57"

definition toLower :: "char \<Rightarrow> char" where
  "toLower b = (if isUpper b then char_of ((of_char b :: nat) - 65 + 97) else b)"

text \<open>The loop over the positions; the list is the rest of the name.\<close>

fun UnderscoreName :: "string \<Rightarrow> string" where
  "UnderscoreName [] = []"
| "UnderscoreName (b # name) =
     toLower b #
     (if name \<noteq> [] \<and> isUpper (name ! 0) \<and> (isLower b \<or> isDigit b \<or> (length name \<noteq> 1 \<and> isLower (name ! 1)))
      then ''_'' else []) @
     UnderscoreName name"

text \<open>A struct type is the list of its flds: the name, and whether the field is itself a struct.\<close>

fun AttrToUnderscore :: "(string \<times> bool) list \<Rightarrow> string list" where
  "AttrToUnderscore [] = []"
| "AttrToUnderscore ((name, is_struct) # flds) =
     (if is_struct then AttrToUnderscore flds
      else if name \<noteq> [] then UnderscoreName name # AttrToUnderscore flds
      else AttrToUnderscore flds)"

text \<open>The inner loop looks for a later equal element.\<close>

fun repeated :: "string \<Rightarrow> string list \<Rightarrow> bool" where
  "repeated x [] = False"
| "repeated x (y # ys) = (if x = y then True else repeated x ys)"

fun RemoveRepeatedElement :: "string list \<Rightarrow> string list" where
  "RemoveRepeatedElement [] = []"
| "RemoveRepeatedElement (x # arr) = (if repeated x arr then RemoveRepeatedElement arr else x # RemoveRepeatedElement arr)"

section \<open>Random texts\<close>

definition GenerUUID :: "(nat \<Rightarrow> byte list option) \<Rightarrow> string go" where
  "GenerUUID rnd = go_bind (NewV4 rnd) (\<lambda>u. Ret (filter (\<lambda>c. c \<noteq> CHR ''-'') (uuid_String u)))"

definition base62Chars :: string where
  "base62Chars = ''0123456789abcdefghijklmnopqrstuvwxyzABCDEFGHIJKLMNOPQRSTUVWXYZ''"

text \<open>The generator's answers are an argument: the call's number and the bound of \<^verbatim>\<open>Intn\<close>.\<close>

definition GetRandomString :: "(nat \<Rightarrow> nat \<Rightarrow> nat) \<Rightarrow> int \<Rightarrow> string" where
  "GetRandomString Intn num = map (\<lambda>i. base62Chars ! Intn i (length base62Chars)) [0..<nat num]"

definition GetRandomSalt :: "(nat \<Rightarrow> nat \<Rightarrow> nat) \<Rightarrow> string" where
  "GetRandomSalt Intn = GetRandomString Intn 8"

section \<open>Substrings\<close>

text \<open>\<^verbatim>\<open>[]rune(str)\<close>, each character as its UTF-8 bytes.\<close>

function runes :: "string \<Rightarrow> string list" where
  "runes s =
     (if s = [] then []
      else if utf8_len s = 0 then rune_error # runes (tl s)
      else take (utf8_len s) s # runes (drop (utf8_len s) s))"
  by pat_completeness auto
termination by (relation "measure length") auto

declare runes.simps [simp del]

definition slice_msg :: string where
  "slice_msg = ''slice bounds out of range''"

definition Substr :: "string \<Rightarrow> int \<Rightarrow> int \<Rightarrow> string go" where
  "Substr str start len =
     (if len = 0 then Ret []
      else let runeStr = runes str; lenStr = int (length runeStr);
               start = (if start < 0 then lenStr + start else start);
               start = (if start > lenStr then lenStr else start);
               end' = int64 (start + len);
               end' = (if end' > lenStr then lenStr else end');
               end' = (if len < 0 then lenStr + len else end');
               (start, end') = (if start > end' then (end', start) else (start, end'))
           in if 0 \<le> start \<and> end' \<le> lenStr then Ret (concat (take (nat (end' - start)) (drop (nat start) runeStr)))
              else Panic slice_msg)"

section \<open>Numbers in base 62\<close>

function Ten2Hex_loop :: "int \<Rightarrow> string \<Rightarrow> string" where
  "Ten2Hex_loop ten hex = (if ten > 0 then Ten2Hex_loop (ten div 62) (base62Chars ! nat (ten mod 62) # hex) else hex)"
  by pat_completeness auto
termination by (relation "measure (\<lambda>(ten, hex). nat ten)") auto

declare Ten2Hex_loop.simps [simp del]

definition Ten2Hex :: "int \<Rightarrow> string" where
  "Ten2Hex ten = (if ten = 0 then ''0'' else Ten2Hex_loop ten [])"

section \<open>Signatures\<close>

text \<open>
  Values of type \<^verbatim>\<open>interface{}\<close>.  A floating point number is given by the text \<^verbatim>\<open>%g\<close> prints for it, any other value by the
  text of \<^verbatim>\<open>%s\<close>.
\<close>

datatype int_kind = KInt | KUint | KInt64 | KUint64 | KInt8 | KUint8 | KInt16 | KUint16 | KInt32 | KUint32

datatype go_value =
    GInt int_kind int
  | GString string
  | GFloat32 string
  | GFloat64 string
  | GBytes string
  | GOther string

text \<open>\<^verbatim>\<open>%s\<close> of a number is a complaint with the type and the value.\<close>

definition bad_verb :: "string \<Rightarrow> string \<Rightarrow> string" where
  "bad_verb tname t = ''%!s('' @ tname @ ''='' @ t @ '')''"

definition objToStr :: "go_value \<Rightarrow> string" where
  "objToStr v =
     (case v of
        GInt k i \<Rightarrow> if k = KUint32 then bad_verb ''uint32'' (int_dec i) else int_dec i
      | GString s \<Rightarrow> s
      | GFloat32 t \<Rightarrow> bad_verb ''float32'' t
      | GFloat64 t \<Rightarrow> bad_verb ''float64'' t
      | GBytes s \<Rightarrow> s
      | GOther t \<Rightarrow> t)"

definition ObjToStr :: "go_value \<Rightarrow> string" where
  "ObjToStr v =
     (case v of GInt k i \<Rightarrow> int_dec i | GString s \<Rightarrow> s | GFloat32 t \<Rightarrow> t | GFloat64 t \<Rightarrow> t | GBytes s \<Rightarrow> s | GOther t \<Rightarrow> t)"

text \<open>A map is an association list with distinct keys, in the order in which \<^verbatim>\<open>range\<close> happens to visit it.\<close>

definition param :: "(string \<times> go_value) list \<Rightarrow> string \<Rightarrow> go_value" where
  "param params k = the (map_of params k)"

definition MapToQueryParamSort :: "(string \<times> go_value) list \<Rightarrow> string" where
  "MapToQueryParamSort params =
     (if length params = 0 then []
      else let keys = sort (map fst params);
               strs = fold (\<lambda>k strs. if param params k = GString [] then strs
                                     else strs @ k @ ''='' @ objToStr (param params k) @ ''&'') keys []
           in if length strs > 0 then butlast strs else strs)"

definition Sign :: "(string \<Rightarrow> string) \<Rightarrow> (string \<times> go_value) list \<Rightarrow> string \<Rightarrow> string" where
  "Sign MD5 params appKey = MD5 (MapToQueryParamSort params @ ''&key='' @ appKey)"

fun GetSignStr_loop :: "(string \<Rightarrow> go_value) \<Rightarrow> nat \<Rightarrow> (nat \<times> string) list \<Rightarrow> string \<Rightarrow> string" where
  "GetSignStr_loop value_of n [] signStr = signStr"
| "GetSignStr_loop value_of n ((i, k) # keys) signStr =
     (if value_of k = GString [] then GetSignStr_loop value_of n keys signStr
      else GetSignStr_loop value_of n keys
             (signStr @ k @ ''='' @ ObjToStr (value_of k) @ (if i \<noteq> n - 1 then ''&'' else [])))"

definition GetSignStr :: "(string \<times> go_value) list \<Rightarrow> string" where
  "GetSignStr params =
     (let keys = sort (map fst params)
      in GetSignStr_loop (param params) (length keys) (enumerate 0 keys) [])"

section \<open>Pages and buffers\<close>

record 'a Page =
  pg_PageSize :: nat
  pg_PageIndex :: nat
  pg_Total :: nat
  pg_Data :: 'a

definition NewPage :: "nat \<Rightarrow> nat \<Rightarrow> nat \<Rightarrow> 'a \<Rightarrow> 'a Page" where
  "NewPage pageIndex pageSize tot data = \<lparr>pg_PageSize = pageSize, pg_PageIndex = pageIndex, pg_Total = tot, pg_Data = data\<rparr>"

definition ToPageNumOrDefault :: "string \<Rightarrow> string \<Rightarrow> nat \<times> nat" where
  "ToPageNumOrDefault pageIndex pageSize =
     (if pageIndex = [] then 1 else fst (ParseUint pageIndex 64), if pageSize = [] then 10 else fst (ParseUint pageSize 64))"

text \<open>\<^verbatim>\<open>WriteRune\<close>; a number that is no character is written as the replacement character.\<close>

definition WriteRune :: "int \<Rightarrow> string" where
  "WriteRune r = (if 0 \<le> r \<and> (r < 0xD800 \<or> 0xE000 \<le> r) \<and> r < 0x110000 then utf8_encode (nat r) else rune_error)"

definition Buffer_Append :: "string \<Rightarrow> go_value \<Rightarrow> string" where
  "Buffer_Append b i =
     (case i of
        GInt k val \<Rightarrow>
          (if k \<in> {KInt, KInt64, KUint, KUint64} then b @ int_dec val else if k = KInt32 then b @ WriteRune val else b)
      | GString val \<Rightarrow> b @ val
      | GBytes val \<Rightarrow> b @ val
      | _ \<Rightarrow> b)"

section \<open>Names\<close>

lemma toLower_not_upper: "\<not> isUpper (toLower b)"
  by (auto simp: toLower_def isUpper_def)

lemma toLower_id: "\<not> isUpper b \<Longrightarrow> toLower b = b"
  by (simp add: toLower_def)

lemma UnderscoreName_lower: "c \<in> set (UnderscoreName s) \<Longrightarrow> \<not> isUpper c"
proof (induction s)
  case (Cons b name)
  have "\<not> isUpper (CHR ''_'')" by (simp add: isUpper_def)
  with Cons show ?case using toLower_not_upper [of b] by (auto split: if_splits)
qed simp

lemma UnderscoreName_id: "\<forall>c\<in>set s. \<not> isUpper c \<Longrightarrow> UnderscoreName s = s"
proof (induction s)
  case (Cons b name)
  then show ?case by (cases name) (auto simp: toLower_id)
qed simp

lemma UnderscoreName_letters:
  "filter (\<lambda>c. c \<noteq> CHR ''_'') (UnderscoreName s) = filter (\<lambda>c. c \<noteq> CHR ''_'') (map toLower s)"
  by (induction s) auto

text \<open>
  The result of \<^verbatim>\<open>UnderscoreName\<close> has no capitals, is not changed by a second application, and apart from underscores it is
  the name in lower case.
\<close>

lemma UnderscoreName_correct:
  "(\<forall>c\<in>set (UnderscoreName s). \<not> isUpper c) \<and> UnderscoreName (UnderscoreName s) = UnderscoreName s \<and>
   filter (\<lambda>c. c \<noteq> CHR ''_'') (UnderscoreName s) = filter (\<lambda>c. c \<noteq> CHR ''_'') (map toLower s)"
  using UnderscoreName_lower UnderscoreName_id UnderscoreName_letters by blast

lemma repeated_mem: "repeated x xs \<longleftrightarrow> x \<in> set xs"
  by (induction xs) auto

lemma RemoveRepeatedElement_remdups: "RemoveRepeatedElement arr = remdups arr"
  by (induction arr) (auto simp: repeated_mem)

section \<open>Random texts\<close>

lemma hex_char_hex: "n < 16 \<Longrightarrow> hex_char n \<noteq> CHR ''-''"
  using hex_val_hex_char [of n] by (auto simp: hex_val_def)

lemma hex_encode_hex: "c \<in> set (hex_encode bs) \<Longrightarrow> c \<noteq> CHR ''-'' \<and> hex_val c \<noteq> None"
proof (induction bs)
  case (Cons b bs)
  have "unat b < 256" using unsigned_less [of b, where ?'a = nat] by simp
  then have "unat b div 16 < 16" "unat b mod 16 < 16" by auto
  with Cons show ?case by (auto simp: hex_char_hex)
qed simp

lemma filter_hex_encode: "filter (\<lambda>c. c \<noteq> CHR ''-'') (hex_encode bs) = hex_encode bs"
  using hex_encode_hex by (auto simp: filter_id_conv)

lemma hex_encode_append: "hex_encode (xs @ ys) = hex_encode xs @ hex_encode ys"
  by (induction xs) simp_all

lemma GenerUUID_hex:
  assumes "rnd 16 = Some bs" "length bs = 16"
  shows "\<exists>u. NewV4 rnd = Ret u \<and> GenerUUID rnd = Ret (hex_encode u) \<and> length (hex_encode u) = 32"
proof -
  define u where "u = SetVariant (SetVersion bs 4)"
  have u: "NewV4 rnd = Ret u" using assms(1) by (simp add: NewV4_def safeRandom_def u_def)
  have len: "length u = 16" using assms(2) by (simp add: u_def SetVariant_def SetVersion_def)
  have "u = take 4 u @ take 2 (drop 4 u) @ take 2 (drop 6 u) @ take 2 (drop 8 u) @ drop 10 u"
    using append_take_drop_id [of 2 "drop 4 u"] append_take_drop_id [of 2 "drop 6 u"] append_take_drop_id [of 2 "drop 8 u"]
    by simp
  from arg_cong [OF this, of hex_encode] have "filter (\<lambda>c. c \<noteq> CHR ''-'') (uuid_String u) = hex_encode u"
    by (simp add: uuid_String_def filter_hex_encode hex_encode_append)
  with u len show ?thesis by (simp add: GenerUUID_def)
qed

lemma GetRandomString_alphabet:
  assumes "\<And>i n. 0 < n \<Longrightarrow> Intn i n < n"
  shows "length (GetRandomString Intn num) = nat num \<and> set (GetRandomString Intn num) \<subseteq> set base62Chars"
proof -
  have "0 < length base62Chars" by (simp add: base62Chars_def)
  then have "base62Chars ! Intn i (length base62Chars) \<in> set base62Chars" for i using assms by (intro nth_mem) simp
  then show ?thesis by (auto simp: GetRandomString_def)
qed

section \<open>Substrings\<close>

text \<open>The characters from a position on, counted from the end if it is negative.\<close>

lemma Substr_correct:
  assumes "0 < len" "- int (length (runes str)) \<le> start"
    and "(if start < 0 then int (length (runes str)) + start else start) + len \<le> 9223372036854775807"
  shows "Substr str start len =
    Ret (concat (take (nat len) (drop (nat (if start < 0 then int (length (runes str)) + start else start)) (runes str))))"
proof -
  define n where "n = int (length (runes str))"
  define s where "s = (if start < 0 then n + start else start)"
  have s: "0 \<le> s" "s + len \<le> 9223372036854775807" using assms by (auto simp: s_def n_def)
  define a where "a = min s n"
  have a: "(if s > n then n else s) = a" "0 \<le> a" "a \<le> n" using s(1) by (auto simp: a_def n_def)
  have "is_int64 (a + len)" using s assms(1) a(2) by (auto simp: is_int64_def a_def)
  note a = a int64_id [OF this]
  have "Substr str start len = Ret (concat (take (nat (min n (a + len) - a)) (drop (nat a) (runes str))))"
    using assms(1) a unfolding Substr_def Let_def n_def [symmetric] s_def [symmetric] a(1) by (simp add: min_def)
  moreover have "take (nat (min n (a + len) - a)) (drop (nat a) (runes str)) = take (nat len) (drop (nat s) (runes str))"
  proof (cases "s > n")
    case True
    then show ?thesis by (simp add: a_def n_def min_def)
  next
    case False
    then have "a = s" by (simp add: a_def)
    moreover have "length (drop (nat s) (runes str)) = nat (n - s)" using s False by (simp add: n_def nat_diff_distrib)
    ultimately show ?thesis using False assms(1) by (cases "n < s + len") (auto simp: min_def)
  qed
  ultimately show ?thesis by (simp add: s_def n_def)
qed

lemma Substr_before_start: "0 < len \<Longrightarrow> start < - int (length (runes str)) \<Longrightarrow> is_int64 start \<Longrightarrow> Substr str start len = Panic slice_msg"
  by (auto simp: Substr_def Let_def)

section \<open>Base 62\<close>

text \<open>The value of a text in base 62.\<close>

definition base62_val :: "char \<Rightarrow> int" where
  "base62_val c = int (length (takeWhile (\<lambda>d. d \<noteq> c) base62Chars))"

definition base62_num :: "string \<Rightarrow> int" where
  "base62_num s = fold (\<lambda>c n. n * 62 + base62_val c) s 0"

lemma base62_val_digit: "0 \<le> k \<Longrightarrow> k < 62 \<Longrightarrow> base62_val (base62Chars ! nat k) = k"
proof -
  have "\<forall>k\<in>set [0..<62]. base62_val (base62Chars ! k) = int k" by code_simp
  then have "nat k < 62 \<Longrightarrow> base62_val (base62Chars ! nat k) = int (nat k)" by (simp del: One_nat_def)
  then show "0 \<le> k \<Longrightarrow> k < 62 \<Longrightarrow> base62_val (base62Chars ! nat k) = k" by simp
qed

lemma Ten2Hex_loop_val:
  "0 \<le> ten \<Longrightarrow> fold (\<lambda>c n. n * 62 + base62_val c) (Ten2Hex_loop ten hex) 0 = fold (\<lambda>c n. n * 62 + base62_val c) hex ten"
proof (induction ten hex rule: Ten2Hex_loop.induct)
  case (1 ten hex)
  show ?case
  proof (cases "ten > 0")
    case True
    then have "fold (\<lambda>c n. n * 62 + base62_val c) (Ten2Hex_loop ten hex) 0 = fold (\<lambda>c n. n * 62 + base62_val c) hex (ten div 62 * 62 + ten mod 62)"
      using 1 by (subst Ten2Hex_loop.simps) (simp add: base62_val_digit)
    then show ?thesis by simp
  qed (use 1 in \<open>simp add: Ten2Hex_loop.simps\<close>)
qed

text \<open>Every number that is not negative is read back, so no two of them have the same text.\<close>

theorem Ten2Hex_roundtrip:
  assumes "0 \<le> ten"
  shows "base62_num (Ten2Hex ten) = ten"
  using Ten2Hex_loop_val [OF assms, of "[]"] base62_val_digit [of 0]
  by (auto simp: Ten2Hex_def base62_num_def base62Chars_def)

lemma Ten2Hex_negative: "ten < 0 \<Longrightarrow> Ten2Hex ten = []"
  by (simp add: Ten2Hex_def Ten2Hex_loop.simps)

section \<open>Signatures\<close>

text \<open>The pairs that are signed: the keys in order, without those whose value is the empty string.\<close>

definition signed_keys :: "(string \<times> go_value) list \<Rightarrow> string list" where
  "signed_keys params = filter (\<lambda>k. param params k \<noteq> GString []) (sort (map fst params))"

definition sign_pair :: "(go_value \<Rightarrow> string) \<Rightarrow> (string \<times> go_value) list \<Rightarrow> string \<Rightarrow> string" where
  "sign_pair to_str params k = k @ ''='' @ to_str (param params k)"

lemma join_amp: "concat (map (\<lambda>k. f k @ ''&'') ks) = (if ks = [] then [] else join ''&'' (map f ks) @ ''&'')"
  by (induction ks rule: induct_list012) auto

lemma MapToQueryParamSort_join: "MapToQueryParamSort params = join ''&'' (map (sign_pair objToStr params) (signed_keys params))"
proof -
  have "fold (\<lambda>k strs. if param params k = GString [] then strs else strs @ k @ ''='' @ objToStr (param params k) @ ''&'') ks acc =
      acc @ concat (map (\<lambda>k. sign_pair objToStr params k @ ''&'') (filter (\<lambda>k. param params k \<noteq> GString []) ks))" for ks acc
    by (induction ks arbitrary: acc) (auto simp: sign_pair_def)
  then have "fold (\<lambda>k strs. if param params k = GString [] then strs else strs @ k @ ''='' @ objToStr (param params k) @ ''&'')
        (sort (map fst params)) [] = concat (map (\<lambda>k. sign_pair objToStr params k @ ''&'') (signed_keys params))"
    by (simp add: signed_keys_def)
  then show ?thesis
    by (cases "params = []") (simp_all add: MapToQueryParamSort_def Let_def join_amp butlast_append signed_keys_def [of "[]"])
qed

lemma join_snoc: "join ''&'' (map f (ks @ [k])) = concat (map (\<lambda>k. f k @ ''&'') ks) @ f k"
  by (induction ks rule: induct_list012) auto

lemma GetSignStr_loop_prefix:
  "\<forall>(i, k)\<in>set iks. i \<noteq> n - 1 \<Longrightarrow>
   GetSignStr_loop v n (iks @ rest) acc =
   GetSignStr_loop v n rest
     (acc @ concat (map (\<lambda>k. (k @ ''='' @ ObjToStr (v k)) @ ''&'') (filter (\<lambda>k. v k \<noteq> GString []) (map snd iks))))"
  by (induction iks arbitrary: acc) auto

lemma GetSignStr_split:
  assumes "sort (map fst params) = ks @ [k]"
  shows "GetSignStr params =
    concat (map (\<lambda>k. sign_pair ObjToStr params k @ ''&'') (filter (\<lambda>k. param params k \<noteq> GString []) ks)) @
    (if param params k = GString [] then [] else sign_pair ObjToStr params k)"
proof -
  have e: "enumerate 0 (ks @ [k]) = enumerate 0 ks @ [(length ks, k)]" by (simp add: enumerate_append_eq)
  have "\<forall>(i, k)\<in>set (enumerate 0 ks). i \<noteq> Suc (length ks) - 1" by (auto simp: in_set_enumerate_eq)
  from GetSignStr_loop_prefix [OF this, of "param params" "[(length ks, k)]" "[]"] show ?thesis
    by (simp add: GetSignStr_def assms e sign_pair_def [abs_def])
qed

text \<open>
  \<^verbatim>\<open>MapToQueryParamSort\<close> and \<^verbatim>\<open>GetSignStr\<close> build the text that is signed from the same pairs, the non-empty values in the
  order of their keys.  \<^verbatim>\<open>MapToQueryParamSort\<close> joins them with ampersands; \<^verbatim>\<open>GetSignStr\<close> does too, except that an ampersand is
  left at the end when the value of the greatest key is empty.
\<close>

theorem sign_texts:
  "MapToQueryParamSort params = join ''&'' (map (sign_pair objToStr params) (signed_keys params)) \<and>
   GetSignStr params = join ''&'' (map (sign_pair ObjToStr params) (signed_keys params)) @
     (if signed_keys params \<noteq> [] \<and> last (signed_keys params) \<noteq> last (sort (map fst params)) then ''&'' else [])"
proof (cases "sort (map fst params)" rule: rev_cases)
  case Nil
  then show ?thesis by (simp add: MapToQueryParamSort_join GetSignStr_def signed_keys_def)
next
  case (snoc ks k)
  define fs where "fs = filter (\<lambda>k. param params k \<noteq> GString []) ks"
  have s: "signed_keys params = fs @ (if param params k = GString [] then [] else [k])"
    by (simp add: signed_keys_def snoc fs_def)
  show ?thesis
  proof (cases "param params k = GString []")
    case True
    then have "k \<notin> set fs" by (simp add: fs_def)
    then have "fs \<noteq> [] \<Longrightarrow> last fs \<noteq> k" using last_in_set by metis
    with True s snoc show ?thesis
      by (simp add: MapToQueryParamSort_join GetSignStr_split [OF snoc] join_amp fs_def [symmetric])
  next
    case False
    with s snoc show ?thesis
      by (simp add: MapToQueryParamSort_join GetSignStr_split [OF snoc] fs_def [symmetric] join_snoc del: map_append)
  qed
qed

lemma GetSignStr_trailing: "GetSignStr [(''b'', GString []), (''a'', GString ''1'')] = ''a=1&''"
  by code_simp

lemma Sign_uint32: "MapToQueryParamSort [(''n'', GInt KUint32 5)] = ''n=%!s(uint32=5)''"
  by code_simp

text \<open>A signature does not depend on the order in which the map is visited.\<close>

lemma sign_order_independent:
  assumes "distinct (map fst params)" "mset params = mset params'"
  shows "MapToQueryParamSort params = MapToQueryParamSort params' \<and> Sign MD5 params appKey = Sign MD5 params' appKey"
proof -
  have "param params = param params'" using map_of_perm [OF assms] by (simp add: param_def fun_eq_iff)
  moreover have "sort (map fst params) = sort (map fst params')"
    using assms(2) by (intro properties_for_sort) (simp_all add: mset_map)
  ultimately have "MapToQueryParamSort params = MapToQueryParamSort params'"
    by (simp add: MapToQueryParamSort_join sign_pair_def [abs_def] signed_keys_def)
  then show ?thesis by (simp add: Sign_def)
qed

end
