(* ===== verification/Aes.thy ===== *)
theory Aes
  imports Im_Client
begin

text \<open>
  \<^verbatim>\<open>pkg/util/aes.go\<close>: cipher block chaining with padding, and its form in base 64.  The block cipher of \<^verbatim>\<open>crypto/aes\<close> is an
  argument: the encryption and the decryption of one block of 16 bytes under a key.  Bytes are numbers below 256.
\<close>

section \<open>Padding\<close>

definition PKCS5Padding :: "nat list \<Rightarrow> nat \<Rightarrow> nat list" where
  "PKCS5Padding ciphertext blockSize =
     (let padding = blockSize - length ciphertext mod blockSize in ciphertext @ replicate padding (padding mod 256))"

datatype pad_error = EmptyInput | InvalidPadding

text \<open>The loop that compares the last bytes.\<close>

fun pad_bytes_ok :: "nat list \<Rightarrow> nat \<Rightarrow> bool" where
  "pad_bytes_ok [] unpadding = True"
| "pad_bytes_ok (b # bs) unpadding = (if b \<noteq> unpadding then False else pad_bytes_ok bs unpadding)"

definition PKCS5UnPadding :: "nat list \<Rightarrow> pad_error + nat list" where
  "PKCS5UnPadding origData =
     (let len = length origData
      in if len = 0 then Inl EmptyInput
         else let unpadding = origData ! (len - 1)
              in if unpadding = 0 \<or> unpadding > len then Inl InvalidPadding
                 else if pad_bytes_ok (drop (len - unpadding) origData) unpadding
                      then Inr (take (len - unpadding) origData)
                      else Inl InvalidPadding)"

text \<open>The two pairs of functions have the same bodies.\<close>

definition PKCS7Padding :: "nat list \<Rightarrow> nat \<Rightarrow> nat list" where
  "PKCS7Padding ciphertext blockSize =
     (let padding = blockSize - length ciphertext mod blockSize in ciphertext @ replicate padding (padding mod 256))"

definition PKCS7UnPadding :: "nat list \<Rightarrow> pad_error + nat list" where
  "PKCS7UnPadding origData =
     (let len = length origData
      in if len = 0 then Inl EmptyInput
         else let unpadding = origData ! (len - 1)
              in if unpadding = 0 \<or> unpadding > len then Inl InvalidPadding
                 else if pad_bytes_ok (drop (len - unpadding) origData) unpadding
                      then Inr (take (len - unpadding) origData)
                      else Inl InvalidPadding)"

section \<open>Cipher block chaining\<close>

record block_cipher =
  bc_Encrypt :: "nat list \<Rightarrow> nat list \<Rightarrow> nat list"
  bc_Decrypt :: "nat list \<Rightarrow> nat list \<Rightarrow> nat list"

definition xor_bytes :: "nat list \<Rightarrow> nat list \<Rightarrow> nat list" where
  "xor_bytes = map2 xor"

function cbc_encrypt :: "(nat list \<Rightarrow> nat list) \<Rightarrow> nat list \<Rightarrow> nat list \<Rightarrow> nat list" where
  "cbc_encrypt E iv src =
     (if src = [] then []
      else let c = E (xor_bytes (take 16 src) iv) in c @ cbc_encrypt E c (drop 16 src))"
  by pat_completeness auto
termination by (relation "measure (\<lambda>(E, iv, src). length src)") auto

function cbc_decrypt :: "(nat list \<Rightarrow> nat list) \<Rightarrow> nat list \<Rightarrow> nat list \<Rightarrow> nat list" where
  "cbc_decrypt D iv src =
     (if src = [] then []
      else xor_bytes (D (take 16 src)) iv @ cbc_decrypt D (take 16 src) (drop 16 src))"
  by pat_completeness auto
termination by (relation "measure (\<lambda>(D, iv, src). length src)") auto

declare cbc_encrypt.simps [simp del] cbc_decrypt.simps [simp del]

datatype aes_error = KeySizeError nat | PadError pad_error | Base64Error

text \<open>\<^verbatim>\<open>aes.NewCipher\<close> accepts keys of 16, 24 and 32 bytes.\<close>

definition NewCipher_ok :: "nat list \<Rightarrow> bool" where
  "NewCipher_ok key \<longleftrightarrow> length key \<in> {16, 24, 32}"

definition iv_msg :: string where
  "iv_msg = ''cipher: IV length must equal block size''"

definition blocks_msg :: string where
  "blocks_msg = ''crypto/cipher: input not full blocks''"

definition AesEncrypt ::
  "block_cipher \<Rightarrow> nat list \<Rightarrow> nat list \<Rightarrow> nat list \<Rightarrow> (nat list \<Rightarrow> nat \<Rightarrow> nat list) \<Rightarrow> (aes_error + nat list) go" where
  "AesEncrypt bc origData key iv paddingFunc =
     (if \<not> NewCipher_ok key then Ret (Inl (KeySizeError (length key)))
      else let origData = paddingFunc origData 16
           in if length iv \<noteq> 16 then Panic iv_msg
              else if length origData mod 16 \<noteq> 0 then Panic blocks_msg
              else Ret (Inr (cbc_encrypt (bc_Encrypt bc key) iv origData)))"

definition AesDecrypt ::
  "block_cipher \<Rightarrow> nat list \<Rightarrow> nat list \<Rightarrow> nat list \<Rightarrow> (nat list \<Rightarrow> pad_error + nat list) \<Rightarrow> (aes_error + nat list) go" where
  "AesDecrypt bc crypted key iv unPaddingFunc =
     (if \<not> NewCipher_ok key then Ret (Inl (KeySizeError (length key)))
      else if length iv \<noteq> 16 then Panic iv_msg
      else if length crypted mod 16 \<noteq> 0 then Panic blocks_msg
      else Ret (case unPaddingFunc (cbc_decrypt (bc_Decrypt bc key) iv crypted) of Inl e \<Rightarrow> Inl (PadError e) | Inr d \<Rightarrow> Inr d))"

definition AesEncryptPkcs5 :: "block_cipher \<Rightarrow> nat list \<Rightarrow> nat list \<Rightarrow> nat list \<Rightarrow> (aes_error + nat list) go" where
  "AesEncryptPkcs5 bc origData key iv = AesEncrypt bc origData key iv PKCS5Padding"

definition AesEncryptPkcs7 :: "block_cipher \<Rightarrow> nat list \<Rightarrow> nat list \<Rightarrow> nat list \<Rightarrow> (aes_error + nat list) go" where
  "AesEncryptPkcs7 bc origData key iv = AesEncrypt bc origData key iv PKCS7Padding"

definition AesEncryptSimple :: "block_cipher \<Rightarrow> nat list \<Rightarrow> string \<Rightarrow> string \<Rightarrow> (aes_error + nat list) go" where
  "AesEncryptSimple bc origData key iv = AesEncryptPkcs5 bc origData (map of_char key) (map of_char iv)"

definition AesEncryptPkcs7Base64 :: "block_cipher \<Rightarrow> nat list \<Rightarrow> nat list \<Rightarrow> nat list \<Rightarrow> (aes_error + string) go" where
  "AesEncryptPkcs7Base64 bc origData key iv =
     go_bind (AesEncrypt bc origData key iv PKCS7Padding)
       (\<lambda>r. Ret (case r of Inl e \<Rightarrow> Inl e | Inr data \<Rightarrow> Inr (b64_encode data)))"

definition AesDecryptPkcs5 :: "block_cipher \<Rightarrow> nat list \<Rightarrow> nat list \<Rightarrow> nat list \<Rightarrow> (aes_error + nat list) go" where
  "AesDecryptPkcs5 bc crypted key iv = AesDecrypt bc crypted key iv PKCS5UnPadding"

definition AesDecryptPkcs7 :: "block_cipher \<Rightarrow> nat list \<Rightarrow> nat list \<Rightarrow> nat list \<Rightarrow> (aes_error + nat list) go" where
  "AesDecryptPkcs7 bc crypted key iv = AesDecrypt bc crypted key iv PKCS7UnPadding"

definition AesDecryptSimple :: "block_cipher \<Rightarrow> nat list \<Rightarrow> string \<Rightarrow> string \<Rightarrow> (aes_error + nat list) go" where
  "AesDecryptSimple bc crypted key iv = AesDecryptPkcs5 bc crypted (map of_char key) (map of_char iv)"

text \<open>The decoder of base 64 skips line breaks.\<close>

definition AesDecryptPkcs7Base64 :: "block_cipher \<Rightarrow> string \<Rightarrow> nat list \<Rightarrow> nat list \<Rightarrow> (aes_error + nat list) go" where
  "AesDecryptPkcs7Base64 bc crypted key iv =
     (case b64_quads (filter (\<lambda>c. c \<noteq> CHR 0x0A \<and> c \<noteq> CHR 0x0D) crypted) of
        None \<Rightarrow> Ret (Inl Base64Error)
      | Some cryptedData \<Rightarrow> AesDecrypt bc cryptedData key iv PKCS7UnPadding)"

section \<open>Padding\<close>

lemma pad_bytes_ok_iff: "pad_bytes_ok bs u \<longleftrightarrow> (\<forall>b\<in>set bs. b = u)"
  by (induction bs) auto

lemma PKCS7_PKCS5: "PKCS7Padding = PKCS5Padding" "PKCS7UnPadding = PKCS5UnPadding"
  by (simp_all add: PKCS7Padding_def PKCS5Padding_def PKCS7UnPadding_def PKCS5UnPadding_def fun_eq_iff)

lemma length_padding: "0 < n \<Longrightarrow> length (PKCS5Padding d n) mod n = 0"
proof -
  assume n: "0 < n"
  then have "length d mod n < n" by simp
  moreover have "length d = length d div n * n + length d mod n" by simp
  ultimately have "length (PKCS5Padding d n) = length d div n * n + n" unfolding PKCS5Padding_def Let_def length_append length_replicate
    by linarith
  then show ?thesis by simp
qed

text \<open>Unpadding accepts exactly the data that end in \<open>k\<close> bytes of value \<open>k\<close>, and removes them.\<close>

lemma PKCS5UnPadding_Inr:
  "PKCS5UnPadding d = Inr e \<longleftrightarrow> (\<exists>k>0. d = e @ replicate k k)"
proof
  assume u: "PKCS5UnPadding d = Inr e"
  define k where "k = d ! (length d - 1)"
  from u have k: "0 < k" "k \<le> length d" "pad_bytes_ok (drop (length d - k) d) k" "e = take (length d - k) d"
    unfolding PKCS5UnPadding_def Let_def k_def [symmetric] by (simp_all split: if_split_asm)
  have "length (drop (length d - k) d) = k" using k(2) by simp
  moreover have "y = k" if "y \<in> set (drop (length d - k) d)" for y using k(3) that unfolding pad_bytes_ok_iff by blast
  ultimately have "drop (length d - k) d = replicate k k" by (rule replicate_eqI)
  then have "d = e @ replicate k k" using k(4) by (metis append_take_drop_id)
  with k(1) show "\<exists>k>0. d = e @ replicate k k" by blast
next
  assume "\<exists>k>0. d = e @ replicate k k"
  then obtain k where k: "0 < k" "d = e @ replicate k k" by blast
  then have "last d = k" "d \<noteq> []" by simp_all
  then have "d ! (length d - 1) = k" by (metis last_conv_nth)
  with k show "PKCS5UnPadding d = Inr e" by (simp add: PKCS5UnPadding_def pad_bytes_ok_iff)
qed

lemma padding_roundtrip: "PKCS5UnPadding (PKCS5Padding d 16) = Inr d"
proof -
  have "0 < 16 - length d mod 16" "(16 - length d mod 16) mod 256 = 16 - length d mod 16" by simp_all
  then show ?thesis unfolding PKCS5UnPadding_Inr PKCS5Padding_def Let_def by metis
qed

section \<open>Chaining\<close>

definition bytes :: "nat list \<Rightarrow> bool" where
  "bytes bs \<longleftrightarrow> (\<forall>b\<in>set bs. b < 256)"

lemma xor_byte: "a < 256 \<Longrightarrow> b < 256 \<Longrightarrow> xor a b < (256 :: nat)"
proof -
  assume "a < 256" "b < 256"
  then have "take_bit 8 a = a" "take_bit 8 b = b" by (simp_all add: take_bit_nat_eq_self_iff)
  then have "take_bit 8 (xor a b) = xor a b" by (simp add: take_bit_xor)
  moreover have "take_bit 8 (xor a b) < 2 ^ 8" by (rule take_bit_nat_less_exp)
  ultimately show "xor a b < 256" by simp
qed

lemma xor_bytes_facts:
  assumes "length b = length a"
  shows "length (xor_bytes a b) = length a" "xor_bytes (xor_bytes a b) b = a"
  using assms
proof -
  show "length (xor_bytes a b) = length a" using assms by (simp add: xor_bytes_def)
  show "xor_bytes (xor_bytes a b) b = a"
    using assms [symmetric] by (induction a b rule: list_induct2) (simp_all add: xor_bytes_def xor.assoc)
qed

lemma xor_bytes_bytes: "bytes a \<Longrightarrow> bytes b \<Longrightarrow> bytes (xor_bytes a b)"
  by (auto simp: bytes_def xor_bytes_def set_zip intro!: xor_byte)

text \<open>What \<^verbatim>\<open>crypto/aes\<close> documents: blocks go to blocks, and decryption inverts encryption.\<close>

definition cipher_ok :: "(nat list \<Rightarrow> nat list) \<Rightarrow> (nat list \<Rightarrow> nat list) \<Rightarrow> bool" where
  "cipher_ok E D \<longleftrightarrow> (\<forall>x. length x = 16 \<longrightarrow> bytes x \<longrightarrow> length (E x) = 16 \<and> bytes (E x) \<and> D (E x) = x)"

lemma cbc_roundtrip:
  assumes "cipher_ok E D" "length iv = 16" "bytes iv" "length src mod 16 = 0" "bytes src"
  shows "length (cbc_encrypt E iv src) = length src \<and> bytes (cbc_encrypt E iv src) \<and> cbc_decrypt D iv (cbc_encrypt E iv src) = src"
  using assms
proof (induction E iv src rule: cbc_encrypt.induct)
  case (1 E iv src)
  show ?case
  proof (cases "src = []")
    case True
    then show ?thesis by (simp add: cbc_encrypt.simps cbc_decrypt.simps bytes_def)
  next
    case False
    define x where "x = take 16 src"
    define c where "c = E (xor_bytes x iv)"
    have len: "16 \<le> length src" using False "1.prems"(4) by (cases "length src < 16") auto
    then have x: "length x = 16" "bytes x" using "1.prems"(5) by (auto simp: x_def bytes_def dest: in_set_takeD)
    have c: "length c = 16" "bytes c" "D c = xor_bytes x iv"
      using "1.prems"(1) x "1.prems"(2,3) xor_bytes_facts(1) [of iv x] xor_bytes_bytes [of x iv] by (auto simp: cipher_ok_def c_def)
    have d: "length (drop 16 src) mod 16 = 0" "bytes (drop 16 src)"
      using "1.prems"(4,5) len le_mod_geq [OF len] by (auto simp: bytes_def dest: in_set_dropD)
    have IH: "length (cbc_encrypt E c (drop 16 src)) = length (drop 16 src)" "bytes (cbc_encrypt E c (drop 16 src))"
      "cbc_decrypt D c (cbc_encrypt E c (drop 16 src)) = drop 16 src"
      using "1.IH" [OF False refl] "1.prems"(1) c d by (auto simp: c_def x_def)
    have e: "cbc_encrypt E iv src = c @ cbc_encrypt E c (drop 16 src)"
      using False by (simp add: cbc_encrypt.simps [of E iv src] c_def x_def Let_def)
    have "cbc_decrypt D iv (cbc_encrypt E iv src) = xor_bytes (D c) iv @ drop 16 src"
      unfolding e using c(1) IH(3) by (subst cbc_decrypt.simps) auto
    also have "\<dots> = src" using c(3) x(1) "1.prems"(2) xor_bytes_facts(2) [of iv x] by (simp add: x_def)
    finally show ?thesis using e c IH len by (auto simp: bytes_def)
  qed
qed

lemma bytes_padding: "bytes d \<Longrightarrow> bytes (PKCS5Padding d 16)"
  by (auto simp: bytes_def PKCS5Padding_def Let_def)

lemma filter_b64_encode: "bytes bs \<Longrightarrow> filter (\<lambda>c. c \<noteq> CHR 0x0A \<and> c \<noteq> CHR 0x0D) (b64_encode bs) = b64_encode bs"
  using b64_encode_alphabet b64_alphabet_facts by (fastforce simp: filter_id_conv bytes_def)

text \<open>
  What is encrypted is decrypted: for every key of a legal size, every initialisation vector of 16 bytes and data of any
  length, the empty ones and those that fill their blocks included, the three decryptions return the data the matching
  encryptions were given, neither of them with an error or a panic.
\<close>

theorem aes_roundtrip:
  assumes "cipher_ok (bc_Encrypt bc key) (bc_Decrypt bc key)" "length key \<in> {16, 24, 32}" "length iv = 16" "bytes iv" "bytes d"
  shows "(\<exists>c. AesEncryptPkcs5 bc d key iv = Ret (Inr c) \<and> AesDecryptPkcs5 bc c key iv = Ret (Inr d)) \<and>
    (\<exists>c. AesEncryptPkcs7 bc d key iv = Ret (Inr c) \<and> AesDecryptPkcs7 bc c key iv = Ret (Inr d)) \<and>
    (\<exists>t. AesEncryptPkcs7Base64 bc d key iv = Ret (Inr t) \<and> AesDecryptPkcs7Base64 bc t key iv = Ret (Inr d))"
proof -
  define c where "c = cbc_encrypt (bc_Encrypt bc key) iv (PKCS5Padding d 16)"
  have m: "length (PKCS5Padding d 16) mod 16 = 0" by (rule length_padding) simp
  have c: "length c = length (PKCS5Padding d 16)" "bytes c" "cbc_decrypt (bc_Decrypt bc key) iv c = PKCS5Padding d 16"
    using cbc_roundtrip [OF assms(1,3,4) m bytes_padding [OF assms(5)]] by (auto simp: c_def)
  have e: "AesEncrypt bc d key iv PKCS5Padding = Ret (Inr c)"
    using assms(2,3) m by (simp add: AesEncrypt_def NewCipher_ok_def c_def)
  have dd: "AesDecrypt bc c key iv PKCS5UnPadding = Ret (Inr d)"
    using assms(2,3) m c by (simp add: AesDecrypt_def NewCipher_ok_def padding_roundtrip)
  show ?thesis
    using e dd c(2) b64_quads_encode [of c] filter_b64_encode [of c]
    by (simp add: AesEncryptPkcs5_def AesDecryptPkcs5_def AesEncryptPkcs7_def AesDecryptPkcs7_def AesEncryptPkcs7Base64_def
        AesDecryptPkcs7Base64_def PKCS7_PKCS5 bytes_def)
qed

text \<open>A cipher to try it on: every block is combined with the first 16 bytes of the key.\<close>

definition xor_cipher :: block_cipher where
  "xor_cipher = \<lparr>bc_Encrypt = (\<lambda>key x. xor_bytes x (take 16 key)), bc_Decrypt = (\<lambda>key x. xor_bytes x (take 16 key))\<rparr>"

theorem aes_roundtrip_witness:
  "\<exists>t. AesEncryptPkcs7Base64 xor_cipher [104, 105] [0..<16] (replicate 16 7) = Ret (Inr t) \<and>
     AesDecryptPkcs7Base64 xor_cipher t [0..<16] (replicate 16 7) = Ret (Inr [104, 105])"
proof -
  have k: "bytes [0..<16]" by (simp add: bytes_def)
  have "cipher_ok (bc_Encrypt xor_cipher [0..<16]) (bc_Decrypt xor_cipher [0..<16])"
    using xor_bytes_facts [of "[0..<16]"] xor_bytes_bytes [OF _ k] by (auto simp: cipher_ok_def xor_cipher_def)
  moreover have "bytes (replicate 16 7)" "bytes [104, 105]" by (simp_all add: bytes_def)
  ultimately show ?thesis using aes_roundtrip [of xor_cipher "[0..<16]" "replicate 16 7" "[104, 105]"] by simp
qed

text \<open>
  Data that are no multiple of the block size make every decryption panic.  The check of the padding accepts more than
  PKCS\#7 allows: a number above the block size.
\<close>

lemma AesDecrypt_panics:
  "NewCipher_ok key \<Longrightarrow> length iv = 16 \<Longrightarrow> length crypted mod 16 \<noteq> 0 \<Longrightarrow> AesDecrypt bc crypted key iv f = Panic blocks_msg"
  by (simp add: AesDecrypt_def)

lemma PKCS7UnPadding_long: "PKCS7UnPadding (replicate 32 32) = Inr []"
  unfolding PKCS7_PKCS5 PKCS5UnPadding_Inr by (rule exI [of _ 32]) simp

end
