(* ===== verification/Config.thy ===== *)
theory Config
  imports Octo_Prelude
begin

text \<open>
  \<^verbatim>\<open>config/config.go\<close>: the configuration, its defaults, how the settings file and the environment override them.  The library that reads the settings file
  (\<^verbatim>\<open>viper\<close>, with \<^verbatim>\<open>cast\<close>) is a record of the answers it gives for a key; the environment is a function.  Durations are
  nanoseconds.
\<close>

section \<open>The environment\<close>

definition GetEnv :: "(string \<Rightarrow> string) \<Rightarrow> string \<Rightarrow> string \<Rightarrow> string" where
  "GetEnv env key defaultValue = (let v = env key in if TrimSpace v = [] then defaultValue else v)"

definition GetEnvBool :: "(string \<Rightarrow> string) \<Rightarrow> string \<Rightarrow> bool \<Rightarrow> bool" where
  "GetEnvBool env key defaultValue =
     (let v = env key in if TrimSpace v = [] then defaultValue else if v = ''true'' then True else False)"

definition GetEnvInt64 :: "(string \<Rightarrow> string) \<Rightarrow> string \<Rightarrow> int \<Rightarrow> int" where
  "GetEnvInt64 env key defaultValue =
     (let v = env key
      in if TrimSpace v = [] then defaultValue
         else case ParseInt v 64 of (i, None) \<Rightarrow> i | (_, Some err) \<Rightarrow> defaultValue)"

definition GetEnvInt :: "(string \<Rightarrow> string) \<Rightarrow> string \<Rightarrow> int \<Rightarrow> int" where
  "GetEnvInt env key defaultValue =
     (let v = env key
      in if TrimSpace v = [] then defaultValue
         else case ParseInt v 64 of (i, None) \<Rightarrow> i | (_, Some err) \<Rightarrow> defaultValue)"

definition StringEnv :: "(string \<Rightarrow> string) \<Rightarrow> string \<Rightarrow> string \<Rightarrow> string" where
  "StringEnv env v key = (let vv = env key in if vv \<noteq> [] then vv else v)"

definition BoolEnv :: "(string \<Rightarrow> string) \<Rightarrow> bool \<Rightarrow> string \<Rightarrow> bool" where
  "BoolEnv env b key = (let val = env key in if TrimSpace val \<noteq> [] then val = ''true'' else b)"

section \<open>The configuration\<close>

definition DebugMode :: string where
  "DebugMode = ''debug''"

definition ReleaseMode :: string where
  "ReleaseMode = ''release''"

definition FileServiceMinio :: string where
  "FileServiceMinio = ''minio''"

definition SMSProviderAliyun :: string where
  "SMSProviderAliyun = ''aliyun''"

record TablePartitionConfig =
  TablePartition_MessageTableCount :: int
  TablePartition_MessageUserEditTableCount :: int
  TablePartition_ChannelOffsetTableCount :: int

record OSSConfig =
  OSS_Endpoint :: string
  OSS_BucketName :: string
  OSS_BucketURL :: string
  OSS_AccessKeyID :: string
  OSS_AccessKeySecret :: string

record MinioConfig =
  Minio_URL :: string
  Minio_UploadURL :: string
  Minio_DownloadURL :: string
  Minio_AccessKeyID :: string
  Minio_SecretAccessKey :: string

record SeaweedConfig =
  Seaweed_URL :: string

record QiniuConfig =
  Qiniu_URL :: string
  Qiniu_BucketName :: string
  Qiniu_AccessKey :: string
  Qiniu_SecretKey :: string

record S3Config =
  S3_Endpoint :: string
  S3_Region :: string
  S3_Bucket :: string
  S3_AccessKeyID :: string
  S3_SecretAccessKey :: string
  S3_SessionToken :: string
  S3_DownloadURL :: string
  S3_Prefix :: string
  S3_UsePathStyle :: bool

record COSConfig =
  COS_SecretID :: string
  COS_SecretKey :: string
  COS_Bucket :: string
  COS_Region :: string
  COS_BucketURL :: string
  COS_Prefix :: string

record UnismsConfig =
  Unisms_Signature :: string
  Unisms_AccessKeyID :: string
  Unisms_AccessKeySecret :: string
  Unisms_TemplateId :: string

record SmsbaoConfig =
  Smsbao_Account :: string
  Smsbao_APIKey :: string
  Smsbao_Template :: string

record AliyunSMSConfig =
  AliyunSMS_AccessKeyID :: string
  AliyunSMS_AccessSecret :: string
  AliyunSMS_TemplateCode :: string
  AliyunSMS_SignName :: string

record AliyunInternationalSMSConfig =
  AliyunInternationalSMS_AccessKeyID :: string
  AliyunInternationalSMS_AccessSecret :: string
  AliyunInternationalSMS_SignName :: string

record APNSPush =
  APNS_Dev :: bool
  APNS_Topic :: string
  APNS_Password :: string
  APNS_Cert :: string

record HMSPush =
  HMS_PackageName :: string
  HMS_AppID :: string
  HMS_AppSecret :: string

record MIPush =
  MI_PackageName :: string
  MI_AppID :: string
  MI_AppSecret :: string
  MI_ChannelID :: string

record OPPOPush =
  OPPO_PackageName :: string
  OPPO_AppID :: string
  OPPO_AppKey :: string
  OPPO_AppSecret :: string
  OPPO_MasterSecret :: string

record VIVOPush =
  VIVO_PackageName :: string
  VIVO_AppID :: string
  VIVO_AppKey :: string
  VIVO_AppSecret :: string

record FIREBASEPush =
  FIREBASE_PackageName :: string
  FIREBASE_JsonPath :: string
  FIREBASE_ProjectId :: string

record External_config =
  External_IP :: string
  External_BaseURL :: string
  External_H5BaseURL :: string
  External_APIBaseURL :: string
  External_WebLoginURL :: string

record Logger_config =
  Logger_Dir :: string
  Logger_Level :: int
  Logger_LineNum :: bool

record DB_config =
  DB_MySQLAddr :: string
  DB_MySQLMaxOpenConns :: int
  DB_MySQLMaxIdleConns :: int
  DB_MySQLConnMaxLifetime :: int
  DB_Migration :: bool
  DB_RedisAddr :: string
  DB_RedisPass :: string
  DB_RedisTLS :: bool
  DB_RedisTLSInsecureSkipVerify :: bool
  DB_RedisTLSCAFile :: string
  DB_AsynctaskRedisAddr :: string

record Cluster_config =
  Cluster_NodeID :: int

record Cache_config =
  Cache_TokenCachePrefix :: string
  Cache_LoginDeviceCachePrefix :: string
  Cache_LoginDeviceCacheExpire :: int
  Cache_UIDTokenCachePrefix :: string
  Cache_FriendApplyTokenCachePrefix :: string
  Cache_FriendApplyExpire :: int
  Cache_TokenExpire :: int
  Cache_NameCacheExpire :: int

record Account_config =
  Account_SystemUID :: string
  Account_FileHelperUID :: string
  Account_SystemGroupID :: string
  Account_SystemGroupName :: string
  Account_AdminUID :: string

record WuKongIM_config =
  WuKongIM_APIURL :: string
  WuKongIM_ManagerToken :: string

record Avatar_config =
  Avatar_Default :: string
  Avatar_DefaultCount :: int
  Avatar_Partition :: int
  Avatar_DefaultBaseURL :: string

record ShortNo_config =
  ShortNo_NumOn :: bool
  ShortNo_NumLen :: int
  ShortNo_EditOff :: bool

record Robot_config =
  Robot_MessageExpire :: int
  Robot_InlineQueryTimeout :: int
  Robot_EventPoolSize :: int

record Gitee_config =
  Gitee_OAuthURL :: string
  Gitee_ClientID :: string
  Gitee_ClientSecret :: string

record Github_config =
  Github_OAuthURL :: string
  Github_ClientID :: string
  Github_ClientSecret :: string

record OWT_config =
  OWT_URL :: string
  OWT_ServiceID :: string
  OWT_ServiceKey :: string
  OWT_RoomMaxCount :: int

record Livekit_config =
  Livekit_Off :: bool
  Livekit_URL :: string
  Livekit_APIKey :: string
  Livekit_APISecret :: string
  Livekit_InviteTimeoutSeconds :: int
  Livekit_RoomMaxCount :: int

record Register_config =
  Register_Off :: bool
  Register_OnlyChina :: bool
  Register_StickerAddOff :: bool
  Register_UsernameOn :: bool
  Register_EmailOn :: bool

record Organization_config =
  Organization_ImportOn :: bool

record Friend_config =
  Friend_AddedTipsText :: string

record ZincSearch_config =
  ZincSearch_SearchOn :: bool
  ZincSearch_APIURL :: string
  ZincSearch_ZincUsername :: string
  ZincSearch_ZincPassword :: string
  ZincSearch_SyncIntervalSecond :: int
  ZincSearch_SyncCount :: int

record Search_config =
  Search_ReadBackend :: string

record ESIndex_config =
  ESIndex_On :: bool
  ESIndex_Addrs :: "string list"
  ESIndex_Username :: string
  ESIndex_Password :: string
  ESIndex_Index :: string

record Group_config =
  Group_SameDayCreateMaxCount :: int
  Group_CreateGroupVerifyFriendOn :: bool

record Push_config =
  Push_ContentDetailOn :: bool
  Push_PushPoolSize :: int
  Push_APNS :: APNSPush
  Push_MI :: MIPush
  Push_HMS :: HMSPush
  Push_VIVO :: VIVOPush
  Push_OPPO :: OPPOPush
  Push_FIREBASE :: FIREBASEPush

record Message_config =
  Message_SendMessageOn :: bool
  Message_SyncReadedCountIntervalSecond :: int

record Wechat_config =
  Wechat_AppID :: string
  Wechat_AppSecret :: string

record Tracing_config =
  Tracing_On :: bool
  Tracing_Addr :: string

record Support_config =
  Support_Email :: string
  Support_EmailSmtp :: string
  Support_EmailPwd :: string

record Config =
  cfg_Mode :: string
  cfg_AppID :: string
  cfg_AppName :: string
  cfg_Version :: string
  cfg_RootDir :: string
  cfg_Addr :: string
  cfg_GRPCAddr :: string
  cfg_SSLAddr :: string
  cfg_MessageSaveAcrossDevice :: bool
  cfg_WelcomeMessage :: string
  cfg_PhoneSearchOff :: bool
  cfg_OnlineStatusOn :: bool
  cfg_GroupUpgradeWhenMemberCount :: int
  cfg_EventPoolSize :: int
  cfg_AdminPwd :: string
  cfg_External :: External_config
  cfg_Logger :: Logger_config
  cfg_DB :: DB_config
  cfg_Cluster :: Cluster_config
  cfg_Cache :: Cache_config
  cfg_Account :: Account_config
  cfg_FileService :: string
  cfg_OSS :: OSSConfig
  cfg_Minio :: MinioConfig
  cfg_Seaweed :: SeaweedConfig
  cfg_Qiniu :: QiniuConfig
  cfg_COS :: COSConfig
  cfg_S3 :: S3Config
  cfg_SMSCode :: string
  cfg_SMSProvider :: string
  cfg_UniSMS :: UnismsConfig
  cfg_AliyunSMS :: AliyunSMSConfig
  cfg_AliyunInternationalSMS :: AliyunInternationalSMSConfig
  cfg_Smsbao :: SmsbaoConfig
  cfg_WuKongIM :: WuKongIM_config
  cfg_Avatar :: Avatar_config
  cfg_ShortNo :: ShortNo_config
  cfg_Robot :: Robot_config
  cfg_Gitee :: Gitee_config
  cfg_Github :: Github_config
  cfg_OWT :: OWT_config
  cfg_Livekit :: Livekit_config
  cfg_Register :: Register_config
  cfg_Organization :: Organization_config
  cfg_Friend :: Friend_config
  cfg_ZincSearch :: ZincSearch_config
  cfg_Search :: Search_config
  cfg_ESIndex :: ESIndex_config
  cfg_Group :: Group_config
  cfg_Push :: Push_config
  cfg_Message :: Message_config
  cfg_Wechat :: Wechat_config
  cfg_Tracing :: Tracing_config
  cfg_Support :: Support_config
  cfg_Test :: bool
  cfg_QRCodeInfoURL :: string
  cfg_VisitorUIDPrefix :: string
  cfg_TimingWheelTick :: int
  cfg_TimingWheelSize :: int
  cfg_ElasticsearchURL :: string
  cfg_TablePartitionConfig :: TablePartitionConfig
  cfg_AppRSAPrivateKey :: string
  cfg_AppRSAPubKey :: string

definition newTablePartitionConfig :: TablePartitionConfig where
  "newTablePartitionConfig =
     \<lparr>TablePartition_MessageTableCount = 5, TablePartition_MessageUserEditTableCount = 3, TablePartition_ChannelOffsetTableCount = 3\<rparr>"

text \<open>The defaults.\<close>

definition default_External :: External_config where
  "default_External =
     \<lparr>External_IP = [],
      External_BaseURL = [],
      External_H5BaseURL = [],
      External_APIBaseURL = [],
      External_WebLoginURL = []\<rparr>"

definition default_DB :: DB_config where
  "default_DB =
     \<lparr>DB_MySQLAddr = ''root:demo@tcp(127.0.0.1:3306)/test?charset=utf8mb4&parseTime=true'',
      DB_MySQLMaxOpenConns = 100,
      DB_MySQLMaxIdleConns = 10,
      DB_MySQLConnMaxLifetime = 14400000000000,
      DB_Migration = True,
      DB_RedisAddr = ''127.0.0.1:6379'',
      DB_RedisPass = [],
      DB_RedisTLS = False,
      DB_RedisTLSInsecureSkipVerify = False,
      DB_RedisTLSCAFile = [],
      DB_AsynctaskRedisAddr = []\<rparr>"

definition default_Cluster :: Cluster_config where
  "default_Cluster =
     \<lparr>Cluster_NodeID = 1\<rparr>"

definition default_Cache :: Cache_config where
  "default_Cache =
     \<lparr>Cache_TokenCachePrefix = ''token:'',
      Cache_LoginDeviceCachePrefix = ''login_device:'',
      Cache_LoginDeviceCacheExpire = 300000000000,
      Cache_UIDTokenCachePrefix = ''uidtoken:'',
      Cache_FriendApplyTokenCachePrefix = ''friend_token:'',
      Cache_FriendApplyExpire = 1296000000000000,
      Cache_TokenExpire = 2592000000000000,
      Cache_NameCacheExpire = 604800000000000\<rparr>"

definition default_Account :: Account_config where
  "default_Account =
     \<lparr>Account_SystemUID = ''u_10000'',
      Account_FileHelperUID = ''fileHelper'',
      Account_SystemGroupID = ''g_10000'',
      Account_SystemGroupName = map char_of [0xE6, 0x84, 0x8F, 0xE8, 0xA7, 0x81, 0xE5, 0x8F, 0x8D, 0xE9, 0xA6, 0x88, 0xE7, 0xBE, 0xA4 :: nat],
      Account_AdminUID = ''admin''\<rparr>"

definition default_WuKongIM :: WuKongIM_config where
  "default_WuKongIM =
     \<lparr>WuKongIM_APIURL = ''http://127.0.0.1:5001'',
      WuKongIM_ManagerToken = []\<rparr>"

definition default_Avatar :: Avatar_config where
  "default_Avatar =
     \<lparr>Avatar_Default = [],
      Avatar_DefaultCount = 900,
      Avatar_Partition = 100,
      Avatar_DefaultBaseURL = []\<rparr>"

definition default_ShortNo :: ShortNo_config where
  "default_ShortNo =
     \<lparr>ShortNo_NumOn = False,
      ShortNo_NumLen = 7,
      ShortNo_EditOff = False\<rparr>"

definition default_Robot :: Robot_config where
  "default_Robot =
     \<lparr>Robot_MessageExpire = 604800000000000,
      Robot_InlineQueryTimeout = 10000000000,
      Robot_EventPoolSize = 100\<rparr>"

definition default_Gitee :: Gitee_config where
  "default_Gitee =
     \<lparr>Gitee_OAuthURL = ''https://gitee.com/oauth/authorize'',
      Gitee_ClientID = [],
      Gitee_ClientSecret = []\<rparr>"

definition default_Github :: Github_config where
  "default_Github =
     \<lparr>Github_OAuthURL = ''https://github.com/login/oauth/authorize'',
      Github_ClientID = [],
      Github_ClientSecret = []\<rparr>"

definition default_OWT :: OWT_config where
  "default_OWT =
     \<lparr>OWT_URL = [],
      OWT_ServiceID = [],
      OWT_ServiceKey = [],
      OWT_RoomMaxCount = 9\<rparr>"

definition default_Livekit :: Livekit_config where
  "default_Livekit =
     \<lparr>Livekit_Off = False,
      Livekit_URL = [],
      Livekit_APIKey = [],
      Livekit_APISecret = [],
      Livekit_InviteTimeoutSeconds = 60,
      Livekit_RoomMaxCount = 9\<rparr>"

definition default_Friend :: Friend_config where
  "default_Friend =
     \<lparr>Friend_AddedTipsText = map char_of [0xE6, 0x88, 0x91, 0xE4, 0xBB, 0xAC, 0xE5, 0xB7, 0xB2, 0xE7, 0xBB, 0x8F, 0xE6, 0x98, 0xAF, 0xE5, 0xA5, 0xBD, 0xE5, 0x8F, 0x8B, 0xE4, 0xBA, 0x86, 0xEF, 0xBC, 0x8C, 0xE5, 0x8F, 0xAF, 0xE4, 0xBB, 0xA5, 0xE6, 0x84, 0x89, 0xE5, 0xBF, 0xAB, 0xE7, 0x9A, 0x84, 0xE8, 0x81, 0x8A, 0xE5, 0xA4, 0xA9, 0xE4, 0xBA, 0x86, 0xEF, 0xBC, 0x81 :: nat]\<rparr>"

definition default_Search :: Search_config where
  "default_Search =
     \<lparr>Search_ReadBackend = ''zinc''\<rparr>"

definition default_ESIndex :: ESIndex_config where
  "default_ESIndex =
     \<lparr>ESIndex_On = False,
      ESIndex_Addrs = [],
      ESIndex_Username = [],
      ESIndex_Password = [],
      ESIndex_Index = ''octo-message''\<rparr>"

definition default_Group :: Group_config where
  "default_Group =
     \<lparr>Group_SameDayCreateMaxCount = 10,
      Group_CreateGroupVerifyFriendOn = True\<rparr>"

definition default_Push :: Push_config where
  "default_Push =
     \<lparr>Push_ContentDetailOn = True,
      Push_PushPoolSize = 100,
      Push_APNS = \<lparr>APNS_Dev = True,
         APNS_Topic = ''com.xinbida.tangsengdaodao'',
         APNS_Password = ''123456'',
         APNS_Cert = []\<rparr>,
      Push_MI = \<lparr>MI_PackageName = [],
         MI_AppID = [],
         MI_AppSecret = [],
         MI_ChannelID = []\<rparr>,
      Push_HMS = \<lparr>HMS_PackageName = [],
         HMS_AppID = [],
         HMS_AppSecret = []\<rparr>,
      Push_VIVO = \<lparr>VIVO_PackageName = [],
         VIVO_AppID = [],
         VIVO_AppKey = [],
         VIVO_AppSecret = []\<rparr>,
      Push_OPPO = \<lparr>OPPO_PackageName = [],
         OPPO_AppID = [],
         OPPO_AppKey = [],
         OPPO_AppSecret = [],
         OPPO_MasterSecret = []\<rparr>,
      Push_FIREBASE = \<lparr>FIREBASE_PackageName = [],
         FIREBASE_JsonPath = [],
         FIREBASE_ProjectId = []\<rparr>\<rparr>"

definition default_Support :: Support_config where
  "default_Support =
     \<lparr>Support_Email = [],
      Support_EmailSmtp = ''smtp.exmail.qq.com:25'',
      Support_EmailPwd = []\<rparr>"

definition New :: "(string \<Rightarrow> string) \<Rightarrow> Config" where
  "New env =
     \<lparr>cfg_Mode = ReleaseMode,
      cfg_AppID = ''tangsengdaodao'',
      cfg_AppName = map char_of [0xE5, 0x94, 0x90, 0xE5, 0x83, 0xA7, 0xE5, 0x8F, 0xA8, 0xE5, 0x8F, 0xA8 :: nat],
      cfg_Version = [],
      cfg_RootDir = ''tsdddata'',
      cfg_Addr = '':8090'',
      cfg_GRPCAddr = ''0.0.0.0:6979'',
      cfg_SSLAddr = [],
      cfg_MessageSaveAcrossDevice = True,
      cfg_WelcomeMessage = map char_of [0xE6, 0xAC, 0xA2, 0xE8, 0xBF, 0x8E, 0xE4, 0xBD, 0xBF, 0xE7, 0x94, 0xA8 :: nat] @ ''{{appName}}'',
      cfg_PhoneSearchOff = False,
      cfg_OnlineStatusOn = True,
      cfg_GroupUpgradeWhenMemberCount = 1000,
      cfg_EventPoolSize = 100,
      cfg_AdminPwd = [],
      cfg_External = default_External,
      cfg_Logger = \<lparr>Logger_Dir = [],
         Logger_Level = 0,
         Logger_LineNum = False\<rparr>,
      cfg_DB = default_DB,
      cfg_Cluster = default_Cluster,
      cfg_Cache = default_Cache,
      cfg_Account = default_Account,
      cfg_FileService = FileServiceMinio,
      cfg_OSS = \<lparr>OSS_Endpoint = [],
         OSS_BucketName = [],
         OSS_BucketURL = [],
         OSS_AccessKeyID = [],
         OSS_AccessKeySecret = []\<rparr>,
      cfg_Minio = \<lparr>Minio_URL = [],
         Minio_UploadURL = [],
         Minio_DownloadURL = [],
         Minio_AccessKeyID = [],
         Minio_SecretAccessKey = []\<rparr>,
      cfg_Seaweed = \<lparr>Seaweed_URL = []\<rparr>,
      cfg_Qiniu = \<lparr>Qiniu_URL = [],
         Qiniu_BucketName = [],
         Qiniu_AccessKey = [],
         Qiniu_SecretKey = []\<rparr>,
      cfg_COS = \<lparr>COS_SecretID = [],
         COS_SecretKey = [],
         COS_Bucket = [],
         COS_Region = [],
         COS_BucketURL = [],
         COS_Prefix = []\<rparr>,
      cfg_S3 = \<lparr>S3_Endpoint = [],
         S3_Region = [],
         S3_Bucket = [],
         S3_AccessKeyID = [],
         S3_SecretAccessKey = [],
         S3_SessionToken = [],
         S3_DownloadURL = [],
         S3_Prefix = [],
         S3_UsePathStyle = False\<rparr>,
      cfg_SMSCode = [],
      cfg_SMSProvider = SMSProviderAliyun,
      cfg_UniSMS = \<lparr>Unisms_Signature = [],
         Unisms_AccessKeyID = [],
         Unisms_AccessKeySecret = [],
         Unisms_TemplateId = []\<rparr>,
      cfg_AliyunSMS = \<lparr>AliyunSMS_AccessKeyID = [],
         AliyunSMS_AccessSecret = [],
         AliyunSMS_TemplateCode = [],
         AliyunSMS_SignName = []\<rparr>,
      cfg_AliyunInternationalSMS = \<lparr>AliyunInternationalSMS_AccessKeyID = [],
         AliyunInternationalSMS_AccessSecret = [],
         AliyunInternationalSMS_SignName = []\<rparr>,
      cfg_Smsbao = \<lparr>Smsbao_Account = [],
         Smsbao_APIKey = [],
         Smsbao_Template = []\<rparr>,
      cfg_WuKongIM = default_WuKongIM,
      cfg_Avatar = default_Avatar,
      cfg_ShortNo = default_ShortNo,
      cfg_Robot = default_Robot,
      cfg_Gitee = default_Gitee,
      cfg_Github = default_Github,
      cfg_OWT = default_OWT,
      cfg_Livekit = default_Livekit,
      cfg_Register = \<lparr>Register_Off = False,
         Register_OnlyChina = False,
         Register_StickerAddOff = False,
         Register_UsernameOn = False,
         Register_EmailOn = False\<rparr>,
      cfg_Organization = \<lparr>Organization_ImportOn = False\<rparr>,
      cfg_Friend = default_Friend,
      cfg_ZincSearch = \<lparr>ZincSearch_SearchOn = False,
         ZincSearch_APIURL = [],
         ZincSearch_ZincUsername = [],
         ZincSearch_ZincPassword = [],
         ZincSearch_SyncIntervalSecond = 0,
         ZincSearch_SyncCount = 0\<rparr>,
      cfg_Search = default_Search,
      cfg_ESIndex = default_ESIndex,
      cfg_Group = default_Group,
      cfg_Push = default_Push,
      cfg_Message = \<lparr>Message_SendMessageOn = False,
         Message_SyncReadedCountIntervalSecond = 0\<rparr>,
      cfg_Wechat = \<lparr>Wechat_AppID = [],
         Wechat_AppSecret = []\<rparr>,
      cfg_Tracing = \<lparr>Tracing_On = False,
         Tracing_Addr = []\<rparr>,
      cfg_Support = default_Support,
      cfg_Test = GetEnvBool env ''Test'' False,
      cfg_QRCodeInfoURL = ''v1/qrcode/:code'',
      cfg_VisitorUIDPrefix = ''_vt_'',
      cfg_TimingWheelTick = 10000000,
      cfg_TimingWheelSize = 100,
      cfg_ElasticsearchURL = ''http://elasticsearch:9200'',
      cfg_TablePartitionConfig = newTablePartitionConfig,
      cfg_AppRSAPrivateKey = [],
      cfg_AppRSAPubKey = []\<rparr>"

section \<open>Reading settings\<close>

text \<open>\<^verbatim>\<open>vp_Bool\<close> is \<^verbatim>\<open>Get\<close> followed by \<^verbatim>\<open>cast.ToBool\<close>; it has no value where \<^verbatim>\<open>Get\<close> returns \<^verbatim>\<open>nil\<close>.\<close>

record viper =
  vp_GetString :: "string \<Rightarrow> string"
  vp_GetInt :: "string \<Rightarrow> int"
  vp_GetInt64 :: "string \<Rightarrow> int"
  vp_GetDuration :: "string \<Rightarrow> int"
  vp_Bool :: "string \<Rightarrow> bool option"
  vp_GetStringSlice :: "string \<Rightarrow> string list"
  vp_ConfigFileUsed :: string

definition getString :: "viper \<Rightarrow> string \<Rightarrow> string \<Rightarrow> string" where
  "getString vp key defaultValue = (let v = vp_GetString vp key in if v = [] then defaultValue else v)"

definition getStringSlice :: "viper \<Rightarrow> string \<Rightarrow> string list \<Rightarrow> string list" where
  "getStringSlice vp key defaultValue =
     (let raw = TrimSpace (vp_GetString vp key);
          out = (if raw \<noteq> [] \<and> CHR '','' \<in> set raw
                 then filter (\<lambda>p. p \<noteq> []) (map TrimSpace (split_on (CHR '','') raw)) else []);
          v = vp_GetStringSlice vp key
      in if length out > 0 then out else if length v = 0 then defaultValue else v)"

definition getBool :: "viper \<Rightarrow> string \<Rightarrow> bool \<Rightarrow> bool" where
  "getBool vp key defaultValue = (case vp_Bool vp key of None \<Rightarrow> defaultValue | Some b \<Rightarrow> b)"

definition getInt :: "viper \<Rightarrow> string \<Rightarrow> int \<Rightarrow> int" where
  "getInt vp key defaultValue = (let v = vp_GetInt vp key in if v = 0 then defaultValue else v)"

definition getInt64 :: "viper \<Rightarrow> string \<Rightarrow> int \<Rightarrow> int" where
  "getInt64 vp key defaultValue = (let v = vp_GetInt64 vp key in if v = 0 then defaultValue else v)"

definition getDuration :: "viper \<Rightarrow> string \<Rightarrow> int \<Rightarrow> int" where
  "getDuration vp key defaultValue = (let v = vp_GetDuration vp key in if v = 0 then defaultValue else v)"

definition ConfigFileUsed :: "viper \<Rightarrow> string" where
  "ConfigFileUsed vp = vp_ConfigFileUsed vp"

text \<open>\<^verbatim>\<open>strings.ReplaceAll\<close> of a text that is not empty.\<close>

function ReplaceAll :: "string \<Rightarrow> string \<Rightarrow> string \<Rightarrow> string" where
  "ReplaceAll s old new =
     (if s = [] \<or> old = [] then s
      else if HasPrefix s old then new @ ReplaceAll (drop (length old) s) old new
      else hd s # ReplaceAll (tl s) old new)"
  by pat_completeness auto
termination by (relation "measure (\<lambda>(s, old, new). length s)") auto

declare ReplaceAll.simps [simp del]

text \<open>\<^verbatim>\<open>filepath.Join\<close>: the elements that are not empty, joined and cleaned.\<close>

fun clean_parts :: "bool \<Rightarrow> string list \<Rightarrow> string list \<Rightarrow> string list" where
  "clean_parts rooted acc [] = rev acc"
| "clean_parts rooted acc (p # ps) =
     (if p = [] \<or> p = ''.'' then clean_parts rooted acc ps
      else if p = ''..'' then
        (if acc \<noteq> [] \<and> hd acc \<noteq> ''..'' then clean_parts rooted (tl acc) ps
         else if rooted then clean_parts rooted acc ps
         else clean_parts rooted (p # acc) ps)
      else clean_parts rooted (p # acc) ps)"

definition path_Clean :: "string \<Rightarrow> string" where
  "path_Clean path =
     (let rooted = HasPrefix path ''/''; parts = clean_parts rooted [] (split_on (CHR ''/'') path);
          out = (if rooted then ''/'' else []) @ join ''/'' parts
      in if out = [] then ''.'' else out)"

definition path_Join :: "string list \<Rightarrow> string" where
  "path_Join elems = (let es = filter (\<lambda>e. e \<noteq> []) elems in if es = [] then [] else path_Clean (join ''/'' es))"

section \<open>Applying the settings\<close>

text \<open>One definition for each paragraph of \<^verbatim>\<open>ConfigureWithViper\<close>, in its order.\<close>

definition configure_base :: "viper \<Rightarrow> Config \<Rightarrow> Config" where
  "configure_base vp c =
     (let c = c\<lparr>cfg_Mode := getString vp ''mode'' DebugMode,
                cfg_AppID := getString vp ''appID'' (cfg_AppID c),
                cfg_AppName := getString vp ''appName'' (cfg_AppName c),
                cfg_RootDir := getString vp ''rootDir'' (cfg_RootDir c),
                cfg_Version := getString vp ''version'' (cfg_Version c),
                cfg_Addr := getString vp ''addr'' (cfg_Addr c),
                cfg_GRPCAddr := getString vp ''grpcAddr'' (cfg_GRPCAddr c),
                cfg_SSLAddr := getString vp ''sslAddr'' (cfg_SSLAddr c),
                cfg_MessageSaveAcrossDevice := getBool vp ''messageSaveAcrossDevice'' (cfg_MessageSaveAcrossDevice c),
                cfg_WelcomeMessage := getString vp ''welcomeMessage'' (cfg_WelcomeMessage c)\<rparr>;
          c = (if TrimSpace (cfg_WelcomeMessage c) \<noteq> []
               then c\<lparr>cfg_WelcomeMessage := ReplaceAll (cfg_WelcomeMessage c) ''{{appName}}'' (cfg_AppName c)\<rparr> else c)
      in c\<lparr>cfg_PhoneSearchOff := getBool vp ''phoneSearchOff'' (cfg_PhoneSearchOff c),
           cfg_OnlineStatusOn := getBool vp ''onlineStatusOn'' (cfg_OnlineStatusOn c),
           cfg_GroupUpgradeWhenMemberCount := getInt vp ''groupUpgradeWhenMemberCount'' (cfg_GroupUpgradeWhenMemberCount c),
           cfg_EventPoolSize := getInt64 vp ''eventPoolSize'' (cfg_EventPoolSize c),
           cfg_AdminPwd := getString vp ''adminPwd'' (cfg_AdminPwd c)\<rparr>)"

definition configure_External :: "viper \<Rightarrow> string \<Rightarrow> Config \<Rightarrow> Config" where
  "configure_External vp intranetIP c =
     (let e = cfg_External c;
          e = e\<lparr>External_IP := getString vp ''external.ip'' (External_IP e)\<rparr>;
          e = (if TrimSpace (External_IP e) = [] then e\<lparr>External_IP := intranetIP\<rparr> else e);
          e = e\<lparr>External_WebLoginURL := getString vp ''external.webLoginURL'' (External_WebLoginURL e),
                External_BaseURL := getString vp ''external.baseURL'' (External_BaseURL e)\<rparr>;
          e = (if TrimSpace (External_WebLoginURL e) = []
               then e\<lparr>External_WebLoginURL := ''http://'' @ External_IP e @ '':82''\<rparr> else e);
          e = (if TrimSpace (External_BaseURL e) = []
               then e\<lparr>External_BaseURL := ''http://'' @ External_IP e @ '':8090''\<rparr> else e);
          e = (if TrimSpace (External_H5BaseURL e) = []
               then e\<lparr>External_H5BaseURL := External_BaseURL e @ ''/web''\<rparr> else e);
          e = (if TrimSpace (External_APIBaseURL e) = []
               then e\<lparr>External_APIBaseURL := External_BaseURL e @ ''/v1''\<rparr> else e)
      in c\<lparr>cfg_External := e\<rparr>)"

text \<open>A level of the logging library is an 8-bit integer: \<^verbatim>\<open>DebugLevel\<close> is -1 and \<^verbatim>\<open>InfoLevel\<close> 0.\<close>

definition int8 :: "int \<Rightarrow> int" where
  "int8 x = (x + 128) mod 256 - 128"

definition configureLog :: "viper \<Rightarrow> Config \<Rightarrow> Config" where
  "configureLog vp c =
     (let logLevel = vp_GetInt vp ''logger.level'';
          logLevel = (if logLevel = 0 then (if cfg_Mode c = DebugMode then -1 else 0) else int64 (logLevel - 2));
          dir = vp_GetString vp ''logger.dir'';
          dir = (if TrimSpace dir = [] then ''logs'' else dir);
          dir = (if \<not> HasPrefix (TrimSpace dir) ''/'' then path_Join [cfg_RootDir c, dir] else dir);
          lineNum = (case vp_Bool vp ''logger.lineNum'' of None \<Rightarrow> False | Some b \<Rightarrow> b)
      in c\<lparr>cfg_Logger := \<lparr>Logger_Dir = dir, Logger_Level = int8 logLevel, Logger_LineNum = lineNum\<rparr>\<rparr>)"

definition configure_FileService :: "viper \<Rightarrow> Config \<Rightarrow> Config" where
  "configure_FileService vp c = c\<lparr>cfg_FileService := getString vp ''fileService'' (cfg_FileService c)\<rparr>"

definition configure_Minio :: "viper \<Rightarrow> Config \<Rightarrow> Config" where
  "configure_Minio vp c =
     (let m = cfg_Minio c;
          m = m\<lparr>Minio_URL := getString vp ''minio.url'' (Minio_URL m)\<rparr>;
          m = (if cfg_FileService c = FileServiceMinio \<and> TrimSpace (Minio_URL m) = []
               then m\<lparr>Minio_URL := ''http://'' @ External_IP (cfg_External c) @ '':9000''\<rparr> else m);
          m = m\<lparr>Minio_UploadURL := getString vp ''minio.uploadURL'' (Minio_UploadURL m)\<rparr>;
          m = (if TrimSpace (Minio_UploadURL m) = [] then m\<lparr>Minio_UploadURL := Minio_URL m\<rparr> else m);
          m = m\<lparr>Minio_DownloadURL := getString vp ''minio.downloadURL'' (Minio_DownloadURL m)\<rparr>;
          m = (if TrimSpace (Minio_DownloadURL m) = [] then m\<lparr>Minio_DownloadURL := Minio_URL m\<rparr> else m)
      in c\<lparr>cfg_Minio := m\<lparr>Minio_AccessKeyID := getString vp ''minio.accessKeyID'' (Minio_AccessKeyID m),
                            Minio_SecretAccessKey := getString vp ''minio.secretAccessKey'' (Minio_SecretAccessKey m)\<rparr>\<rparr>)"

definition configure_COS :: "viper \<Rightarrow> (string \<Rightarrow> string) \<Rightarrow> Config \<Rightarrow> Config" where
  "configure_COS vp env c =
     (let s = cfg_COS c;
          s = s\<lparr>COS_SecretID := getString vp ''cos.secretID'' (COS_SecretID s),
              COS_SecretKey := getString vp ''cos.secretKey'' (COS_SecretKey s),
              COS_Bucket := getString vp ''cos.bucket'' (COS_Bucket s),
              COS_Region := getString vp ''cos.region'' (COS_Region s),
              COS_BucketURL := getString vp ''cos.bucketURL'' (COS_BucketURL s),
              COS_Prefix := getString vp ''cos.prefix'' (COS_Prefix s)\<rparr>
      in c\<lparr>cfg_COS := s\<lparr>COS_SecretID := StringEnv env (COS_SecretID s) ''TS_COS_SECRET_ID'',
                          COS_SecretKey := StringEnv env (COS_SecretKey s) ''TS_COS_SECRET_KEY''\<rparr>\<rparr>)"

definition configure_S3 :: "viper \<Rightarrow> (string \<Rightarrow> string) \<Rightarrow> Config \<Rightarrow> Config" where
  "configure_S3 vp env c =
     (let s = cfg_S3 c;
          s = s\<lparr>S3_Endpoint := getString vp ''s3.endpoint'' (S3_Endpoint s),
              S3_Region := getString vp ''s3.region'' (S3_Region s),
              S3_Bucket := getString vp ''s3.bucket'' (S3_Bucket s),
              S3_AccessKeyID := getString vp ''s3.accessKeyID'' (S3_AccessKeyID s),
              S3_SecretAccessKey := getString vp ''s3.secretAccessKey'' (S3_SecretAccessKey s),
              S3_SessionToken := getString vp ''s3.sessionToken'' (S3_SessionToken s),
              S3_DownloadURL := getString vp ''s3.downloadURL'' (S3_DownloadURL s),
              S3_Prefix := getString vp ''s3.prefix'' (S3_Prefix s),
              S3_UsePathStyle := getBool vp ''s3.usePathStyle'' (S3_UsePathStyle s)\<rparr>;
          s = s\<lparr>S3_AccessKeyID := StringEnv env (S3_AccessKeyID s) ''AWS_ACCESS_KEY_ID'',
                S3_SecretAccessKey := StringEnv env (S3_SecretAccessKey s) ''AWS_SECRET_ACCESS_KEY'',
                S3_SessionToken := StringEnv env (S3_SessionToken s) ''AWS_SESSION_TOKEN''\<rparr>
      in c\<lparr>cfg_S3 := s\<lparr>S3_AccessKeyID := StringEnv env (S3_AccessKeyID s) ''TS_S3_ACCESS_KEY_ID'',
                         S3_SecretAccessKey := StringEnv env (S3_SecretAccessKey s) ''TS_S3_SECRET_ACCESS_KEY'',
                         S3_SessionToken := StringEnv env (S3_SessionToken s) ''TS_S3_SESSION_TOKEN''\<rparr>\<rparr>)"

definition configure_SMS :: "viper \<Rightarrow> Config \<Rightarrow> Config" where
  "configure_SMS vp c =
     c\<lparr>cfg_SMSCode := getString vp ''smsCode'' (cfg_SMSCode c), cfg_SMSProvider := getString vp ''smsProvider'' (cfg_SMSProvider c)\<rparr>"

definition configure_DB :: "viper \<Rightarrow> Config \<Rightarrow> Config" where
  "configure_DB vp c =
     (let s = cfg_DB c
      in c\<lparr>cfg_DB := s\<lparr>DB_MySQLAddr := getString vp ''db.mysqlAddr'' (DB_MySQLAddr s),
              DB_MySQLMaxOpenConns := getInt vp ''db.mysqlMaxOpenConns'' (DB_MySQLMaxOpenConns s),
              DB_MySQLMaxIdleConns := getInt vp ''db.mysqlMaxIdleConns'' (DB_MySQLMaxIdleConns s),
              DB_MySQLConnMaxLifetime := getDuration vp ''db.mysqlConnMaxLifetime'' (DB_MySQLConnMaxLifetime s),
              DB_Migration := getBool vp ''db.migration'' (DB_Migration s),
              DB_RedisAddr := getString vp ''db.redisAddr'' (DB_RedisAddr s),
              DB_RedisPass := getString vp ''db.redisPass'' (DB_RedisPass s),
              DB_RedisTLS := getBool vp ''db.redisTLS'' (DB_RedisTLS s),
              DB_RedisTLSInsecureSkipVerify := getBool vp ''db.redisTLSInsecureSkipVerify'' (DB_RedisTLSInsecureSkipVerify s),
              DB_RedisTLSCAFile := getString vp ''db.redisTLSCAFile'' (DB_RedisTLSCAFile s),
              DB_AsynctaskRedisAddr := getString vp ''db.asynctaskRedisAddr'' (DB_AsynctaskRedisAddr s)\<rparr>\<rparr>)"

definition configure_Cluster :: "viper \<Rightarrow> Config \<Rightarrow> Config" where
  "configure_Cluster vp c =
     (let s = cfg_Cluster c
      in c\<lparr>cfg_Cluster := s\<lparr>Cluster_NodeID := getInt vp ''cluster.nodeID'' (Cluster_NodeID s)\<rparr>\<rparr>)"

definition configure_Cache :: "viper \<Rightarrow> Config \<Rightarrow> Config" where
  "configure_Cache vp c =
     (let s = cfg_Cache c
      in c\<lparr>cfg_Cache := s\<lparr>Cache_TokenCachePrefix := getString vp ''cache.tokenCachePrefix'' (Cache_TokenCachePrefix s),
              Cache_LoginDeviceCachePrefix := getString vp ''cache.loginDeviceCachePrefix'' (Cache_LoginDeviceCachePrefix s),
              Cache_LoginDeviceCacheExpire := getDuration vp ''cache.loginDeviceCacheExpire'' (Cache_LoginDeviceCacheExpire s),
              Cache_UIDTokenCachePrefix := getString vp ''cache.uidTokenCachePrefix'' (Cache_UIDTokenCachePrefix s),
              Cache_FriendApplyTokenCachePrefix := getString vp ''cache.friendApplyTokenCachePrefix'' (Cache_FriendApplyTokenCachePrefix s),
              Cache_FriendApplyExpire := getDuration vp ''cache.friendApplyExpire'' (Cache_FriendApplyExpire s),
              Cache_TokenExpire := getDuration vp ''cache.tokenExpire'' (Cache_TokenExpire s),
              Cache_NameCacheExpire := getDuration vp ''cache.nameCacheExpire'' (Cache_NameCacheExpire s)\<rparr>\<rparr>)"

definition configure_Account :: "viper \<Rightarrow> Config \<Rightarrow> Config" where
  "configure_Account vp c =
     (let s = cfg_Account c
      in c\<lparr>cfg_Account := s\<lparr>Account_SystemUID := getString vp ''account.systemUID'' (Account_SystemUID s),
              Account_FileHelperUID := getString vp ''account.fileHelperUID'' (Account_FileHelperUID s),
              Account_SystemGroupID := getString vp ''account.systemGroupID'' (Account_SystemGroupID s),
              Account_SystemGroupName := getString vp ''account.systemGroupName'' (Account_SystemGroupName s),
              Account_AdminUID := getString vp ''account.adminUID'' (Account_AdminUID s)\<rparr>\<rparr>)"

definition configure_OSS :: "viper \<Rightarrow> Config \<Rightarrow> Config" where
  "configure_OSS vp c =
     (let s = cfg_OSS c
      in c\<lparr>cfg_OSS := s\<lparr>OSS_Endpoint := getString vp ''oss.endpoint'' (OSS_Endpoint s),
              OSS_BucketURL := getString vp ''oss.bucketURL'' (OSS_BucketURL s),
              OSS_AccessKeyID := getString vp ''oss.accessKeyID'' (OSS_AccessKeyID s),
              OSS_AccessKeySecret := getString vp ''oss.accessKeySecret'' (OSS_AccessKeySecret s),
              OSS_BucketName := getString vp ''oss.bucketName'' (OSS_BucketName s)\<rparr>\<rparr>)"

definition configure_Seaweed :: "viper \<Rightarrow> Config \<Rightarrow> Config" where
  "configure_Seaweed vp c =
     (let s = cfg_Seaweed c
      in c\<lparr>cfg_Seaweed := s\<lparr>Seaweed_URL := getString vp ''seaweed.url'' (Seaweed_URL s)\<rparr>\<rparr>)"

definition configure_Qiniu :: "viper \<Rightarrow> Config \<Rightarrow> Config" where
  "configure_Qiniu vp c =
     (let s = cfg_Qiniu c
      in c\<lparr>cfg_Qiniu := s\<lparr>Qiniu_URL := getString vp ''qiniu.url'' (Qiniu_URL s),
              Qiniu_BucketName := getString vp ''qiniu.bucketName'' (Qiniu_BucketName s),
              Qiniu_AccessKey := getString vp ''qiniu.accessKey'' (Qiniu_AccessKey s),
              Qiniu_SecretKey := getString vp ''qiniu.secretKey'' (Qiniu_SecretKey s)\<rparr>\<rparr>)"

definition configure_UniSMS :: "viper \<Rightarrow> Config \<Rightarrow> Config" where
  "configure_UniSMS vp c =
     (let s = cfg_UniSMS c
      in c\<lparr>cfg_UniSMS := s\<lparr>Unisms_AccessKeyID := getString vp ''uniSMS.accessKeyID'' (Unisms_AccessKeyID s),
              Unisms_Signature := getString vp ''uniSMS.signature'' (Unisms_Signature s),
              Unisms_AccessKeySecret := getString vp ''uniSMS.accessKeySecret'' (Unisms_AccessKeySecret s),
              Unisms_TemplateId := getString vp ''uniSMS.templateId'' (Unisms_TemplateId s)\<rparr>\<rparr>)"

definition configure_Smsbao :: "viper \<Rightarrow> Config \<Rightarrow> Config" where
  "configure_Smsbao vp c =
     (let s = cfg_Smsbao c
      in c\<lparr>cfg_Smsbao := s\<lparr>Smsbao_Account := getString vp ''smsbao.account'' (Smsbao_Account s),
              Smsbao_APIKey := getString vp ''smsbao.apiKey'' (Smsbao_APIKey s),
              Smsbao_Template := getString vp ''smsbao.template'' (Smsbao_Template s)\<rparr>\<rparr>)"

definition configure_AliyunSMS :: "viper \<Rightarrow> Config \<Rightarrow> Config" where
  "configure_AliyunSMS vp c =
     (let s = cfg_AliyunSMS c
      in c\<lparr>cfg_AliyunSMS := s\<lparr>AliyunSMS_AccessKeyID := getString vp ''aliyunSMS.accessKeyID'' (AliyunSMS_AccessKeyID s),
              AliyunSMS_AccessSecret := getString vp ''aliyunSMS.accessSecret'' (AliyunSMS_AccessSecret s),
              AliyunSMS_TemplateCode := getString vp ''aliyunSMS.templateCode'' (AliyunSMS_TemplateCode s),
              AliyunSMS_SignName := getString vp ''aliyunSMS.signName'' (AliyunSMS_SignName s)\<rparr>\<rparr>)"

definition configure_AliyunInternationalSMS :: "viper \<Rightarrow> Config \<Rightarrow> Config" where
  "configure_AliyunInternationalSMS vp c =
     (let s = cfg_AliyunInternationalSMS c
      in c\<lparr>cfg_AliyunInternationalSMS := s\<lparr>AliyunInternationalSMS_AccessKeyID := getString vp ''aliyunInternationalSMS.accessKeyID'' (AliyunInternationalSMS_AccessKeyID s),
              AliyunInternationalSMS_AccessSecret := getString vp ''aliyunInternationalSMS.accessSecret'' (AliyunInternationalSMS_AccessSecret s),
              AliyunInternationalSMS_SignName := getString vp ''aliyunInternationalSMS.signName'' (AliyunInternationalSMS_SignName s)\<rparr>\<rparr>)"

definition configure_WuKongIM :: "viper \<Rightarrow> Config \<Rightarrow> Config" where
  "configure_WuKongIM vp c =
     (let s = cfg_WuKongIM c
      in c\<lparr>cfg_WuKongIM := s\<lparr>WuKongIM_APIURL := getString vp ''wukongIM.apiURL'' (WuKongIM_APIURL s),
              WuKongIM_ManagerToken := getString vp ''wukongIM.managerToken'' (WuKongIM_ManagerToken s)\<rparr>\<rparr>)"

definition configure_Avatar :: "viper \<Rightarrow> Config \<Rightarrow> Config" where
  "configure_Avatar vp c =
     (let s = cfg_Avatar c
      in c\<lparr>cfg_Avatar := s\<lparr>Avatar_Default := getString vp ''avatar.default'' (Avatar_Default s),
              Avatar_DefaultCount := getInt vp ''avatar.defaultCount'' (Avatar_DefaultCount s),
              Avatar_Partition := getInt vp ''avatar.partition'' (Avatar_Partition s),
              Avatar_DefaultBaseURL := getString vp ''avatar.defaultBaseURL'' (Avatar_DefaultBaseURL s)\<rparr>\<rparr>)"

definition configure_ShortNo :: "viper \<Rightarrow> Config \<Rightarrow> Config" where
  "configure_ShortNo vp c =
     (let s = cfg_ShortNo c
      in c\<lparr>cfg_ShortNo := s\<lparr>ShortNo_NumOn := getBool vp ''shortNo.numOn'' (ShortNo_NumOn s),
              ShortNo_NumLen := getInt vp ''shortNo.numLen'' (ShortNo_NumLen s),
              ShortNo_EditOff := getBool vp ''shortNo.editOff'' (ShortNo_EditOff s)\<rparr>\<rparr>)"

definition configure_Robot :: "viper \<Rightarrow> Config \<Rightarrow> Config" where
  "configure_Robot vp c =
     (let s = cfg_Robot c
      in c\<lparr>cfg_Robot := s\<lparr>Robot_MessageExpire := getDuration vp ''robot.messageExpire'' (Robot_MessageExpire s),
              Robot_InlineQueryTimeout := getDuration vp ''robot.inlineQueryTimeout'' (Robot_InlineQueryTimeout s),
              Robot_EventPoolSize := getInt64 vp ''robot.eventPoolSize'' (Robot_EventPoolSize s)\<rparr>\<rparr>)"

definition configure_Gitee :: "viper \<Rightarrow> Config \<Rightarrow> Config" where
  "configure_Gitee vp c =
     (let s = cfg_Gitee c
      in c\<lparr>cfg_Gitee := s\<lparr>Gitee_OAuthURL := getString vp ''gitee.oauthURL'' (Gitee_OAuthURL s),
              Gitee_ClientID := getString vp ''gitee.clientID'' (Gitee_ClientID s),
              Gitee_ClientSecret := getString vp ''gitee.clientSecret'' (Gitee_ClientSecret s)\<rparr>\<rparr>)"

definition configure_Github :: "viper \<Rightarrow> Config \<Rightarrow> Config" where
  "configure_Github vp c =
     (let s = cfg_Github c
      in c\<lparr>cfg_Github := s\<lparr>Github_OAuthURL := getString vp ''github.oauthURL'' (Github_OAuthURL s),
              Github_ClientID := getString vp ''github.clientID'' (Github_ClientID s),
              Github_ClientSecret := getString vp ''github.clientSecret'' (Github_ClientSecret s)\<rparr>\<rparr>)"

definition configure_OWT :: "viper \<Rightarrow> Config \<Rightarrow> Config" where
  "configure_OWT vp c =
     (let s = cfg_OWT c
      in c\<lparr>cfg_OWT := s\<lparr>OWT_URL := getString vp ''owt.url'' (OWT_URL s),
              OWT_ServiceID := getString vp ''owt.serviceID'' (OWT_ServiceID s),
              OWT_ServiceKey := getString vp ''owt.serviceKey'' (OWT_ServiceKey s),
              OWT_RoomMaxCount := getInt vp ''owt.roomMaxCount'' (OWT_RoomMaxCount s)\<rparr>\<rparr>)"

definition configure_Livekit :: "viper \<Rightarrow> Config \<Rightarrow> Config" where
  "configure_Livekit vp c =
     (let s = cfg_Livekit c
      in c\<lparr>cfg_Livekit := s\<lparr>Livekit_Off := getBool vp ''livekit.off'' (Livekit_Off s),
              Livekit_URL := getString vp ''livekit.url'' (Livekit_URL s),
              Livekit_APIKey := getString vp ''livekit.apiKey'' (Livekit_APIKey s),
              Livekit_APISecret := getString vp ''livekit.apiSecret'' (Livekit_APISecret s),
              Livekit_RoomMaxCount := getInt vp ''livekit.roomMaxCount'' (Livekit_RoomMaxCount s),
              Livekit_InviteTimeoutSeconds := getInt vp ''livekit.inviteTimeoutSeconds'' (Livekit_InviteTimeoutSeconds s)\<rparr>\<rparr>)"

definition configure_Register :: "viper \<Rightarrow> Config \<Rightarrow> Config" where
  "configure_Register vp c =
     (let s = cfg_Register c
      in c\<lparr>cfg_Register := s\<lparr>Register_Off := getBool vp ''register.off'' (Register_Off s),
              Register_OnlyChina := getBool vp ''register.onlyChina'' (Register_OnlyChina s),
              Register_StickerAddOff := getBool vp ''register.stickerAddOff'' (Register_StickerAddOff s),
              Register_UsernameOn := getBool vp ''register.usernameOn'' (Register_UsernameOn s),
              Register_EmailOn := getBool vp ''register.emailOn'' (Register_EmailOn s)\<rparr>\<rparr>)"

definition configure_Organization :: "viper \<Rightarrow> Config \<Rightarrow> Config" where
  "configure_Organization vp c =
     (let s = cfg_Organization c
      in c\<lparr>cfg_Organization := s\<lparr>Organization_ImportOn := getBool vp ''organization.importOn'' (Organization_ImportOn s)\<rparr>\<rparr>)"

definition configure_Friend :: "viper \<Rightarrow> Config \<Rightarrow> Config" where
  "configure_Friend vp c =
     (let s = cfg_Friend c
      in c\<lparr>cfg_Friend := s\<lparr>Friend_AddedTipsText := getString vp ''friend.addedTipsText'' (Friend_AddedTipsText s)\<rparr>\<rparr>)"

definition configure_ZincSearch :: "viper \<Rightarrow> Config \<Rightarrow> Config" where
  "configure_ZincSearch vp c =
     (let s = cfg_ZincSearch c
      in c\<lparr>cfg_ZincSearch := s\<lparr>ZincSearch_SearchOn := getBool vp ''zincSearch.searchOn'' (ZincSearch_SearchOn s),
              ZincSearch_APIURL := getString vp ''zincSearch.apiURL'' (ZincSearch_APIURL s),
              ZincSearch_ZincUsername := getString vp ''zincSearch.username'' (ZincSearch_ZincUsername s),
              ZincSearch_ZincPassword := getString vp ''zincSearch.password'' (ZincSearch_ZincPassword s),
              ZincSearch_SyncIntervalSecond := getInt vp ''zincSearch.syncIntervalSecond'' (ZincSearch_SyncIntervalSecond s),
              ZincSearch_SyncCount := getInt vp ''zincSearch.syncCount'' (ZincSearch_SyncCount s)\<rparr>\<rparr>)"

definition configure_Search :: "viper \<Rightarrow> Config \<Rightarrow> Config" where
  "configure_Search vp c =
     (let s = cfg_Search c
      in c\<lparr>cfg_Search := s\<lparr>Search_ReadBackend := getString vp ''search.readBackend'' (Search_ReadBackend s)\<rparr>\<rparr>)"

definition configure_ESIndex :: "viper \<Rightarrow> Config \<Rightarrow> Config" where
  "configure_ESIndex vp c =
     (let s = cfg_ESIndex c
      in c\<lparr>cfg_ESIndex := s\<lparr>ESIndex_On := getBool vp ''esIndex.on'' (ESIndex_On s),
              ESIndex_Addrs := getStringSlice vp ''esIndex.addrs'' (ESIndex_Addrs s),
              ESIndex_Username := getString vp ''esIndex.username'' (ESIndex_Username s),
              ESIndex_Password := getString vp ''esIndex.password'' (ESIndex_Password s),
              ESIndex_Index := getString vp ''esIndex.index'' (ESIndex_Index s)\<rparr>\<rparr>)"

definition configure_Group :: "viper \<Rightarrow> Config \<Rightarrow> Config" where
  "configure_Group vp c =
     (let s = cfg_Group c
      in c\<lparr>cfg_Group := s\<lparr>Group_SameDayCreateMaxCount := getInt vp ''group.sameDayCreateMaxCount'' (Group_SameDayCreateMaxCount s),
              Group_CreateGroupVerifyFriendOn := getBool vp ''group.createGroupVerifyFriendOn'' (Group_CreateGroupVerifyFriendOn s)\<rparr>\<rparr>)"

definition configure_Message :: "viper \<Rightarrow> Config \<Rightarrow> Config" where
  "configure_Message vp c =
     (let s = cfg_Message c
      in c\<lparr>cfg_Message := s\<lparr>Message_SendMessageOn := getBool vp ''message.sendMessageOn'' (Message_SendMessageOn s),
              Message_SyncReadedCountIntervalSecond := getInt vp ''message.syncReadedCountIntervalSecond'' (Message_SyncReadedCountIntervalSecond s)\<rparr>\<rparr>)"

definition configure_Wechat :: "viper \<Rightarrow> Config \<Rightarrow> Config" where
  "configure_Wechat vp c =
     (let s = cfg_Wechat c
      in c\<lparr>cfg_Wechat := s\<lparr>Wechat_AppID := getString vp ''wechat.appID'' (Wechat_AppID s),
              Wechat_AppSecret := getString vp ''wechat.appSecret'' (Wechat_AppSecret s)\<rparr>\<rparr>)"

definition configure_Tracing :: "viper \<Rightarrow> Config \<Rightarrow> Config" where
  "configure_Tracing vp c =
     (let s = cfg_Tracing c
      in c\<lparr>cfg_Tracing := s\<lparr>Tracing_On := getBool vp ''tracing.on'' (Tracing_On s),
              Tracing_Addr := getString vp ''tracing.addr'' (Tracing_Addr s)\<rparr>\<rparr>)"

definition configure_Support :: "viper \<Rightarrow> Config \<Rightarrow> Config" where
  "configure_Support vp c =
     (let s = cfg_Support c
      in c\<lparr>cfg_Support := s\<lparr>Support_Email := getString vp ''support.email'' (Support_Email s),
              Support_EmailSmtp := getString vp ''support.emailSmtp'' (Support_EmailSmtp s),
              Support_EmailPwd := getString vp ''support.emailPwd'' (Support_EmailPwd s)\<rparr>\<rparr>)"

definition configure_APNS :: "viper \<Rightarrow> APNSPush \<Rightarrow> APNSPush" where
  "configure_APNS vp s =
     s\<lparr>APNS_Dev := getBool vp ''push.apns.dev'' (APNS_Dev s),
       APNS_Topic := getString vp ''push.apns.topic'' (APNS_Topic s),
       APNS_Password := getString vp ''push.apns.password'' (APNS_Password s),
       APNS_Cert := getString vp ''push.apns.cert'' (APNS_Cert s)\<rparr>"

definition configure_HMS :: "viper \<Rightarrow> HMSPush \<Rightarrow> HMSPush" where
  "configure_HMS vp s =
     s\<lparr>HMS_PackageName := getString vp ''push.hms.packageName'' (HMS_PackageName s),
       HMS_AppID := getString vp ''push.hms.appID'' (HMS_AppID s),
       HMS_AppSecret := getString vp ''push.hms.appSecret'' (HMS_AppSecret s)\<rparr>"

definition configure_MI :: "viper \<Rightarrow> MIPush \<Rightarrow> MIPush" where
  "configure_MI vp s =
     s\<lparr>MI_PackageName := getString vp ''push.mi.packageName'' (MI_PackageName s),
       MI_AppID := getString vp ''push.mi.appID'' (MI_AppID s),
       MI_AppSecret := getString vp ''push.mi.appSecret'' (MI_AppSecret s),
       MI_ChannelID := getString vp ''push.mi.channelID'' (MI_ChannelID s)\<rparr>"

definition configure_VIVO :: "viper \<Rightarrow> VIVOPush \<Rightarrow> VIVOPush" where
  "configure_VIVO vp s =
     s\<lparr>VIVO_PackageName := getString vp ''push.vivo.packageName'' (VIVO_PackageName s),
       VIVO_AppID := getString vp ''push.vivo.appID'' (VIVO_AppID s),
       VIVO_AppKey := getString vp ''push.vivo.appKey'' (VIVO_AppKey s),
       VIVO_AppSecret := getString vp ''push.vivo.appSecret'' (VIVO_AppSecret s)\<rparr>"

definition configure_OPPO :: "viper \<Rightarrow> OPPOPush \<Rightarrow> OPPOPush" where
  "configure_OPPO vp s =
     s\<lparr>OPPO_PackageName := getString vp ''push.oppo.packageName'' (OPPO_PackageName s),
       OPPO_AppID := getString vp ''push.oppo.appID'' (OPPO_AppID s),
       OPPO_AppKey := getString vp ''push.oppo.appKey'' (OPPO_AppKey s),
       OPPO_AppSecret := getString vp ''push.oppo.appSecret'' (OPPO_AppSecret s),
       OPPO_MasterSecret := getString vp ''push.oppo.masterSecret'' (OPPO_MasterSecret s)\<rparr>"

definition configure_FIREBASE :: "viper \<Rightarrow> FIREBASEPush \<Rightarrow> FIREBASEPush" where
  "configure_FIREBASE vp s =
     s\<lparr>FIREBASE_JsonPath := getString vp ''push.firebase.jsonPath'' (FIREBASE_JsonPath s),
       FIREBASE_ProjectId := getString vp ''push.firebase.projectId'' (FIREBASE_ProjectId s),
       FIREBASE_PackageName := getString vp ''push.firebase.packageName'' (FIREBASE_PackageName s)\<rparr>"

definition configure_Push :: "viper \<Rightarrow> Config \<Rightarrow> Config" where
  "configure_Push vp c =
     (let s = cfg_Push c
      in c\<lparr>cfg_Push := s\<lparr>Push_ContentDetailOn := getBool vp ''push.contentDetailOn'' (Push_ContentDetailOn s),
              Push_PushPoolSize := getInt64 vp ''push.pushPoolSize'' (Push_PushPoolSize s),
              Push_APNS := configure_APNS vp (Push_APNS s),
              Push_HMS := configure_HMS vp (Push_HMS s),
              Push_MI := configure_MI vp (Push_MI s),
              Push_VIVO := configure_VIVO vp (Push_VIVO s),
              Push_OPPO := configure_OPPO vp (Push_OPPO s),
              Push_FIREBASE := configure_FIREBASE vp (Push_FIREBASE s)\<rparr>\<rparr>)"

text \<open>
  \<^verbatim>\<open>getIntranetIP\<close>: the first private address of the host, a panic if the interfaces cannot be listed.  The error is given
  by its text.
\<close>

definition getIntranetIP :: "string + string list \<Rightarrow> string go" where
  "getIntranetIP GetIntranetIP =
     (case GetIntranetIP of
        Inl err \<Rightarrow> Panic err
      | Inr intranetIPs \<Rightarrow> Ret (if length intranetIPs > 0 then intranetIPs ! 0 else []))"

definition configure_all :: "viper \<Rightarrow> (string \<Rightarrow> string) \<Rightarrow> string \<Rightarrow> Config \<Rightarrow> Config" where
  "configure_all vp env intranetIP c =
     (let c = configure_base vp c; c = configure_External vp intranetIP c; c = configureLog vp c; c = configure_DB vp c;
          c = configure_Cluster vp c; c = configure_Cache vp c; c = configure_Account vp c; c = configure_FileService vp c;
          c = configure_OSS vp c; c = configure_Minio vp c; c = configure_Seaweed vp c; c = configure_Qiniu vp c;
          c = configure_COS vp env c; c = configure_S3 vp env c; c = configure_SMS vp c; c = configure_UniSMS vp c;
          c = configure_Smsbao vp c; c = configure_AliyunSMS vp c; c = configure_AliyunInternationalSMS vp c;
          c = configure_WuKongIM vp c; c = configure_Avatar vp c; c = configure_ShortNo vp c; c = configure_Robot vp c;
          c = configure_Gitee vp c; c = configure_Github vp c; c = configure_OWT vp c; c = configure_Livekit vp c;
          c = configure_Register vp c; c = configure_Organization vp c; c = configure_Friend vp c;
          c = configure_ZincSearch vp c; c = configure_Search vp c; c = configure_ESIndex vp c; c = configure_Group vp c;
          c = configure_Push vp c; c = configure_Message vp c; c = configure_Wechat vp c; c = configure_Tracing vp c
      in configure_Support vp c)"

definition ConfigureWithViper ::
  "viper \<Rightarrow> (string \<Rightarrow> string) \<Rightarrow> string + string list \<Rightarrow> Config \<Rightarrow> Config go" where
  "ConfigureWithViper vp env GetIntranetIP c = go_bind (getIntranetIP GetIntranetIP) (\<lambda>intranetIP. Ret (configure_all vp env intranetIP c))"

end
