(* ===== verification/Config_Facts.thy ===== *)
theory Config_Facts
  imports Config
begin

text \<open>
  What \<^verbatim>\<open>ConfigureWithViper\<close> of \<^verbatim>\<open>config/config.go\<close> guarantees: no section changes the settings of another; the order in which
  environment, configuration file and default decide a credential; that every address the service hands out is set; and
  the configuration of a service that has no settings at all.
\<close>

text \<open>The first text of a list that is not empty.\<close>

fun first_set :: "string list \<Rightarrow> string" where
  "first_set [] = []"
| "first_set (s # ss) = (if s \<noteq> [] then s else first_set ss)"

text \<open>Settings and an environment in which a credential is set three times.\<close>

definition demo_settings :: viper where
  "demo_settings =
     \<lparr>vp_GetString = (\<lambda>k. if k = ''s3.accessKeyID'' then ''yaml'' else []), vp_GetInt = (\<lambda>_. 0), vp_GetInt64 = (\<lambda>_. 0),
      vp_GetDuration = (\<lambda>_. 0), vp_Bool = (\<lambda>_. None), vp_GetStringSlice = (\<lambda>_. []), vp_ConfigFileUsed = []\<rparr>"

definition demo_env :: "string \<Rightarrow> string" where
  "demo_env k = (if k = ''TS_S3_ACCESS_KEY_ID'' then ''app'' else if k = ''AWS_ACCESS_KEY_ID'' then ''host'' else [])"

definition no_settings :: viper where
  "no_settings = \<lparr>vp_GetString = (\<lambda>_. []), vp_GetInt = (\<lambda>_. 0), vp_GetInt64 = (\<lambda>_. 0), vp_GetDuration = (\<lambda>_. 0),
     vp_Bool = (\<lambda>_. None), vp_GetStringSlice = (\<lambda>_. []), vp_ConfigFileUsed = []\<rparr>"

text \<open>What the addresses, the Minio store and the welcome message become if nothing is configured.\<close>

definition welcome_text :: string where
  "welcome_text = map char_of [0xE6, 0xAC, 0xA2, 0xE8, 0xBF, 0x8E, 0xE4, 0xBD, 0xBF, 0xE7, 0x94, 0xA8 :: nat]"

definition External_at :: "string \<Rightarrow> External_config" where
  "External_at ip = \<lparr>External_IP = ip, External_BaseURL = ''http://'' @ ip @ '':8090'', External_H5BaseURL = ''http://'' @ ip @ '':8090/web'',
     External_APIBaseURL = ''http://'' @ ip @ '':8090/v1'', External_WebLoginURL = ''http://'' @ ip @ '':82''\<rparr>"

definition no_Minio :: MinioConfig where
  "no_Minio = \<lparr>Minio_URL = [], Minio_UploadURL = [], Minio_DownloadURL = [], Minio_AccessKeyID = [], Minio_SecretAccessKey = []\<rparr>"

definition Minio_at :: "string \<Rightarrow> MinioConfig" where
  "Minio_at ip = no_Minio\<lparr>Minio_URL := ''http://'' @ ip @ '':9000'', Minio_UploadURL := ''http://'' @ ip @ '':9000'', Minio_DownloadURL := ''http://'' @ ip @ '':9000''\<rparr>"

section \<open>Sections leave the others alone\<close>

lemmas configure_defs =
  configure_base_def configure_External_def configureLog_def configure_DB_def configure_Cluster_def configure_Cache_def
  configure_Account_def configure_FileService_def configure_OSS_def configure_Minio_def configure_Seaweed_def
  configure_Qiniu_def configure_COS_def configure_S3_def configure_SMS_def configure_UniSMS_def configure_Smsbao_def
  configure_AliyunSMS_def configure_AliyunInternationalSMS_def configure_WuKongIM_def configure_Avatar_def
  configure_ShortNo_def configure_Robot_def configure_Gitee_def configure_Github_def configure_OWT_def
  configure_Livekit_def configure_Register_def configure_Organization_def configure_Friend_def configure_ZincSearch_def
  configure_Search_def configure_ESIndex_def configure_Group_def configure_Push_def configure_Message_def
  configure_Wechat_def configure_Tracing_def configure_Support_def configure_APNS_def configure_HMS_def configure_MI_def
  configure_VIVO_def configure_OPPO_def configure_FIREBASE_def

lemma keeps_External:
  "cfg_External (configure_base vp c) = cfg_External c"
  "cfg_External (configureLog vp c) = cfg_External c"
  "cfg_External (configure_DB vp c) = cfg_External c"
  "cfg_External (configure_Cluster vp c) = cfg_External c"
  "cfg_External (configure_Cache vp c) = cfg_External c"
  "cfg_External (configure_Account vp c) = cfg_External c"
  "cfg_External (configure_FileService vp c) = cfg_External c"
  "cfg_External (configure_OSS vp c) = cfg_External c"
  "cfg_External (configure_Minio vp c) = cfg_External c"
  "cfg_External (configure_Seaweed vp c) = cfg_External c"
  "cfg_External (configure_Qiniu vp c) = cfg_External c"
  "cfg_External (configure_COS vp env c) = cfg_External c"
  "cfg_External (configure_S3 vp env c) = cfg_External c"
  "cfg_External (configure_SMS vp c) = cfg_External c"
  "cfg_External (configure_UniSMS vp c) = cfg_External c"
  "cfg_External (configure_Smsbao vp c) = cfg_External c"
  "cfg_External (configure_AliyunSMS vp c) = cfg_External c"
  "cfg_External (configure_AliyunInternationalSMS vp c) = cfg_External c"
  "cfg_External (configure_WuKongIM vp c) = cfg_External c"
  "cfg_External (configure_Avatar vp c) = cfg_External c"
  "cfg_External (configure_ShortNo vp c) = cfg_External c"
  "cfg_External (configure_Robot vp c) = cfg_External c"
  "cfg_External (configure_Gitee vp c) = cfg_External c"
  "cfg_External (configure_Github vp c) = cfg_External c"
  "cfg_External (configure_OWT vp c) = cfg_External c"
  "cfg_External (configure_Livekit vp c) = cfg_External c"
  "cfg_External (configure_Register vp c) = cfg_External c"
  "cfg_External (configure_Organization vp c) = cfg_External c"
  "cfg_External (configure_Friend vp c) = cfg_External c"
  "cfg_External (configure_ZincSearch vp c) = cfg_External c"
  "cfg_External (configure_Search vp c) = cfg_External c"
  "cfg_External (configure_ESIndex vp c) = cfg_External c"
  "cfg_External (configure_Group vp c) = cfg_External c"
  "cfg_External (configure_Push vp c) = cfg_External c"
  "cfg_External (configure_Message vp c) = cfg_External c"
  "cfg_External (configure_Wechat vp c) = cfg_External c"
  "cfg_External (configure_Tracing vp c) = cfg_External c"
  "cfg_External (configure_Support vp c) = cfg_External c"
  by (simp_all add: configure_defs Let_def)

lemma keeps_FileService:
  "cfg_FileService (configure_base vp c) = cfg_FileService c"
  "cfg_FileService (configure_External vp ip c) = cfg_FileService c"
  "cfg_FileService (configureLog vp c) = cfg_FileService c"
  "cfg_FileService (configure_DB vp c) = cfg_FileService c"
  "cfg_FileService (configure_Cluster vp c) = cfg_FileService c"
  "cfg_FileService (configure_Cache vp c) = cfg_FileService c"
  "cfg_FileService (configure_Account vp c) = cfg_FileService c"
  "cfg_FileService (configure_OSS vp c) = cfg_FileService c"
  "cfg_FileService (configure_Minio vp c) = cfg_FileService c"
  "cfg_FileService (configure_Seaweed vp c) = cfg_FileService c"
  "cfg_FileService (configure_Qiniu vp c) = cfg_FileService c"
  "cfg_FileService (configure_COS vp env c) = cfg_FileService c"
  "cfg_FileService (configure_S3 vp env c) = cfg_FileService c"
  "cfg_FileService (configure_SMS vp c) = cfg_FileService c"
  "cfg_FileService (configure_UniSMS vp c) = cfg_FileService c"
  "cfg_FileService (configure_Smsbao vp c) = cfg_FileService c"
  "cfg_FileService (configure_AliyunSMS vp c) = cfg_FileService c"
  "cfg_FileService (configure_AliyunInternationalSMS vp c) = cfg_FileService c"
  "cfg_FileService (configure_WuKongIM vp c) = cfg_FileService c"
  "cfg_FileService (configure_Avatar vp c) = cfg_FileService c"
  "cfg_FileService (configure_ShortNo vp c) = cfg_FileService c"
  "cfg_FileService (configure_Robot vp c) = cfg_FileService c"
  "cfg_FileService (configure_Gitee vp c) = cfg_FileService c"
  "cfg_FileService (configure_Github vp c) = cfg_FileService c"
  "cfg_FileService (configure_OWT vp c) = cfg_FileService c"
  "cfg_FileService (configure_Livekit vp c) = cfg_FileService c"
  "cfg_FileService (configure_Register vp c) = cfg_FileService c"
  "cfg_FileService (configure_Organization vp c) = cfg_FileService c"
  "cfg_FileService (configure_Friend vp c) = cfg_FileService c"
  "cfg_FileService (configure_ZincSearch vp c) = cfg_FileService c"
  "cfg_FileService (configure_Search vp c) = cfg_FileService c"
  "cfg_FileService (configure_ESIndex vp c) = cfg_FileService c"
  "cfg_FileService (configure_Group vp c) = cfg_FileService c"
  "cfg_FileService (configure_Push vp c) = cfg_FileService c"
  "cfg_FileService (configure_Message vp c) = cfg_FileService c"
  "cfg_FileService (configure_Wechat vp c) = cfg_FileService c"
  "cfg_FileService (configure_Tracing vp c) = cfg_FileService c"
  "cfg_FileService (configure_Support vp c) = cfg_FileService c"
  by (simp_all add: configure_defs Let_def)

lemma keeps_Minio:
  "cfg_Minio (configure_base vp c) = cfg_Minio c"
  "cfg_Minio (configure_External vp ip c) = cfg_Minio c"
  "cfg_Minio (configureLog vp c) = cfg_Minio c"
  "cfg_Minio (configure_DB vp c) = cfg_Minio c"
  "cfg_Minio (configure_Cluster vp c) = cfg_Minio c"
  "cfg_Minio (configure_Cache vp c) = cfg_Minio c"
  "cfg_Minio (configure_Account vp c) = cfg_Minio c"
  "cfg_Minio (configure_FileService vp c) = cfg_Minio c"
  "cfg_Minio (configure_OSS vp c) = cfg_Minio c"
  "cfg_Minio (configure_Seaweed vp c) = cfg_Minio c"
  "cfg_Minio (configure_Qiniu vp c) = cfg_Minio c"
  "cfg_Minio (configure_COS vp env c) = cfg_Minio c"
  "cfg_Minio (configure_S3 vp env c) = cfg_Minio c"
  "cfg_Minio (configure_SMS vp c) = cfg_Minio c"
  "cfg_Minio (configure_UniSMS vp c) = cfg_Minio c"
  "cfg_Minio (configure_Smsbao vp c) = cfg_Minio c"
  "cfg_Minio (configure_AliyunSMS vp c) = cfg_Minio c"
  "cfg_Minio (configure_AliyunInternationalSMS vp c) = cfg_Minio c"
  "cfg_Minio (configure_WuKongIM vp c) = cfg_Minio c"
  "cfg_Minio (configure_Avatar vp c) = cfg_Minio c"
  "cfg_Minio (configure_ShortNo vp c) = cfg_Minio c"
  "cfg_Minio (configure_Robot vp c) = cfg_Minio c"
  "cfg_Minio (configure_Gitee vp c) = cfg_Minio c"
  "cfg_Minio (configure_Github vp c) = cfg_Minio c"
  "cfg_Minio (configure_OWT vp c) = cfg_Minio c"
  "cfg_Minio (configure_Livekit vp c) = cfg_Minio c"
  "cfg_Minio (configure_Register vp c) = cfg_Minio c"
  "cfg_Minio (configure_Organization vp c) = cfg_Minio c"
  "cfg_Minio (configure_Friend vp c) = cfg_Minio c"
  "cfg_Minio (configure_ZincSearch vp c) = cfg_Minio c"
  "cfg_Minio (configure_Search vp c) = cfg_Minio c"
  "cfg_Minio (configure_ESIndex vp c) = cfg_Minio c"
  "cfg_Minio (configure_Group vp c) = cfg_Minio c"
  "cfg_Minio (configure_Push vp c) = cfg_Minio c"
  "cfg_Minio (configure_Message vp c) = cfg_Minio c"
  "cfg_Minio (configure_Wechat vp c) = cfg_Minio c"
  "cfg_Minio (configure_Tracing vp c) = cfg_Minio c"
  "cfg_Minio (configure_Support vp c) = cfg_Minio c"
  by (simp_all add: configure_defs Let_def)

lemma keeps_COS:
  "cfg_COS (configure_base vp c) = cfg_COS c"
  "cfg_COS (configure_External vp ip c) = cfg_COS c"
  "cfg_COS (configureLog vp c) = cfg_COS c"
  "cfg_COS (configure_DB vp c) = cfg_COS c"
  "cfg_COS (configure_Cluster vp c) = cfg_COS c"
  "cfg_COS (configure_Cache vp c) = cfg_COS c"
  "cfg_COS (configure_Account vp c) = cfg_COS c"
  "cfg_COS (configure_FileService vp c) = cfg_COS c"
  "cfg_COS (configure_OSS vp c) = cfg_COS c"
  "cfg_COS (configure_Minio vp c) = cfg_COS c"
  "cfg_COS (configure_Seaweed vp c) = cfg_COS c"
  "cfg_COS (configure_Qiniu vp c) = cfg_COS c"
  "cfg_COS (configure_S3 vp env c) = cfg_COS c"
  "cfg_COS (configure_SMS vp c) = cfg_COS c"
  "cfg_COS (configure_UniSMS vp c) = cfg_COS c"
  "cfg_COS (configure_Smsbao vp c) = cfg_COS c"
  "cfg_COS (configure_AliyunSMS vp c) = cfg_COS c"
  "cfg_COS (configure_AliyunInternationalSMS vp c) = cfg_COS c"
  "cfg_COS (configure_WuKongIM vp c) = cfg_COS c"
  "cfg_COS (configure_Avatar vp c) = cfg_COS c"
  "cfg_COS (configure_ShortNo vp c) = cfg_COS c"
  "cfg_COS (configure_Robot vp c) = cfg_COS c"
  "cfg_COS (configure_Gitee vp c) = cfg_COS c"
  "cfg_COS (configure_Github vp c) = cfg_COS c"
  "cfg_COS (configure_OWT vp c) = cfg_COS c"
  "cfg_COS (configure_Livekit vp c) = cfg_COS c"
  "cfg_COS (configure_Register vp c) = cfg_COS c"
  "cfg_COS (configure_Organization vp c) = cfg_COS c"
  "cfg_COS (configure_Friend vp c) = cfg_COS c"
  "cfg_COS (configure_ZincSearch vp c) = cfg_COS c"
  "cfg_COS (configure_Search vp c) = cfg_COS c"
  "cfg_COS (configure_ESIndex vp c) = cfg_COS c"
  "cfg_COS (configure_Group vp c) = cfg_COS c"
  "cfg_COS (configure_Push vp c) = cfg_COS c"
  "cfg_COS (configure_Message vp c) = cfg_COS c"
  "cfg_COS (configure_Wechat vp c) = cfg_COS c"
  "cfg_COS (configure_Tracing vp c) = cfg_COS c"
  "cfg_COS (configure_Support vp c) = cfg_COS c"
  by (simp_all add: configure_defs Let_def)

lemma keeps_S3:
  "cfg_S3 (configure_base vp c) = cfg_S3 c"
  "cfg_S3 (configure_External vp ip c) = cfg_S3 c"
  "cfg_S3 (configureLog vp c) = cfg_S3 c"
  "cfg_S3 (configure_DB vp c) = cfg_S3 c"
  "cfg_S3 (configure_Cluster vp c) = cfg_S3 c"
  "cfg_S3 (configure_Cache vp c) = cfg_S3 c"
  "cfg_S3 (configure_Account vp c) = cfg_S3 c"
  "cfg_S3 (configure_FileService vp c) = cfg_S3 c"
  "cfg_S3 (configure_OSS vp c) = cfg_S3 c"
  "cfg_S3 (configure_Minio vp c) = cfg_S3 c"
  "cfg_S3 (configure_Seaweed vp c) = cfg_S3 c"
  "cfg_S3 (configure_Qiniu vp c) = cfg_S3 c"
  "cfg_S3 (configure_COS vp env c) = cfg_S3 c"
  "cfg_S3 (configure_SMS vp c) = cfg_S3 c"
  "cfg_S3 (configure_UniSMS vp c) = cfg_S3 c"
  "cfg_S3 (configure_Smsbao vp c) = cfg_S3 c"
  "cfg_S3 (configure_AliyunSMS vp c) = cfg_S3 c"
  "cfg_S3 (configure_AliyunInternationalSMS vp c) = cfg_S3 c"
  "cfg_S3 (configure_WuKongIM vp c) = cfg_S3 c"
  "cfg_S3 (configure_Avatar vp c) = cfg_S3 c"
  "cfg_S3 (configure_ShortNo vp c) = cfg_S3 c"
  "cfg_S3 (configure_Robot vp c) = cfg_S3 c"
  "cfg_S3 (configure_Gitee vp c) = cfg_S3 c"
  "cfg_S3 (configure_Github vp c) = cfg_S3 c"
  "cfg_S3 (configure_OWT vp c) = cfg_S3 c"
  "cfg_S3 (configure_Livekit vp c) = cfg_S3 c"
  "cfg_S3 (configure_Register vp c) = cfg_S3 c"
  "cfg_S3 (configure_Organization vp c) = cfg_S3 c"
  "cfg_S3 (configure_Friend vp c) = cfg_S3 c"
  "cfg_S3 (configure_ZincSearch vp c) = cfg_S3 c"
  "cfg_S3 (configure_Search vp c) = cfg_S3 c"
  "cfg_S3 (configure_ESIndex vp c) = cfg_S3 c"
  "cfg_S3 (configure_Group vp c) = cfg_S3 c"
  "cfg_S3 (configure_Push vp c) = cfg_S3 c"
  "cfg_S3 (configure_Message vp c) = cfg_S3 c"
  "cfg_S3 (configure_Wechat vp c) = cfg_S3 c"
  "cfg_S3 (configure_Tracing vp c) = cfg_S3 c"
  "cfg_S3 (configure_Support vp c) = cfg_S3 c"
  by (simp_all add: configure_defs Let_def)

lemma keeps_DB:
  "cfg_DB (configure_base vp c) = cfg_DB c"
  "cfg_DB (configure_External vp ip c) = cfg_DB c"
  "cfg_DB (configureLog vp c) = cfg_DB c"
  "cfg_DB (configure_Cluster vp c) = cfg_DB c"
  "cfg_DB (configure_Cache vp c) = cfg_DB c"
  "cfg_DB (configure_Account vp c) = cfg_DB c"
  "cfg_DB (configure_FileService vp c) = cfg_DB c"
  "cfg_DB (configure_OSS vp c) = cfg_DB c"
  "cfg_DB (configure_Minio vp c) = cfg_DB c"
  "cfg_DB (configure_Seaweed vp c) = cfg_DB c"
  "cfg_DB (configure_Qiniu vp c) = cfg_DB c"
  "cfg_DB (configure_COS vp env c) = cfg_DB c"
  "cfg_DB (configure_S3 vp env c) = cfg_DB c"
  "cfg_DB (configure_SMS vp c) = cfg_DB c"
  "cfg_DB (configure_UniSMS vp c) = cfg_DB c"
  "cfg_DB (configure_Smsbao vp c) = cfg_DB c"
  "cfg_DB (configure_AliyunSMS vp c) = cfg_DB c"
  "cfg_DB (configure_AliyunInternationalSMS vp c) = cfg_DB c"
  "cfg_DB (configure_WuKongIM vp c) = cfg_DB c"
  "cfg_DB (configure_Avatar vp c) = cfg_DB c"
  "cfg_DB (configure_ShortNo vp c) = cfg_DB c"
  "cfg_DB (configure_Robot vp c) = cfg_DB c"
  "cfg_DB (configure_Gitee vp c) = cfg_DB c"
  "cfg_DB (configure_Github vp c) = cfg_DB c"
  "cfg_DB (configure_OWT vp c) = cfg_DB c"
  "cfg_DB (configure_Livekit vp c) = cfg_DB c"
  "cfg_DB (configure_Register vp c) = cfg_DB c"
  "cfg_DB (configure_Organization vp c) = cfg_DB c"
  "cfg_DB (configure_Friend vp c) = cfg_DB c"
  "cfg_DB (configure_ZincSearch vp c) = cfg_DB c"
  "cfg_DB (configure_Search vp c) = cfg_DB c"
  "cfg_DB (configure_ESIndex vp c) = cfg_DB c"
  "cfg_DB (configure_Group vp c) = cfg_DB c"
  "cfg_DB (configure_Push vp c) = cfg_DB c"
  "cfg_DB (configure_Message vp c) = cfg_DB c"
  "cfg_DB (configure_Wechat vp c) = cfg_DB c"
  "cfg_DB (configure_Tracing vp c) = cfg_DB c"
  "cfg_DB (configure_Support vp c) = cfg_DB c"
  by (simp_all add: configure_defs Let_def)

lemma ConfigureWithViper_Ret:
  "ConfigureWithViper vp env ips c = Ret c' \<longleftrightarrow> (\<exists>ip. getIntranetIP ips = Ret ip \<and> c' = configure_all vp env ip c)"
  by (auto simp: ConfigureWithViper_def go_bind_eq_Ret)

section \<open>Credentials\<close>

lemma override_first_set:
  "getString vp key d = first_set [vp_GetString vp key, d]"
  "StringEnv env v key = first_set [env key, v]"
  "first_set [a, first_set (b # bs)] = first_set (a # b # bs)"
  "first_set [a, a', first_set (b # bs)] = first_set (a # a' # b # bs)"
  by (auto simp: getString_def StringEnv_def Let_def)

text \<open>
  C20: A credential of an object store comes from the most specific source that has it: the variable of this application, then
  that of the host (for the S3 store only), then the configuration file, then the value it had.
\<close>

theorem credentials_precedence:
  assumes "ConfigureWithViper vp env ips c = Ret c'"
  shows "S3_AccessKeyID (cfg_S3 c') =
      first_set [env ''TS_S3_ACCESS_KEY_ID'', env ''AWS_ACCESS_KEY_ID'', vp_GetString vp ''s3.accessKeyID'', S3_AccessKeyID (cfg_S3 c)] \<and>
    S3_SecretAccessKey (cfg_S3 c') =
      first_set [env ''TS_S3_SECRET_ACCESS_KEY'', env ''AWS_SECRET_ACCESS_KEY'', vp_GetString vp ''s3.secretAccessKey'',
        S3_SecretAccessKey (cfg_S3 c)] \<and>
    S3_SessionToken (cfg_S3 c') =
      first_set [env ''TS_S3_SESSION_TOKEN'', env ''AWS_SESSION_TOKEN'', vp_GetString vp ''s3.sessionToken'', S3_SessionToken (cfg_S3 c)] \<and>
    COS_SecretID (cfg_COS c') = first_set [env ''TS_COS_SECRET_ID'', vp_GetString vp ''cos.secretID'', COS_SecretID (cfg_COS c)] \<and>
    COS_SecretKey (cfg_COS c') = first_set [env ''TS_COS_SECRET_KEY'', vp_GetString vp ''cos.secretKey'', COS_SecretKey (cfg_COS c)]"
proof -
  obtain ip where c': "c' = configure_all vp env ip c" using assms by (auto simp: ConfigureWithViper_Ret)
  have "cfg_S3 c' = cfg_S3 (configure_S3 vp env c)" "cfg_COS c' = cfg_COS (configure_COS vp env c)"
    unfolding c' configure_all_def Let_def keeps_S3 keeps_COS
    by (simp_all add: configure_S3_def configure_COS_def keeps_S3 keeps_COS Let_def)
  then show ?thesis
    by (simp add: configure_S3_def configure_COS_def Let_def override_first_set del: first_set.simps)
qed

theorem credentials_precedence_witness:
  "\<exists>c'. ConfigureWithViper demo_settings demo_env (Inr []) (New demo_env) = Ret c' \<and> S3_AccessKeyID (cfg_S3 c') = ''app''"
proof -
  define c' where "c' = configure_all demo_settings demo_env [] (New demo_env)"
  have r: "ConfigureWithViper demo_settings demo_env (Inr []) (New demo_env) = Ret c'"
    by (simp add: ConfigureWithViper_def getIntranetIP_def c'_def)
  from credentials_precedence [OF r] have "S3_AccessKeyID (cfg_S3 c') = ''app''" by (simp add: demo_env_def)
  with r show ?thesis by blast
qed

section \<open>Addresses\<close>

lemma External_urls:
  "TrimSpace (External_BaseURL (cfg_External (configure_External vp ip c))) \<noteq> [] \<and>
   TrimSpace (External_WebLoginURL (cfg_External (configure_External vp ip c))) \<noteq> [] \<and>
   TrimSpace (External_H5BaseURL (cfg_External (configure_External vp ip c))) \<noteq> [] \<and>
   TrimSpace (External_APIBaseURL (cfg_External (configure_External vp ip c))) \<noteq> []"
proof -
  have v: "TrimSpace (''http://'' @ s) \<noteq> []" "TrimSpace (s @ ''/web'') \<noteq> []" "TrimSpace (s @ ''/v1'') \<noteq> []" for s
    by (rule TrimSpace_nonblank [of "CHR ''/''"], simp, simp add: visible_def)+
  show ?thesis
    using v [simplified] by (auto simp: configure_External_def Let_def)
qed

lemma External_IP:
  "External_IP (cfg_External (configure_External vp ip c)) =
     (if TrimSpace (getString vp ''external.ip'' (External_IP (cfg_External c))) = [] then ip
      else getString vp ''external.ip'' (External_IP (cfg_External c)))"
  by (simp add: configure_External_def Let_def)

lemma Minio_urls:
  assumes "cfg_FileService c = FileServiceMinio"
  shows "TrimSpace (Minio_URL (cfg_Minio (configure_Minio vp c))) \<noteq> [] \<and>
    TrimSpace (Minio_UploadURL (cfg_Minio (configure_Minio vp c))) \<noteq> [] \<and>
    TrimSpace (Minio_DownloadURL (cfg_Minio (configure_Minio vp c))) \<noteq> []"
proof -
  have "TrimSpace (''http://'' @ s) \<noteq> []" for s by (rule TrimSpace_nonblank [of "CHR ''/''"]) (simp, simp add: visible_def)
  from this [simplified] assms show ?thesis by (auto simp: configure_Minio_def Let_def)
qed

text \<open>
  After the settings are applied every address the service hands out is set: the base address, the addresses of the web
  login, of the web pages and of the interface, and those of the file store if that is Minio.  The host in the derived ones
  is the configured address, or the intranet address if that is blank.
\<close>

theorem addresses_set:
  assumes "ConfigureWithViper vp env ips c = Ret c'"
  shows "TrimSpace (External_BaseURL (cfg_External c')) \<noteq> [] \<and> TrimSpace (External_WebLoginURL (cfg_External c')) \<noteq> [] \<and>
    TrimSpace (External_H5BaseURL (cfg_External c')) \<noteq> [] \<and> TrimSpace (External_APIBaseURL (cfg_External c')) \<noteq> [] \<and>
    (cfg_FileService c' = FileServiceMinio \<longrightarrow>
       TrimSpace (Minio_URL (cfg_Minio c')) \<noteq> [] \<and> TrimSpace (Minio_UploadURL (cfg_Minio c')) \<noteq> [] \<and>
       TrimSpace (Minio_DownloadURL (cfg_Minio c')) \<noteq> []) \<and>
    (\<exists>ip. getIntranetIP ips = Ret ip \<and>
       External_IP (cfg_External c') =
         (if TrimSpace (getString vp ''external.ip'' (External_IP (cfg_External c))) = [] then ip
          else getString vp ''external.ip'' (External_IP (cfg_External c))))"
proof -
  obtain ip where ip: "getIntranetIP ips = Ret ip" and c': "c' = configure_all vp env ip c"
    using assms by (auto simp: ConfigureWithViper_Ret)
  obtain c1 c2 where e: "cfg_External c' = cfg_External (configure_External vp ip c1)" "cfg_External c1 = cfg_External c"
    and m: "cfg_Minio c' = cfg_Minio (configure_Minio vp c2)" "cfg_FileService c' = cfg_FileService c2"
    unfolding c' configure_all_def Let_def keeps_External keeps_Minio keeps_FileService by (metis keeps_External(1) keeps_FileService)
  show ?thesis using External_urls [of vp ip c1] External_IP [of vp ip c1] Minio_urls [of c2 vp] ip e m by auto
qed

theorem addresses_set_witness:
  "\<exists>c'. ConfigureWithViper demo_settings demo_env (Inr [''10.0.0.7'']) (New demo_env) = Ret c' \<and> TrimSpace (External_BaseURL (cfg_External c')) \<noteq> [] \<and>
     TrimSpace (Minio_URL (cfg_Minio c')) \<noteq> []"
proof -
  define c' where "c' = configure_all demo_settings demo_env ''10.0.0.7'' (New demo_env)"
  have r: "ConfigureWithViper demo_settings demo_env (Inr [''10.0.0.7'']) (New demo_env) = Ret c'"
    by (simp add: ConfigureWithViper_def getIntranetIP_def c'_def)
  have "cfg_FileService c' = FileServiceMinio"
    unfolding c'_def configure_all_def Let_def keeps_FileService
    by (simp add: configure_FileService_def keeps_FileService getString_def demo_settings_def New_def)
  with r addresses_set [OF r] show ?thesis by blast
qed

section \<open>Without settings\<close>

lemma getters_no_settings [simp]:
  "getString no_settings k d = d" "getInt no_settings k i = i" "getInt64 no_settings k i = i" "getDuration no_settings k i = i"
  "getBool no_settings k b = b" "getStringSlice no_settings k ss = ss"
  by (simp_all add: no_settings_def getString_def getInt_def getInt64_def getDuration_def getBool_def getStringSlice_def TrimSpace_Nil)

lemma configure_no_settings:
  "configure_DB no_settings c = c"
  "configure_Cluster no_settings c = c"
  "configure_Cache no_settings c = c"
  "configure_Account no_settings c = c"
  "configure_FileService no_settings c = c"
  "configure_OSS no_settings c = c"
  "configure_Seaweed no_settings c = c"
  "configure_Qiniu no_settings c = c"
  "configure_SMS no_settings c = c"
  "configure_UniSMS no_settings c = c"
  "configure_Smsbao no_settings c = c"
  "configure_AliyunSMS no_settings c = c"
  "configure_AliyunInternationalSMS no_settings c = c"
  "configure_WuKongIM no_settings c = c"
  "configure_Avatar no_settings c = c"
  "configure_ShortNo no_settings c = c"
  "configure_Robot no_settings c = c"
  "configure_Gitee no_settings c = c"
  "configure_Github no_settings c = c"
  "configure_OWT no_settings c = c"
  "configure_Livekit no_settings c = c"
  "configure_Register no_settings c = c"
  "configure_Organization no_settings c = c"
  "configure_Friend no_settings c = c"
  "configure_ZincSearch no_settings c = c"
  "configure_Search no_settings c = c"
  "configure_ESIndex no_settings c = c"
  "configure_Group no_settings c = c"
  "configure_Push no_settings c = c"
  "configure_Message no_settings c = c"
  "configure_Wechat no_settings c = c"
  "configure_Tracing no_settings c = c"
  "configure_Support no_settings c = c"
  "configure_COS no_settings (\<lambda>_. []) c = c"
  "configure_S3 no_settings (\<lambda>_. []) c = c"
  by (simp_all add: StringEnv_def configure_defs Let_def)

lemma ReplaceAll_Nil [simp]: "ReplaceAll [] old new = []"
  by (simp add: ReplaceAll.simps)

lemma ReplaceAll_hit: "old \<noteq> [] \<Longrightarrow> ReplaceAll (old @ s) old new = new @ ReplaceAll s old new"
  by (subst ReplaceAll.simps) simp

lemma ReplaceAll_skip: "old \<noteq> [] \<Longrightarrow> hd old \<notin> set p \<Longrightarrow> ReplaceAll (p @ s) old new = p @ ReplaceAll s old new"
proof (induction p)
  case (Cons a p)
  then have "\<not> HasPrefix ((a # p) @ s) old" by (cases old) (auto simp: HasPrefix_iff)
  with Cons show ?case by (subst ReplaceAll.simps) simp
qed simp

lemma welcome_default:
  "TrimSpace (cfg_WelcomeMessage (New env)) \<noteq> []"
  "ReplaceAll (cfg_WelcomeMessage (New env)) ''{{appName}}'' a = welcome_text @ a"
proof -
  have m: "cfg_WelcomeMessage (New env) = welcome_text @ ''{{appName}}''" by (simp add: New_def welcome_text_def)
  show "TrimSpace (cfg_WelcomeMessage (New env)) \<noteq> []"
    unfolding m by (rule TrimSpace_nonblank [of "CHR ''N''"]) (simp, simp add: visible_def)
  have "CHR ''{'' \<notin> set welcome_text" by code_simp
  then have "ReplaceAll (welcome_text @ ''{{appName}}'') ''{{appName}}'' a = welcome_text @ ReplaceAll ''{{appName}}'' ''{{appName}}'' a"
    by (intro ReplaceAll_skip) simp_all
  also have "ReplaceAll ''{{appName}}'' ''{{appName}}'' a = a"
    using ReplaceAll_hit [of "''{{appName}}''" "[]" a] by simp
  finally show "ReplaceAll (cfg_WelcomeMessage (New env)) ''{{appName}}'' a = welcome_text @ a" unfolding m .
qed

lemma base_no_settings:
  "configure_base no_settings (New env) = (New env)\<lparr>cfg_Mode := ''debug'', cfg_WelcomeMessage := welcome_text @ cfg_AppName (New env)\<rparr>"
  using welcome_default [of env] by (simp add: configure_base_def Let_def DebugMode_def)

lemma External_no_settings:
  assumes "cfg_External c = default_External"
  shows "configure_External no_settings ip c = c\<lparr>cfg_External := External_at ip\<rparr>"
proof -
  have h: "TrimSpace (CHR ''h'' # s) \<noteq> []" for s by (rule TrimSpace_nonblank [of "CHR ''h''"]) (simp, simp add: visible_def)
  show ?thesis using assms by (simp add: configure_External_def External_at_def default_External_def Let_def TrimSpace_Nil h)
qed

lemma Log_no_settings:
  assumes "cfg_Mode c = ''debug''" "cfg_RootDir c = ''tsdddata''"
  shows "configureLog no_settings c = c\<lparr>cfg_Logger := \<lparr>Logger_Dir = ''tsdddata/logs'', Logger_Level = -1, Logger_LineNum = False\<rparr>\<rparr>"
proof -
  have "path_Join [''tsdddata'', ''logs''] = ''tsdddata/logs''" by code_simp
  moreover have "TrimSpace ''logs'' = ''logs''" by (rule TrimSpace_visible) (simp add: visible_def)
  ultimately show ?thesis
    using assms by (simp add: configureLog_def Let_def no_settings_def TrimSpace_Nil DebugMode_def HasPrefix_def int8_def)
qed

lemma Minio_no_settings:
  assumes "cfg_FileService c = FileServiceMinio" "cfg_Minio c = no_Minio"
  shows "configure_Minio no_settings c = c\<lparr>cfg_Minio := Minio_at (External_IP (cfg_External c))\<rparr>"
proof -
  have h: "TrimSpace (CHR ''h'' # s) \<noteq> []" for s by (rule TrimSpace_nonblank [of "CHR ''h''"]) (simp, simp add: visible_def)
  show ?thesis using assms by (simp add: configure_Minio_def Minio_at_def no_Minio_def Let_def TrimSpace_Nil h)
qed

text \<open>
  With no settings and an empty environment the service runs on the defaults of \<^verbatim>\<open>New\<close>, with these exceptions: the mode is
  the debug mode, although \<^verbatim>\<open>New\<close> sets the release mode; the name of the application is put into the welcome message; and
  the addresses, the log directory and the log level are derived.
\<close>

theorem defaults_without_settings:
  "ConfigureWithViper no_settings (\<lambda>_. []) (Inr (ip # ips)) (New (\<lambda>_. [])) =
     Ret ((New (\<lambda>_. []))
       \<lparr>cfg_Mode := ''debug'', cfg_WelcomeMessage := welcome_text @ cfg_AppName (New (\<lambda>_. [])),
        cfg_External := External_at ip,
        cfg_Logger := \<lparr>Logger_Dir = ''tsdddata/logs'', Logger_Level = -1, Logger_LineNum = False\<rparr>,
        cfg_Minio := Minio_at ip\<rparr>)"
proof -
  have d: "cfg_External (New (\<lambda>_. [])) = default_External" "cfg_RootDir (New (\<lambda>_. [])) = ''tsdddata''"
    "cfg_FileService (New (\<lambda>_. [])) = FileServiceMinio" "cfg_Minio (New (\<lambda>_. [])) = no_Minio"
    by (simp_all add: New_def no_Minio_def)
  have "configure_all no_settings (\<lambda>_. []) ip (New (\<lambda>_. [])) =
      configure_Minio no_settings (configureLog no_settings (configure_External no_settings ip (configure_base no_settings (New (\<lambda>_. [])))))"
    by (simp only: configure_all_def Let_def configure_no_settings)
  also have "\<dots> = (New (\<lambda>_. []))
       \<lparr>cfg_Mode := ''debug'', cfg_WelcomeMessage := welcome_text @ cfg_AppName (New (\<lambda>_. [])),
        cfg_External := External_at ip,
        cfg_Logger := \<lparr>Logger_Dir = ''tsdddata/logs'', Logger_Level = -1, Logger_LineNum = False\<rparr>,
        cfg_Minio := Minio_at ip\<rparr>"
    using d by (simp add: base_no_settings External_no_settings Log_no_settings Minio_no_settings External_at_def)
  finally show ?thesis by (simp add: ConfigureWithViper_def getIntranetIP_def)
qed

text \<open>The address of the task queue stays empty if it is not configured, whatever the address of Redis is.\<close>

lemma asynctask_address:
  assumes "ConfigureWithViper vp env ips (New env) = Ret c'" "vp_GetString vp ''db.asynctaskRedisAddr'' = []"
  shows "DB_AsynctaskRedisAddr (cfg_DB c') = []"
proof -
  obtain ip where c': "c' = configure_all vp env ip (New env)" using assms(1) by (auto simp: ConfigureWithViper_Ret)
  have "cfg_DB c' = cfg_DB (configure_DB vp (New env))"
    unfolding c' configure_all_def Let_def keeps_DB by (simp add: configure_DB_def keeps_DB Let_def)
  with assms(2) show ?thesis by (simp add: configure_DB_def Let_def getString_def New_def default_DB_def)
qed

end
