(* ===== verification/Config_Names.thy ===== *)
theory Config_Names
  imports Config Message_Types
begin

text \<open>
  The names \<^verbatim>\<open>config/config.go\<close> gives to the files of avatars and covers, and to the channels of customer service.
\<close>

section \<open>Names of files and channels\<close>

definition GetAvatarPath :: "string \<Rightarrow> string" where
  "GetAvatarPath uid = ''users/'' @ uid @ ''/avatar''"

text \<open>Optional arguments are a list; only the first counts.\<close>

definition avatarVersion :: "int list \<Rightarrow> int" where
  "avatarVersion version = (if length version > 0 then version ! 0 else 0)"

definition div0 :: string where
  "div0 = ''integer divide by zero''"

definition avatarID :: "Config \<Rightarrow> string \<Rightarrow> int go" where
  "avatarID c no =
     (let p = Avatar_Partition (cfg_Avatar c) mod 4294967296
      in if p = 0 then Panic div0 else Ret (uint (HashCrc32 no) mod p))"

definition GetGroupAvatarFilePath :: "Config \<Rightarrow> string \<Rightarrow> int list \<Rightarrow> string go" where
  "GetGroupAvatarFilePath c groupNo version =
     go_bind (avatarID c groupNo) (\<lambda>i. let v = avatarVersion version in
       Ret (if v > 0 then ''group/'' @ int_dec i @ ''/'' @ groupNo @ ''/'' @ int_dec v @ ''.png''
            else ''group/'' @ int_dec i @ ''/'' @ groupNo @ ''.png''))"

definition GetCommunityAvatarFilePath :: "Config \<Rightarrow> string \<Rightarrow> int list \<Rightarrow> string go" where
  "GetCommunityAvatarFilePath c communityNo version =
     go_bind (avatarID c communityNo) (\<lambda>i. let v = avatarVersion version in
       Ret (if v > 0 then ''community/'' @ int_dec i @ ''/'' @ communityNo @ ''/'' @ int_dec v @ ''.png''
            else ''community/'' @ int_dec i @ ''/'' @ communityNo @ ''.png''))"

definition GetCommunityCoverFilePath :: "Config \<Rightarrow> string \<Rightarrow> int list \<Rightarrow> string go" where
  "GetCommunityCoverFilePath c communityNo version =
     go_bind (avatarID c communityNo) (\<lambda>i. let v = avatarVersion version in
       Ret (if v > 0 then ''community/'' @ int_dec i @ ''/'' @ communityNo @ ''/cover/'' @ int_dec v @ ''.png''
            else ''community/'' @ int_dec i @ ''/'' @ communityNo @ ''_cover.png''))"

definition GetOrganizationLogoFilePath :: "string \<Rightarrow> string" where
  "GetOrganizationLogoFilePath orgId = ''organization/logo/'' @ orgId @ ''.png''"

definition IsVisitorChannel :: "string \<Rightarrow> bool" where
  "IsVisitorChannel uid = HasSuffix uid ''@ht''"

definition GetCustomerServiceChannelID :: "string \<Rightarrow> string \<times> bool" where
  "GetCustomerServiceChannelID channelID =
     (if CHR ''|'' \<notin> set channelID then ([], False) else (split_on (CHR ''|'') channelID ! 1, True))"

definition GetCustomerServiceVisitorUID :: "string \<Rightarrow> string \<times> bool" where
  "GetCustomerServiceVisitorUID channelID =
     (if CHR ''|'' \<notin> set channelID then ([], False) else (split_on (CHR ''|'') channelID ! 0, True))"

definition ComposeCustomerServiceChannelID :: "string \<Rightarrow> string \<Rightarrow> string" where
  "ComposeCustomerServiceChannelID vid channelID = vid @ ''|'' @ channelID"

definition IsVisitor :: "Config \<Rightarrow> string \<Rightarrow> bool" where
  "IsVisitor c uid = HasPrefix uid (cfg_VisitorUIDPrefix c)"

section \<open>Properties\<close>

lemma int_dec_no_slash: "CHR ''/'' \<notin> set (int_dec i)"
  using nat_dec_not_nondigit [of "CHR ''/''"] by (simp add: int_dec_def digit_val_def)

lemma int_dec_inject [simp]: "int_dec i = int_dec j \<longleftrightarrow> i = j"
  by (metis big_SetString_int_dec option.inject)

lemma avatarID_iff:
  "avatarID c no = Ret i \<longleftrightarrow> Avatar_Partition (cfg_Avatar c) mod 4294967296 \<noteq> 0 \<and> i = uint (HashCrc32 no) mod (Avatar_Partition (cfg_Avatar c) mod 4294967296)"
  by (auto simp: avatarID_def Let_def)

lemma avatarID_range:
  assumes "avatarID c no = Ret i"
  shows "0 \<le> i \<and> i < Avatar_Partition (cfg_Avatar c) mod 4294967296"
proof -
  have "0 \<le> Avatar_Partition (cfg_Avatar c) mod 4294967296" by simp
  with assms have "0 < Avatar_Partition (cfg_Avatar c) mod 4294967296" by (auto simp: avatarID_iff)
  with assms show ?thesis by (simp add: avatarID_iff)
qed

lemma group_key:
  assumes "CHR ''/'' \<notin> set no" "GetGroupAvatarFilePath c no vs = Ret p"
  shows "\<exists>i. split_on (CHR ''/'') p =
    (if avatarVersion vs > 0 then [''group'', i, no, int_dec (avatarVersion vs) @ ''.png''] else [''group'', i, no @ ''.png''])"
  using assms by (auto simp: GetGroupAvatarFilePath_def go_bind_eq_Ret Let_def split_on_append_sep split_on_no_sep int_dec_no_slash split: if_splits)

lemma community_key:
  assumes "CHR ''/'' \<notin> set no" "GetCommunityAvatarFilePath c no vs = Ret p"
  shows "\<exists>i. split_on (CHR ''/'') p =
    (if avatarVersion vs > 0 then [''community'', i, no, int_dec (avatarVersion vs) @ ''.png''] else [''community'', i, no @ ''.png''])"
  using assms by (auto simp: GetCommunityAvatarFilePath_def go_bind_eq_Ret Let_def split_on_append_sep split_on_no_sep int_dec_no_slash split: if_splits)

lemma cover_key:
  assumes "CHR ''/'' \<notin> set no" "GetCommunityCoverFilePath c no vs = Ret p"
  shows "\<exists>i. split_on (CHR ''/'') p =
    (if avatarVersion vs > 0 then [''community'', i, no, ''cover'', int_dec (avatarVersion vs) @ ''.png''] else [''community'', i, no @ ''_cover.png''])"
  using assms by (auto simp: GetCommunityCoverFilePath_def go_bind_eq_Ret Let_def split_on_append_sep split_on_no_sep int_dec_no_slash split: if_splits)

text \<open>
  For numbers without a slash an object key determines what it is the key of: two group avatars share a key only if they
  belong to the same group and are the same version (every version from 0 down is the unversioned one); likewise for
  communities; the versioned key of a cover is never the key of an avatar nor an unversioned key.
\<close>

theorem object_keys_distinct:
  assumes "CHR ''/'' \<notin> set no" "CHR ''/'' \<notin> set no'"
  shows "(GetGroupAvatarFilePath c no vs = Ret p \<and> GetGroupAvatarFilePath c no' vs' = Ret p \<longrightarrow>
      no = no' \<and> max 0 (avatarVersion vs) = max 0 (avatarVersion vs')) \<and>
    (GetCommunityAvatarFilePath c no vs = Ret p \<and> GetCommunityAvatarFilePath c no' vs' = Ret p \<longrightarrow>
      no = no' \<and> max 0 (avatarVersion vs) = max 0 (avatarVersion vs')) \<and>
    (GetCommunityCoverFilePath c no vs = Ret p \<and> GetCommunityCoverFilePath c no' vs' = Ret p \<longrightarrow>
      no = no' \<and> max 0 (avatarVersion vs) = max 0 (avatarVersion vs')) \<and>
    (GetCommunityCoverFilePath c no vs = Ret p \<and> GetCommunityAvatarFilePath c no' vs' = Ret p \<longrightarrow>
      avatarVersion vs \<le> 0 \<and> avatarVersion vs' \<le> 0 \<and> no' = no @ ''_cover'') \<and>
    \<not> (GetGroupAvatarFilePath c no vs = Ret p \<and> GetCommunityAvatarFilePath c no' vs' = Ret p) \<and>
    \<not> (GetGroupAvatarFilePath c no vs = Ret p \<and> GetCommunityCoverFilePath c no' vs' = Ret p)"
proof (intro conjI impI notI; elim conjE)
  assume "GetGroupAvatarFilePath c no vs = Ret p" "GetGroupAvatarFilePath c no' vs' = Ret p"
  from group_key [OF assms(1) this(1)] group_key [OF assms(2) this(2)]
  show "no = no'" "max 0 (avatarVersion vs) = max 0 (avatarVersion vs')" by (auto split: if_splits)
next
  assume "GetCommunityAvatarFilePath c no vs = Ret p" "GetCommunityAvatarFilePath c no' vs' = Ret p"
  from community_key [OF assms(1) this(1)] community_key [OF assms(2) this(2)]
  show "no = no'" "max 0 (avatarVersion vs) = max 0 (avatarVersion vs')" by (auto split: if_splits)
next
  assume "GetCommunityCoverFilePath c no vs = Ret p" "GetCommunityCoverFilePath c no' vs' = Ret p"
  from cover_key [OF assms(1) this(1)] cover_key [OF assms(2) this(2)]
  show "no = no'" "max 0 (avatarVersion vs) = max 0 (avatarVersion vs')" by (auto split: if_splits)
next
  assume "GetCommunityCoverFilePath c no vs = Ret p" "GetCommunityAvatarFilePath c no' vs' = Ret p"
  from cover_key [OF assms(1) this(1)] community_key [OF assms(2) this(2)]
  obtain i where k: "avatarVersion vs \<le> 0" "avatarVersion vs' \<le> 0" "no @ ''_cover.png'' = no' @ ''.png''"
    by (auto split: if_splits)
  then have "(no @ ''_cover'') @ ''.png'' = no' @ ''.png''" by simp
  then have "no' = no @ ''_cover''" by (simp only: append_same_eq)
  with k show "avatarVersion vs \<le> 0" "avatarVersion vs' \<le> 0" "no' = no @ ''_cover''" by simp_all
next
  assume "GetGroupAvatarFilePath c no vs = Ret p" "GetCommunityAvatarFilePath c no' vs' = Ret p"
  from group_key [OF assms(1) this(1)] community_key [OF assms(2) this(2)] show False by (auto split: if_splits)
next
  assume "GetGroupAvatarFilePath c no vs = Ret p" "GetCommunityCoverFilePath c no' vs' = Ret p"
  from group_key [OF assms(1) this(1)] cover_key [OF assms(2) this(2)] show False by (auto split: if_splits)
qed

theorem object_keys_distinct_witness:
  "\<not> (\<exists>p. GetGroupAvatarFilePath (New (\<lambda>_. [])) ''g1'' [3] = Ret p \<and> GetGroupAvatarFilePath (New (\<lambda>_. [])) ''g2'' [] = Ret p)"
  using object_keys_distinct [of "''g1''" "''g2''" "New (\<lambda>_. [])" "[3]" _ "[]"] by auto

text \<open>
  The identifier of a customer service channel gives back the visitor and the channel it was composed of, if neither holds
  a bar; what follows a second bar is lost.
\<close>

lemma customer_service_roundtrip:
  assumes "CHR ''|'' \<notin> set vid"
  shows "GetCustomerServiceVisitorUID (ComposeCustomerServiceChannelID vid channelID) = (vid, True) \<and>
    GetCustomerServiceChannelID (ComposeCustomerServiceChannelID vid channelID) = (takeWhile (\<lambda>ch. ch \<noteq> CHR ''|'') channelID, True)"
proof -
  have "split_on sep s ! 0 = takeWhile (\<lambda>ch. ch \<noteq> sep) s" for s sep
    by (induction s) (auto split: list.splits)
  with assms show ?thesis
    by (simp add: GetCustomerServiceVisitorUID_def GetCustomerServiceChannelID_def ComposeCustomerServiceChannelID_def split_on_append_sep)
qed

text \<open>A number of partitions that is a multiple of 2 to the 32nd makes every lookup of an avatar panic.\<close>

lemma avatar_partition_zero:
  assumes "4294967296 dvd Avatar_Partition (cfg_Avatar c)"
  shows "GetGroupAvatarFilePath c no vs = Panic div0"
  using assms by (simp add: GetGroupAvatarFilePath_def avatarID_def)

end
