(* ===== verification/Redis_Conn.thy ===== *)
theory Redis_Conn
  imports Auth
begin

text \<open>
  The Redis connection (\<^verbatim>\<open>pkg/redis/redis.go\<close>) and the cache on top of it (\<^verbatim>\<open>common/cache.go\<close>).  The client of the
  go-redis package is a record of the calls the sources make, over a state of the client and its server; what is relied on
  about three of these calls is the predicate \<open>redis_laws\<close>.  A slice or map is an option, \<open>None\<close> being nil.
\<close>

section \<open>The client\<close>

text \<open>Errors: the sentinel \<^verbatim>\<open>redis.Nil\<close> and all others, by their text.\<close>

datatype rd_error = rd_Nil | rd_Err string

text \<open>Values of the type \<^verbatim>\<open>interface{}\<close>: only texts and 64 bit floats are looked into.\<close>

datatype 'f iface = I_string string | I_float64 'f | I_other string

record 'f rd_Z =
  z_Score :: 'f
  z_Member :: "'f iface"

record rd_ZRangeBy =
  zrb_Min :: string
  zrb_Max :: string
  zrb_Offset :: int
  zrb_Count :: int

record 'f rd_GeoLocation =
  gl_Name :: string
  gl_Longitude :: 'f
  gl_Latitude :: 'f

record 'f rd_GeoRadiusQuery =
  grq_Radius :: 'f
  grq_Unit :: string

type_synonym ('s, 'a) rd_call = "'s \<Rightarrow> ('a \<times> rd_error option) \<times> 's"

record ('s, 'f) rd_client =
  c_Close :: "('s, unit) rd_call"
  c_Ping :: "('s, string) rd_call"
  c_Set :: "string \<Rightarrow> 'f iface \<Rightarrow> int \<Rightarrow> ('s, string) rd_call"
  c_Get :: "string \<Rightarrow> ('s, string) rd_call"
  c_Del :: "string \<Rightarrow> ('s, int) rd_call"
  c_LLen :: "string \<Rightarrow> ('s, int) rd_call"
  c_LRange :: "string \<Rightarrow> int \<Rightarrow> int \<Rightarrow> ('s, string list option) rd_call"
  c_LPop :: "string \<Rightarrow> ('s, string) rd_call"
  c_SMembers :: "string \<Rightarrow> ('s, string list option) rd_call"
  c_LRem :: "string \<Rightarrow> int \<Rightarrow> string \<Rightarrow> ('s, int) rd_call"
  c_LTrim :: "string \<Rightarrow> int \<Rightarrow> int \<Rightarrow> ('s, string) rd_call"
  c_HGet :: "string \<Rightarrow> string \<Rightarrow> ('s, string) rd_call"
  c_HMGet :: "string \<Rightarrow> string list \<Rightarrow> ('s, 'f iface option list option) rd_call"
  c_HMSet :: "string \<Rightarrow> (string \<rightharpoonup> 'f iface) \<Rightarrow> ('s, string) rd_call"
  c_HGetAll :: "string \<Rightarrow> ('s, (string \<rightharpoonup> string) option) rd_call"
  c_Expire :: "string \<Rightarrow> int \<Rightarrow> ('s, bool) rd_call"
  c_HSet :: "string \<Rightarrow> string \<Rightarrow> string \<Rightarrow> ('s, bool) rd_call"
  c_HDel :: "string \<Rightarrow> string \<Rightarrow> ('s, int) rd_call"
  c_HIncrBy :: "string \<Rightarrow> string \<Rightarrow> int \<Rightarrow> ('s, int) rd_call"
  c_SIsMember :: "string \<Rightarrow> string \<Rightarrow> ('s, bool) rd_call"
  c_SAdd :: "string \<Rightarrow> 'f iface list \<Rightarrow> ('s, int) rd_call"
  c_SRem :: "string \<Rightarrow> 'f iface list \<Rightarrow> ('s, int) rd_call"
  c_ZAdd :: "string \<Rightarrow> 'f rd_Z list \<Rightarrow> ('s, int) rd_call"
  c_ZRem :: "string \<Rightarrow> 'f iface list \<Rightarrow> ('s, int) rd_call"
  c_ZRemRangeByScore :: "string \<Rightarrow> string \<Rightarrow> string \<Rightarrow> ('s, int) rd_call"
  c_ZRangeByScore :: "string \<Rightarrow> rd_ZRangeBy \<Rightarrow> ('s, string list option) rd_call"
  c_Incr :: "string \<Rightarrow> ('s, int) rd_call"
  c_Decr :: "string \<Rightarrow> ('s, int) rd_call"
  c_GeoAdd :: "string \<Rightarrow> 'f rd_GeoLocation list \<Rightarrow> ('s, int) rd_call"
  c_GeoRadius :: "string \<Rightarrow> 'f \<Rightarrow> 'f \<Rightarrow> 'f rd_GeoRadiusQuery \<Rightarrow> ('s, 'f rd_GeoLocation list option) rd_call"
  c_MSet :: "string list \<Rightarrow> ('s, string) rd_call"
  c_BLPop :: "int \<Rightarrow> string list \<Rightarrow> ('s, string list option) rd_call"
  c_BRPopLPush :: "string \<Rightarrow> string \<Rightarrow> int \<Rightarrow> ('s, string) rd_call"
  c_LPush :: "string \<Rightarrow> 'f iface list \<Rightarrow> ('s, int) rd_call"
  c_Keys :: "string \<Rightarrow> ('s, string list option) rd_call"

record ('s, 'f) Conn =
  conn_client :: "('s, 'f) rd_client"

section \<open>Building a connection\<close>

text \<open>A TLS configuration; \<open>'pool\<close> is the type of certificate pools, \<open>None\<close> the roots of the system.\<close>

record 'pool tls_Config =
  tls_InsecureSkipVerify :: bool
  tls_MinVersion :: nat
  tls_RootCAs :: "'pool option"

definition VersionTLS12 :: nat where
  "VersionTLS12 = 0x0303"

datatype tls_error = ReadCAFile string string | NoValidPEM string

definition BuildTLSConfig ::
  "(string \<Rightarrow> string + string) \<Rightarrow> (string \<Rightarrow> 'pool option) \<Rightarrow> bool \<Rightarrow> string \<Rightarrow> tls_error + 'pool tls_Config" where
  "BuildTLSConfig ReadFile AppendCertsFromPEM insecureSkipVerify caFile =
     (let cfg = \<lparr>tls_InsecureSkipVerify = insecureSkipVerify, tls_MinVersion = VersionTLS12, tls_RootCAs = None\<rparr>
      in if caFile = [] then Inr cfg
         else case ReadFile caFile of
                Inl err \<Rightarrow> Inl (ReadCAFile caFile err)
              | Inr caPEM \<Rightarrow>
                  (case AppendCertsFromPEM caPEM of
                     None \<Rightarrow> Inl (NoValidPEM caFile)
                   | Some pool \<Rightarrow> Inr (cfg\<lparr>tls_RootCAs := Some pool\<rparr>)))"

text \<open>The options the sources set; the others are zero.\<close>

record 'pool rd_Options =
  opt_Addr :: string
  opt_Password :: string
  opt_MaxRetries :: int
  opt_TLSConfig :: "'pool tls_Config option"

definition zero_Options :: "'pool rd_Options" where
  "zero_Options = \<lparr>opt_Addr = [], opt_Password = [], opt_MaxRetries = 0, opt_TLSConfig = None\<rparr>"

text \<open>\<open>NewClient\<close> and \<open>wrapClient\<close> are the constructor of go-redis and the hook of \<^verbatim>\<open>instrument.go\<close>.\<close>

definition redis_New ::
  "('pool rd_Options \<Rightarrow> ('s, 'f) rd_client) \<Rightarrow> (('s, 'f) rd_client \<Rightarrow> ('s, 'f) rd_client) \<Rightarrow> string \<Rightarrow> string \<Rightarrow> ('s, 'f) Conn" where
  "redis_New NewClient wrapClient addr password =
     \<lparr>conn_client = wrapClient (NewClient (zero_Options\<lparr>opt_Addr := addr, opt_MaxRetries := 3, opt_Password := password\<rparr>))\<rparr>"

definition NewWithOptions ::
  "('pool rd_Options \<Rightarrow> ('s, 'f) rd_client) \<Rightarrow> (('s, 'f) rd_client \<Rightarrow> ('s, 'f) rd_client) \<Rightarrow> 'pool rd_Options option \<Rightarrow> ('s, 'f) Conn" where
  "NewWithOptions NewClient wrapClient opts =
     (let l = (case opts of None \<Rightarrow> zero_Options | Some opts \<Rightarrow> opts);
          l = (if opt_MaxRetries l = 0 then l\<lparr>opt_MaxRetries := 3\<rparr> else l)
      in \<lparr>conn_client = wrapClient (NewClient l)\<rparr>)"

section \<open>Operations\<close>

text \<open>\<^verbatim>\<open>Err()\<close> of a command: its error alone.\<close>

definition cmd_Err :: "('a \<times> rd_error option) \<times> 's \<Rightarrow> rd_error option \<times> 's" where
  "cmd_Err r = (snd (fst r), snd r)"

definition Close :: "('s, 'f) Conn \<Rightarrow> 's \<Rightarrow> rd_error option \<times> 's" where
  "Close rc s = cmd_Err (c_Close (conn_client rc) s)"

definition Ping :: "('s, 'f) Conn \<Rightarrow> ('s, string) rd_call" where
  "Ping rc = c_Ping (conn_client rc)"

definition Conn_Set :: "('s, 'f) Conn \<Rightarrow> string \<Rightarrow> 'f iface \<Rightarrow> 's \<Rightarrow> rd_error option \<times> 's" where
  "Conn_Set rc key value s = cmd_Err (c_Set (conn_client rc) key value 0 s)"

definition Conn_SetAndExpire :: "('s, 'f) Conn \<Rightarrow> string \<Rightarrow> 'f iface \<Rightarrow> int \<Rightarrow> 's \<Rightarrow> rd_error option \<times> 's" where
  "Conn_SetAndExpire rc key value expire s = cmd_Err (c_Set (conn_client rc) key value expire s)"

definition Conn_GetString :: "('s, 'f) Conn \<Rightarrow> string \<Rightarrow> ('s, string) rd_call" where
  "Conn_GetString rc key s =
     (let ((val, err), s) = c_Get (conn_client rc) key s
      in if err = Some rd_Nil then (([], None), s)
         else if err \<noteq> None then (([], err), s)
         else ((val, None), s))"

definition Del :: "('s, 'f) Conn \<Rightarrow> string \<Rightarrow> 's \<Rightarrow> rd_error option \<times> 's" where
  "Del rc key s = cmd_Err (c_Del (conn_client rc) key s)"

definition Llen :: "('s, 'f) Conn \<Rightarrow> string \<Rightarrow> ('s, int) rd_call" where
  "Llen rc key s =
     (let ((val, err), s) = c_LLen (conn_client rc) key s
      in if err = Some rd_Nil then ((0, None), s) else ((val, err), s))"

definition Lrange :: "('s, 'f) Conn \<Rightarrow> string \<Rightarrow> int \<Rightarrow> int \<Rightarrow> ('s, string list option) rd_call" where
  "Lrange rc key start stop s =
     (let ((val, err), s) = c_LRange (conn_client rc) key start stop s
      in if err = Some rd_Nil then ((None, None), s) else ((val, err), s))"

definition Lpop :: "('s, 'f) Conn \<Rightarrow> string \<Rightarrow> ('s, string) rd_call" where
  "Lpop rc key s =
     (let ((val, err), s) = c_LPop (conn_client rc) key s
      in if err = Some rd_Nil then (([], None), s) else ((val, err), s))"

definition SMembers :: "('s, 'f) Conn \<Rightarrow> string \<Rightarrow> ('s, string list option) rd_call" where
  "SMembers rc key s =
     (let ((result, err), s) = c_SMembers (conn_client rc) key s
      in if err = Some rd_Nil then ((None, None), s)
         else if err \<noteq> None then ((None, err), s)
         else ((result, err), s))"

definition Lrem :: "('s, 'f) Conn \<Rightarrow> string \<Rightarrow> int \<Rightarrow> string \<Rightarrow> ('s, int) rd_call" where
  "Lrem rc key count value = c_LRem (conn_client rc) key count value"

definition Ltrim :: "('s, 'f) Conn \<Rightarrow> string \<Rightarrow> int \<Rightarrow> int \<Rightarrow> ('s, string) rd_call" where
  "Ltrim rc key start stop = c_LTrim (conn_client rc) key start stop"

definition Hget :: "('s, 'f) Conn \<Rightarrow> string \<Rightarrow> string \<Rightarrow> ('s, string) rd_call" where
  "Hget rc key field s =
     (let ((val, err), s) = c_HGet (conn_client rc) key field s
      in if err = Some rd_Nil then (([], None), s) else ((val, err), s))"

text \<open>The loop of \<^verbatim>\<open>Hmget\<close>: a missing field is the empty text, and a value that is not a text makes the assertion panic.\<close>

fun Hmget_loop :: "'f iface option list \<Rightarrow> string list go" where
  "Hmget_loop [] = Ret []"
| "Hmget_loop (result # results) =
     go_bind (case result of None \<Rightarrow> Ret [] | Some (I_string t) \<Rightarrow> Ret t | Some _ \<Rightarrow> Panic ''interface conversion'')
       (\<lambda>t. go_bind (Hmget_loop results) (\<lambda>ts. Ret (t # ts)))"

definition Hmget ::
  "('s, 'f) Conn \<Rightarrow> string \<Rightarrow> string list \<Rightarrow> 's \<Rightarrow> (string list option \<times> rd_error option) go \<times> 's" where
  "Hmget rc key field s =
     (let ((results, err), s) = c_HMGet (conn_client rc) key field s
      in if err = Some rd_Nil then (Ret (None, None), s)
         else if err \<noteq> None then (Ret (None, err), s)
         else case results of
                None \<Rightarrow> (Ret (None, None), s)
              | Some results \<Rightarrow> (go_bind (Hmget_loop results) (\<lambda>resultStrings. Ret (Some resultStrings, None)), s))"

text \<open>The loop of \<^verbatim>\<open>Hmset\<close> over an even number of texts.\<close>

fun Hmset_loop :: "string list \<Rightarrow> (string \<rightharpoonup> 'f iface) \<Rightarrow> (string \<rightharpoonup> 'f iface)" where
  "Hmset_loop (f # v # fieldValues) m = Hmset_loop fieldValues (m(f \<mapsto> I_string v))"
| "Hmset_loop _ m = m"

definition Hmset_odd :: string where
  "Hmset_odd = ''redis hmset'' @
     map char_of [0xE6, 0x93, 0x8D, 0xE4, 0xBD, 0x9C, 0xE5, 0xA4, 0xB1, 0xE8, 0xB4, 0xA5, 0xE3, 0x80, 0x90 :: nat] @
     ''fieldValues'' @
     map char_of [0xE4, 0xB8, 0x8D, 0xE8, 0x83, 0xBD, 0xE4, 0xB8, 0xBA, 0xE5, 0x8D, 0x95, 0xE6, 0x95, 0xB0, 0xEF, 0xBC, 0x81, 0xE3, 0x80, 0x91 :: nat]"

definition Hmset :: "('s, 'f) Conn \<Rightarrow> string \<Rightarrow> string list \<Rightarrow> 's \<Rightarrow> rd_error option \<times> 's" where
  "Hmset rc key fieldValues s =
     (if length fieldValues mod 2 \<noteq> 0 then (Some (rd_Err Hmset_odd), s)
      else cmd_Err (c_HMSet (conn_client rc) key (Hmset_loop fieldValues Map.empty) s))"

definition Hgetall :: "('s, 'f) Conn \<Rightarrow> string \<Rightarrow> ('s, (string \<rightharpoonup> string) option) rd_call" where
  "Hgetall rc key s =
     (let ((m, err), s) = c_HGetAll (conn_client rc) key s
      in if err = Some rd_Nil then ((None, None), s) else ((m, err), s))"

definition Expire :: "('s, 'f) Conn \<Rightarrow> string \<Rightarrow> int \<Rightarrow> 's \<Rightarrow> rd_error option \<times> 's" where
  "Expire rc key expiration s = cmd_Err (c_Expire (conn_client rc) key expiration s)"

definition Hset :: "('s, 'f) Conn \<Rightarrow> string \<Rightarrow> string \<Rightarrow> string \<Rightarrow> 's \<Rightarrow> rd_error option \<times> 's" where
  "Hset rc key field value s = cmd_Err (c_HSet (conn_client rc) key field value s)"

definition Hdel :: "('s, 'f) Conn \<Rightarrow> string \<Rightarrow> string \<Rightarrow> 's \<Rightarrow> rd_error option \<times> 's" where
  "Hdel rc key field s = cmd_Err (c_HDel (conn_client rc) key field s)"

definition Hincrby :: "('s, 'f) Conn \<Rightarrow> string \<Rightarrow> string \<Rightarrow> int \<Rightarrow> ('s, int) rd_call" where
  "Hincrby rc key field increment = c_HIncrBy (conn_client rc) key field increment"

definition Sismember :: "('s, 'f) Conn \<Rightarrow> string \<Rightarrow> string \<Rightarrow> ('s, int) rd_call" where
  "Sismember rc key member s =
     (let ((result, err), s) = c_SIsMember (conn_client rc) key member s
      in if err \<noteq> None then ((0, err), s) else if result then ((1, None), s) else ((0, err), s))"

definition SAdd :: "('s, 'f) Conn \<Rightarrow> string \<Rightarrow> 'f iface list \<Rightarrow> 's \<Rightarrow> rd_error option \<times> 's" where
  "SAdd rc key members s = cmd_Err (c_SAdd (conn_client rc) key members s)"

definition SRem :: "('s, 'f) Conn \<Rightarrow> string \<Rightarrow> 'f iface \<Rightarrow> 's \<Rightarrow> rd_error option \<times> 's" where
  "SRem rc key member s = cmd_Err (c_SRem (conn_client rc) key [member] s)"

text \<open>The loop of \<^verbatim>\<open>ZAdd\<close>: scores must be 64 bit floats, and every score needs a member.\<close>

fun ZAdd_loop :: "'f iface list \<Rightarrow> 'f rd_Z list go" where
  "ZAdd_loop [] = Ret []"
| "ZAdd_loop (score # rest) =
     (case score of
        I_float64 f \<Rightarrow>
          (case rest of
             [] \<Rightarrow> Panic ''index out of range''
           | member # rest \<Rightarrow> go_bind (ZAdd_loop rest) (\<lambda>zs. Ret (\<lparr>z_Score = f, z_Member = member\<rparr> # zs)))
      | _ \<Rightarrow> Panic ''interface conversion'')"

definition ZAdd :: "('s, 'f) Conn \<Rightarrow> string \<Rightarrow> 'f iface list \<Rightarrow> 's \<Rightarrow> rd_error option go \<times> 's" where
  "ZAdd rc key scoremember s =
     (case ZAdd_loop scoremember of
        Panic e \<Rightarrow> (Panic e, s)
      | Ret members \<Rightarrow> (let (err, s) = cmd_Err (c_ZAdd (conn_client rc) key members s) in (Ret err, s)))"

definition ZRem :: "('s, 'f) Conn \<Rightarrow> string \<Rightarrow> 'f iface list \<Rightarrow> 's \<Rightarrow> rd_error option \<times> 's" where
  "ZRem rc key members s = cmd_Err (c_ZRem (conn_client rc) key members s)"

definition ZRemRangeByScore :: "('s, 'f) Conn \<Rightarrow> string \<Rightarrow> string \<Rightarrow> string \<Rightarrow> 's \<Rightarrow> rd_error option \<times> 's" where
  "ZRemRangeByScore rc key mn mx s = cmd_Err (c_ZRemRangeByScore (conn_client rc) key mn mx s)"

definition ZRangeByScore :: "('s, 'f) Conn \<Rightarrow> string \<Rightarrow> rd_ZRangeBy \<Rightarrow> ('s, string list option) rd_call" where
  "ZRangeByScore rc key zrangeBy s =
     (let ((val, err), s) = c_ZRangeByScore (conn_client rc) key zrangeBy s
      in if err = Some rd_Nil then ((None, None), s) else ((val, err), s))"

definition Incr :: "('s, 'f) Conn \<Rightarrow> string \<Rightarrow> ('s, int) rd_call" where
  "Incr rc key = c_Incr (conn_client rc) key"

definition Decr :: "('s, 'f) Conn \<Rightarrow> string \<Rightarrow> ('s, int) rd_call" where
  "Decr rc key = c_Decr (conn_client rc) key"

definition SetExpire :: "('s, 'f) Conn \<Rightarrow> string \<Rightarrow> int \<Rightarrow> 's \<Rightarrow> rd_error option \<times> 's" where
  "SetExpire rc key expire s = cmd_Err (c_Expire (conn_client rc) key expire s)"

definition GeoAdd :: "('s, 'f) Conn \<Rightarrow> string \<Rightarrow> 'f \<Rightarrow> 'f \<Rightarrow> string \<Rightarrow> 's \<Rightarrow> rd_error option \<times> 's" where
  "GeoAdd rc key longitude latitude member s =
     cmd_Err (c_GeoAdd (conn_client rc) key [\<lparr>gl_Name = member, gl_Longitude = longitude, gl_Latitude = latitude\<rparr>] s)"

definition GeoRadius ::
  "('s, 'f) Conn \<Rightarrow> string \<Rightarrow> 'f \<Rightarrow> 'f \<Rightarrow> 'f \<Rightarrow> string \<Rightarrow> 'f iface list \<Rightarrow> ('s, 'f rd_GeoLocation list option) rd_call" where
  "GeoRadius rc key longitude latitude radius unit params =
     c_GeoRadius (conn_client rc) key longitude latitude \<lparr>grq_Radius = radius, grq_Unit = unit\<rparr>"

definition MSet :: "('s, 'f) Conn \<Rightarrow> string list \<Rightarrow> 's \<Rightarrow> rd_error option \<times> 's" where
  "MSet rc keyValues s = cmd_Err (c_MSet (conn_client rc) keyValues s)"

definition BLPop :: "('s, 'f) Conn \<Rightarrow> string \<Rightarrow> int \<Rightarrow> ('s, string) rd_call" where
  "BLPop rc key timeout s =
     (let ((results, err), s) = c_BLPop (conn_client rc) timeout [key] s
      in if err \<noteq> None then (([], err), s)
         else case results of
                Some (_ # r # _) \<Rightarrow> ((r, None), s)
              | _ \<Rightarrow> (([], None), s))"

definition BRPoplpush :: "('s, 'f) Conn \<Rightarrow> string \<Rightarrow> string \<Rightarrow> int \<Rightarrow> ('s, string) rd_call" where
  "BRPoplpush rc source destination timeout = c_BRPopLPush (conn_client rc) source destination timeout"

definition LPUSH :: "('s, 'f) Conn \<Rightarrow> string \<Rightarrow> 'f iface list \<Rightarrow> ('s, int) rd_call" where
  "LPUSH rc key values = c_LPush (conn_client rc) key values"

definition GetKeys :: "('s, 'f) Conn \<Rightarrow> string \<Rightarrow> ('s, string list option) rd_call" where
  "GetKeys rc key = c_Keys (conn_client rc) key"

section \<open>The cache\<close>

record ('s, 'f) RedisCache =
  rc_conn :: "('s, 'f) Conn"

definition NewRedisCache_addr ::
  "('pool rd_Options \<Rightarrow> ('s, 'f) rd_client) \<Rightarrow> (('s, 'f) rd_client \<Rightarrow> ('s, 'f) rd_client) \<Rightarrow> string \<Rightarrow> string \<Rightarrow> ('s, 'f) RedisCache" where
  "NewRedisCache_addr NewClient wrapClient addr password = \<lparr>rc_conn = redis_New NewClient wrapClient addr password\<rparr>"

definition NewRedisCacheWithConn :: "('s, 'f) Conn option \<Rightarrow> ('s, 'f) RedisCache go" where
  "NewRedisCacheWithConn conn =
     (case conn of None \<Rightarrow> Panic ''common.NewRedisCacheWithConn: nil *redis.Conn'' | Some conn \<Rightarrow> Ret \<lparr>rc_conn = conn\<rparr>)"

definition RedisCache_Set :: "('s, 'f) RedisCache \<Rightarrow> string \<Rightarrow> string \<Rightarrow> 's \<Rightarrow> rd_error option \<times> 's" where
  "RedisCache_Set r key value = Conn_Set (rc_conn r) key (I_string value)"

definition RedisCache_Delete :: "('s, 'f) RedisCache \<Rightarrow> string \<Rightarrow> 's \<Rightarrow> rd_error option \<times> 's" where
  "RedisCache_Delete r key = Del (rc_conn r) key"

definition RedisCache_SetAndExpire :: "('s, 'f) RedisCache \<Rightarrow> string \<Rightarrow> string \<Rightarrow> int \<Rightarrow> 's \<Rightarrow> rd_error option \<times> 's" where
  "RedisCache_SetAndExpire r key value expire = Conn_SetAndExpire (rc_conn r) key (I_string value) expire"

definition RedisCache_Get :: "('s, 'f) RedisCache \<Rightarrow> string \<Rightarrow> ('s, string) rd_call" where
  "RedisCache_Get r key = Conn_GetString (rc_conn r) key"

definition GetRedisConn :: "('s, 'f) RedisCache \<Rightarrow> ('s, 'f) Conn" where
  "GetRedisConn r = rc_conn r"

text \<open>The cache as the authentication sees it: errors are texts, and a read is used for its result only.\<close>

fun rd_text :: "rd_error \<Rightarrow> string" where
  "rd_text rd_Nil = ''redis: nil''"
| "rd_text (rd_Err t) = t"

definition redis_ops :: "('s, 'f) RedisCache \<Rightarrow> 's cache_ops" where
  "redis_ops r =
     \<lparr>cache_Set = (\<lambda>k v s. let (err, s) = RedisCache_Set r k v s in (s, map_option rd_text err)),
      cache_Delete = (\<lambda>k s. let (err, s) = RedisCache_Delete r k s in (s, map_option rd_text err)),
      cache_SetAndExpire = (\<lambda>k v d s. let (err, s) = RedisCache_SetAndExpire r k v d s in (s, map_option rd_text err)),
      cache_Get = (\<lambda>k s. let ((v, err), _) = RedisCache_Get r k s in (v, map_option rd_text err))\<rparr>"

section \<open>Properties of the connection\<close>

text \<open>The reads for which a missing key is not an error.\<close>

lemmas missing_reads =
  Conn_GetString_def Llen_def Lrange_def Lpop_def SMembers_def Hget_def Hgetall_def ZRangeByScore_def

lemma Hmget_loop_texts: "Hmget_loop results = Ret ts \<longleftrightarrow> list_all2 (\<lambda>r t. r = Some (I_string t) \<or> r = None \<and> t = []) results ts"
  by (induction results arbitrary: ts) (auto simp: go_bind_eq_Ret list_all2_Cons1 split: option.splits iface.splits)

lemma missing_no_error:
  "snd (fst (Conn_GetString rc key s)) \<noteq> Some rd_Nil" "snd (fst (Llen rc key s)) \<noteq> Some rd_Nil"
  "snd (fst (Lrange rc key a b s)) \<noteq> Some rd_Nil" "snd (fst (Lpop rc key s)) \<noteq> Some rd_Nil"
  "snd (fst (SMembers rc key s)) \<noteq> Some rd_Nil" "snd (fst (Hget rc key f s)) \<noteq> Some rd_Nil"
  "snd (fst (Hgetall rc key s)) \<noteq> Some rd_Nil" "snd (fst (ZRangeByScore rc key z s)) \<noteq> Some rd_Nil"
  by (simp_all add: missing_reads case_prod_beta)

lemma Hmget_no_error: "fst (Hmget rc key fs s) \<noteq> Ret (v, Some rd_Nil)"
  by (cases "c_HMGet (conn_client rc) key fs s") (auto simp: Hmget_def go_bind_eq_Ret split: option.splits if_splits)

lemma missing_empty:
  "snd (fst (c_Get (conn_client rc) key s)) = Some rd_Nil \<Longrightarrow> fst (Conn_GetString rc key s) = ([], None)"
  "snd (fst (c_LPop (conn_client rc) key s)) = Some rd_Nil \<Longrightarrow> fst (Lpop rc key s) = ([], None)"
  "snd (fst (c_HGet (conn_client rc) key f s)) = Some rd_Nil \<Longrightarrow> fst (Hget rc key f s) = ([], None)"
  by (simp_all add: missing_reads case_prod_beta)

text \<open>
  A missing key is not an error: none of the nine reads returns the sentinel, and where the client answers with it they
  return an empty result.
\<close>

theorem missing_key_no_error:
  "snd (fst (Conn_GetString rc key s)) \<noteq> Some rd_Nil \<and> snd (fst (Llen rc key s)) \<noteq> Some rd_Nil \<and>
   snd (fst (Lrange rc key a b s)) \<noteq> Some rd_Nil \<and> snd (fst (Lpop rc key s)) \<noteq> Some rd_Nil \<and>
   snd (fst (SMembers rc key s)) \<noteq> Some rd_Nil \<and> snd (fst (Hget rc key f s)) \<noteq> Some rd_Nil \<and>
   snd (fst (Hgetall rc key s)) \<noteq> Some rd_Nil \<and> snd (fst (ZRangeByScore rc key z s)) \<noteq> Some rd_Nil \<and>
   (\<forall>v. fst (Hmget rc key fs s) \<noteq> Ret (v, Some rd_Nil)) \<and>
   (snd (fst (c_Get (conn_client rc) key s)) = Some rd_Nil \<longrightarrow> fst (Conn_GetString rc key s) = ([], None)) \<and>
   (snd (fst (c_LPop (conn_client rc) key s)) = Some rd_Nil \<longrightarrow> fst (Lpop rc key s) = ([], None)) \<and>
   (snd (fst (c_HGet (conn_client rc) key f s)) = Some rd_Nil \<longrightarrow> fst (Hget rc key f s) = ([], None))"
  by (intro conjI allI impI) (simp_all only: missing_no_error Hmget_no_error missing_empty not_False_eq_True)

text \<open>The blocking reads do return it when they time out.\<close>

lemma BLPop_timeout:
  "c_BLPop (conn_client rc) timeout [key] s = ((results, Some rd_Nil), s') \<Longrightarrow> BLPop rc key timeout s = (([], Some rd_Nil), s')"
  by (simp add: BLPop_def)

lemma Hmset_loop_map:
  "even (length fvs) \<Longrightarrow> Hmset_loop fvs m = m ++ map_of (rev (map (\<lambda>i. (fvs ! (2 * i), I_string (fvs ! (2 * i + 1)))) [0..<length fvs div 2]))"
proof (induction fvs m rule: Hmset_loop.induct)
  case (1 f v fvs m)
  have "[0..<length (f # v # fvs) div 2] = 0 # map Suc [0..<length fvs div 2]" by (simp add: upt_conv_Cons map_Suc_upt del: upt_Suc)
  moreover have "Hmset_loop fvs (m(f \<mapsto> I_string v)) =
      m(f \<mapsto> I_string v) ++ map_of (rev (map (\<lambda>i. (fvs ! (2 * i), I_string (fvs ! (2 * i + 1)))) [0..<length fvs div 2]))"
    using 1 by (simp add: fun_upd_def)
  ultimately show ?case by (simp add: comp_def del: upt_Suc)
qed simp_all

lemma ZAdd_loop_Ret:
  "ZAdd_loop sms = Ret zs \<longleftrightarrow> sms = concat (map (\<lambda>z. [I_float64 (z_Score z), z_Member z]) zs)"
proof (induction sms arbitrary: zs rule: ZAdd_loop.induct)
  case (2 score rest)
  show ?case
  proof (cases score)
    case (I_float64 f)
    show ?thesis
    proof (cases rest)
      case (Cons mem more)
      with 2 [OF I_float64 Cons] I_float64 show ?thesis
        by (cases zs) (auto simp: go_bind_eq_Ret)
    qed (use I_float64 in \<open>cases zs; auto\<close>)
  qed (cases zs; auto)+
qed auto

text \<open>
  Several fields are written at once.  \<^verbatim>\<open>Hmset\<close> with an odd number of arguments is refused before the server is asked;
  otherwise it sends one command with the map of the pairs, a later pair replacing an earlier one of the same field.  \<^verbatim>\<open>ZAdd\<close>
  sends one command with the pairs of a score and a member if that is what its arguments are, and panics before the
  server is asked otherwise: for an odd number of arguments and for a score that is not a 64 bit float, an integer included.
\<close>

theorem multi_writes:
  "(odd (length fvs) \<longrightarrow> Hmset rc key fvs s = (Some (rd_Err Hmset_odd), s)) \<and>
   (even (length fvs) \<longrightarrow>
      Hmset rc key fvs s =
        cmd_Err (c_HMSet (conn_client rc) key
          (map_of (rev (map (\<lambda>i. (fvs ! (2 * i), I_string (fvs ! (2 * i + 1)))) [0..<length fvs div 2]))) s)) \<and>
   (case ZAdd_loop sms of
      Ret (zs :: _ rd_Z list) \<Rightarrow> sms = concat (map (\<lambda>z. [I_float64 (z_Score z), z_Member z]) zs) \<and>
        ZAdd rc key sms s = (Ret (snd (fst (c_ZAdd (conn_client rc) key zs s))), snd (c_ZAdd (conn_client rc) key zs s))
    | Panic e \<Rightarrow> (\<forall>zs :: _ rd_Z list. sms \<noteq> concat (map (\<lambda>z. [I_float64 (z_Score z), z_Member z]) zs)) \<and> ZAdd rc key sms s = (Panic e, s))"
proof (intro conjI)
  show "odd (length fvs) \<longrightarrow> Hmset rc key fvs s = (Some (rd_Err Hmset_odd), s)"
    by (simp add: Hmset_def odd_iff_mod_2_eq_one)
  show "even (length fvs) \<longrightarrow> Hmset rc key fvs s = cmd_Err (c_HMSet (conn_client rc) key
      (map_of (rev (map (\<lambda>i. (fvs ! (2 * i), I_string (fvs ! (2 * i + 1)))) [0..<length fvs div 2]))) s)"
    by (simp add: Hmset_def Hmset_loop_map flip: even_iff_mod_2_eq_zero)
  show "case ZAdd_loop sms of
      Ret (zs :: _ rd_Z list) \<Rightarrow> sms = concat (map (\<lambda>z. [I_float64 (z_Score z), z_Member z]) zs) \<and>
        ZAdd rc key sms s = (Ret (snd (fst (c_ZAdd (conn_client rc) key zs s))), snd (c_ZAdd (conn_client rc) key zs s))
    | Panic e \<Rightarrow> (\<forall>zs :: _ rd_Z list. sms \<noteq> concat (map (\<lambda>z. [I_float64 (z_Score z), z_Member z]) zs)) \<and> ZAdd rc key sms s = (Panic e, s)"
  proof (cases "ZAdd_loop sms")
    case (Ret zs)
    then show ?thesis using ZAdd_loop_Ret [of sms zs] by (simp add: ZAdd_def cmd_Err_def)
  next
    case (Panic e)
    then have "sms \<noteq> concat (map (\<lambda>z. [I_float64 (z_Score z), z_Member z]) zs)" for zs :: "_ rd_Z list"
      using ZAdd_loop_Ret [of sms zs] by auto
    with Panic show ?thesis by (simp add: ZAdd_def)
  qed
qed

section \<open>TLS\<close>

text \<open>
  A TLS configuration never allows versions before 1.2, never falls back to the roots of the system when a certificate file
  is named, and is not built if that file cannot be read or holds no certificate.
\<close>

lemma BuildTLSConfig_safe:
  assumes "BuildTLSConfig ReadFile AppendCerts skip caFile = Inr cfg"
  shows "tls_MinVersion cfg = 0x0303 \<and> tls_InsecureSkipVerify cfg = skip \<and>
    (caFile \<noteq> [] \<longrightarrow> (\<exists>pem pool. ReadFile caFile = Inr pem \<and> AppendCerts pem = Some pool \<and> tls_RootCAs cfg = Some pool))"
  using assms by (auto simp: BuildTLSConfig_def VersionTLS12_def Let_def split: if_splits sum.splits option.splits)

section \<open>The contract of the cache\<close>

text \<open>
  What the cache relies on: the documented effect of \<^verbatim>\<open>SET\<close>, \<^verbatim>\<open>GET\<close> and \<^verbatim>\<open>DEL\<close> when they succeed, at the moment of
  the command.
\<close>

definition redis_laws :: "('s, 'f) rd_client \<Rightarrow> bool" where
  "redis_laws cl \<longleftrightarrow>
     (\<forall>k v d s r s'. c_Set cl k (I_string v) d s = ((r, None), s') \<longrightarrow>
        fst (c_Get cl k s') = (v, None) \<and> (\<forall>k'. k' \<noteq> k \<longrightarrow> fst (c_Get cl k' s') = fst (c_Get cl k' s))) \<and>
     (\<forall>k s r s'. c_Del cl k s = ((r, None), s') \<longrightarrow>
        snd (fst (c_Get cl k s')) \<noteq> None \<and> (\<forall>k'. k' \<noteq> k \<longrightarrow> fst (c_Get cl k' s') = fst (c_Get cl k' s)))"

lemma RedisCache_Get_fst:
  "fst (RedisCache_Get r k s) =
     (let (v, err) = fst (c_Get (conn_client (rc_conn r)) k s)
      in if err = None then (v, None) else if err = Some rd_Nil then ([], None) else ([], err))"
  by (auto simp: RedisCache_Get_def Conn_GetString_def Let_def split: prod.splits)

lemma redis_cache_Get:
  "cache_Get (redis_ops r) k s =
     (let (v, err) = fst (c_Get (conn_client (rc_conn r)) k s)
      in if err = None then (v, None) else if err = Some rd_Nil then ([], None) else ([], map_option rd_text err))"
  using RedisCache_Get_fst [of r k s] by (auto simp: redis_ops_def Let_def split: prod.splits)

lemma redis_kv_cache:
  assumes "redis_laws (conn_client (rc_conn r))"
  shows "kv_cache (redis_ops r)"
proof
  have st: "cache_Set (redis_ops r) k v m = (m', None) \<longleftrightarrow> (\<exists>x. c_Set (conn_client (rc_conn r)) k (I_string v) 0 m = ((x, None), m'))"
    and se: "cache_SetAndExpire (redis_ops r) k v d m = (m', None) \<longleftrightarrow> (\<exists>x. c_Set (conn_client (rc_conn r)) k (I_string v) d m = ((x, None), m'))"
    and dl: "cache_Delete (redis_ops r) k m = (m', None) \<longleftrightarrow> (\<exists>x. c_Del (conn_client (rc_conn r)) k m = ((x, None), m'))" for k v d m m'
    by (auto simp: redis_ops_def RedisCache_Set_def RedisCache_SetAndExpire_def RedisCache_Delete_def Conn_Set_def Conn_SetAndExpire_def
        Del_def cmd_Err_def case_prod_beta prod_eq_iff)
  fix k v d m m' k'
  show "cache_Set (redis_ops r) k v m = (m', None) \<Longrightarrow> cache_Get (redis_ops r) k m' = (v, None)"
    "cache_SetAndExpire (redis_ops r) k v d m = (m', None) \<Longrightarrow> cache_Get (redis_ops r) k m' = (v, None)"
    "cache_Set (redis_ops r) k v m = (m', None) \<Longrightarrow> k' \<noteq> k \<Longrightarrow> cache_Get (redis_ops r) k' m' = cache_Get (redis_ops r) k' m"
    "cache_Delete (redis_ops r) k m = (m', None) \<Longrightarrow> k' \<noteq> k \<Longrightarrow> cache_Get (redis_ops r) k' m' = cache_Get (redis_ops r) k' m"
    using assms unfolding st se dl redis_laws_def redis_cache_Get by fastforce+
  show "cache_Delete (redis_ops r) k m = (m', None) \<Longrightarrow> fst (cache_Get (redis_ops r) k m') = []"
    using assms unfolding dl redis_laws_def redis_cache_Get by (fastforce simp: case_prod_beta Let_def)
qed


text \<open>A client over a map from keys to texts; the calls the cache does not make are not supported.\<close>

definition unsupported :: "'a \<Rightarrow> 's \<Rightarrow> ('a \<times> rd_error option) \<times> 's" where
  "unsupported x s = ((x, Some (rd_Err ''unsupported'')), s)"

fun map_Set :: "string \<Rightarrow> unit iface \<Rightarrow> int \<Rightarrow> (string \<rightharpoonup> string, string) rd_call" where
  "map_Set k (I_string v) d s = ((''OK'', None), s(k \<mapsto> v))"
| "map_Set k _ d s = unsupported [] s"

definition map_client :: "(string \<rightharpoonup> string, unit) rd_client" where
  "map_client =
     \<lparr>c_Close = unsupported (), c_Ping = (\<lambda>s. ((''PONG'', None), s)), c_Set = map_Set,
      c_Get = (\<lambda>k s. (case s k of None \<Rightarrow> ([], Some rd_Nil) | Some v \<Rightarrow> (v, None), s)),
      c_Del = (\<lambda>k s. ((if s k = None then 0 else 1, None), s(k := None))),
      c_LLen = (\<lambda>_. unsupported 0), c_LRange = (\<lambda>_ _ _. unsupported None), c_LPop = (\<lambda>_. unsupported []),
      c_SMembers = (\<lambda>_. unsupported None), c_LRem = (\<lambda>_ _ _. unsupported 0), c_LTrim = (\<lambda>_ _ _. unsupported []),
      c_HGet = (\<lambda>_ _. unsupported []), c_HMGet = (\<lambda>_ _. unsupported None), c_HMSet = (\<lambda>_ _. unsupported []),
      c_HGetAll = (\<lambda>_. unsupported None), c_Expire = (\<lambda>_ _. unsupported False), c_HSet = (\<lambda>_ _ _. unsupported False),
      c_HDel = (\<lambda>_ _. unsupported 0), c_HIncrBy = (\<lambda>_ _ _. unsupported 0), c_SIsMember = (\<lambda>_ _. unsupported False),
      c_SAdd = (\<lambda>_ _. unsupported 0), c_SRem = (\<lambda>_ _. unsupported 0), c_ZAdd = (\<lambda>_ _. unsupported 0),
      c_ZRem = (\<lambda>_ _. unsupported 0), c_ZRemRangeByScore = (\<lambda>_ _ _. unsupported 0),
      c_ZRangeByScore = (\<lambda>_ _. unsupported None), c_Incr = (\<lambda>_. unsupported 0), c_Decr = (\<lambda>_. unsupported 0),
      c_GeoAdd = (\<lambda>_ _. unsupported 0), c_GeoRadius = (\<lambda>_ _ _ _. unsupported None), c_MSet = (\<lambda>_. unsupported []),
      c_BLPop = (\<lambda>_ _. unsupported None), c_BRPopLPush = (\<lambda>_ _ _. unsupported []), c_LPush = (\<lambda>_ _. unsupported 0),
      c_Keys = (\<lambda>_. unsupported None)\<rparr>"

definition map_redis :: "(string \<rightharpoonup> string, unit) RedisCache" where
  "map_redis = \<lparr>rc_conn = \<lparr>conn_client = map_client\<rparr>\<rparr>"

definition redis_demo_run :: "(string \<rightharpoonup> string) \<Rightarrow> unit Context" where
  "redis_demo_run s =
     AuthMiddleware (\<lambda>(p :: unit) t. Inl ErrTokenMissing) \<lparr>wk_errorRenderer = None, wk_tokenParser = None\<rparr>
       (redis_ops map_redis) ''token:'' s auth_demo_ctx"

lemma map_client_laws: "redis_laws map_client"
  by (auto simp: redis_laws_def map_client_def)


end
