(* ===== verification/Instrument.thy ===== *)
theory Instrument
  imports Redis_Conn
begin

text \<open>
  The measuring of Redis commands (\<^verbatim>\<open>pkg/redis/instrument.go\<close>) and of the database (\<^verbatim>\<open>pkg/db/instrument.go\<close>).  A client of go-redis carries two hooks, the function that
  processes a command and the one that processes a pipeline; wrapping replaces a hook by a function that calls the old one.
  The hooks run on a world of the server, the clock and what the observer has seen.
\<close>

section \<open>Commands, clients and the observer\<close>

record 'x Cmder =
  cmd_Name :: string
  cmd_err :: "rd_error option"
  cmd_body :: 'x

text \<open>An observer may panic, after it has done part of its work; \<open>'o\<close> is its state.\<close>

type_synonym ('o, 'e) observer = "string \<Rightarrow> int \<Rightarrow> 'e option \<Rightarrow> 'o \<Rightarrow> unit go \<times> 'o"

record ('s, 'o, 'e) world =
  w_server :: 's
  w_clock :: int
  w_observer :: "('o, 'e) observer option"
  w_seen :: 'o

text \<open>
  Processing a command returns its error; it is by a pointer, so that the results of a pipeline are those of the commands as
  they are afterwards.
\<close>

record ('s, 'o, 'x) client =
  cl_process :: "'x Cmder \<Rightarrow> ('s, 'o, rd_error) world \<Rightarrow> rd_error option \<times> ('s, 'o, rd_error) world"
  cl_processPipeline :: "'x Cmder list \<Rightarrow> ('s, 'o, rd_error) world \<Rightarrow> (rd_error option \<times> 'x Cmder list) \<times> ('s, 'o, rd_error) world"

text \<open>Calling the observer: a panic is recovered from, and what it has done until then stays.\<close>

definition observe :: "string \<Rightarrow> int \<Rightarrow> 'e option \<Rightarrow> ('s, 'o, 'e) world \<Rightarrow> ('s, 'o, 'e) world" where
  "observe cmd dur err w =
     (case w_observer w of None \<Rightarrow> w | Some p \<Rightarrow> w\<lparr>w_seen := snd (p cmd dur err (w_seen w))\<rparr>)"

definition SetRedisObserver :: "('o, rd_error) observer option \<Rightarrow> ('s, 'o, rd_error) world \<Rightarrow> ('s, 'o, rd_error) world" where
  "SetRedisObserver ob w = w\<lparr>w_observer := ob\<rparr>"

definition reportRedis :: "string \<Rightarrow> int \<Rightarrow> rd_error option \<Rightarrow> ('s, 'o, rd_error) world \<Rightarrow> ('s, 'o, rd_error) world" where
  "reportRedis cmd dur err w = observe cmd dur err w"

definition normalizeRedisErr :: "rd_error option \<Rightarrow> rd_error option" where
  "normalizeRedisErr err = (if err = Some rd_Nil then None else err)"

fun pipelineErr :: "'x Cmder list \<Rightarrow> rd_error option \<Rightarrow> rd_error option" where
  "pipelineErr [] topErr = normalizeRedisErr topErr"
| "pipelineErr (cmd # cmds) topErr =
     (if cmd_err cmd \<noteq> None \<and> cmd_err cmd \<noteq> Some rd_Nil then cmd_err cmd else pipelineErr cmds topErr)"

definition wrapClient :: "('s, 'o, 'x) client \<Rightarrow> ('s, 'o, 'x) client" where
  "wrapClient client =
     client\<lparr>cl_process := (\<lambda>cmd w.
              let start = w_clock w; (err, w) = cl_process client cmd w
              in (err, reportRedis (cmd_Name cmd) (w_clock w - start) (normalizeRedisErr err) w)),
            cl_processPipeline := (\<lambda>cmds w.
              let start = w_clock w; ((err, cmds), w) = cl_processPipeline client cmds w
              in ((err, cmds), reportRedis ''pipeline'' (w_clock w - start) (pipelineErr cmds err) w))\<rparr>"

text \<open>The clients of the process by their address, and the table of those already measured.  \<open>None\<close> is the nil client.\<close>

record ('s, 'o, 'x) heap =
  h_clients :: "nat \<Rightarrow> ('s, 'o, 'x) client"
  h_instrumented :: "nat set"

definition Instrument :: "nat option \<Rightarrow> ('s, 'o, 'x) heap \<Rightarrow> ('s, 'o, 'x) heap" where
  "Instrument client h =
     (case client of
        None \<Rightarrow> h
      | Some a \<Rightarrow>
          (if a \<in> h_instrumented h then h
           else h\<lparr>h_instrumented := insert a (h_instrumented h),
                  h_clients := (h_clients h)(a := wrapClient (h_clients h a))\<rparr>))"

section \<open>The database\<close>

text \<open>
  A connection of the database driver: the operations every driver has, and those it may have, as options.  \<open>'st\<close>, \<open>'tx\<close>,
  \<open>'res\<close> and \<open>'rows\<close> are its statements, transactions, results and rows.
\<close>

datatype drv_error = ErrSkip | DrvErr string

type_synonym ('w, 'a) drv_call = "'w \<Rightarrow> ('a \<times> drv_error option) \<times> 'w"

record ('w, 'arg, 'res, 'rows, 'st, 'tx) driver_Conn =
  dc_Prepare :: "string \<Rightarrow> ('w, 'st option) drv_call"
  dc_Begin :: "('w, 'tx option) drv_call"
  dc_ExecContext :: "(string \<Rightarrow> 'arg list \<Rightarrow> ('w, 'res option) drv_call) option"
  dc_QueryContext :: "(string \<Rightarrow> 'arg list \<Rightarrow> ('w, 'rows option) drv_call) option"
  dc_PrepareContext :: "(string \<Rightarrow> ('w, 'st option) drv_call) option"
  dc_BeginTx :: "('w, 'tx option) drv_call option"
  dc_Ping :: "('w \<Rightarrow> drv_error option \<times> 'w) option"
  dc_CheckNamedValue :: "('arg \<Rightarrow> 'arg \<times> drv_error option) option"
  dc_ResetSession :: "('w \<Rightarrow> drv_error option \<times> 'w) option"
  dc_IsValid :: "('w \<Rightarrow> bool) option"

definition SetDBObserver :: "('o, drv_error) observer option \<Rightarrow> ('s, 'o, drv_error) world \<Rightarrow> ('s, 'o, drv_error) world" where
  "SetDBObserver ob w = w\<lparr>w_observer := ob\<rparr>"

definition reportDB :: "string \<Rightarrow> int \<Rightarrow> drv_error option \<Rightarrow> ('s, 'o, drv_error) world \<Rightarrow> ('s, 'o, drv_error) world" where
  "reportDB op dur err w = observe op dur err w"

definition timed :: "(('s, 'o, drv_error) world, 'a option) drv_call option \<Rightarrow> (('s, 'o, drv_error) world, 'a option) drv_call" where
  "timed op w =
     (case op of
        None \<Rightarrow> ((None, Some ErrSkip), w)
      | Some f \<Rightarrow>
          (let start = w_clock w; ((res, err), w) = f w
           in ((res, err), if err \<noteq> Some ErrSkip then reportDB ''query'' (w_clock w - start) err w else w)))"

text \<open>The connection that measures; the methods of the embedded connection are promoted.\<close>

definition instrumentedConn ::
  "(('s, 'o, drv_error) world, 'arg, 'res, 'rows, 'st, 'tx) driver_Conn \<Rightarrow> (('s, 'o, drv_error) world, 'arg, 'res, 'rows, 'st, 'tx) driver_Conn" where
  "instrumentedConn c =
     \<lparr>dc_Prepare = dc_Prepare c, dc_Begin = dc_Begin c,
      dc_ExecContext = Some (\<lambda>query args. timed (map_option (\<lambda>f. f query args) (dc_ExecContext c))),
      dc_QueryContext = Some (\<lambda>query args. timed (map_option (\<lambda>f. f query args) (dc_QueryContext c))),
      dc_PrepareContext = Some (\<lambda>query. case dc_PrepareContext c of Some f \<Rightarrow> f query | None \<Rightarrow> dc_Prepare c query),
      dc_BeginTx = Some (case dc_BeginTx c of Some f \<Rightarrow> f | None \<Rightarrow> dc_Begin c),
      dc_Ping = Some (\<lambda>w. case dc_Ping c of Some f \<Rightarrow> f w | None \<Rightarrow> (None, w)),
      dc_CheckNamedValue = Some (\<lambda>nv. case dc_CheckNamedValue c of Some f \<Rightarrow> f nv | None \<Rightarrow> (nv, Some ErrSkip)),
      dc_ResetSession = Some (\<lambda>w. case dc_ResetSession c of Some f \<Rightarrow> f w | None \<Rightarrow> (None, w)),
      dc_IsValid = Some (\<lambda>w. case dc_IsValid c of Some f \<Rightarrow> f w | None \<Rightarrow> True)\<rparr>"

definition instrumentedConnector_Connect ::
  "(('s, 'o, drv_error) world \<Rightarrow> (drv_error + (('s, 'o, drv_error) world, 'arg, 'res, 'rows, 'st, 'tx) driver_Conn) \<times> ('s, 'o, drv_error) world) \<Rightarrow>
   ('s, 'o, drv_error) world \<Rightarrow> (drv_error + (('s, 'o, drv_error) world, 'arg, 'res, 'rows, 'st, 'tx) driver_Conn) \<times> ('s, 'o, drv_error) world" where
  "instrumentedConnector_Connect Connect w =
     (let start = w_clock w; (conn, w) = Connect w
      in case conn of
           Inl err \<Rightarrow> (Inl err, reportDB ''connect'' (w_clock w - start) (Some err) w)
         | Inr conn \<Rightarrow> (Inr (instrumentedConn conn), reportDB ''connect'' (w_clock w - start) None w))"

section \<open>Properties\<close>

text \<open>
  The error reported for a pipeline is that of its first command that really failed; only if there is none the error of the
  whole decides, and a missing key is never a failure.
\<close>

lemma pipelineErr_spec:
  "pipelineErr cmds topErr =
     (case find (\<lambda>e. e \<noteq> None \<and> e \<noteq> Some rd_Nil) (map cmd_err cmds) of None \<Rightarrow> normalizeRedisErr topErr | Some e \<Rightarrow> e)"
  by (induction cmds) auto

lemma pipelineErr_not_Nil: "pipelineErr cmds topErr \<noteq> Some rd_Nil"
  by (induction cmds) (auto simp: normalizeRedisErr_def)

lemma observe_frame [simp]:
  "w_server (observe cmd dur err w) = w_server w" "w_clock (observe cmd dur err w) = w_clock w"
  "w_observer (observe cmd dur err w) = w_observer w"
  by (simp_all add: observe_def split: option.splits)

text \<open>
  Any number of calls of \<^verbatim>\<open>Instrument\<close>, for any clients in any order, wraps each client that was named exactly once and
  leaves the others as they were.
\<close>

lemma Instrument_fold:
  "h_instrumented (fold Instrument cs h) = h_instrumented h \<union> {a. Some a \<in> set cs} \<and>
   h_clients (fold Instrument cs h) a =
     (if Some a \<in> set cs \<and> a \<notin> h_instrumented h then wrapClient (h_clients h a) else h_clients h a)"
proof (induction cs arbitrary: h)
  case (Cons c cs)
  show ?case
  proof (cases c)
    case None
    with Cons [of h] show ?thesis by (auto simp: Instrument_def)
  next
    case (Some b)
    with Cons [of "Instrument c h"] show ?thesis by (auto simp: Instrument_def)
  qed
qed simp

text \<open>
  C11: Measuring is transparent and counts every command once.  However often \<^verbatim>\<open>Instrument\<close> has been called for a client that was
  not measured before, a command then returns what the bare client returns, with the same effect on the server and the
  clock, and the observer is called exactly once: with the name of the command, the time the bare client took and its
  error, a missing key counting as success.  It makes no difference whether the observer panics.  A pipeline is one
  observation, and without an observer nothing is seen.
\<close>

theorem instrument_once:
  assumes "a \<notin> h_instrumented h" "Some a \<in> set cs"
    and "cl_process (h_clients h a) cmd w = (err, w')"
    and "cl_processPipeline (h_clients h a) cmds w = ((errp, cmds'), wp)"
  shows "cl_process (h_clients (fold Instrument cs h) a) cmd w =
      (err, reportRedis (cmd_Name cmd) (w_clock w' - w_clock w) (if err = Some rd_Nil then None else err) w') \<and>
    cl_processPipeline (h_clients (fold Instrument cs h) a) cmds w =
      ((errp, cmds'), reportRedis ''pipeline'' (w_clock wp - w_clock w) (pipelineErr cmds' errp) wp) \<and>
    w_server (snd (cl_process (h_clients (fold Instrument cs h) a) cmd w)) = w_server w' \<and>
    (w_observer w' = None \<longrightarrow> snd (cl_process (h_clients (fold Instrument cs h) a) cmd w) = w') \<and>
    (\<forall>p r seen. w_observer w' = Some p \<and> p (cmd_Name cmd) (w_clock w' - w_clock w) (normalizeRedisErr err) (w_seen w') = (r, seen) \<longrightarrow>
       w_seen (snd (cl_process (h_clients (fold Instrument cs h) a) cmd w)) = seen)"
proof -
  have c: "h_clients (fold Instrument cs h) a = wrapClient (h_clients h a)"
    using Instrument_fold [of cs h a] assms(1,2) by simp
  have p: "cl_process (wrapClient (h_clients h a)) cmd w =
      (err, reportRedis (cmd_Name cmd) (w_clock w' - w_clock w) (normalizeRedisErr err) w')"
    "cl_processPipeline (wrapClient (h_clients h a)) cmds w =
      ((errp, cmds'), reportRedis ''pipeline'' (w_clock wp - w_clock w) (pipelineErr cmds' errp) wp)"
    using assms(3,4) by (simp_all add: wrapClient_def)
  show ?thesis
    unfolding c p by (simp add: normalizeRedisErr_def reportRedis_def observe_def split: option.splits)
qed

text \<open>A client whose only effect is that a second passes, and an observer that counts and panics.\<close>

definition tick_client :: "(unit, nat, unit) client" where
  "tick_client =
     \<lparr>cl_process = (\<lambda>cmd w. (Some rd_Nil, w\<lparr>w_clock := w_clock w + 1\<rparr>)),
      cl_processPipeline = (\<lambda>cmds w. ((Some rd_Nil, map (\<lambda>c. c\<lparr>cmd_err := Some (rd_Err ''down'')\<rparr>) cmds), w\<lparr>w_clock := w_clock w + 1\<rparr>))\<rparr>"

definition count_world :: "(unit, nat, rd_error) world" where
  "count_world = \<lparr>w_server = (), w_clock = 0, w_observer = Some (\<lambda>_ _ _ n. (Panic ''observer'', n + 1)), w_seen = 0\<rparr>"

theorem instrument_once_witness:
  "w_seen (snd (cl_process (h_clients (fold Instrument [Some 7, None, Some 7, Some 8, Some 7]
      \<lparr>h_clients = (\<lambda>_. tick_client), h_instrumented = {}\<rparr>) 7) \<lparr>cmd_Name = ''get'', cmd_err = None, cmd_body = ()\<rparr> count_world)) = 1"
proof -
  let ?h = "\<lparr>h_clients = (\<lambda>_. tick_client), h_instrumented = {}\<rparr>"
  have "cl_process (h_clients ?h 7) \<lparr>cmd_Name = ''get'', cmd_err = None, cmd_body = ()\<rparr> count_world =
      (Some rd_Nil, count_world\<lparr>w_clock := 1\<rparr>)"
    "cl_processPipeline (h_clients ?h 7) [] count_world = ((Some rd_Nil, []), count_world\<lparr>w_clock := 1\<rparr>)"
    by (simp_all add: tick_client_def count_world_def)
  from instrument_once [OF _ _ this, of "[Some 7, None, Some 7, Some 8, Some 7]"] show ?thesis
    by (simp add: count_world_def reportRedis_def observe_def)
qed

text \<open>
  Measuring the database is transparent too.  A statement returns what the bare connection returns, with one observation of
  the time that took and its error; a driver that asks for the statement to be prepared instead is not counted.  What the
  bare driver does not offer answers as if it were not offered: statements ask for preparation, pinging and resetting
  succeed, and the connection counts as valid.
\<close>

theorem db_transparent:
  "fst (timed op w) = (case op of None \<Rightarrow> (None, Some ErrSkip) | Some f \<Rightarrow> fst (f w)) \<and>
   w_server (snd (timed op w)) = (case op of None \<Rightarrow> w_server w | Some f \<Rightarrow> w_server (snd (f w))) \<and>
   (case op of
      None \<Rightarrow> snd (timed op w) = w
    | Some f \<Rightarrow>
        snd (timed op w) =
          (if snd (fst (f w)) = Some ErrSkip then snd (f w)
           else observe ''query'' (w_clock (snd (f w)) - w_clock w) (snd (fst (f w))) (snd (f w)))) \<and>
   dc_ExecContext (instrumentedConn c) = Some (\<lambda>q args. timed (map_option (\<lambda>f. f q args) (dc_ExecContext c))) \<and>
   dc_QueryContext (instrumentedConn c) = Some (\<lambda>q args. timed (map_option (\<lambda>f. f q args) (dc_QueryContext c)))"
  by (auto simp: timed_def instrumentedConn_def reportDB_def split: option.splits prod.splits)

end
