(* ===== verification/Service_Modules.thy ===== *)
theory Service_Modules
  imports Octo_Prelude "HOL-Library.Multiset"
begin

text \<open>
  The modules of a service: their registry (\<^verbatim>\<open>pkg/register/register.go\<close>), setting them up, starting and stopping them
  (\<^verbatim>\<open>module/module.go\<close>), and the migrations of the database they bring along (\<^verbatim>\<open>module/module.go\<close> for embedded files,
  \<^verbatim>\<open>pkg/db/mysql.go\<close> for a directory).  The migration library is a parser of scripts and an order on their results.
\<close>

section \<open>The registry\<close>

text \<open>
  A module over a world \<open>'w\<close>; \<open>'a\<close> and \<open>'t\<close> are its routes and tasks, \<open>'q\<close> its embedded scripts, \<open>'sv\<close> its service.  A
  function that may be nil is an option, and so is its result where that may be nil.
\<close>

record ('w, 'a, 't, 'q, 'sv) Module =
  m_Name :: string
  m_SetupAPI :: "('w \<Rightarrow> 'a option \<times> 'w) option"
  m_SetupTask :: "('w \<Rightarrow> 't option \<times> 'w) option"
  m_SQLDir :: "'q option"
  m_Swagger :: string
  m_Service :: "'sv option"
  m_Start :: "('w \<Rightarrow> string option \<times> 'w) option"
  m_Stop :: "('w \<Rightarrow> string option \<times> 'w) option"

definition zero_Module :: "('w, 'a, 't, 'q, 'sv) Module" where
  "zero_Module = \<lparr>m_Name = [], m_SetupAPI = None, m_SetupTask = None, m_SQLDir = None, m_Swagger = [], m_Service = None, m_Start = None, m_Stop = None\<rparr>"

text \<open>The variables of the package; the constructors of modules are functions of the context \<open>'c\<close>.\<close>

record ('c, 'w, 'a, 't, 'q, 'sv) registry =
  r_modules :: "('c \<Rightarrow> ('w, 'a, 't, 'q, 'sv) Module) list"
  r_once :: bool
  r_moduleList :: "('w, 'a, 't, 'q, 'sv) Module list"

definition init_registry :: "('c, 'w, 'a, 't, 'q, 'sv) registry" where
  "init_registry = \<lparr>r_modules = [], r_once = False, r_moduleList = []\<rparr>"

definition AddModule ::
  "('c \<Rightarrow> ('w, 'a, 't, 'q, 'sv) Module) \<Rightarrow> ('c, 'w, 'a, 't, 'q, 'sv) registry \<Rightarrow> ('c, 'w, 'a, 't, 'q, 'sv) registry" where
  "AddModule moduleFnc r = r\<lparr>r_modules := r_modules r @ [moduleFnc]\<rparr>"

definition GetModules ::
  "'c \<Rightarrow> ('c, 'w, 'a, 't, 'q, 'sv) registry \<Rightarrow> ('w, 'a, 't, 'q, 'sv) Module list \<times> ('c, 'w, 'a, 't, 'q, 'sv) registry" where
  "GetModules ctx r =
     (let r = (if r_once r then r
               else r\<lparr>r_once := True, r_moduleList := fold (\<lambda>m ms. ms @ [m ctx]) (r_modules r) (r_moduleList r)\<rparr>)
      in (r_moduleList r, r))"

definition GetModuleByName :: "string \<Rightarrow> ('c, 'w, 'a, 't, 'q, 'sv) registry \<Rightarrow> ('w, 'a, 't, 'q, 'sv) Module" where
  "GetModuleByName name r = (case find (\<lambda>m. m_Name m = name) (r_moduleList r) of None \<Rightarrow> zero_Module | Some m \<Rightarrow> m)"

definition GetService :: "string \<Rightarrow> ('c, 'w, 'a, 't, 'q, 'sv) registry \<Rightarrow> 'sv option" where
  "GetService name r = (case find (\<lambda>m. m_Name m = name) (r_moduleList r) of None \<Rightarrow> None | Some m \<Rightarrow> m_Service m)"

text \<open>The sources of data a module answers for, as bits.\<close>

definition IMDatasourceTypeNone :: int where "IMDatasourceTypeNone = 0"

definition IMDatasourceTypeSubscribers :: int where "IMDatasourceTypeSubscribers = 1"

definition IMDatasourceTypeChannelInfo :: int where "IMDatasourceTypeChannelInfo = 2"

definition IMDatasourceTypeBlacklist :: int where "IMDatasourceTypeBlacklist = 4"

definition IMDatasourceTypeWhitelist :: int where "IMDatasourceTypeWhitelist = 8"

definition IMDatasourceTypeSystemUIDs :: int where "IMDatasourceTypeSystemUIDs = 16"

definition IMDatasourceType_Has :: "int \<Rightarrow> int \<Rightarrow> bool" where
  "IMDatasourceType_Has i d \<longleftrightarrow> and i d = d"

section \<open>Setting up, starting and stopping\<close>

text \<open>
  \<open>executeSQL\<close> runs the migrations, \<open>Route\<close> and \<open>RegisterTasks\<close> are the methods of the routes and tasks.
\<close>

fun setup_loop ::
  "('a \<Rightarrow> 'w \<Rightarrow> 'w) \<Rightarrow> ('t \<Rightarrow> 'w \<Rightarrow> 'w) \<Rightarrow> bool \<Rightarrow> ('w, 'a, 't, 'q, 'sv) Module list \<Rightarrow> 'w \<Rightarrow> 'w" where
  "setup_loop Route RegisterTasks SetupTask [] w = w"
| "setup_loop Route RegisterTasks SetupTask (m # ms) w =
     (let w = (case m_SetupAPI m of
                 None \<Rightarrow> w
               | Some setup \<Rightarrow> (let (a, w) = setup w in case a of None \<Rightarrow> w | Some a \<Rightarrow> Route a w));
          w = (if SetupTask
               then (case m_SetupTask m of
                       None \<Rightarrow> w
                     | Some setup \<Rightarrow> (let (t, w) = setup w in case t of None \<Rightarrow> w | Some t \<Rightarrow> RegisterTasks t w))
               else w)
      in setup_loop Route RegisterTasks SetupTask ms w)"

definition Setup ::
  "('q list \<Rightarrow> 'w \<Rightarrow> string option \<times> 'w) \<Rightarrow> ('a \<Rightarrow> 'w \<Rightarrow> 'w) \<Rightarrow> ('t \<Rightarrow> 'w \<Rightarrow> 'w) \<Rightarrow> bool \<Rightarrow> 'c \<Rightarrow>
   ('c, 'w, 'a, 't, 'q, 'sv) registry \<Rightarrow> 'w \<Rightarrow> string option \<times> ('c, 'w, 'a, 't, 'q, 'sv) registry \<times> 'w" where
  "Setup executeSQL Route RegisterTasks SetupTask ctx r w =
     (let (ms, r) = GetModules ctx r;
          sqlfss = List.map_filter m_SQLDir ms;
          (err, w) = executeSQL sqlfss w
      in if err \<noteq> None then (err, r, w)
         else (None, r, setup_loop Route RegisterTasks SetupTask ms w))"

text \<open>The loop of \<^verbatim>\<open>Start\<close> and \<^verbatim>\<open>Stop\<close>: the hooks that are set, in order, up to the first error.\<close>

fun run_loop :: "('w \<Rightarrow> string option \<times> 'w) option list \<Rightarrow> 'w \<Rightarrow> string option \<times> 'w" where
  "run_loop [] w = (None, w)"
| "run_loop (None # hs) w = run_loop hs w"
| "run_loop (Some h # hs) w = (let (err, w) = h w in if err \<noteq> None then (err, w) else run_loop hs w)"

definition Start ::
  "'c \<Rightarrow> ('c, 'w, 'a, 't, 'q, 'sv) registry \<Rightarrow> 'w \<Rightarrow> (string option \<times> 'w) \<times> ('c, 'w, 'a, 't, 'q, 'sv) registry" where
  "Start ctx r w = (let (ms, r) = GetModules ctx r in (run_loop (map m_Start ms) w, r))"

definition Stop ::
  "'c \<Rightarrow> ('c, 'w, 'a, 't, 'q, 'sv) registry \<Rightarrow> 'w \<Rightarrow> (string option \<times> 'w) \<times> ('c, 'w, 'a, 't, 'q, 'sv) registry" where
  "Stop ctx r w = (let (ms, r) = GetModules ctx r in (run_loop (map m_Stop ms) w, r))"

section \<open>Migrations\<close>

text \<open>\<^verbatim>\<open>sort.Sort\<close> with the order of migrations: insertion from the left, equal ones kept in their order.\<close>

fun insert_by :: "('g \<Rightarrow> 'g \<Rightarrow> bool) \<Rightarrow> 'g \<Rightarrow> 'g list \<Rightarrow> 'g list" where
  "insert_by lt x [] = [x]"
| "insert_by lt x (y # ys) = (if lt x y then x # y # ys else y # insert_by lt x ys)"

definition sort_by :: "('g \<Rightarrow> 'g \<Rightarrow> bool) \<Rightarrow> 'g list \<Rightarrow> 'g list" where
  "sort_by lt xs = fold (insert_by lt) xs []"

text \<open>A script that cannot be opened or parsed.\<close>

datatype migration_error = ReadDirError string | OpenError string string | ParseError string string

text \<open>Embedded scripts: the names in the directory \<^verbatim>\<open>sql\<close> and the contents of a path.\<close>

record SQLFS =
  fs_ReadDir :: "string \<Rightarrow> string + string list"
  fs_Open :: "string \<Rightarrow> string + string"

fun embedded_loop ::
  "(string \<Rightarrow> string \<Rightarrow> string + 'g) \<Rightarrow> SQLFS \<Rightarrow> string list \<Rightarrow> 'g list \<Rightarrow> migration_error + 'g list" where
  "embedded_loop ParseMigration fs [] migrations = Inr migrations"
| "embedded_loop ParseMigration fs (n # ns) migrations =
     (if HasSuffix n ''.sql'' then
        (case fs_Open fs (''sql/'' @ n) of
           Inl err \<Rightarrow> Inl (OpenError n err)
         | Inr file \<Rightarrow>
             (case ParseMigration n file of
                Inl err \<Rightarrow> Inl (ParseError n err)
              | Inr migration \<Rightarrow> embedded_loop ParseMigration fs ns (migrations @ [migration])))
      else embedded_loop ParseMigration fs ns migrations)"

definition embedded_findMigrations ::
  "(string \<Rightarrow> string \<Rightarrow> string + 'g) \<Rightarrow> SQLFS \<Rightarrow> 'g list \<Rightarrow> migration_error + 'g list" where
  "embedded_findMigrations ParseMigration fs migrations =
     (case fs_ReadDir fs ''sql'' of
        Inl err \<Rightarrow> Inl (ReadDirError err)
      | Inr files \<Rightarrow> embedded_loop ParseMigration fs files migrations)"

fun embedded_all ::
  "(string \<Rightarrow> string \<Rightarrow> string + 'g) \<Rightarrow> SQLFS list \<Rightarrow> 'g list \<Rightarrow> migration_error + 'g list" where
  "embedded_all ParseMigration [] migrations = Inr migrations"
| "embedded_all ParseMigration (fs # fss) migrations =
     (case embedded_findMigrations ParseMigration fs migrations of
        Inl err \<Rightarrow> Inl err
      | Inr migrations \<Rightarrow> embedded_all ParseMigration fss migrations)"

text \<open>No scripts at all give nil, which is the empty list here.\<close>

definition embedded_FindMigrations ::
  "(string \<Rightarrow> string \<Rightarrow> string + 'g) \<Rightarrow> ('g \<Rightarrow> 'g \<Rightarrow> bool) \<Rightarrow> SQLFS list \<Rightarrow> migration_error + 'g list" where
  "embedded_FindMigrations ParseMigration lt sqlfss =
     (if length sqlfss = 0 then Inr []
      else case embedded_all ParseMigration sqlfss [] of
             Inl err \<Rightarrow> Inl err
           | Inr migrations \<Rightarrow> Inr (sort_by lt migrations))"

text \<open>
  A directory of the host: the names in it, with whether each is a directory, and the contents of a file of it.  The search
  recurses on directories and need not end; \<open>None\<close> is a search that has used up its fuel.
\<close>

record disk =
  d_Readdir :: "string \<Rightarrow> string + (string \<times> bool) list"
  d_Open :: "string \<Rightarrow> string \<Rightarrow> string + string"

function (sequential) dir_loop ::
  "(string \<Rightarrow> string \<Rightarrow> string + 'g) \<Rightarrow> disk \<Rightarrow> string \<Rightarrow> nat \<Rightarrow> string \<Rightarrow> (string \<times> bool) list \<Rightarrow> 'g list \<Rightarrow>
   (migration_error + 'g list) option" where
  "dir_loop ParseMigration dk Dir fuel dir [] migrations = Some (Inr migrations)"
| "dir_loop ParseMigration dk Dir fuel dir ((n, isDir) # files) migrations =
     (if HasSuffix n ''.sql'' then
        (case d_Open dk dir n of
           Inl err \<Rightarrow> Some (Inl (OpenError n err))
         | Inr file \<Rightarrow>
             (case ParseMigration n file of
                Inl err \<Rightarrow> Some (Inl (ParseError n err))
              | Inr migration \<Rightarrow> dir_loop ParseMigration dk Dir fuel dir files (migrations @ [migration])))
      else if isDir then
        (case fuel of
           0 \<Rightarrow> None
         | Suc fuel' \<Rightarrow>
             (case d_Readdir dk (Dir @ ''/'' @ n) of
                Inl err \<Rightarrow> Some (Inl (ReadDirError err))
              | Inr sub \<Rightarrow>
                  (case dir_loop ParseMigration dk Dir fuel' (Dir @ ''/'' @ n) sub migrations of
                     None \<Rightarrow> None
                   | Some (Inl err) \<Rightarrow> Some (Inl err)
                   | Some (Inr migrations) \<Rightarrow> dir_loop ParseMigration dk Dir fuel dir files migrations)))
      else dir_loop ParseMigration dk Dir fuel dir files migrations)"
  by pat_completeness auto
termination
  by (relation "(\<lambda>(p, dk, D, fuel, dir, files, ms). fuel) <*mlex*> measure (\<lambda>(p, dk, D, fuel, dir, files, ms). length files)")
    (auto simp: mlex_less mlex_leq wf_mlex)

definition dir_findMigrations ::
  "(string \<Rightarrow> string \<Rightarrow> string + 'g) \<Rightarrow> disk \<Rightarrow> string \<Rightarrow> nat \<Rightarrow> string \<Rightarrow> 'g list \<Rightarrow> (migration_error + 'g list) option" where
  "dir_findMigrations ParseMigration dk Dir fuel dir migrations =
     (case d_Readdir dk dir of
        Inl err \<Rightarrow> Some (Inl (ReadDirError err))
      | Inr files \<Rightarrow> dir_loop ParseMigration dk Dir fuel dir files migrations)"

definition dir_FindMigrations ::
  "(string \<Rightarrow> string \<Rightarrow> string + 'g) \<Rightarrow> ('g \<Rightarrow> 'g \<Rightarrow> bool) \<Rightarrow> disk \<Rightarrow> string \<Rightarrow> nat \<Rightarrow> (migration_error + 'g list) option" where
  "dir_FindMigrations ParseMigration lt dk Dir fuel =
     (case dir_findMigrations ParseMigration dk Dir fuel Dir [] of
        None \<Rightarrow> None
      | Some (Inl err) \<Rightarrow> Some (Inl err)
      | Some (Inr migrations) \<Rightarrow> Some (Inr (sort_by lt migrations)))"

section \<open>Properties of the registry\<close>

lemma fold_snoc: "fold (\<lambda>m ms. ms @ [f m]) xs ys = ys @ map f xs"
  by (induction xs arbitrary: ys) simp_all

definition registry_ok :: "('c, 'w, 'a, 't, 'q, 'sv) registry \<Rightarrow> bool" where
  "registry_ok r \<longleftrightarrow> (\<not> r_once r \<longrightarrow> r_moduleList r = [])"

lemma registry_ok_init: "registry_ok init_registry" by (simp add: registry_ok_def init_registry_def)

lemma registry_ok_AddModule: "registry_ok r \<Longrightarrow> registry_ok (AddModule f r)" by (simp add: registry_ok_def AddModule_def)

lemma registry_ok_GetModules: "registry_ok r \<Longrightarrow> registry_ok (snd (GetModules ctx r))" by (simp add: registry_ok_def GetModules_def Let_def)

lemma r_modules_adds: "r_modules (fold AddModule fs r) = r_modules r @ fs" "r_once (fold AddModule fs r) = r_once r"
  "r_moduleList (fold AddModule fs r) = r_moduleList r"
  by (induction fs arbitrary: r) (simp_all add: AddModule_def)

text \<open>
  The modules are built once, in the order of their registration, by the first caller and with its context.  Every later
  caller gets the same list, whatever its context is, and a module registered in between is left out.
\<close>

theorem modules_built_once:
  "let (ms, r) = GetModules ctx (fold AddModule fs init_registry);
       r' = fold AddModule gs r
   in ms = map (\<lambda>f. f ctx) fs \<and> fst (GetModules ctx' r') = ms \<and> snd (GetModules ctx' r') = r' \<and>
      GetService name (fold AddModule fs init_registry) = None \<and>
      GetService name r' = (case find (\<lambda>m. m_Name m = name) (map (\<lambda>f. f ctx) fs) of None \<Rightarrow> None | Some m \<Rightarrow> m_Service m)"
  by (simp add: GetModules_def r_modules_adds init_registry_def fold_snoc GetService_def Let_def)

text \<open>A set of bits has another one iff it has each of its bits.\<close>

lemma IMDatasourceType_Has_iff: "IMDatasourceType_Has i d \<longleftrightarrow> (\<forall>n. bit d n \<longrightarrow> bit i n)"
  unfolding IMDatasourceType_Has_def by (metis bit_and_iff bit_eq_iff)

lemma run_loop_append:
  "run_loop (hs @ hs') w = (let (err, w') = run_loop hs w in if err \<noteq> None then (err, w') else run_loop hs' w')"
  by (induction hs w rule: run_loop.induct) (auto split: prod.splits)

lemma run_loop_cases:
  "case run_loop hs w of
      (None, w') \<Rightarrow> w' = fold (\<lambda>h w. case h of None \<Rightarrow> w | Some h \<Rightarrow> snd (h w)) hs w
    | (Some e, w') \<Rightarrow> \<exists>before h after w1. hs = before @ Some h # after \<and> run_loop before w = (None, w1) \<and> h w1 = (Some e, w')"
proof (induction hs w rule: run_loop.induct)
  case (2 hs w)
  show ?case
  proof (cases "run_loop hs w")
    case (Pair err w')
    show ?thesis
    proof (cases err)
      case (Some e)
      with 2 Pair obtain before h after w1 where "hs = before @ Some h # after" "run_loop before w = (None, w1)" "h w1 = (Some e, w')" by auto
      then show ?thesis using Pair Some by (auto intro!: exI [of _ "None # before"])
    qed (use 2 Pair in auto)
  qed
next
  case (3 h hs w)
  obtain err w1 where h: "h w = (err, w1)" by (cases "h w")
  obtain err' w' where r: "run_loop hs w1 = (err', w')" by (cases "run_loop hs w1")
  show ?case
  proof (cases err)
    case None
    note IH = "3.IH" [OF h [symmetric]]
    show ?thesis
    proof (cases err')
      case (Some e)
      with IH None r obtain before g after w2 where "hs = before @ Some g # after" "run_loop before w1 = (None, w2)" "g w2 = (Some e, w')" by auto
      then show ?thesis using h None r Some by (auto intro!: exI [of _ "Some h # before"])
    qed (use IH h None r in auto)
  next
    case (Some e)
    with h show ?thesis by (auto intro!: exI [of _ "[]"])
  qed
qed simp

text \<open>
  Starting and stopping runs the hooks in order up to the first one that fails.  The error is the one of that hook, and the
  hooks after it are not run: on stopping, the modules after one that fails are not stopped.
\<close>

theorem Start_Stop_order:
  "(case run_loop hs w of
      (None, w') \<Rightarrow> w' = fold (\<lambda>h w. case h of None \<Rightarrow> w | Some h \<Rightarrow> snd (h w)) hs w
    | (Some e, w') \<Rightarrow> \<exists>before h after w1. hs = before @ Some h # after \<and> run_loop before w = (None, w1) \<and> h w1 = (Some e, w')) \<and>
   fst (Start ctx r w) = run_loop (map m_Start (fst (GetModules ctx r))) w \<and>
   fst (Stop ctx r w) = run_loop (map m_Stop (fst (GetModules ctx r))) w"
  using run_loop_cases [of hs w] by (simp add: Start_def Stop_def case_prod_beta)

section \<open>Properties of the migrations\<close>

lemma mset_insert_by [simp]: "mset (insert_by lt x ys) = add_mset x (mset ys)"
  by (induction ys) auto

lemma mset_sort_by: "mset (sort_by lt xs) = mset xs"
proof -
  have "mset (fold (insert_by lt) xs ys) = mset xs + mset ys" for ys by (induction xs arbitrary: ys) auto
  then show ?thesis by (simp add: sort_by_def)
qed

text \<open>A strict order in which being incomparable is transitive, as sorting needs it.\<close>

definition weak_order :: "('g \<Rightarrow> 'g \<Rightarrow> bool) \<Rightarrow> bool" where
  "weak_order lt \<longleftrightarrow> (\<forall>x y. lt x y \<longrightarrow> \<not> lt y x) \<and> (\<forall>x y z. \<not> lt x y \<longrightarrow> \<not> lt y z \<longrightarrow> \<not> lt x z)"

lemma set_insert_by [simp]: "set (insert_by lt x ys) = insert x (set ys)"
  by (induction ys) auto

lemma sorted_insert_by:
  assumes "weak_order lt"
  shows "sorted_wrt (\<lambda>x y. \<not> lt y x) ys \<Longrightarrow> sorted_wrt (\<lambda>x y. \<not> lt y x) (insert_by lt x ys)"
proof (induction ys)
  case (Cons y ys)
  show ?case
  proof (cases "lt x y")
    case True
    then have "\<not> lt y x" using assms unfolding weak_order_def by blast
    moreover have "\<not> lt z x" if "z \<in> set ys" for z
    proof -
      have "\<not> lt z y" using Cons.prems that by simp
      with \<open>\<not> lt y x\<close> assms show ?thesis unfolding weak_order_def by blast
    qed
    ultimately show ?thesis using Cons.prems True by simp
  next
    case False
    then show ?thesis using Cons by simp
  qed
qed simp

lemma sorted_sort_by: "weak_order lt \<Longrightarrow> sorted_wrt (\<lambda>x y. \<not> lt y x) (sort_by lt xs)"
proof -
  assume w: "weak_order lt"
  have "sorted_wrt (\<lambda>x y. \<not> lt y x) ys \<Longrightarrow> sorted_wrt (\<lambda>x y. \<not> lt y x) (fold (insert_by lt) xs ys)" for ys
    by (induction xs arbitrary: ys) (simp_all add: sorted_insert_by [OF w])
  then show ?thesis by (simp add: sort_by_def)
qed

text \<open>The scripts of a module, parsed: \<open>None\<close> if one cannot be opened or parsed.\<close>

fun parsed :: "(string \<Rightarrow> string \<Rightarrow> string + 'g) \<Rightarrow> SQLFS \<Rightarrow> string list \<Rightarrow> 'g list option" where
  "parsed P fs [] = Some []"
| "parsed P fs (n # ns) =
     (case fs_Open fs (''sql/'' @ n) of
        Inl _ \<Rightarrow> None
      | Inr file \<Rightarrow>
          (case P n file of Inl _ \<Rightarrow> None | Inr g \<Rightarrow> map_option (Cons g) (parsed P fs ns)))"

lemma embedded_loop_parsed:
  "embedded_loop P fs ns ms = Inr ms' \<longleftrightarrow> (\<exists>gs. parsed P fs (filter (\<lambda>n. HasSuffix n ''.sql'') ns) = Some gs \<and> ms' = ms @ gs)"
  by (induction ns arbitrary: ms) (auto split: sum.splits)

definition scripts :: "(string \<Rightarrow> string \<Rightarrow> string + 'g) \<Rightarrow> SQLFS \<Rightarrow> 'g list option" where
  "scripts P fs =
     (case fs_ReadDir fs ''sql'' of Inl _ \<Rightarrow> None | Inr ns \<Rightarrow> parsed P fs (filter (\<lambda>n. HasSuffix n ''.sql'') ns))"

lemma embedded_all_scripts:
  "embedded_all P fss ms = Inr ms' \<longleftrightarrow> (\<exists>gss. map (scripts P) fss = map Some gss \<and> ms' = ms @ concat gss)"
proof (induction fss arbitrary: ms)
  case (Cons fs fss)
  have f: "embedded_findMigrations P fs ms = Inr ms1 \<longleftrightarrow> (\<exists>gs. scripts P fs = Some gs \<and> ms1 = ms @ gs)" for ms1
    by (auto simp: embedded_findMigrations_def scripts_def embedded_loop_parsed split: sum.splits)
  show ?case
  proof (cases "scripts P fs")
    case None
    with f have "\<nexists>ms1. embedded_findMigrations P fs ms = Inr ms1" by simp
    then obtain e where "embedded_findMigrations P fs ms = Inl e" by (cases "embedded_findMigrations P fs ms") auto
    with None show ?thesis by (auto simp: Cons_eq_map_conv)
  next
    case (Some gs)
    with f have "embedded_findMigrations P fs ms = Inr (ms @ gs)" by simp
    with Some Cons.IH show ?thesis by (auto simp: Cons_eq_map_conv)
  qed
qed auto

text \<open>
  The migrations of the modules: if they are found at all, they are exactly the scripts of all modules, each parsed, and in
  the order of the library; a directory that cannot be read or a script that cannot be opened or parsed is an error.
\<close>

theorem embedded_migrations:
  "(\<forall>ms. embedded_FindMigrations P lt fss = Inr ms \<longrightarrow>
      (\<exists>gss. map (scripts P) fss = map Some gss \<and> mset ms = mset (concat gss)) \<and>
      (weak_order lt \<longrightarrow> sorted_wrt (\<lambda>x y. \<not> lt y x) ms)) \<and>
   ((\<exists>fs\<in>set fss. scripts P fs = None) \<longrightarrow> (\<exists>err. embedded_FindMigrations P lt fss = Inl err))"
proof (intro conjI allI impI)
  fix ms assume "embedded_FindMigrations P lt fss = Inr ms"
  then obtain ms0 where "embedded_all P fss [] = Inr ms0" "ms = sort_by lt ms0"
    by (cases fss) (auto simp: embedded_FindMigrations_def sort_by_def split: if_splits sum.splits)
  then show "\<exists>gss. map (scripts P) fss = map Some gss \<and> mset ms = mset (concat gss)"
    "weak_order lt \<Longrightarrow> sorted_wrt (\<lambda>x y. \<not> lt y x) ms"
    by (auto simp: embedded_all_scripts mset_sort_by sorted_sort_by)
next
  assume "\<exists>fs\<in>set fss. scripts P fs = None"
  then have "embedded_all P fss [] \<noteq> Inr ms" for ms
    unfolding embedded_all_scripts by (metis (no_types, lifting) image_iff image_set list.set_map option.distinct(1))
  then obtain err where "embedded_all P fss [] = Inl err" by (cases "embedded_all P fss []") auto
  moreover have "fss \<noteq> []" using \<open>\<exists>fs\<in>set fss. _\<close> by auto
  ultimately show "\<exists>err. embedded_FindMigrations P lt fss = Inl err" by (simp add: embedded_FindMigrations_def)
qed

definition demo_fs :: "string list \<Rightarrow> SQLFS" where
  "demo_fs ns = \<lparr>fs_ReadDir = (\<lambda>d. if d = ''sql'' then Inr ns else Inl ''file does not exist''), fs_Open = (\<lambda>p. Inr p)\<rparr>"

theorem embedded_migrations_witness:
  "\<exists>ms. embedded_FindMigrations (\<lambda>n f. Inr (length n)) (<) [demo_fs [''003.sql'', ''readme''], demo_fs [''1.sql'']] = Inr ms \<and>
     mset ms = mset [7, 5] \<and> sorted_wrt (\<lambda>x y. \<not> y < x) ms"
proof -
  have r: "embedded_FindMigrations (\<lambda>n f. Inr (length n)) (<) [demo_fs [''003.sql'', ''readme''], demo_fs [''1.sql'']] = Inr [5, 7]"
    by (simp add: embedded_FindMigrations_def embedded_findMigrations_def demo_fs_def HasSuffix_def sort_by_def)
  have "weak_order ((<) :: nat \<Rightarrow> _)" by (auto simp: weak_order_def)
  moreover have "map (scripts (\<lambda>n f. Inr (length n))) [demo_fs [''003.sql'', ''readme''], demo_fs [''1.sql'']] = map Some [[7], [5]]"
    by (simp add: scripts_def demo_fs_def HasSuffix_def)
  ultimately show ?thesis
    using embedded_migrations [of "\<lambda>n f. Inr (length n)" "(<)" "[demo_fs [''003.sql'', ''readme''], demo_fs [''1.sql'']]"] r
    by (metis concat.simps append_Nil2 append_Cons append_Nil inj_Some inj_map_eq_map)
qed

lemma dir_loop_same:
  assumes "\<not> HasSuffix a ''.sql''" "d_Readdir dk (Dir @ ''/'' @ a) = Inr [(a, True)]"
  shows "dir_loop P dk Dir fuel dir [(a, True)] ms = None"
  using assms by (induction fuel arbitrary: dir) simp_all

text \<open>
  C37: The search of a directory looks for a nested directory beside, not inside, the directory that holds it.  So a directory
  \<^verbatim>\<open>a/a\<close> makes it run for ever, and a directory \<^verbatim>\<open>a/b\<close> makes it fail unless there is a \<^verbatim>\<open>b\<close> at the top, whatever
  \<^verbatim>\<open>a/b\<close> holds.  One level of directories is searched properly.
\<close>

theorem nested_directories:
  assumes "\<not> HasSuffix a ''.sql''" "\<not> HasSuffix b ''.sql''" "d_Readdir dk Dir = Inr [(a, True)]"
    "d_Readdir dk (Dir @ ''/'' @ a) = Inr [(b, True)]"
  shows "(a = b \<longrightarrow> dir_FindMigrations P lt dk Dir fuel = None) \<and>
    (a \<noteq> b \<and> d_Readdir dk (Dir @ ''/'' @ b) = Inl err \<longrightarrow>
       dir_FindMigrations P lt dk Dir (Suc (Suc fuel)) = Some (Inl (ReadDirError err)))"
proof (intro conjI impI)
  assume "a = b"
  then have "dir_loop P dk Dir fuel Dir [(a, True)] [] = None" using assms by (intro dir_loop_same) auto
  with assms show "dir_FindMigrations P lt dk Dir fuel = None" by (simp add: dir_FindMigrations_def dir_findMigrations_def)
next
  assume "a \<noteq> b \<and> d_Readdir dk (Dir @ ''/'' @ b) = Inl err"
  with assms show "dir_FindMigrations P lt dk Dir (Suc (Suc fuel)) = Some (Inl (ReadDirError err))"
    by (simp add: dir_FindMigrations_def dir_findMigrations_def)
qed

definition nested_disk :: disk where
  "nested_disk =
     \<lparr>d_Readdir = (\<lambda>d. if d = ''sql'' then Inr [(''a'', True)] else if d = ''sql/a'' then Inr [(''b'', True)]
        else if d = ''sql/a/b'' then Inr [(''1.sql'', False)] else Inl ''file does not exist''),
      d_Open = (\<lambda>d n. if d = ''sql/a/b'' \<and> n = ''1.sql'' then Inr ''create'' else Inl ''file does not exist'')\<rparr>"

theorem nested_directories_witness:
  "dir_FindMigrations (\<lambda>n f. Inr f) (\<lambda>x y. length x < length y) nested_disk ''sql'' 5 = Some (Inl (ReadDirError ''file does not exist''))"
proof -
  have "dir_FindMigrations (\<lambda>n f. Inr f) (\<lambda>x y. length x < length y) nested_disk ''sql'' (Suc (Suc 3)) = Some (Inl (ReadDirError ''file does not exist''))"
    using nested_directories [of "''a''" "''b''" nested_disk "''sql''" "\<lambda>n f. Inr f" "\<lambda>x y. length x < length y" 3 "''file does not exist''"]
    by (simp add: nested_disk_def HasSuffix_def)
  then show ?thesis by (simp add: numeral_eq_Suc)
qed

end
