(* ===== verification/Service_Context.thy ===== *)
theory Service_Context
  imports Redis_Conn Config
begin

text \<open>
  The context of a service (\<^verbatim>\<open>config/context.go\<close>): the resources it opens on first use, the values it keeps, and the
  listeners to online states, events and messages.  Opening a database or a Redis client, reading certificates and
  quoting (the verb \<^verbatim>\<open>%q\<close>) are arguments.  The locks serialise the operations; each is one step here.
\<close>

section \<open>The database\<close>

record 'cn session =
  ses_connector :: 'cn
  ses_MaxOpenConns :: int
  ses_MaxIdleConns :: int
  ses_ConnMaxLifetime :: int

definition db_NewMySQL :: "(string \<Rightarrow> string + 'cn) \<Rightarrow> string \<Rightarrow> int \<Rightarrow> int \<Rightarrow> int \<Rightarrow> 'cn session go" where
  "db_NewMySQL OpenConnector addr maxOpenConns maxIdleConns connMaxLifetime =
     (case OpenConnector addr of
        Inl err \<Rightarrow> Panic err
      | Inr base \<Rightarrow>
          Ret \<lparr>ses_connector = base, ses_MaxOpenConns = maxOpenConns, ses_MaxIdleConns = maxIdleConns,
               ses_ConnMaxLifetime = connMaxLifetime\<rparr>)"

section \<open>Resources opened once\<close>

text \<open>
  The context without what it is given at its creation.  A flag of \<^verbatim>\<open>sync.Once\<close> is set when its function has been called,
  also if that has panicked; a pointer that is still nil is \<open>None\<close>.
\<close>

record ('cn, 's, 'f, 'v) AppContext =
  ac_cfg :: Config
  ac_mysqlOnce :: bool
  ac_mySQLSession :: "'cn session option"
  ac_redisOnce :: bool
  ac_redisCache :: "('s, 'f) RedisCache option"
  ac_memoryOnce :: bool
  ac_memoryCache :: "MemoryCache option"
  ac_valueMap :: "string \<rightharpoonup> 'v"

definition fresh_context :: "Config \<Rightarrow> ('cn, 's, 'f, 'v) AppContext" where
  "fresh_context cfg =
     \<lparr>ac_cfg = cfg, ac_mysqlOnce = False, ac_mySQLSession = None, ac_redisOnce = False, ac_redisCache = None,
      ac_memoryOnce = False, ac_memoryCache = None, ac_valueMap = Map.empty\<rparr>"

definition NewMySQL ::
  "(string \<Rightarrow> string + 'cn) \<Rightarrow> ('cn, 's, 'f, 'v) AppContext \<Rightarrow> 'cn session option go \<times> ('cn, 's, 'f, 'v) AppContext" where
  "NewMySQL OpenConnector c =
     (if ac_mysqlOnce c then (Ret (ac_mySQLSession c), c)
      else let c = c\<lparr>ac_mysqlOnce := True\<rparr>; d = cfg_DB (ac_cfg c)
           in case db_NewMySQL OpenConnector (DB_MySQLAddr d) (DB_MySQLMaxOpenConns d) (DB_MySQLMaxIdleConns d) (DB_MySQLConnMaxLifetime d) of
                Panic e \<Rightarrow> (Panic e, c)
              | Ret s \<Rightarrow> (Ret (Some s), c\<lparr>ac_mySQLSession := Some s\<rparr>))"

definition DB ::
  "(string \<Rightarrow> string + 'cn) \<Rightarrow> ('cn, 's, 'f, 'v) AppContext \<Rightarrow> 'cn session option go \<times> ('cn, 's, 'f, 'v) AppContext" where
  "DB OpenConnector c = NewMySQL OpenConnector c"

fun tls_text :: "(string \<Rightarrow> string) \<Rightarrow> tls_error \<Rightarrow> string" where
  "tls_text q (ReadCAFile caFile err) = ''read redis CA file '' @ q caFile @ '': '' @ err"
| "tls_text q (NoValidPEM caFile) = ''redis CA file '' @ q caFile @ '' contains no valid PEM certificates''"

text \<open>What opening a Redis client takes.\<close>

record ('pool, 's, 'f) redis_env =
  re_ReadFile :: "string \<Rightarrow> string + string"
  re_AppendCerts :: "string \<Rightarrow> 'pool option"
  re_Quote :: "string \<Rightarrow> string"
  re_NewClient :: "'pool rd_Options \<Rightarrow> ('s, 'f) rd_client"
  re_wrapClient :: "('s, 'f) rd_client \<Rightarrow> ('s, 'f) rd_client"

definition redis_options :: "('pool, 's, 'f) redis_env \<Rightarrow> DB_config \<Rightarrow> 'pool rd_Options go" where
  "redis_options env d =
     (let opts = zero_Options\<lparr>opt_Addr := DB_RedisAddr d, opt_Password := DB_RedisPass d\<rparr>
      in if DB_RedisTLS d then
           (case BuildTLSConfig (re_ReadFile env) (re_AppendCerts env) (DB_RedisTLSInsecureSkipVerify d) (DB_RedisTLSCAFile d) of
              Inl err \<Rightarrow> Panic (''octo-lib: build redis TLS config: '' @ tls_text (re_Quote env) err)
            | Inr tlsCfg \<Rightarrow> Ret (opts\<lparr>opt_TLSConfig := Some tlsCfg\<rparr>))
         else Ret opts)"

definition NewRedisCache ::
  "('pool, 's, 'f) redis_env \<Rightarrow> ('cn, 's, 'f, 'v) AppContext \<Rightarrow> ('s, 'f) RedisCache option go \<times> ('cn, 's, 'f, 'v) AppContext" where
  "NewRedisCache env c =
     (if ac_redisOnce c then (Ret (ac_redisCache c), c)
      else let c = c\<lparr>ac_redisOnce := True\<rparr>
           in case go_bind (redis_options env (cfg_DB (ac_cfg c)))
                     (\<lambda>opts. NewRedisCacheWithConn (Some (NewWithOptions (re_NewClient env) (re_wrapClient env) (Some opts)))) of
                Panic e \<Rightarrow> (Panic e, c)
              | Ret r \<Rightarrow> (Ret (Some r), c\<lparr>ac_redisCache := Some r\<rparr>))"

definition Context_NewMemoryCache :: "('cn, 's, 'f, 'v) AppContext \<Rightarrow> MemoryCache option \<times> ('cn, 's, 'f, 'v) AppContext" where
  "Context_NewMemoryCache c =
     (let c = (if ac_memoryOnce c then c else c\<lparr>ac_memoryOnce := True, ac_memoryCache := Some NewMemoryCache\<rparr>)
      in (ac_memoryCache c, c))"

definition Context_Cache ::
  "('pool, 's, 'f) redis_env \<Rightarrow> ('cn, 's, 'f, 'v) AppContext \<Rightarrow> ('s, 'f) RedisCache option go \<times> ('cn, 's, 'f, 'v) AppContext" where
  "Context_Cache env c = NewRedisCache env c"

text \<open>\<^verbatim>\<open>GetRedisConn\<close> of a nil cache reads through the nil pointer.\<close>

definition Context_GetRedisConn ::
  "('pool, 's, 'f) redis_env \<Rightarrow> ('cn, 's, 'f, 'v) AppContext \<Rightarrow> ('s, 'f) Conn go \<times> ('cn, 's, 'f, 'v) AppContext" where
  "Context_GetRedisConn env c =
     (let (r, c) = NewRedisCache env c
      in (go_bind r (\<lambda>r. case r of None \<Rightarrow> Panic ''nil pointer dereference'' | Some r \<Rightarrow> Ret (GetRedisConn r)), c))"

definition SetValue :: "'v \<Rightarrow> string \<Rightarrow> ('cn, 's, 'f, 'v) AppContext \<Rightarrow> ('cn, 's, 'f, 'v) AppContext" where
  "SetValue value key c = c\<lparr>ac_valueMap := (ac_valueMap c)(key \<mapsto> value)\<rparr>"

definition Value :: "string \<Rightarrow> ('cn, 's, 'f, 'v) AppContext \<Rightarrow> 'v option" where
  "Value key c = ac_valueMap c key"

section \<open>Listeners\<close>

record OnlineStatus =
  os_UID :: string
  os_DeviceFlag :: nat
  os_Online :: bool
  os_SocketID :: int
  os_OnlineCount :: int
  os_TotalOnlineCount :: int

text \<open>
  The lists of listeners, variables of the package.  Listeners to online states and to events are only handed out, so they
  may be anything; a listener to messages acts on the world, which holds the lists themselves.
\<close>

record ('on, 'ev, 'ms) listeners =
  l_online :: "'on list"
  l_event :: "string \<rightharpoonup> 'ev list"
  l_messages :: "'ms list"

definition AddOnlineStatusListener :: "'on \<Rightarrow> ('on, 'ev, 'ms) listeners \<Rightarrow> ('on, 'ev, 'ms) listeners" where
  "AddOnlineStatusListener listener l = l\<lparr>l_online := l_online l @ [listener]\<rparr>"

definition GetAllOnlineStatusListeners :: "('on, 'ev, 'ms) listeners \<Rightarrow> 'on list" where
  "GetAllOnlineStatusListeners l = l_online l"

definition AddEventListener :: "string \<Rightarrow> 'ev \<Rightarrow> ('on, 'ev, 'ms) listeners \<Rightarrow> ('on, 'ev, 'ms) listeners" where
  "AddEventListener event listener l =
     (let ls = (case l_event l event of None \<Rightarrow> [] | Some ls \<Rightarrow> ls)
      in l\<lparr>l_event := (l_event l)(event \<mapsto> ls @ [listener])\<rparr>)"

definition GetEventListeners :: "string \<Rightarrow> ('on, 'ev, 'ms) listeners \<Rightarrow> 'ev list" where
  "GetEventListeners event l = (case l_event l event of None \<Rightarrow> [] | Some ls \<Rightarrow> ls)"

definition AddMessagesListener :: "'ms \<Rightarrow> ('on, 'ev, 'ms) listeners \<Rightarrow> ('on, 'ev, 'ms) listeners" where
  "AddMessagesListener listener l = l\<lparr>l_messages := l_messages l @ [listener]\<rparr>"

text \<open>
  \<^verbatim>\<open>NotifyMessagesListeners\<close>: the listeners of a copy of the list are called in order.  \<open>call\<close> runs one, which may itself
  change the lists.
\<close>

definition NotifyMessagesListeners ::
  "('ms \<Rightarrow> 'msgs \<Rightarrow> ('on, 'ev, 'ms) listeners \<times> 'w \<Rightarrow> ('on, 'ev, 'ms) listeners \<times> 'w) \<Rightarrow> 'msgs \<Rightarrow>
   ('on, 'ev, 'ms) listeners \<times> 'w \<Rightarrow> ('on, 'ev, 'ms) listeners \<times> 'w" where
  "NotifyMessagesListeners call messages lw = fold (\<lambda>listener. call listener messages) (l_messages (fst lw)) lw"

definition everyScheduler_Next :: "int \<Rightarrow> int \<Rightarrow> int" where
  "everyScheduler_Next Interval prev = prev + Interval"

section \<open>Properties\<close>

lemma BuildTLSConfig_file_error:
  "ReadFile caFile = Inl err \<Longrightarrow> caFile \<noteq> [] \<Longrightarrow> BuildTLSConfig ReadFile AppendCerts skip caFile = Inl (ReadCAFile caFile err)"
  by (simp add: BuildTLSConfig_def)

text \<open>
  The connection to Redis is opened once.  If the options can be built, the client is the one for the configured address,
  password and, if and only if TLS is configured, TLS settings, with three retries, and every later call returns that cache.
  If they cannot, the first call panics, and every later one returns nil: a caller that recovers from the panic then runs
  into a nil pointer, as \<^verbatim>\<open>GetRedisConn\<close> does.
\<close>

theorem redis_opened_once:
  "case redis_options env (cfg_DB cfg) of
     Ret opts \<Rightarrow>
       opt_Addr opts = DB_RedisAddr (cfg_DB cfg) \<and> opt_Password opts = DB_RedisPass (cfg_DB cfg) \<and>
       (opt_TLSConfig opts \<noteq> None \<longleftrightarrow> DB_RedisTLS (cfg_DB cfg)) \<and>
       (let r = \<lparr>rc_conn = \<lparr>conn_client = re_wrapClient env (re_NewClient env (opts\<lparr>opt_MaxRetries := 3\<rparr>))\<rparr>\<rparr>
        in fst (NewRedisCache env (fresh_context cfg)) = Ret (Some r) \<and>
           NewRedisCache env' (snd (NewRedisCache env (fresh_context cfg))) = (Ret (Some r), snd (NewRedisCache env (fresh_context cfg))))
   | Panic e \<Rightarrow>
       fst (NewRedisCache env (fresh_context cfg)) = Panic e \<and>
       NewRedisCache env' (snd (NewRedisCache env (fresh_context cfg))) = (Ret None, snd (NewRedisCache env (fresh_context cfg))) \<and>
       fst (Context_GetRedisConn env' (snd (NewRedisCache env (fresh_context cfg)))) = Panic ''nil pointer dereference''"
proof (cases "redis_options env (cfg_DB cfg)")
  case (Ret opts)
  have o: "opt_Addr opts = DB_RedisAddr (cfg_DB cfg)" "opt_Password opts = DB_RedisPass (cfg_DB cfg)"
    "opt_TLSConfig opts \<noteq> None \<longleftrightarrow> DB_RedisTLS (cfg_DB cfg)" "opt_MaxRetries opts = 0"
    using Ret by (auto simp: redis_options_def zero_Options_def Let_def split: if_splits sum.splits)
  have "NewWithOptions (re_NewClient env) (re_wrapClient env) (Some opts) =
      \<lparr>conn_client = re_wrapClient env (re_NewClient env (opts\<lparr>opt_MaxRetries := 3\<rparr>))\<rparr>"
    using o(4) by (simp add: NewWithOptions_def)
  with Ret o show ?thesis by (simp add: NewRedisCache_def fresh_context_def NewRedisCacheWithConn_def Let_def)
next
  case (Panic e)
  then show ?thesis by (simp add: NewRedisCache_def fresh_context_def Context_GetRedisConn_def Let_def)
qed

lemma GetEventListeners_add:
  "GetEventListeners e (AddEventListener e' x l) = GetEventListeners e l @ (if e = e' then [x] else [])"
  by (simp add: GetEventListeners_def AddEventListener_def Let_def)

lemma GetEventListeners_history:
  "GetEventListeners e (fold (\<lambda>(e', x). AddEventListener e' x) es l) = GetEventListeners e l @ map snd (filter (\<lambda>p. fst p = e) es)"
  by (induction es arbitrary: l) (auto simp: GetEventListeners_add)

text \<open>
  The listeners of an event are those added for it, in the order of their registration.  Messages go to exactly the
  listeners registered when the notification begins, each once and in order: a listener added by a listener is not called,
  only from the next notification on.
\<close>

theorem listeners_in_order:
  "GetEventListeners e (fold (\<lambda>(e', x). AddEventListener e' x) es l) = GetEventListeners e l @ map snd (filter (\<lambda>p. fst p = e) es) \<and>
   snd (NotifyMessagesListeners (\<lambda>x msgs (l, log). (AddMessagesListener (f x) l, log @ [(x, msgs)])) msgs (l, [])) =
     map (\<lambda>x. (x, msgs)) (l_messages l) \<and>
   l_messages (fst (NotifyMessagesListeners (\<lambda>x msgs (l, log). (AddMessagesListener (f x) l, log @ [(x, msgs)])) msgs (l, []))) =
     l_messages l @ map f (l_messages l)"
proof -
  have "fold (\<lambda>x (l, log). (AddMessagesListener (f x) l, log @ [(x, msgs)])) xs (l, log) =
      (l\<lparr>l_messages := l_messages l @ map f xs\<rparr>, log @ map (\<lambda>x. (x, msgs)) xs)" for xs log
    by (induction xs arbitrary: l log) (auto simp: AddMessagesListener_def)
  then show ?thesis by (simp add: GetEventListeners_history NotifyMessagesListeners_def)
qed

end
