(* ===== verification/Http_Pool.thy ===== *)
theory Http_Pool
  imports Octo_Prelude
begin

text \<open>
  The wrapper around handlers in \<^verbatim>\<open>pkg/wkhttp/http.go\<close>: \<^verbatim>\<open>WKHttpHandler\<close> takes a context object from a pool, fills it in
  for the request, runs the handler and puts the object back.  Requests run concurrently, so the handlers that run at a
  time are a state of a transition system whose steps are the entry into and the exit from a handler.
\<close>

section \<open>Contexts and the pool\<close>

text \<open>A context object: the request of the framework (\<open>'g\<close>, nil before its first use) and the server it belongs to.\<close>

record ('g, 'l) pooled =
  pc_Context :: "'g option"
  pc_wk :: "'l option"

definition allocateContext :: "('g, 'l) pooled" where
  "allocateContext = \<lparr>pc_Context = None, pc_wk = None\<rparr>"

definition reset :: "('g, 'l) pooled \<Rightarrow> ('g, 'l) pooled" where
  "reset c = c\<lparr>pc_Context := None, pc_wk := None\<rparr>"

text \<open>
  The objects by their address, the addresses in the pool, and the handlers that run (by a number) with the object each one
  holds and the request it was called for.
\<close>

record ('g, 'l) pool_sys =
  ps_heap :: "nat \<Rightarrow> ('g, 'l) pooled"
  ps_fresh :: nat
  ps_pool :: "nat set"
  ps_running :: "nat \<rightharpoonup> nat \<times> 'g"

definition pool_init :: "('g, 'l) pool_sys" where
  "pool_init = \<lparr>ps_heap = (\<lambda>_. allocateContext), ps_fresh = 0, ps_pool = {}, ps_running = Map.empty\<rparr>"

text \<open>
  \<^verbatim>\<open>pool.Get\<close> returns some object of the pool, or a new one; which is up to the library, so it is an argument, \<open>None\<close> for
  a new one.
\<close>

definition pool_Get :: "nat option \<Rightarrow> ('g, 'l) pool_sys \<Rightarrow> nat \<times> ('g, 'l) pool_sys" where
  "pool_Get choice s =
     (case choice of
        Some a \<Rightarrow> (a, s\<lparr>ps_pool := ps_pool s - {a}\<rparr>)
      | None \<Rightarrow> (ps_fresh s, s\<lparr>ps_heap := (ps_heap s)(ps_fresh s := allocateContext), ps_fresh := ps_fresh s + 1\<rparr>))"

definition WKHttpHandler_enter :: "'l \<Rightarrow> nat \<Rightarrow> 'g \<Rightarrow> nat option \<Rightarrow> ('g, 'l) pool_sys \<Rightarrow> ('g, 'l) pool_sys" where
  "WKHttpHandler_enter l h g choice s =
     (let (a, s) = pool_Get choice s;
          hc = reset (ps_heap s a);
          hc = hc\<lparr>pc_Context := Some g, pc_wk := Some l\<rparr>
      in s\<lparr>ps_heap := (ps_heap s)(a := hc), ps_running := (ps_running s)(h \<mapsto> (a, g))\<rparr>)"

definition WKHttpHandler_leave :: "nat \<Rightarrow> ('g, 'l) pool_sys \<Rightarrow> ('g, 'l) pool_sys" where
  "WKHttpHandler_leave h s =
     (case ps_running s h of
        None \<Rightarrow> s
      | Some (a, g) \<Rightarrow> s\<lparr>ps_pool := insert a (ps_pool s), ps_running := (ps_running s)(h := None)\<rparr>)"

text \<open>
  A handler is entered or left, whether it returns or panics; at any time the library may drop an object of the pool.
\<close>

inductive pool_step :: "'l \<Rightarrow> ('g, 'l) pool_sys \<Rightarrow> ('g, 'l) pool_sys \<Rightarrow> bool" for l where
  enter: "ps_running s h = None \<Longrightarrow> (\<forall>a. choice = Some a \<longrightarrow> a \<in> ps_pool s) \<Longrightarrow> pool_step l s (WKHttpHandler_enter l h g choice s)"
| leave: "pool_step l s (WKHttpHandler_leave h s)"
| drop: "pool_step l s (s\<lparr>ps_pool := ps_pool s - {a}\<rparr>)"

definition handlersToGinHandleFuncs :: "('h \<Rightarrow> 'k) \<Rightarrow> 'h list \<Rightarrow> 'k list" where
  "handlersToGinHandleFuncs WKHttpHandler handlers = fold (\<lambda>handler newHandlers. newHandlers @ [WKHttpHandler handler]) handlers []"

section \<open>Isolation of requests\<close>

text \<open>
  What holds at all times: the objects in use are not in the pool and none is used by two handlers, all of them have been
  allocated, and each carries the request and the server of the handler that uses it.
\<close>

definition pool_inv :: "'l \<Rightarrow> ('g, 'l) pool_sys \<Rightarrow> bool" where
  "pool_inv l s \<longleftrightarrow>
     (\<forall>a\<in>ps_pool s. a < ps_fresh s) \<and>
     (\<forall>h a g. ps_running s h = Some (a, g) \<longrightarrow>
        a < ps_fresh s \<and> a \<notin> ps_pool s \<and> ps_heap s a = \<lparr>pc_Context = Some g, pc_wk = Some l\<rparr>) \<and>
     (\<forall>h h' a g g'. ps_running s h = Some (a, g) \<longrightarrow> ps_running s h' = Some (a, g') \<longrightarrow> h = h')"

lemma pool_inv_init: "pool_inv l pool_init"
  by (simp add: pool_inv_def pool_init_def)

lemma pool_inv_enter:
  assumes "pool_inv l s" "ps_running s h = None" "\<forall>a. choice = Some a \<longrightarrow> a \<in> ps_pool s"
  shows "pool_inv l (WKHttpHandler_enter l h g choice s)"
proof (cases choice)
  case None
  have "ps_running s h' = Some (ps_fresh s, g') \<Longrightarrow> False" for h' g' using assms(1) unfolding pool_inv_def by blast
  with None assms show ?thesis
    unfolding pool_inv_def WKHttpHandler_enter_def pool_Get_def reset_def allocateContext_def
    by (auto simp: less_Suc_eq split: if_splits)
next
  case (Some b)
  then have b: "b \<in> ps_pool s" using assms(3) by simp
  then have "ps_running s h' \<noteq> Some (b, g')" for h' g' using assms(1) unfolding pool_inv_def by blast
  with Some b assms(1,2) show ?thesis
    unfolding pool_inv_def WKHttpHandler_enter_def pool_Get_def reset_def
    by (cases "ps_heap s b") (auto split: if_splits)
qed

lemma pool_inv_leave: "pool_inv l s \<Longrightarrow> pool_inv l (WKHttpHandler_leave h s)"
  unfolding pool_inv_def WKHttpHandler_leave_def
  by (auto split: option.splits if_splits)

lemma pool_inv_step: "pool_step l s s' \<Longrightarrow> pool_inv l s \<Longrightarrow> pool_inv l s'"
proof (induction rule: pool_step.induct)
  case (drop s a)
  then show ?case unfolding pool_inv_def by auto
qed (simp_all add: pool_inv_enter pool_inv_leave)

lemma pool_inv_reachable: "(pool_step l)\<^sup>*\<^sup>* pool_init s \<Longrightarrow> pool_inv l s"
  by (induction rule: rtranclp_induct) (simp_all add: pool_inv_init pool_inv_step)

text \<open>
  C8: Requests do not see each other: however handlers are entered and left, each one that runs has a context object of its own
  that carries exactly its request and its server.  The handlers of a route are wrapped one by one, in their order.
\<close>

theorem requests_isolated:
  assumes "(pool_step l)\<^sup>*\<^sup>* pool_init s"
  shows "(ps_running s h = Some (a, g) \<longrightarrow> ps_heap s a = \<lparr>pc_Context = Some g, pc_wk = Some l\<rparr>) \<and>
    (ps_running s h = Some (a, g) \<and> ps_running s h' = Some (a', g') \<and> h \<noteq> h' \<longrightarrow> a \<noteq> a') \<and>
    handlersToGinHandleFuncs f handlers = map f handlers"
proof -
  have "fold (\<lambda>handler hs. hs @ [f handler]) handlers ks = ks @ map f handlers" for ks
    by (induction handlers arbitrary: ks) simp_all
  then show ?thesis
    using pool_inv_reachable [OF assms] unfolding pool_inv_def handlersToGinHandleFuncs_def by auto
qed

text \<open>A second request that gets the object of the first one sees only itself.\<close>

definition reuse_run :: "(string, unit) pool_sys" where
  "reuse_run = WKHttpHandler_enter () 2 ''second'' (Some 0) (WKHttpHandler_leave 1 (WKHttpHandler_enter () 1 ''first'' None pool_init))"

theorem requests_isolated_witness:
  "ps_running reuse_run 2 = Some (0, ''second'') \<and> ps_heap reuse_run 0 = \<lparr>pc_Context = Some ''second'', pc_wk = Some ()\<rparr>"
proof -
  define s1 :: "(string, unit) pool_sys" where "s1 = WKHttpHandler_enter () 1 ''first'' None pool_init"
  define s2 where "s2 = WKHttpHandler_leave 1 s1"
  note d = s1_def s2_def WKHttpHandler_enter_def WKHttpHandler_leave_def pool_Get_def pool_init_def
  have "pool_step () pool_init s1" unfolding s1_def by (rule pool_step.enter) (simp_all add: pool_init_def)
  moreover have "pool_step () s1 s2" unfolding s2_def by (rule pool_step.leave)
  moreover have "pool_step () s2 reuse_run"
    unfolding reuse_run_def s1_def [symmetric] s2_def [symmetric] by (rule pool_step.enter) (simp_all add: d)
  ultimately have "(pool_step ())\<^sup>*\<^sup>* pool_init reuse_run" by (meson converse_rtranclp_into_rtranclp rtranclp.rtrancl_refl)
  moreover have r: "ps_running reuse_run 2 = Some (0, ''second'')" unfolding reuse_run_def by (simp add: d)
  ultimately show ?thesis using requests_isolated [of "()" reuse_run 2 0 "''second''"] by blast
qed

end
