(* ===== verification/Network.thy ===== *)
theory Network
  imports Im_Client
begin

text \<open>
  The other requests of \<^verbatim>\<open>pkg/network/network.go\<close>: requests with query parameters and forms.  The HTTP client is an argument.
  The order in which a map is visited is the order of its association list.
\<close>

section \<open>Requests\<close>

definition network_Put :: "im_context \<Rightarrow> string \<Rightarrow> string \<Rightarrow> (string \<times> string) list \<Rightarrow> (string + rest_Response) \<times> rest_Request list" where
  "network_Put c url body headers = network_RequestBoy c url body headers ''PUT''"

definition RequestBoyForQueryParam ::
  "im_context \<Rightarrow> string \<Rightarrow> (string \<times> string) list \<Rightarrow> (string \<times> string) list \<Rightarrow> string \<Rightarrow> (string + rest_Response) \<times> rest_Request list" where
  "RequestBoyForQueryParam c url queryParams headers method =
     (let request = \<lparr>rq_Method = method, rq_BaseURL = url, rq_QueryParams = queryParams, rq_Body = [], rq_Headers = headers\<rparr>
      in (im_API c request, [request]))"

definition PostForQueryParam ::
  "im_context \<Rightarrow> string \<Rightarrow> (string \<times> string) list \<Rightarrow> (string \<times> string) list \<Rightarrow> (string + rest_Response) \<times> rest_Request list" where
  "PostForQueryParam c url queryParams headers = RequestBoyForQueryParam c url queryParams headers ''POST''"

definition GetJson ::
  "im_context \<Rightarrow> string \<Rightarrow> (string \<times> string) list \<Rightarrow> (string \<times> string) list \<Rightarrow> (string + string) \<times> rest_Request list" where
  "GetJson c url queryParams headers =
     (let request = \<lparr>rq_Method = ''GET'', rq_BaseURL = url, rq_QueryParams = queryParams, rq_Body = [], rq_Headers = headers\<rparr>
      in (case im_API c request of Inl err \<Rightarrow> Inl err | Inr response \<Rightarrow> Inr (rs_Body response), [request]))"

section \<open>Forms\<close>

text \<open>
  A POST of the HTTP client: address, body and headers, in the order they are set (a later one replaces an earlier one of
  the same name); the answer is an error of the transport, or the status and the body or the error of reading it.
\<close>

type_synonym http_Do = "string \<Rightarrow> string \<Rightarrow> (string \<times> string) list \<Rightarrow> string + int \<times> (string + string)"

definition form_header :: "string \<times> string" where
  "form_header = (''Content-Type'', ''application/x-www-form-urlencoded'')"

definition form_body :: "(string \<times> string) list \<Rightarrow> string" where
  "form_body params =
     (let queryStr = fold (\<lambda>(key, v) queryStr. key @ ''='' @ v @ ''&'' @ queryStr) params []
      in if length queryStr > 0 then butlast queryStr else queryStr)"

datatype form_error = HttpError string | StatusError int | FormJson json_error

definition PostForWWWFormForBytres ::
  "http_Do \<Rightarrow> string \<Rightarrow> (string \<times> string) list \<Rightarrow> (string \<times> string) list \<Rightarrow> string option \<times> form_error option" where
  "PostForWWWFormForBytres Do urlStr params headers =
     (case Do urlStr (form_body params) (headers @ [form_header]) of
        Inl err \<Rightarrow> (None, Some (HttpError err))
      | Inr (status, Inl err) \<Rightarrow> (None, Some (HttpError err))
      | Inr (status, Inr body) \<Rightarrow> (Some body, if status \<noteq> 200 then Some (StatusError status) else None))"

definition PostForWWWForm ::
  "http_Do \<Rightarrow> string \<Rightarrow> (string \<times> string) list \<Rightarrow> (string \<times> string) list \<Rightarrow> form_error + (string \<times> json) list option" where
  "PostForWWWForm Do urlStr params headers =
     (case PostForWWWFormForBytres Do urlStr params headers of
        (_, Some err) \<Rightarrow> Inl err
      | (body, None) \<Rightarrow>
          (case ReadJsonByByte dec_map (case body of None \<Rightarrow> [] | Some b \<Rightarrow> b) of
             Inl err \<Rightarrow> Inl (FormJson err)
           | Inr resultMap \<Rightarrow> Inr resultMap))"

definition PostForWWWFormForAll ::
  "http_Do \<Rightarrow> string \<Rightarrow> string \<Rightarrow> (string \<times> string) list \<Rightarrow> string option \<times> form_error option" where
  "PostForWWWFormForAll Do urlStr bodyData headers =
     (case Do urlStr bodyData (headers @ [form_header]) of
        Inl err \<Rightarrow> (None, Some (HttpError err))
      | Inr (status, Inl err) \<Rightarrow> (None, Some (HttpError err))
      | Inr (status, Inr body) \<Rightarrow> if status \<noteq> 200 then (None, Some (StatusError status)) else (Some body, None))"

definition PostForWWWFormReXML ::
  "http_Do \<Rightarrow> string \<Rightarrow> (string \<times> string) list \<Rightarrow> (string \<times> string) list \<Rightarrow> string option \<times> form_error option" where
  "PostForWWWFormReXML Do urlStr params headers =
     (case Do urlStr (form_body params) (headers @ [form_header]) of
        Inl err \<Rightarrow> (None, Some (HttpError err))
      | Inr (status, Inl err) \<Rightarrow> (Some [], Some (HttpError err))
      | Inr (status, Inr body) \<Rightarrow> (Some body, None))"

section \<open>What the receiver sees\<close>

text \<open>A form as its receiver reads it: pieces between ampersands, each cut at its first equals sign (no escapes here).\<close>

definition form_pair :: "string \<Rightarrow> string \<times> string" where
  "form_pair p = (takeWhile (\<lambda>ch. ch \<noteq> CHR ''='') p, tl (dropWhile (\<lambda>ch. ch \<noteq> CHR ''='') p))"

definition form_read :: "string \<Rightarrow> (string \<times> string) list" where
  "form_read body = map form_pair (filter (\<lambda>p. p \<noteq> []) (split_on (CHR ''&'') body))"

lemma form_body_fold:
  "fold (\<lambda>(key, v) queryStr. key @ ''='' @ v @ ''&'' @ queryStr) params acc = concat (map (\<lambda>(k, v). k @ ''='' @ v @ ''&'') (rev params)) @ acc"
  by (induction params arbitrary: acc) auto

lemma butlast_pieces: "ps \<noteq> [] \<Longrightarrow> butlast (concat (map (\<lambda>(k, v). k @ ''='' @ v @ ''&'') ps)) = join ''&'' (map (\<lambda>(k, v). k @ ''='' @ v) ps)"
proof (induction ps)
  case (Cons p ps)
  show ?case
  proof (cases ps)
    case Nil
    then show ?thesis by (cases p) (simp add: butlast_append)
  next
    case (Cons q qs)
    then have "concat (map (\<lambda>(k, v). k @ ''='' @ v @ ''&'') ps) \<noteq> []" by (cases q) simp
    with Cons.IH Cons show ?thesis by (cases p) (simp add: butlast_append)
  qed
qed simp

lemma form_body_join: "form_body params = join ''&'' (map (\<lambda>(k, v). k @ ''='' @ v) (rev params))"
proof (cases "params = []")
  case False
  then have "concat (map (\<lambda>(k, v). k @ ''='' @ v @ ''&'') (rev params)) \<noteq> []" by (cases params) (auto split: prod.splits)
  moreover have "rev params \<noteq> []" using False by simp
  ultimately show ?thesis unfolding form_body_def form_body_fold Let_def append_Nil2 by (simp only: butlast_pieces length_greater_0_conv not_False_eq_True if_True)
qed (simp add: form_body_def)

lemma form_pair_sep: "CHR ''='' \<notin> set k \<Longrightarrow> form_pair (k @ CHR ''='' # v) = (k, v)"
  by (simp add: form_pair_def takeWhile_append dropWhile_append)

text \<open>
  The parameters of a form arrive as they were given, last first, if no name holds an ampersand or an equals sign and no
  value holds an ampersand.
\<close>

theorem form_roundtrip:
  assumes "\<forall>(k, v)\<in>set params. CHR ''&'' \<notin> set k \<and> CHR ''='' \<notin> set k \<and> CHR ''&'' \<notin> set v"
  shows "form_read (form_body params) = rev params"
proof (cases "params = []")
  case True
  then show ?thesis by (simp add: form_body_def form_read_def)
next
  case False
  let ?ps = "map (\<lambda>(k, v). k @ ''='' @ v) (rev params)"
  have "split_on (CHR ''&'') (join [CHR ''&''] ?ps) = ?ps"
    using assms False by (intro split_on_join) (auto simp: split: prod.splits)
  then have "split_on (CHR ''&'') (form_body params) = ?ps" by (simp add: form_body_join)
  moreover have "filter (\<lambda>p. p \<noteq> []) ?ps = ?ps" by (auto simp: filter_id_conv)
  moreover have "map form_pair ?ps = rev params"
    using assms by (auto intro!: map_idI simp: form_pair_sep comp_def split: prod.splits)
  ultimately show ?thesis by (simp add: form_read_def)
qed

theorem form_roundtrip_witness:
  "form_read (form_body [(''mobile'', ''138''), (''text'', ''a=b'')]) = [(''text'', ''a=b''), (''mobile'', ''138'')]"
  using form_roundtrip [of "[(''mobile'', ''138''), (''text'', ''a=b'')]"] by simp

text \<open>
  Nothing is escaped.  A value that holds an ampersand adds parameters of its own choice.
\<close>

lemma form_injection:
  assumes "CHR ''&'' \<notin> set k" "CHR ''='' \<notin> set k" "CHR ''&'' \<notin> set v" "CHR ''&'' \<notin> set k'" "CHR ''='' \<notin> set k'" "CHR ''&'' \<notin> set v'"
  shows "form_read (form_body [(k, v @ ''&'' @ k' @ ''='' @ v')]) = [(k, v), (k', v')]"
proof -
  have "form_body [(k, v @ ''&'' @ k' @ ''='' @ v')] = (k @ CHR ''='' # v) @ CHR ''&'' # (k' @ CHR ''='' # v')"
    by (simp add: form_body_join)
  moreover have "split_on (CHR ''&'') ((k @ CHR ''='' # v) @ CHR ''&'' # (k' @ CHR ''='' # v')) =
      (k @ CHR ''='' # v) # split_on (CHR ''&'') (k' @ CHR ''='' # v')"
    using assms by (intro split_on_append_sep) simp
  ultimately have "split_on (CHR ''&'') (form_body [(k, v @ ''&'' @ k' @ ''='' @ v')]) = [k @ CHR ''='' # v, k' @ CHR ''='' # v']"
    using assms by (simp add: split_on_no_sep)
  with assms show ?thesis by (simp add: form_read_def form_pair_sep)
qed

end
