(* ===== verification/Intranet.thy ===== *)
theory Intranet
  imports Ip_Addr Config
begin

text \<open>
  The addresses of the host (\<^verbatim>\<open>GetIntranetIP\<close> of \<^verbatim>\<open>pkg/util/ip.go\<close>) and what the configuration makes of them.  The list of
  network interfaces is what the operating system answers.
\<close>

section \<open>Interfaces\<close>

text \<open>An address is a network or a plain one, with the bytes of its IP (\<open>None\<close> is nil), or of another type.\<close>

datatype net_Addr = IPNet "nat list option" | IPAddr "nat list option" | OtherAddr

record Interface =
  if_Name :: string
  if_Up :: bool
  if_Loopback :: bool
  if_Addrs :: "string + net_Addr list"

definition To4 :: "nat list \<Rightarrow> nat list option" where
  "To4 ip =
     (if length ip = 4 then Some ip
      else if length ip = 16 \<and> take 12 ip = replicate 10 0 @ [255, 255] then Some (drop 12 ip)
      else None)"

definition IsLoopback :: "nat list \<Rightarrow> bool" where
  "IsLoopback ip = (case To4 ip of Some ip4 \<Rightarrow> ip4 ! 0 = 127 | None \<Rightarrow> ip = replicate 15 0 @ [1])"

fun addr_ip :: "net_Addr \<Rightarrow> nat list option" where
  "addr_ip (IPNet ip) = ip"
| "addr_ip (IPAddr ip) = ip"
| "addr_ip OtherAddr = None"

fun addrs_loop :: "net_Addr list \<Rightarrow> string list \<Rightarrow> string list" where
  "addrs_loop [] ips = ips"
| "addrs_loop (addr # addrs) ips =
     (case addr_ip addr of
        None \<Rightarrow> addrs_loop addrs ips
      | Some ip \<Rightarrow>
          if IsLoopback ip then addrs_loop addrs ips
          else case To4 ip of
                 None \<Rightarrow> addrs_loop addrs ips
               | Some ip4 \<Rightarrow>
                   if IsIntranet (print_ipv4 ip4) then addrs_loop addrs (ips @ [print_ipv4 ip4]) else addrs_loop addrs ips)"

definition if_skipped :: "Interface \<Rightarrow> bool" where
  "if_skipped f \<longleftrightarrow> \<not> if_Up f \<or> if_Loopback f \<or> HasPrefix (if_Name f) ''docker'' \<or> HasPrefix (if_Name f) ''w-''"

text \<open>The addresses found so far are returned beside an error.\<close>

fun ifaces_loop :: "Interface list \<Rightarrow> string list \<Rightarrow> string list \<times> string option" where
  "ifaces_loop [] ips = (ips, None)"
| "ifaces_loop (f # ifaces) ips =
     (if if_skipped f then ifaces_loop ifaces ips
      else case if_Addrs f of
             Inl e \<Rightarrow> (ips, Some e)
           | Inr addrs \<Rightarrow> ifaces_loop ifaces (addrs_loop addrs ips))"

definition GetIntranetIP :: "string + Interface list \<Rightarrow> string list \<times> string option" where
  "GetIntranetIP Interfaces = (case Interfaces of Inl e \<Rightarrow> ([], Some e) | Inr ifaces \<Rightarrow> ifaces_loop ifaces [])"

text \<open>The result in the form \<open>getIntranetIP\<close> takes it.\<close>

definition intranet_result :: "string list \<times> string option \<Rightarrow> string + string list" where
  "intranet_result r = (case snd r of Some e \<Rightarrow> Inl e | None \<Rightarrow> Inr (fst r))"

section \<open>Properties\<close>

definition private_ipv4 :: "nat list \<Rightarrow> bool" where
  "private_ipv4 ip \<longleftrightarrow> (\<exists>a b c d. ip = [a, b, c, d] \<and> (a = 10 \<or> a = 172 \<and> 16 \<le> b \<and> b \<le> 31 \<or> a = 192 \<and> b = 168))"

definition bytes_ok :: "Interface \<Rightarrow> bool" where
  "bytes_ok f \<longleftrightarrow> (\<forall>addrs addr ip. if_Addrs f = Inr addrs \<longrightarrow> addr \<in> set addrs \<longrightarrow> addr_ip addr = Some ip \<longrightarrow> (\<forall>n\<in>set ip. n \<le> 255))"

lemma To4_four: "To4 ip = Some ip4 \<Longrightarrow> length ip4 = 4 \<and> set ip4 \<subseteq> set ip"
  by (auto simp: To4_def split: if_splits dest: in_set_dropD)

lemma intranet_private:
  assumes "To4 ip = Some ip4" "\<forall>n\<in>set ip. n \<le> 255"
  shows "IsIntranet (print_ipv4 ip4) \<longleftrightarrow> private_ipv4 ip4"
proof -
  have "length ip4 = Suc (Suc (Suc (Suc 0)))" using To4_four [OF assms(1)] by simp
  then obtain a b c d where q: "ip4 = [a, b, c, d]" by (auto simp: length_Suc_conv)
  have "b \<le> 255" using To4_four [OF assms(1)] assms(2) q by auto
  then show ?thesis unfolding q by (auto simp: IsIntranet_correct private_ipv4_def)
qed

text \<open>The private addresses of a list, in order.\<close>

definition private_of :: "net_Addr list \<Rightarrow> string list" where
  "private_of addrs =
     map print_ipv4 (filter private_ipv4
       (List.map_filter (\<lambda>a. case addr_ip a of None \<Rightarrow> None | Some ip \<Rightarrow> To4 ip) addrs))"

lemma private_not_loopback: "To4 ip = Some ip4 \<Longrightarrow> private_ipv4 ip4 \<Longrightarrow> \<not> IsLoopback ip"
  by (auto simp: IsLoopback_def private_ipv4_def)

lemma addrs_loop_private:
  assumes "\<forall>a\<in>set addrs. \<forall>ip. addr_ip a = Some ip \<longrightarrow> (\<forall>n\<in>set ip. n \<le> 255)"
  shows "addrs_loop addrs ips = ips @ private_of addrs"
  using assms
proof (induction addrs arbitrary: ips)
  case (Cons a addrs)
  show ?case
  proof (cases "addr_ip a")
    case None
    with Cons show ?thesis by (simp add: private_of_def map_filter_simps)
  next
    case (Some ip)
    then have b: "\<forall>n\<in>set ip. n \<le> 255" using Cons.prems by auto
    show ?thesis
    proof (cases "To4 ip")
      case None
      with Some Cons show ?thesis by (simp add: private_of_def map_filter_simps)
    next
      case (Some ip4)
      with \<open>addr_ip a = Some ip\<close> Cons intranet_private [OF Some b] private_not_loopback [OF Some] show ?thesis
        by (auto simp: private_of_def map_filter_simps)
    qed
  qed
qed (simp add: private_of_def map_filter_simps)

lemma ifaces_loop_private:
  assumes "\<forall>f\<in>set ifaces. bytes_ok f \<and> (\<exists>addrs. if_Addrs f = Inr addrs)"
  shows "ifaces_loop ifaces ips =
    (ips @ concat (map (\<lambda>f. private_of (projr (if_Addrs f))) (filter (\<lambda>f. \<not> if_skipped f) ifaces)), None)"
  using assms
proof (induction ifaces arbitrary: ips)
  case (Cons f ifaces)
  then obtain addrs where "if_Addrs f = Inr addrs" "\<forall>a\<in>set addrs. \<forall>ip. addr_ip a = Some ip \<longrightarrow> (\<forall>n\<in>set ip. n \<le> 255)"
    by (auto simp: bytes_ok_def)
  with Cons show ?case by (simp add: addrs_loop_private)
qed simp

text \<open>
  The addresses of a host whose interfaces can all be asked are its RFC 1918 IPv4 addresses, in the order of the interfaces
  and without those of interfaces that are down, loop back or belong to containers; \<^verbatim>\<open>getIntranetIP\<close> then is the first of
  them, or empty.  If an interface cannot be asked, the configuration panics with its error.
\<close>

theorem intranet_addresses:
  assumes "\<forall>f\<in>set ifaces. bytes_ok f"
  shows "((\<forall>f\<in>set ifaces. \<exists>addrs. if_Addrs f = Inr addrs) \<longrightarrow>
      getIntranetIP (intranet_result (GetIntranetIP (Inr ifaces))) =
        (case concat (map (\<lambda>f. private_of (projr (if_Addrs f))) (filter (\<lambda>f. \<not> if_skipped f) ifaces)) of [] \<Rightarrow> Ret [] | ip # _ \<Rightarrow> Ret ip)) \<and>
    getIntranetIP (intranet_result (GetIntranetIP (Inl e))) = Panic e"
proof (intro conjI impI)
  assume "\<forall>f\<in>set ifaces. \<exists>addrs. if_Addrs f = Inr addrs"
  with assms have "ifaces_loop ifaces [] =
      (concat (map (\<lambda>f. private_of (projr (if_Addrs f))) (filter (\<lambda>f. \<not> if_skipped f) ifaces)), None)" (is "_ = (?ips, None)")
    using ifaces_loop_private [of ifaces "[]"] by simp
  then show "getIntranetIP (intranet_result (GetIntranetIP (Inr ifaces))) = (case ?ips of [] \<Rightarrow> Ret [] | ip # _ \<Rightarrow> Ret ip)"
    by (cases ?ips) (simp_all only: GetIntranetIP_def intranet_result_def getIntranetIP_def sum.case fst_conv snd_conv option.case list.case
        list.size nth_Cons_0 if_True if_False, simp_all)
qed (simp add: GetIntranetIP_def intranet_result_def getIntranetIP_def)

definition demo_ifaces :: "Interface list" where
  "demo_ifaces =
     [\<lparr>if_Name = ''lo'', if_Up = True, if_Loopback = True, if_Addrs = Inr [IPNet (Some [127, 0, 0, 1])]\<rparr>,
      \<lparr>if_Name = ''docker0'', if_Up = True, if_Loopback = False, if_Addrs = Inr [IPNet (Some [172, 17, 0, 1])]\<rparr>,
      \<lparr>if_Name = ''eth0'', if_Up = True, if_Loopback = False, if_Addrs = Inr [IPNet (Some [8, 8, 8, 8]), IPNet (Some [10, 0, 0, 7])]\<rparr>]"

theorem intranet_addresses_witness:
  "getIntranetIP (intranet_result (GetIntranetIP (Inr demo_ifaces))) = Ret ''10.0.0.7''"
proof -
  have "\<forall>f\<in>set demo_ifaces. bytes_ok f" by (simp add: demo_ifaces_def bytes_ok_def)
  moreover have "\<forall>f\<in>set demo_ifaces. \<exists>addrs. if_Addrs f = Inr addrs" by (simp add: demo_ifaces_def)
  moreover have "concat (map (\<lambda>f. private_of (projr (if_Addrs f))) (filter (\<lambda>f. \<not> if_skipped f) demo_ifaces)) = [''10.0.0.7'']"
  proof -
    have "print_ipv4 [10, 0, 0, 7] = ''10.0.0.7''" by code_simp
    then show ?thesis
      by (simp add: demo_ifaces_def if_skipped_def HasPrefix_def private_of_def map_filter_simps To4_def private_ipv4_def)
  qed
  ultimately show ?thesis using intranet_addresses [of demo_ifaces] by simp
qed

end
