(* ===== verification/Logging.thy ===== *)
theory Logging
  imports Config
begin

text \<open>
  The loggers (\<^verbatim>\<open>pkg/log/logger.go\<close>, \<^verbatim>\<open>options.go\<close>): which entries go where, and their lazy configuration by concurrent callers.
  The library zap is a test of levels and a list of sinks; the layout of an entry is not modelled.
\<close>

section \<open>Loggers\<close>

text \<open>The levels of zap as numbers: debug -1, info 0, warn 1, error 2.\<close>

definition DebugLevel :: int where "DebugLevel = -1"

definition InfoLevel :: int where "InfoLevel = 0"

definition WarnLevel :: int where "WarnLevel = 1"

definition ErrorLevel :: int where "ErrorLevel = 2"

record Options =
  lo_Level :: int
  lo_LogDir :: string
  lo_LineNum :: bool

definition NewOptions :: Options where
  "NewOptions = \<lparr>lo_Level = 0, lo_LogDir = [], lo_LineNum = False\<rparr>"

text \<open>What a logger lets through: entries at or above the shared level, or at or above its own.\<close>

datatype enabler = Shared | AtLeast int

text \<open>A logger writes to standard output and, if it has one, to a file.\<close>

record zap_Logger =
  zl_File :: "string option"
  zl_Enabler :: enabler
  zl_Caller :: bool

record loggerSet =
  infoLogger :: zap_Logger
  errorLogger :: zap_Logger
  warnLogger :: zap_Logger
  testLogger :: zap_Logger

text \<open>The variables of the package: the published loggers and the shared level.\<close>

record log_state =
  lg_loggers :: "loggerSet option"
  lg_atom :: int

definition log_init :: log_state where
  "log_init = \<lparr>lg_loggers = None, lg_atom = 0\<rparr>"

definition build_loggers :: "Options \<Rightarrow> loggerSet" where
  "build_loggers opts =
     \<lparr>infoLogger = \<lparr>zl_File = Some (path_Join [lo_LogDir opts, ''info.log'']), zl_Enabler = Shared, zl_Caller = lo_LineNum opts\<rparr>,
      errorLogger = \<lparr>zl_File = Some (path_Join [lo_LogDir opts, ''error.log'']), zl_Enabler = AtLeast ErrorLevel, zl_Caller = lo_LineNum opts\<rparr>,
      warnLogger = \<lparr>zl_File = Some (path_Join [lo_LogDir opts, ''warn.log'']), zl_Enabler = AtLeast WarnLevel, zl_Caller = lo_LineNum opts\<rparr>,
      testLogger = \<lparr>zl_File = None, zl_Enabler = Shared, zl_Caller = lo_LineNum opts\<rparr>\<rparr>"

definition configureLocked :: "Options \<Rightarrow> log_state \<Rightarrow> loggerSet \<times> log_state" where
  "configureLocked opts s =
     (let s = s\<lparr>lg_atom := lo_Level opts\<rparr>; set = build_loggers opts
      in (set, s\<lparr>lg_loggers := Some set\<rparr>))"

definition Configure :: "Options \<Rightarrow> log_state \<Rightarrow> log_state" where
  "Configure opts s = snd (configureLocked opts s)"

text \<open>The part of \<^verbatim>\<open>current\<close> under the lock: look again, and configure only if there is still nothing.\<close>

definition current_locked :: "log_state \<Rightarrow> loggerSet \<times> log_state" where
  "current_locked s = (case lg_loggers s of Some ls \<Rightarrow> (ls, s) | None \<Rightarrow> configureLocked NewOptions s)"

definition current :: "log_state \<Rightarrow> loggerSet \<times> log_state" where
  "current s = (case lg_loggers s of Some ls \<Rightarrow> (ls, s) | None \<Rightarrow> current_locked s)"

section \<open>Entries\<close>

text \<open>An entry that is written: level, text, and the file it goes to beside standard output.\<close>

type_synonym log_entry = "int \<times> string \<times> string option"

definition zap_write :: "zap_Logger \<Rightarrow> int \<Rightarrow> string \<Rightarrow> log_state \<Rightarrow> log_entry list" where
  "zap_write l lvl msg s =
     (if lvl \<ge> (case zl_Enabler l of Shared \<Rightarrow> lg_atom s | AtLeast n \<Rightarrow> n) then [(lvl, msg, zl_File l)] else [])"

definition log_Info :: "string \<Rightarrow> log_state \<Rightarrow> log_entry list \<times> log_state" where
  "log_Info msg s = (let (ls, s) = current s in (zap_write (infoLogger ls) InfoLevel msg s, s))"

definition log_Debug :: "string \<Rightarrow> log_state \<Rightarrow> log_entry list \<times> log_state" where
  "log_Debug msg s = (let (ls, s) = current s in (zap_write (infoLogger ls) DebugLevel msg s, s))"

definition log_Error :: "string \<Rightarrow> log_state \<Rightarrow> log_entry list \<times> log_state" where
  "log_Error msg s = (let (ls, s) = current s in (zap_write (errorLogger ls) ErrorLevel msg s, s))"

definition log_Warn :: "string \<Rightarrow> log_state \<Rightarrow> log_entry list \<times> log_state" where
  "log_Warn msg s = (let (ls, s) = current s in (zap_write (warnLogger ls) WarnLevel msg s, s))"

text \<open>The prefix of a module, in lenticular brackets.\<close>

definition TLog_text :: "string \<Rightarrow> string \<Rightarrow> string" where
  "TLog_text prefix msg = map char_of [0xE3, 0x80, 0x90 :: nat] @ prefix @ map char_of [0xE3, 0x80, 0x91 :: nat] @ msg"

definition TLog_Info :: "string \<Rightarrow> string \<Rightarrow> log_state \<Rightarrow> log_entry list \<times> log_state" where
  "TLog_Info prefix msg s = log_Info (TLog_text prefix msg) s"

definition TLog_Debug :: "string \<Rightarrow> string \<Rightarrow> log_state \<Rightarrow> log_entry list \<times> log_state" where
  "TLog_Debug prefix msg s = log_Debug (TLog_text prefix msg) s"

definition TLog_Error :: "string \<Rightarrow> string \<Rightarrow> log_state \<Rightarrow> log_entry list \<times> log_state" where
  "TLog_Error prefix msg s = log_Error (TLog_text prefix msg) s"

definition TLog_Warn :: "string \<Rightarrow> string \<Rightarrow> log_state \<Rightarrow> log_entry list \<times> log_state" where
  "TLog_Warn prefix msg s = log_Warn (TLog_text prefix msg) s"

section \<open>Concurrent configuration\<close>

text \<open>
  A goroutine in \<^verbatim>\<open>current\<close> first reads the pointer; if it saw nil it goes on under the lock, by which time others may have
  configured the loggers.  The system remembers what was configured explicitly, last, and what each call has returned.
\<close>

record log_sys =
  sy_state :: log_state
  sy_waiting :: "nat set"
  sy_explicit :: "Options option"
  sy_returned :: "loggerSet list"

definition log_sys_init :: log_sys where
  "log_sys_init = \<lparr>sy_state = log_init, sy_waiting = {}, sy_explicit = None, sy_returned = []\<rparr>"

inductive log_step :: "log_sys \<Rightarrow> log_sys \<Rightarrow> bool" where
  fast: "t \<notin> sy_waiting y \<Longrightarrow> lg_loggers (sy_state y) = Some ls \<Longrightarrow> log_step y (y\<lparr>sy_returned := ls # sy_returned y\<rparr>)"
| slow: "t \<notin> sy_waiting y \<Longrightarrow> lg_loggers (sy_state y) = None \<Longrightarrow> log_step y (y\<lparr>sy_waiting := insert t (sy_waiting y)\<rparr>)"
| locked: "t \<in> sy_waiting y \<Longrightarrow> current_locked (sy_state y) = (ls, s) \<Longrightarrow>
    log_step y (y\<lparr>sy_state := s, sy_waiting := sy_waiting y - {t}, sy_returned := ls # sy_returned y\<rparr>)"
| configure: "log_step y (y\<lparr>sy_state := Configure opts (sy_state y), sy_explicit := Some opts\<rparr>)"

definition log_inv :: "log_sys \<Rightarrow> bool" where
  "log_inv y \<longleftrightarrow>
     (case sy_explicit y of
        None \<Rightarrow> lg_loggers (sy_state y) = None \<or> lg_loggers (sy_state y) = Some (build_loggers NewOptions)
      | Some opts \<Rightarrow> lg_loggers (sy_state y) = Some (build_loggers opts) \<and> lg_atom (sy_state y) = lo_Level opts) \<and>
     (lg_loggers (sy_state y) = None \<longrightarrow> sy_returned y = []) \<and>
     (\<forall>ls\<in>set (sy_returned y). \<exists>opts. ls = build_loggers opts)"

lemmas configure_defs_log = configureLocked_def Configure_def current_locked_def Let_def

lemma log_inv_step: "log_step y y' \<Longrightarrow> log_inv y \<Longrightarrow> log_inv y'"
proof (induction rule: log_step.induct)
  case (fast t y ls)
  then show ?case by (auto simp: log_inv_def split: option.splits)
next
  case (locked t y ls s)
  then show ?case by (auto simp: log_inv_def configure_defs_log split: option.splits)
qed (auto simp: log_inv_def configure_defs_log split: option.splits)

lemma log_inv_reachable: "log_step\<^sup>*\<^sup>* log_sys_init y \<Longrightarrow> log_inv y"
  by (induction rule: rtranclp_induct) (auto simp: log_inv_step, simp add: log_inv_def log_sys_init_def log_init_def)

text \<open>
  C34: Lazy configuration is safe: however callers and configurations interleave, a call returns loggers that were built
  completely from some options, and once the loggers have been configured explicitly the published ones and the level are
  those of the last such configuration; a caller that found nothing before it never puts the defaults back.
\<close>

theorem lazy_logging_safe:
  assumes "log_step\<^sup>*\<^sup>* log_sys_init y"
  shows "(\<forall>ls\<in>set (sy_returned y). \<exists>opts. ls = build_loggers opts) \<and>
    (\<forall>opts. sy_explicit y = Some opts \<longrightarrow>
       lg_loggers (sy_state y) = Some (build_loggers opts) \<and> lg_atom (sy_state y) = lo_Level opts)"
  using log_inv_reachable [OF assms] by (auto simp: log_inv_def)

text \<open>A caller finds nothing, the loggers are configured for debugging, and the caller goes on.\<close>

definition demo_opts :: Options where
  "demo_opts = \<lparr>lo_Level = -1, lo_LogDir = ''logs'', lo_LineNum = True\<rparr>"

definition late_run :: log_sys where
  "late_run =
     \<lparr>sy_state = \<lparr>lg_loggers = Some (build_loggers demo_opts), lg_atom = -1\<rparr>, sy_waiting = {},
      sy_explicit = Some demo_opts, sy_returned = [build_loggers demo_opts]\<rparr>"

theorem lazy_logging_safe_witness:
  "lg_loggers (sy_state late_run) = Some (build_loggers demo_opts) \<and> lg_atom (sy_state late_run) = -1"
proof -
  define y1 where "y1 = log_sys_init\<lparr>sy_waiting := {1}\<rparr>"
  define y2 where "y2 = y1\<lparr>sy_state := Configure demo_opts (sy_state y1), sy_explicit := Some demo_opts\<rparr>"
  have "log_step log_sys_init y1"
    using log_step.slow [of 1 log_sys_init] by (simp add: y1_def log_sys_init_def log_init_def)
  moreover have "log_step y1 y2" unfolding y2_def by (rule log_step.configure)
  moreover have "log_step y2 late_run"
    using log_step.locked [of 1 y2 "build_loggers demo_opts" "sy_state y2"]
    by (simp add: y1_def y2_def log_sys_init_def log_init_def late_run_def configure_defs_log demo_opts_def)
  ultimately have "log_step\<^sup>*\<^sup>* log_sys_init late_run" by (meson converse_rtranclp_into_rtranclp rtranclp.rtrancl_refl)
  from lazy_logging_safe [OF this] show ?thesis by (simp add: late_run_def demo_opts_def)
qed

text \<open>
  Which entries are written: information and debugging from the configured level on, to \<^verbatim>\<open>info.log\<close>; warnings and errors
  always, whatever the level is, each to its own file only.
\<close>

lemma log_levels:
  assumes "s = Configure opts s0"
  shows "fst (log_Debug m s) = (if lo_Level opts \<le> -1 then [(-1, m, Some (path_Join [lo_LogDir opts, ''info.log'']))] else [])"
    "fst (log_Info m s) = (if lo_Level opts \<le> 0 then [(0, m, Some (path_Join [lo_LogDir opts, ''info.log'']))] else [])"
    "fst (log_Warn m s) = [(1, m, Some (path_Join [lo_LogDir opts, ''warn.log'']))]"
    "fst (log_Error m s) = [(2, m, Some (path_Join [lo_LogDir opts, ''error.log'']))]"
  using assms
  by (simp_all add: log_Debug_def log_Info_def log_Warn_def log_Error_def current_def configure_defs_log build_loggers_def zap_write_def
      DebugLevel_def InfoLevel_def WarnLevel_def ErrorLevel_def)

end
