(* ===== verification/Server.thy ===== *)
theory Server
  imports Cors Service_Context Service_Modules Http_Pool
begin

text \<open>
  The routes of a server: the wrappers of gin in \<^verbatim>\<open>pkg/wkhttp/http.go\<close>, and \<^verbatim>\<open>server/server.go\<close>, which installs the middleware and
  the built-in routes and runs the listeners.  gin is an argument: its operations on an engine, and as an observer the chain
  of handlers that a request of a route runs.  The law is what its documentation says: a middleware belongs to the routes
  that are registered after it.
\<close>

section \<open>The router\<close>

text \<open>
  \<open>'e\<close> is an engine, \<open>'rg\<close> a group of routes, \<open>'k\<close> a handler of gin.  \<open>gin_handle\<close> stands for \<^verbatim>\<open>POST\<close>, \<^verbatim>\<open>GET\<close> and so on, which register a
  route for one method.
\<close>

record ('e, 'rg, 'k) gin =
  gin_New :: 'e
  gin_Recovery :: 'k
  gin_Use :: "'k list \<Rightarrow> 'e \<Rightarrow> 'e"
  gin_handle :: "string \<Rightarrow> string \<Rightarrow> 'k list \<Rightarrow> 'e \<Rightarrow> 'e"
  gin_Any :: "string \<Rightarrow> 'k list \<Rightarrow> 'e \<Rightarrow> 'e"
  gin_Static :: "string \<Rightarrow> string \<Rightarrow> 'e \<Rightarrow> 'e"
  gin_LoadHTMLGlob :: "string \<Rightarrow> 'e \<Rightarrow> 'e"
  gin_Group :: "string \<Rightarrow> 'k list \<Rightarrow> 'e \<Rightarrow> 'rg"
  group_handle :: "'rg \<Rightarrow> string \<Rightarrow> string \<Rightarrow> 'k list \<Rightarrow> 'e \<Rightarrow> 'e"
  gin_join :: "string \<Rightarrow> string \<Rightarrow> string"
  gin_Handlers :: "'e \<Rightarrow> 'k list"
  gin_route :: "'e \<Rightarrow> string \<times> string \<Rightarrow> 'k list option"

definition anyMethods :: "string list" where
  "anyMethods = [''GET'', ''POST'', ''PUT'', ''PATCH'', ''HEAD'', ''OPTIONS'', ''DELETE'', ''CONNECT'', ''TRACE'']"

text \<open>A static directory adds routes below its path only.\<close>

definition gin_static_law :: "('e, 'rg, 'k) gin \<Rightarrow> bool" where
  "gin_static_law g \<longleftrightarrow>
     (\<forall>p dir e. gin_Handlers g (gin_Static g p dir e) = gin_Handlers g e \<and>
        (\<forall>m q. \<not> HasPrefix q p \<longrightarrow> gin_route g (gin_Static g p dir e) (m, q) = gin_route g e (m, q)) \<and>
        (\<forall>r hs. gin_route g (gin_Static g p dir e) r = Some hs \<longrightarrow>
           gin_route g e r = Some hs \<or> (\<exists>file. hs = gin_Handlers g e @ [file])))"

definition gin_laws :: "('e, 'rg, 'k) gin \<Rightarrow> bool" where
  "gin_laws g \<longleftrightarrow>
     gin_Handlers g (gin_New g) = [] \<and> gin_route g (gin_New g) = Map.empty \<and>
     (\<forall>hs e. gin_Handlers g (gin_Use g hs e) = gin_Handlers g e @ hs \<and> gin_route g (gin_Use g hs e) = gin_route g e) \<and>
     (\<forall>m p hs e. gin_Handlers g (gin_handle g m p hs e) = gin_Handlers g e \<and>
        (gin_route g e (m, p) = None \<longrightarrow> gin_route g (gin_handle g m p hs e) = (gin_route g e)((m, p) \<mapsto> gin_Handlers g e @ hs))) \<and>
     (\<forall>p hs e. gin_Handlers g (gin_Any g p hs e) = gin_Handlers g e \<and>
        ((\<forall>m\<in>set anyMethods. gin_route g e (m, p) = None) \<longrightarrow>
          gin_route g (gin_Any g p hs e) =
            (\<lambda>(m, q). if q = p \<and> m \<in> set anyMethods then Some (gin_Handlers g e @ hs) else gin_route g e (m, q)))) \<and>
     gin_static_law g \<and>
     (\<forall>pat e. gin_Handlers g (gin_LoadHTMLGlob g pat e) = gin_Handlers g e \<and> gin_route g (gin_LoadHTMLGlob g pat e) = gin_route g e) \<and>
     (\<forall>base ghs e0 m p hs e. gin_Handlers g (group_handle g (gin_Group g base ghs e0) m p hs e) = gin_Handlers g e \<and>
        (gin_route g e (m, gin_join g base p) = None \<longrightarrow>
          gin_route g (group_handle g (gin_Group g base ghs e0) m p hs e) =
            (gin_route g e)((m, gin_join g base p) \<mapsto> gin_Handlers g e0 @ ghs @ hs)))"

section \<open>The wrappers\<close>

text \<open>A server of \<^verbatim>\<open>wkhttp\<close>: the engine and the way its handlers are wrapped, by the pool of contexts.\<close>

record ('e, 'rg, 'k, 'h) wk =
  wk_gin :: "('e, 'rg, 'k) gin"
  wk_wrap :: "'h \<Rightarrow> 'k"

abbreviation wk_handlers :: "('e, 'rg, 'k, 'h) wk \<Rightarrow> 'h list \<Rightarrow> 'k list" where
  "wk_handlers l \<equiv> handlersToGinHandleFuncs (wk_wrap l)"

lemma handlersToGinHandleFuncs_map [simp]: "handlersToGinHandleFuncs f hs = map f hs"
proof -
  have "fold (\<lambda>h ks. ks @ [f h]) hs ks = ks @ map f hs" for ks by (induction hs arbitrary: ks) simp_all
  then show ?thesis by (simp add: handlersToGinHandleFuncs_def)
qed

definition wkhttp_New :: "('e, 'rg, 'k, 'h) wk \<Rightarrow> 'e" where
  "wkhttp_New l = gin_Use (wk_gin l) [gin_Recovery (wk_gin l)] (gin_New (wk_gin l))"

definition WKHttp_POST :: "('e, 'rg, 'k, 'h) wk \<Rightarrow> string \<Rightarrow> 'h list \<Rightarrow> 'e \<Rightarrow> 'e" where
  "WKHttp_POST l relativePath handlers = gin_handle (wk_gin l) ''POST'' relativePath (wk_handlers l handlers)"

definition WKHttp_GET :: "('e, 'rg, 'k, 'h) wk \<Rightarrow> string \<Rightarrow> 'h list \<Rightarrow> 'e \<Rightarrow> 'e" where
  "WKHttp_GET l relativePath handlers = gin_handle (wk_gin l) ''GET'' relativePath (wk_handlers l handlers)"

definition WKHttp_Any :: "('e, 'rg, 'k, 'h) wk \<Rightarrow> string \<Rightarrow> 'h list \<Rightarrow> 'e \<Rightarrow> 'e" where
  "WKHttp_Any l relativePath handlers = gin_Any (wk_gin l) relativePath (wk_handlers l handlers)"

definition WKHttp_Static :: "('e, 'rg, 'k, 'h) wk \<Rightarrow> string \<Rightarrow> string \<Rightarrow> 'e \<Rightarrow> 'e" where
  "WKHttp_Static l relativePath dir = gin_Static (wk_gin l) relativePath dir"

definition WKHttp_LoadHTMLGlob :: "('e, 'rg, 'k, 'h) wk \<Rightarrow> string \<Rightarrow> 'e \<Rightarrow> 'e" where
  "WKHttp_LoadHTMLGlob l pattern = gin_LoadHTMLGlob (wk_gin l) pattern"

definition WKHttp_UseGin :: "('e, 'rg, 'k, 'h) wk \<Rightarrow> 'k list \<Rightarrow> 'e \<Rightarrow> 'e" where
  "WKHttp_UseGin l handlers = gin_Use (wk_gin l) handlers"

definition WKHttp_Use :: "('e, 'rg, 'k, 'h) wk \<Rightarrow> 'h list \<Rightarrow> 'e \<Rightarrow> 'e" where
  "WKHttp_Use l handlers = gin_Use (wk_gin l) (wk_handlers l handlers)"

record ('e, 'rg, 'k, 'h) RouterGroup =
  rg_RouterGroup :: 'rg
  rg_L :: "('e, 'rg, 'k, 'h) wk"

definition newRouterGroup :: "'rg \<Rightarrow> ('e, 'rg, 'k, 'h) wk \<Rightarrow> ('e, 'rg, 'k, 'h) RouterGroup" where
  "newRouterGroup g l = \<lparr>rg_RouterGroup = g, rg_L = l\<rparr>"

definition WKHttp_Group :: "('e, 'rg, 'k, 'h) wk \<Rightarrow> string \<Rightarrow> 'h list \<Rightarrow> 'e \<Rightarrow> ('e, 'rg, 'k, 'h) RouterGroup" where
  "WKHttp_Group l relativePath handlers e = newRouterGroup (gin_Group (wk_gin l) relativePath (wk_handlers l handlers) e) l"

definition RouterGroup_POST :: "('e, 'rg, 'k, 'h) RouterGroup \<Rightarrow> string \<Rightarrow> 'h list \<Rightarrow> 'e \<Rightarrow> 'e" where
  "RouterGroup_POST r relativePath handlers = group_handle (wk_gin (rg_L r)) (rg_RouterGroup r) ''POST'' relativePath (wk_handlers (rg_L r) handlers)"

definition RouterGroup_GET :: "('e, 'rg, 'k, 'h) RouterGroup \<Rightarrow> string \<Rightarrow> 'h list \<Rightarrow> 'e \<Rightarrow> 'e" where
  "RouterGroup_GET r relativePath handlers = group_handle (wk_gin (rg_L r)) (rg_RouterGroup r) ''GET'' relativePath (wk_handlers (rg_L r) handlers)"

definition RouterGroup_DELETE :: "('e, 'rg, 'k, 'h) RouterGroup \<Rightarrow> string \<Rightarrow> 'h list \<Rightarrow> 'e \<Rightarrow> 'e" where
  "RouterGroup_DELETE r relativePath handlers = group_handle (wk_gin (rg_L r)) (rg_RouterGroup r) ''DELETE'' relativePath (wk_handlers (rg_L r) handlers)"

definition RouterGroup_PUT :: "('e, 'rg, 'k, 'h) RouterGroup \<Rightarrow> string \<Rightarrow> 'h list \<Rightarrow> 'e \<Rightarrow> 'e" where
  "RouterGroup_PUT r relativePath handlers = group_handle (wk_gin (rg_L r)) (rg_RouterGroup r) ''PUT'' relativePath (wk_handlers (rg_L r) handlers)"

section \<open>The handlers of the server\<close>

text \<open>\<open>Process\<close> is the library \<^verbatim>\<open>secure\<close>: it may answer with a redirection, which it reports as an error.\<close>

record secure_Options =
  so_SSLRedirect :: bool
  so_SSLHost :: string

definition TlsHandler ::
  "(secure_Options \<Rightarrow> 'r Context \<Rightarrow> string option \<times> 'r Context) \<Rightarrow> string \<Rightarrow> 'r Context \<Rightarrow> 'r Context" where
  "TlsHandler Process sslAddr c =
     (let (err, c) = Process \<lparr>so_SSLRedirect = True, so_SSLHost = sslAddr\<rparr> c
      in if err \<noteq> None then c else do_call CallNext c)"

definition ping_handler :: "'r Context \<Rightarrow> 'r Context" where
  "ping_handler c = ResponseOK c"

text \<open>\<open>Param\<close> is the value of a parameter in the path, as the router matched it.\<close>

definition swagger_handler ::
  "('r Context \<Rightarrow> string \<Rightarrow> string) \<Rightarrow> ('c, 'w, 'a, 't, 'q, 'sv) registry \<Rightarrow> 'r Context \<Rightarrow> 'r Context" where
  "swagger_handler Param reg c =
     (let m = Param c ''module''; module = GetModuleByName m reg
      in if TrimSpace (m_Swagger module) = [] then do_call (CallStatus 404) c
         else do_call (CallString 200 (m_Swagger module)) c)"

text \<open>
  The middleware of a context authenticates against the cache on Redis.  The pointer to a cache that could not be opened is nil:
  then a request that needs the cache, one with a token and without an injected parser, panics.
\<close>

definition nil_cache :: "unit cache_ops" where
  "nil_cache = \<lparr>cache_Set = (\<lambda>_ _ m. (m, None)), cache_Delete = (\<lambda>_ m. (m, None)), cache_SetAndExpire = (\<lambda>_ _ _ m. (m, None)),
     cache_Get = (\<lambda>_ _. ([], None))\<rparr>"

definition Context_AuthMiddleware ::
  "('pool, 's, 'f) redis_env \<Rightarrow> ('p \<Rightarrow> string \<Rightarrow> token_error + UserInfo) \<Rightarrow> ('r, 'p) WKHttp \<Rightarrow> ('cn, 's, 'f, 'v) AppContext \<Rightarrow>
   ('s \<Rightarrow> 'r Context \<Rightarrow> 'r Context go) go \<times> ('cn, 's, 'f, 'v) AppContext" where
  "Context_AuthMiddleware env run r c =
     (let (cache, c) = Context_Cache env c; prefix = Cache_TokenCachePrefix (cfg_Cache (ac_cfg c))
      in (go_bind cache (\<lambda>cache. case cache of
            Some cache \<Rightarrow> Ret (\<lambda>s rq. Ret (AuthMiddleware run r (redis_ops cache) prefix s rq))
          | None \<Rightarrow> Ret (\<lambda>s rq. if hdr_Get (cx_req rq) ''Token'' \<noteq> [] \<and> getTokenParser r = None then Panic ''nil pointer dereference''
                               else Ret (AuthMiddleware run r nil_cache prefix () rq))), c))"

section \<open>The server\<close>

record 'e Server =
  sv_r :: 'e
  sv_sslAddr :: string
  sv_addr :: string
  sv_grpcAddr :: string

definition server_New :: "('e, 'rg, 'k, 'r Context \<Rightarrow> 'r Context) wk \<Rightarrow> Config \<Rightarrow> 'e Server" where
  "server_New l cfg =
     (let r = wkhttp_New l;
          r = WKHttp_Use l [CORSMiddleware] r
      in \<lparr>sv_r = r, sv_sslAddr = cfg_SSLAddr cfg, sv_addr = cfg_Addr cfg, sv_grpcAddr = cfg_GRPCAddr cfg\<rparr>)"

text \<open>\<open>Chdir\<close> is the system call; a service of Windows starts in the directory of its program.\<close>

definition server_Init :: "(string \<Rightarrow> string option) \<Rightarrow> bool \<Rightarrow> string \<Rightarrow> string option" where
  "server_Init Chdir IsWindowsService dir = (if IsWindowsService then Chdir dir else None)"

text \<open>
  What a run of the server does: the listeners it starts, each with the engine as it is then, and the error.  \<open>Run\<close> and \<open>RunTLS\<close>
  return when their listener ends; one started with \<^verbatim>\<open>go\<close> does not hold up the rest.
\<close>

datatype listen = Listen "string list" | ListenInBackground "string list" | ListenTLS string string string

record 'r server_env =
  se_Process :: "secure_Options \<Rightarrow> 'r Context \<Rightarrow> string option \<times> 'r Context"
  se_Param :: "'r Context \<Rightarrow> string \<Rightarrow> string"
  se_Run :: "string list \<Rightarrow> string option"
  se_RunTLS :: "string \<Rightarrow> string \<Rightarrow> string \<Rightarrow> string option"
  se_Getwd :: string

definition builtin_routes ::
  "('e, 'rg, 'k, 'r Context \<Rightarrow> 'r Context) wk \<Rightarrow> 'r server_env \<Rightarrow> ('c, 'w, 'a, 't, 'q, 'sv) registry \<Rightarrow> 'e \<Rightarrow> 'e" where
  "builtin_routes l env reg e =
     (let e = WKHttp_Static l ''/web'' ''./assets/web'' e;
          e = WKHttp_Any l ''/v1/ping'' [ping_handler] e
      in WKHttp_Any l ''/swagger/:module'' [swagger_handler (se_Param env) reg] e)"

definition server_run ::
  "('e, 'rg, 'k, 'r Context \<Rightarrow> 'r Context) wk \<Rightarrow> 'r server_env \<Rightarrow> ('c, 'w, 'a, 't, 'q, 'sv) registry \<Rightarrow> string \<Rightarrow> string list \<Rightarrow>
   'e Server \<Rightarrow> string option \<times> (listen \<times> 'e) list \<times> 'e Server" where
  "server_run l env reg sslAddr addr s =
     (let s = s\<lparr>sv_r := builtin_routes l env reg (sv_r s)\<rparr>;
          (err, out) = (if addr \<noteq> []
                        then if sslAddr \<noteq> [] then (None, [(ListenInBackground addr, sv_r s)])
                             else (se_Run env addr, [(Listen addr, sv_r s)])
                        else (None, []))
      in if err \<noteq> None then (err, out, s)
         else if sslAddr \<noteq> []
         then let s = s\<lparr>sv_r := WKHttp_Use l [TlsHandler (se_Process env) sslAddr] (sv_r s)\<rparr>;
                  pem = se_Getwd env @ ''/assets/ssl/ssl.pem''; key = se_Getwd env @ ''/assets/ssl/ssl.key''
              in (se_RunTLS env sslAddr pem key, out @ [(ListenTLS sslAddr pem key, sv_r s)], s)
         else (None, out, s))"

text \<open>
  \<^verbatim>\<open>Start\<close> runs the listeners in the background, where an error is a panic, and starts the modules.
\<close>

definition server_background ::
  "('e, 'rg, 'k, 'r Context \<Rightarrow> 'r Context) wk \<Rightarrow> 'r server_env \<Rightarrow> ('c, 'w, 'a, 't, 'q, 'sv) registry \<Rightarrow> 'e Server \<Rightarrow> unit go" where
  "server_background l env reg s =
     (case fst (server_run l env reg (sv_sslAddr s) [sv_addr s] s) of None \<Rightarrow> Ret () | Some err \<Rightarrow> Panic err)"

definition server_Start ::
  "'c \<Rightarrow> ('c, 'w, 'a, 't, 'q, 'sv) registry \<Rightarrow> 'w \<Rightarrow> (string option \<times> 'w) \<times> ('c, 'w, 'a, 't, 'q, 'sv) registry" where
  "server_Start ctx reg w = Start ctx reg w"

definition server_Stop ::
  "'c \<Rightarrow> ('c, 'w, 'a, 't, 'q, 'sv) registry \<Rightarrow> 'w \<Rightarrow> (string option \<times> 'w) \<times> ('c, 'w, 'a, 't, 'q, 'sv) registry" where
  "server_Stop ctx reg w = Stop ctx reg w"

definition GetRoute :: "'e Server \<Rightarrow> 'e" where
  "GetRoute s = sv_r s"

section \<open>Which handlers a route runs\<close>

text \<open>
  What an application does with its server before it is run.  gin panics if a route is registered twice, so a route that is
  registered is new.
\<close>

inductive wk_built :: "('e, 'rg, 'k, 'r Context \<Rightarrow> 'r Context) wk \<Rightarrow> Config \<Rightarrow> 'e \<Rightarrow> bool" for l cfg where
  new: "wk_built l cfg (GetRoute (server_New l cfg))"
| post: "wk_built l cfg e \<Longrightarrow> gin_route (wk_gin l) e (''POST'', p) = None \<Longrightarrow> wk_built l cfg (WKHttp_POST l p hs e)"
| get: "wk_built l cfg e \<Longrightarrow> gin_route (wk_gin l) e (''GET'', p) = None \<Longrightarrow> wk_built l cfg (WKHttp_GET l p hs e)"
| any: "wk_built l cfg e \<Longrightarrow> \<forall>m\<in>set anyMethods. gin_route (wk_gin l) e (m, p) = None \<Longrightarrow> wk_built l cfg (WKHttp_Any l p hs e)"
| static: "wk_built l cfg e \<Longrightarrow> wk_built l cfg (WKHttp_Static l p dir e)"
| load: "wk_built l cfg e \<Longrightarrow> wk_built l cfg (WKHttp_LoadHTMLGlob l pat e)"
| use_gin: "wk_built l cfg e \<Longrightarrow> wk_built l cfg (WKHttp_UseGin l ks e)"
| use_wk: "wk_built l cfg e \<Longrightarrow> wk_built l cfg (WKHttp_Use l hs e)"
| group_post: "wk_built l cfg e0 \<Longrightarrow> wk_built l cfg e \<Longrightarrow> gin_route (wk_gin l) e (''POST'', gin_join (wk_gin l) base p) = None \<Longrightarrow>
    wk_built l cfg (RouterGroup_POST (WKHttp_Group l base ghs e0) p hs e)"
| group_get: "wk_built l cfg e0 \<Longrightarrow> wk_built l cfg e \<Longrightarrow> gin_route (wk_gin l) e (''GET'', gin_join (wk_gin l) base p) = None \<Longrightarrow>
    wk_built l cfg (RouterGroup_GET (WKHttp_Group l base ghs e0) p hs e)"
| group_delete: "wk_built l cfg e0 \<Longrightarrow> wk_built l cfg e \<Longrightarrow> gin_route (wk_gin l) e (''DELETE'', gin_join (wk_gin l) base p) = None \<Longrightarrow>
    wk_built l cfg (RouterGroup_DELETE (WKHttp_Group l base ghs e0) p hs e)"
| group_put: "wk_built l cfg e0 \<Longrightarrow> wk_built l cfg e \<Longrightarrow> gin_route (wk_gin l) e (''PUT'', gin_join (wk_gin l) base p) = None \<Longrightarrow>
    wk_built l cfg (RouterGroup_PUT (WKHttp_Group l base ghs e0) p hs e)"

lemma gin_laws_simps:
  assumes "gin_laws g"
  shows "gin_Handlers g (gin_New g) = []" "gin_route g (gin_New g) = Map.empty"
    "gin_Handlers g (gin_Use g hs e) = gin_Handlers g e @ hs" "gin_route g (gin_Use g hs e) = gin_route g e"
    "gin_Handlers g (gin_handle g m p hs e) = gin_Handlers g e"
    "gin_Handlers g (gin_Any g p hs e) = gin_Handlers g e"
    "gin_Handlers g (gin_Static g p dir e) = gin_Handlers g e"
    "gin_Handlers g (gin_LoadHTMLGlob g pat e) = gin_Handlers g e" "gin_route g (gin_LoadHTMLGlob g pat e) = gin_route g e"
    "gin_Handlers g (group_handle g (gin_Group g base ghs e0) m p hs e) = gin_Handlers g e"
    "gin_route g e (m, p) = None \<Longrightarrow> gin_route g (gin_handle g m p hs e) = (gin_route g e)((m, p) \<mapsto> gin_Handlers g e @ hs)"
    "\<forall>m\<in>set anyMethods. gin_route g e (m, p) = None \<Longrightarrow> gin_route g (gin_Any g p hs e) =
       (\<lambda>(m, q). if q = p \<and> m \<in> set anyMethods then Some (gin_Handlers g e @ hs) else gin_route g e (m, q))"
    "gin_route g e (m, gin_join g base p) = None \<Longrightarrow> gin_route g (group_handle g (gin_Group g base ghs e0) m p hs e) =
       (gin_route g e)((m, gin_join g base p) \<mapsto> gin_Handlers g e0 @ ghs @ hs)"
    "\<not> HasPrefix q p \<Longrightarrow> gin_route g (gin_Static g p dir e) (m, q) = gin_route g e (m, q)"
  using assms by (simp_all add: gin_laws_def gin_static_law_def)

lemma gin_laws_static:
  assumes "gin_laws g" "gin_route g (gin_Static g p dir e) r = Some hs"
  shows "gin_route g e r = Some hs \<or> (\<exists>file. hs = gin_Handlers g e @ [file])"
proof -
  have "gin_static_law g" using assms(1) by (simp add: gin_laws_def)
  then show ?thesis using assms(2) unfolding gin_static_law_def by blast
qed

lemmas wk_defs = WKHttp_POST_def WKHttp_GET_def WKHttp_Any_def WKHttp_Static_def WKHttp_LoadHTMLGlob_def WKHttp_UseGin_def
  WKHttp_Use_def WKHttp_Group_def newRouterGroup_def RouterGroup_POST_def RouterGroup_GET_def RouterGroup_DELETE_def RouterGroup_PUT_def

text \<open>Recovery from panics and the headers for other origins come first, in the engine and in every route.\<close>

definition guarded :: "('e, 'rg, 'k, 'r Context \<Rightarrow> 'r Context) wk \<Rightarrow> 'k list \<Rightarrow> bool" where
  "guarded l ks \<longleftrightarrow> (\<exists>rest. ks = gin_Recovery (wk_gin l) # wk_wrap l CORSMiddleware # rest)"

lemma guarded_append [simp]: "guarded l ks \<Longrightarrow> guarded l (ks @ ks')"
  by (auto simp: guarded_def)

definition guarded_engine :: "('e, 'rg, 'k, 'r Context \<Rightarrow> 'r Context) wk \<Rightarrow> 'e \<Rightarrow> bool" where
  "guarded_engine l e \<longleftrightarrow> guarded l (gin_Handlers (wk_gin l) e) \<and> (\<forall>r ks. gin_route (wk_gin l) e r = Some ks \<longrightarrow> guarded l ks)"

lemma guarded_handle:
  "gin_laws (wk_gin l) \<Longrightarrow> guarded_engine l e \<Longrightarrow> gin_route (wk_gin l) e (m, p) = None \<Longrightarrow> guarded_engine l (gin_handle (wk_gin l) m p hs e)"
  by (auto simp: guarded_engine_def gin_laws_simps split: if_splits)

lemma guarded_group:
  "gin_laws (wk_gin l) \<Longrightarrow> guarded_engine l e0 \<Longrightarrow> guarded_engine l e \<Longrightarrow> gin_route (wk_gin l) e (m, gin_join (wk_gin l) base p) = None \<Longrightarrow>
   guarded_engine l (group_handle (wk_gin l) (gin_Group (wk_gin l) base ghs e0) m p hs e)"
  by (auto simp: guarded_engine_def gin_laws_simps split: if_splits)

lemma guarded_any:
  "gin_laws (wk_gin l) \<Longrightarrow> guarded_engine l e \<Longrightarrow> \<forall>m\<in>set anyMethods. gin_route (wk_gin l) e (m, p) = None \<Longrightarrow>
   guarded_engine l (gin_Any (wk_gin l) p hs e)"
  by (auto simp: guarded_engine_def gin_laws_simps split: if_splits)

lemma guarded_static: "gin_laws (wk_gin l) \<Longrightarrow> guarded_engine l e \<Longrightarrow> guarded_engine l (gin_Static (wk_gin l) p dir e)"
  using gin_laws_static [of "wk_gin l" p dir e] by (fastforce simp: guarded_engine_def gin_laws_simps(7))

lemma guarded_use: "gin_laws (wk_gin l) \<Longrightarrow> guarded_engine l e \<Longrightarrow> guarded_engine l (gin_Use (wk_gin l) hs e)"
  by (auto simp: guarded_engine_def gin_laws_simps)

lemma guarded_built: "wk_built l cfg e \<Longrightarrow> gin_laws (wk_gin l) \<Longrightarrow> guarded_engine l e"
proof (induction rule: wk_built.induct)
  case new
  then show ?case by (auto simp: guarded_engine_def guarded_def GetRoute_def server_New_def wkhttp_New_def wk_defs gin_laws_simps)
next
  case (load e pat)
  then show ?case by (simp add: guarded_engine_def wk_defs gin_laws_simps)
qed (simp_all add: wk_defs guarded_handle guarded_group guarded_any guarded_static guarded_use)

lemma builtin_paths: "\<not> HasPrefix ''/v1/ping'' ''/web''" "\<not> HasPrefix ''/swagger/:module'' ''/web''"
  by (simp_all add: HasPrefix_def)

lemma builtin_routes_correct:
  assumes g: "gin_laws (wk_gin l)"
    and ping: "\<forall>m\<in>set anyMethods. gin_route (wk_gin l) e (m, ''/v1/ping'') = None"
    and swagger: "\<forall>m\<in>set anyMethods. gin_route (wk_gin l) e (m, ''/swagger/:module'') = None"
  shows "gin_Handlers (wk_gin l) (builtin_routes l env reg e) = gin_Handlers (wk_gin l) e"
    and "m \<in> set anyMethods \<Longrightarrow> gin_route (wk_gin l) (builtin_routes l env reg e) (m, ''/v1/ping'') =
           Some (gin_Handlers (wk_gin l) e @ [wk_wrap l ping_handler])"
    and "m \<in> set anyMethods \<Longrightarrow> gin_route (wk_gin l) (builtin_routes l env reg e) (m, ''/swagger/:module'') =
           Some (gin_Handlers (wk_gin l) e @ [wk_wrap l (swagger_handler (se_Param env) reg)])"
    and "\<not> HasPrefix q ''/web'' \<Longrightarrow> q \<noteq> ''/v1/ping'' \<Longrightarrow> q \<noteq> ''/swagger/:module'' \<Longrightarrow>
           gin_route (wk_gin l) (builtin_routes l env reg e) (m', q) = gin_route (wk_gin l) e (m', q)"
    and "guarded_engine l e \<Longrightarrow> guarded_engine l (builtin_routes l env reg e)"
proof -
  define e1 where "e1 = gin_Static (wk_gin l) ''/web'' ''./assets/web'' e"
  have h1: "gin_Handlers (wk_gin l) e1 = gin_Handlers (wk_gin l) e" by (simp add: e1_def gin_laws_simps(7) [OF g])
  have r1: "\<not> HasPrefix q ''/web'' \<Longrightarrow> gin_route (wk_gin l) e1 (m', q) = gin_route (wk_gin l) e (m', q)" for m' q
    unfolding e1_def by (rule gin_laws_simps(14) [OF g])
  have p1: "\<forall>m\<in>set anyMethods. gin_route (wk_gin l) e1 (m, ''/v1/ping'') = None" using ping r1 builtin_paths(1) by simp
  define e2 where "e2 = gin_Any (wk_gin l) ''/v1/ping'' [wk_wrap l ping_handler] e1"
  note any2 = gin_laws_simps(12) [OF g p1, of "[wk_wrap l ping_handler]", folded e2_def]
  have h2: "gin_Handlers (wk_gin l) e2 = gin_Handlers (wk_gin l) e" by (simp add: e2_def gin_laws_simps(6) [OF g] h1)
  have s2: "\<forall>m\<in>set anyMethods. gin_route (wk_gin l) e2 (m, ''/swagger/:module'') = None"
    using swagger r1 builtin_paths(2) by (simp add: any2)
  have b: "builtin_routes l env reg e = gin_Any (wk_gin l) ''/swagger/:module'' [wk_wrap l (swagger_handler (se_Param env) reg)] e2"
    by (simp add: builtin_routes_def wk_defs e1_def e2_def Let_def)
  note any3 = gin_laws_simps(12) [OF g s2, of "[wk_wrap l (swagger_handler (se_Param env) reg)]", folded b]
  show "gin_Handlers (wk_gin l) (builtin_routes l env reg e) = gin_Handlers (wk_gin l) e" by (simp add: b gin_laws_simps(6) [OF g] h2)
  show "m \<in> set anyMethods \<Longrightarrow> gin_route (wk_gin l) (builtin_routes l env reg e) (m, ''/v1/ping'') =
      Some (gin_Handlers (wk_gin l) e @ [wk_wrap l ping_handler])" by (simp add: any3 any2 h1)
  show "m \<in> set anyMethods \<Longrightarrow> gin_route (wk_gin l) (builtin_routes l env reg e) (m, ''/swagger/:module'') =
      Some (gin_Handlers (wk_gin l) e @ [wk_wrap l (swagger_handler (se_Param env) reg)])" by (simp add: any3 h2)
  show "\<not> HasPrefix q ''/web'' \<Longrightarrow> q \<noteq> ''/v1/ping'' \<Longrightarrow> q \<noteq> ''/swagger/:module'' \<Longrightarrow>
      gin_route (wk_gin l) (builtin_routes l env reg e) (m', q) = gin_route (wk_gin l) e (m', q)" by (simp add: any3 any2 r1)
  show "guarded_engine l e \<Longrightarrow> guarded_engine l (builtin_routes l env reg e)"
    using guarded_any [OF g _ s2] guarded_any [OF g _ p1] guarded_static [OF g, of e] by (simp add: b e1_def e2_def)
qed

lemma server_run_engines:
  assumes "server_run l env reg sslAddr addr s = (err, out, s')" "(ls, e) \<in> set out"
  shows "e = builtin_routes l env reg (sv_r s) \<or>
    e = gin_Use (wk_gin l) [wk_wrap l (TlsHandler (se_Process env) sslAddr)] (builtin_routes l env reg (sv_r s))"
  using assms by (auto simp: server_run_def WKHttp_Use_def Let_def split: if_splits prod.splits)

text \<open>
  C12: However an application builds its routes, every route that a listener serves recovers from panics and sets the headers for
  other origins before it runs a handler; the built-in routes are added and no route of the application changes.  The
  redirection to TLS is installed after all routes, so no route runs it: both listeners serve the same chains, and the plain
  one answers without redirecting.  Even where it runs it does not abort the chain after redirecting, as its comment says.
\<close>

theorem server_chains:
  assumes "gin_laws (wk_gin l)" "wk_built l cfg e"
    and "\<forall>m\<in>set anyMethods. gin_route (wk_gin l) e (m, ''/v1/ping'') = None"
    and "\<forall>m\<in>set anyMethods. gin_route (wk_gin l) e (m, ''/swagger/:module'') = None"
    and "server_run l env reg sslAddr addr ((server_New l cfg)\<lparr>sv_r := e\<rparr>) = (err, out, s')" "(ls, e') \<in> set out"
  shows "(\<forall>r ks. gin_route (wk_gin l) e' r = Some ks \<longrightarrow>
            (\<exists>rest. ks = gin_Recovery (wk_gin l) # wk_wrap l CORSMiddleware # rest)) \<and>
    gin_route (wk_gin l) e' = gin_route (wk_gin l) (builtin_routes l env reg e) \<and>
    (m \<in> set anyMethods \<longrightarrow> gin_route (wk_gin l) e' (m, ''/v1/ping'') = Some (gin_Handlers (wk_gin l) e @ [wk_wrap l ping_handler])) \<and>
    (\<not> HasPrefix q ''/web'' \<and> q \<noteq> ''/v1/ping'' \<and> q \<noteq> ''/swagger/:module'' \<longrightarrow>
       gin_route (wk_gin l) e' (m, q) = gin_route (wk_gin l) e (m, q)) \<and>
    CallAbort \<notin> set (drop (length (cx_calls (snd (se_Process env \<lparr>so_SSLRedirect = True, so_SSLHost = sslAddr\<rparr> c))))
      (cx_calls (TlsHandler (se_Process env) sslAddr c)))"
proof -
  note b = builtin_routes_correct [OF assms(1,3,4), where env = env and reg = reg]
  have r: "gin_route (wk_gin l) e' = gin_route (wk_gin l) (builtin_routes l env reg e)"
    using server_run_engines [OF assms(5,6)] by (auto simp: gin_laws_simps(4) [OF assms(1)])
  have "guarded_engine l (builtin_routes l env reg e)" by (rule b(5) [OF guarded_built [OF assms(2,1)]])
  then have "\<forall>r ks. gin_route (wk_gin l) e' r = Some ks \<longrightarrow> guarded l ks" by (simp add: guarded_engine_def r)
  moreover have "CallAbort \<notin> set (drop (length (cx_calls (snd (se_Process env \<lparr>so_SSLRedirect = True, so_SSLHost = sslAddr\<rparr> c))))
      (cx_calls (TlsHandler (se_Process env) sslAddr c)))"
    by (simp add: TlsHandler_def split: prod.splits)
  ultimately show ?thesis using b(2,4) r unfolding guarded_def by auto
qed

section \<open>An instance\<close>

text \<open>A router as lists and a table, on handlers that are not wrapped.\<close>

type_synonym table = "(unit Context \<Rightarrow> unit Context) list \<times> (string \<times> string \<Rightarrow> (unit Context \<Rightarrow> unit Context) list option)"

definition table_gin :: "(table, string \<times> (unit Context \<Rightarrow> unit Context) list, unit Context \<Rightarrow> unit Context) gin" where
  "table_gin = \<lparr>gin_New = ([], Map.empty), gin_Recovery = (\<lambda>c. c),
     gin_Use = (\<lambda>hs (mw, t). (mw @ hs, t)),
     gin_handle = (\<lambda>m p hs (mw, t). (mw, t((m, p) \<mapsto> mw @ hs))),
     gin_Any = (\<lambda>p hs (mw, t). (mw, \<lambda>(m, q). if q = p \<and> m \<in> set anyMethods then Some (mw @ hs) else t (m, q))),
     gin_Static = (\<lambda>p dir (mw, t). (mw, t((''GET'', p @ ''/*filepath'') \<mapsto> mw @ [\<lambda>c. c]))),
     gin_LoadHTMLGlob = (\<lambda>pat e. e),
     gin_Group = (\<lambda>base hs (mw, t). (base, mw @ hs)),
     group_handle = (\<lambda>(base, ghs) m p hs (mw, t). (mw, t((m, base @ p) \<mapsto> ghs @ hs))),
     gin_join = (@), gin_Handlers = fst, gin_route = snd\<rparr>"

lemma table_gin_laws: "gin_laws table_gin"
  by (auto simp: gin_laws_def gin_static_law_def table_gin_def HasPrefix_def fun_eq_iff split: prod.splits)

definition table_wk :: "(table, string \<times> (unit Context \<Rightarrow> unit Context) list, unit Context \<Rightarrow> unit Context, unit Context \<Rightarrow> unit Context) wk" where
  "table_wk = \<lparr>wk_gin = table_gin, wk_wrap = (\<lambda>h. h)\<rparr>"

definition table_env :: "unit server_env" where
  "table_env = \<lparr>se_Process = (\<lambda>opts c. (Some ''redirected'', c)), se_Param = (\<lambda>c k. []), se_Run = (\<lambda>a. None),
     se_RunTLS = (\<lambda>a c k. None), se_Getwd = ''/srv''\<rparr>"

text \<open>A server whose application has one route of its own, run on both addresses.\<close>

definition hello :: "unit Context \<Rightarrow> unit Context" where
  "hello c = Response c"

definition table_engine :: "Config \<Rightarrow> table" where
  "table_engine cfg = WKHttp_GET table_wk ''/hello'' [hello] (GetRoute (server_New table_wk cfg))"

definition table_run :: "Config \<Rightarrow> string option \<times> (listen \<times> table) list \<times> table Server" where
  "table_run cfg = server_run table_wk table_env (init_registry :: (unit, unit, unit, unit, unit, unit) registry) '':443'' ['':80'']
     ((server_New table_wk cfg)\<lparr>sv_r := table_engine cfg\<rparr>)"

lemmas table_defs = table_engine_def table_wk_def table_gin_def wk_defs GetRoute_def server_New_def wkhttp_New_def

theorem server_chains_witness:
  "\<exists>e e'. fst (snd (table_run (New (\<lambda>_. [])))) =
       [(ListenInBackground ['':80''], e), (ListenTLS '':443'' ''/srv/assets/ssl/ssl.pem'' ''/srv/assets/ssl/ssl.key'', e')] \<and>
     gin_route table_gin e (''GET'', ''/hello'') = Some [\<lambda>c. c, CORSMiddleware, hello] \<and>
     gin_route table_gin e' (''GET'', ''/hello'') = Some [\<lambda>c. c, CORSMiddleware, hello] \<and>
     gin_route table_gin e' (''GET'', ''/v1/ping'') = Some [\<lambda>c. c, CORSMiddleware, ping_handler]"
proof -
  define cfg where "cfg = New (\<lambda>_. [])"
  have g: "gin_laws (wk_gin table_wk)" by (simp add: table_wk_def table_gin_laws)
  have w: "wk_gin table_wk = table_gin" "wk_wrap table_wk = (\<lambda>h. h)" by (simp_all add: table_wk_def)
  have t: "gin_Handlers table_gin (table_engine cfg) = [\<lambda>c. c, CORSMiddleware]"
    "gin_route table_gin (table_engine cfg) = [(''GET'', ''/hello'') \<mapsto> [\<lambda>c. c, CORSMiddleware, hello]]"
    by (simp_all add: table_defs)
  have built: "wk_built table_wk cfg (table_engine cfg)"
    unfolding table_engine_def by (rule wk_built.get [OF wk_built.new]) (simp add: table_defs)
  obtain err out s' where r: "server_run table_wk table_env (init_registry :: (unit, unit, unit, unit, unit, unit) registry) '':443'' ['':80'']
     ((server_New table_wk cfg)\<lparr>sv_r := table_engine cfg\<rparr>) = (err, out, s')" by (rule prod_cases3)
  define e where "e = builtin_routes table_wk table_env (init_registry :: (unit, unit, unit, unit, unit, unit) registry) (table_engine cfg)"
  define e' where "e' = WKHttp_Use table_wk [TlsHandler (se_Process table_env) '':443''] e"
  have env: "se_RunTLS table_env = (\<lambda>a c k. None)" "se_Getwd table_env = ''/srv''" by (simp_all add: table_env_def)
  have out: "out = [(ListenInBackground ['':80''], e), (ListenTLS '':443'' ''/srv/assets/ssl/ssl.pem'' ''/srv/assets/ssl/ssl.key'', e')]"
    using r by (simp add: server_run_def Let_def env e_def e'_def)
  have fresh: "\<forall>m\<in>set anyMethods. gin_route (wk_gin table_wk) (table_engine cfg) (m, ''/v1/ping'') = None"
    "\<forall>m\<in>set anyMethods. gin_route (wk_gin table_wk) (table_engine cfg) (m, ''/swagger/:module'') = None"
    by (simp_all add: w t)
  note ch = server_chains [OF g built fresh r, where m = "''GET''" and q = "''/hello''" and c = auth_demo_ctx, THEN conjunct2, THEN conjunct2]
  note pinged = ch [THEN conjunct1] and hello = ch [THEN conjunct2, THEN conjunct1]
  have "gin_route table_gin e (''GET'', ''/hello'') = Some [\<lambda>c. c, CORSMiddleware, hello]"
    using hello [of "ListenInBackground ['':80'']" e] by (simp add: out w t HasPrefix_def)
  moreover have "gin_route table_gin e' (''GET'', ''/hello'') = Some [\<lambda>c. c, CORSMiddleware, hello]"
    "gin_route table_gin e' (''GET'', ''/v1/ping'') = Some [\<lambda>c. c, CORSMiddleware, ping_handler]"
    using hello [of "ListenTLS '':443'' ''/srv/assets/ssl/ssl.pem'' ''/srv/assets/ssl/ssl.key''" e']
      pinged [of "ListenTLS '':443'' ''/srv/assets/ssl/ssl.pem'' ''/srv/assets/ssl/ssl.key''" e'] by (simp_all add: out w t HasPrefix_def anyMethods_def)
  moreover have "fst (snd (table_run (New (\<lambda>_. [])))) = out" using r by (simp add: table_run_def cfg_def)
  ultimately show ?thesis using out by blast
qed

end
