(* ===== verification/Tracing.thy ===== *)
theory Tracing
  imports Http_Core Config
begin

text \<open>
  Tracing of requests, \<^verbatim>\<open>config/tracer.go\<close>: a wrapper of an opentracing tracer that does nothing when tracing is off.  The tracing
  library is an argument; what the middleware tells it is recorded as events, in order.
\<close>

section \<open>Spans\<close>

text \<open>The values of the interfaces \<^verbatim>\<open>opentracing.Span\<close> and \<^verbatim>\<open>SpanContext\<close>: the empty ones of this package, or those of the library.\<close>

datatype 's Span = EmptySpan | LibSpan 's

datatype 'sc SpanContext = EmptySpanContext | LibContext 'sc

datatype ('s, 'o) event =
    EvStart string "'o list" "'s Span"
  | EvFinish "'s Span"
  | EvInjectFailed string

text \<open>The methods of the empty span and of the empty context; those without a result do nothing.\<close>

definition EmptySpan_Finish :: "('s, 'o) event list \<Rightarrow> ('s, 'o) event list" where
  "EmptySpan_Finish w = w"

definition EmptySpan_FinishWithOptions :: "'opts \<Rightarrow> ('s, 'o) event list \<Rightarrow> ('s, 'o) event list" where
  "EmptySpan_FinishWithOptions opts w = w"

definition EmptySpan_Context :: "'sc SpanContext option" where
  "EmptySpan_Context = None"

definition EmptySpan_SetOperationName :: "string \<Rightarrow> 's Span" where
  "EmptySpan_SetOperationName operationName = EmptySpan"

definition EmptySpan_SetTag :: "string \<Rightarrow> 'v \<Rightarrow> 's Span" where
  "EmptySpan_SetTag key val = EmptySpan"

definition EmptySpan_LogFields :: "'fs list \<Rightarrow> ('s, 'o) event list \<Rightarrow> ('s, 'o) event list" where
  "EmptySpan_LogFields fs w = w"

definition EmptySpan_LogKV :: "'v list \<Rightarrow> ('s, 'o) event list \<Rightarrow> ('s, 'o) event list" where
  "EmptySpan_LogKV alternatingKeyValues w = w"

definition EmptySpan_SetBaggageItem :: "string \<Rightarrow> string \<Rightarrow> 's Span" where
  "EmptySpan_SetBaggageItem restrictedKey val = EmptySpan"

definition EmptySpan_BaggageItem :: "string \<Rightarrow> string" where
  "EmptySpan_BaggageItem restrictedKey = []"

definition EmptySpan_Tracer :: "'t option" where
  "EmptySpan_Tracer = None"

definition EmptySpan_LogEvent :: "string \<Rightarrow> ('s, 'o) event list \<Rightarrow> ('s, 'o) event list" where
  "EmptySpan_LogEvent event w = w"

definition EmptySpan_LogEventWithPayload :: "string \<Rightarrow> 'v \<Rightarrow> ('s, 'o) event list \<Rightarrow> ('s, 'o) event list" where
  "EmptySpan_LogEventWithPayload event payload w = w"

definition EmptySpan_Log :: "'d \<Rightarrow> ('s, 'o) event list \<Rightarrow> ('s, 'o) event list" where
  "EmptySpan_Log data w = w"

definition EmptySpanContext_ForeachBaggageItem :: "(string \<Rightarrow> string \<Rightarrow> 'w \<Rightarrow> bool \<times> 'w) \<Rightarrow> 'w \<Rightarrow> 'w" where
  "EmptySpanContext_ForeachBaggageItem handler w = w"

section \<open>The tracer\<close>

record jaeger_Configuration =
  jc_ServiceName :: string
  jc_TraceContextHeaderName :: string
  jc_SamplerType :: string
  jc_SamplerParam :: int
  jc_LogSpans :: bool
  jc_LocalAgentHostPort :: string

text \<open>
  The library: \<open>'t\<close> are tracers, \<open>'cl\<close> their closers, \<open>'o\<close> options of a span, \<open>'x\<close> contexts of Go.  A new span may depend on what has
  happened before.  Injection changes headers, and both directions may fail.
\<close>

record ('t, 'cl, 's, 'sc, 'o, 'x) tracing_lib =
  tl_New :: "jaeger_Configuration \<Rightarrow> string \<Rightarrow> string + 't \<times> 'cl"
  tl_Close :: "'cl \<Rightarrow> string option"
  tl_StartSpan :: "'t \<Rightarrow> string \<Rightarrow> 'o list \<Rightarrow> ('s, 'o) event list \<Rightarrow> 's Span"
  tl_StartSpanFromContext :: "'x \<Rightarrow> string \<Rightarrow> 'o list \<Rightarrow> ('s, 'o) event list \<Rightarrow> 's Span \<times> 'x"
  tl_ContextWithSpan :: "'x \<Rightarrow> 's Span \<Rightarrow> 'x"
  tl_Background :: 'x
  tl_Inject :: "'t \<Rightarrow> 'sc SpanContext \<Rightarrow> header \<Rightarrow> string option \<times> header"
  tl_Extract :: "'t \<Rightarrow> header \<Rightarrow> string + 'sc SpanContext"
  tl_Context :: "'s Span \<Rightarrow> 'sc SpanContext"
  tl_ChildOf :: "'sc SpanContext \<Rightarrow> 'o"
  tl_Tag :: "string \<Rightarrow> string \<Rightarrow> 'o"

record ('t, 'cl) Tracer =
  tr_jaegerconfig :: "jaeger_Configuration option"
  tr_cfg :: Config
  tr_tracer :: "'t option"
  tr_closer :: "'cl option"

abbreviation tracing_on :: "('t, 'cl) Tracer \<Rightarrow> bool" where
  "tracing_on t \<equiv> Tracing_On (cfg_Tracing (tr_cfg t))"

text \<open>The second result is the tracer that becomes the global one, if any.\<close>

definition NewTracer :: "('t, 'cl, 's, 'sc, 'o, 'x) tracing_lib \<Rightarrow> Config \<Rightarrow> string + ('t, 'cl) Tracer \<times> 't option" where
  "NewTracer lib cfg =
     (if \<not> Tracing_On (cfg_Tracing cfg)
      then Inr (\<lparr>tr_jaegerconfig = None, tr_cfg = cfg, tr_tracer = None, tr_closer = None\<rparr>, None)
      else let jc = \<lparr>jc_ServiceName = cfg_AppID cfg, jc_TraceContextHeaderName = ''wukongchat-trace-id'', jc_SamplerType = ''const'',
                     jc_SamplerParam = 1, jc_LogSpans = True, jc_LocalAgentHostPort = Tracing_Addr (cfg_Tracing cfg)\<rparr>
           in case tl_New lib jc (cfg_AppID cfg) of
                Inl err \<Rightarrow> Inl err
              | Inr (tracer, closer) \<Rightarrow>
                  Inr (\<lparr>tr_jaegerconfig = Some jc, tr_cfg = cfg, tr_tracer = Some tracer, tr_closer = Some closer\<rparr>, Some tracer))"

definition Tracer_Close :: "('t, 'cl, 's, 'sc, 'o, 'x) tracing_lib \<Rightarrow> ('t, 'cl) Tracer \<Rightarrow> string option" where
  "Tracer_Close lib t = (case tr_closer t of None \<Rightarrow> None | Some closer \<Rightarrow> tl_Close lib closer)"

text \<open>A method of a nil tracer panics.\<close>

definition with_tracer :: "('t, 'cl) Tracer \<Rightarrow> ('t \<Rightarrow> 'a) \<Rightarrow> 'a go" where
  "with_tracer t f = (case tr_tracer t of None \<Rightarrow> Panic nil_deref | Some tracer \<Rightarrow> Ret (f tracer))"

definition StartSpanFromContext ::
  "('t, 'cl, 's, 'sc, 'o, 'x) tracing_lib \<Rightarrow> ('t, 'cl) Tracer \<Rightarrow> 'x \<Rightarrow> string \<Rightarrow> 'o list \<Rightarrow> ('s, 'o) event list \<Rightarrow>
   ('s Span \<times> 'x) \<times> ('s, 'o) event list" where
  "StartSpanFromContext lib t ctx operationName opts w =
     (if \<not> tracing_on t then ((EmptySpan, ctx), w)
      else let (sp, ctx) = tl_StartSpanFromContext lib ctx operationName opts w in ((sp, ctx), w @ [EvStart operationName opts sp]))"

definition StartSpan ::
  "('t, 'cl, 's, 'sc, 'o, 'x) tracing_lib \<Rightarrow> ('t, 'cl) Tracer \<Rightarrow> string \<Rightarrow> 'o list \<Rightarrow> ('s, 'o) event list \<Rightarrow>
   ('s Span \<times> ('s, 'o) event list) go" where
  "StartSpan lib t operationName opts w =
     (if \<not> tracing_on t then Ret (EmptySpan, w)
      else with_tracer t (\<lambda>tracer. let sp = tl_StartSpan lib tracer operationName opts w in (sp, w @ [EvStart operationName opts sp])))"

definition ContextWithSpan :: "('t, 'cl, 's, 'sc, 'o, 'x) tracing_lib \<Rightarrow> 'x \<Rightarrow> 's Span \<Rightarrow> 'x" where
  "ContextWithSpan lib ctx sp = tl_ContextWithSpan lib ctx sp"

text \<open>The only format in use is that of HTTP headers, so a carrier is a set of headers.\<close>

definition Inject ::
  "('t, 'cl, 's, 'sc, 'o, 'x) tracing_lib \<Rightarrow> ('t, 'cl) Tracer \<Rightarrow> 'sc SpanContext \<Rightarrow> header \<Rightarrow> (string option \<times> header) go" where
  "Inject lib t sm carrier = (if \<not> tracing_on t then Ret (None, carrier) else with_tracer t (\<lambda>tracer. tl_Inject lib tracer sm carrier))"

definition InjectHTTPHeader ::
  "('t, 'cl, 's, 'sc, 'o, 'x) tracing_lib \<Rightarrow> ('t, 'cl) Tracer \<Rightarrow> 'sc SpanContext \<Rightarrow> header \<Rightarrow> (string option \<times> header) go" where
  "InjectHTTPHeader lib t sm h = (if \<not> tracing_on t then Ret (None, h) else with_tracer t (\<lambda>tracer. tl_Inject lib tracer sm h))"

definition Extract ::
  "('t, 'cl, 's, 'sc, 'o, 'x) tracing_lib \<Rightarrow> ('t, 'cl) Tracer \<Rightarrow> header \<Rightarrow> (string + 'sc SpanContext) go" where
  "Extract lib t carrier = (if \<not> tracing_on t then Ret (Inr EmptySpanContext) else with_tracer t (\<lambda>tracer. tl_Extract lib tracer carrier))"

definition ExtractHTTPHeader ::
  "('t, 'cl, 's, 'sc, 'o, 'x) tracing_lib \<Rightarrow> ('t, 'cl) Tracer \<Rightarrow> header \<Rightarrow> (string + 'sc SpanContext) go" where
  "ExtractHTTPHeader lib t h = Extract lib t h"

section \<open>The middleware\<close>

text \<open>
  The part of a request the middleware touches: its route, its headers, the headers of its response, the values set on it (\<open>None\<close> for one of another type),
  and the events so far.
\<close>

record ('s, 'sc, 'o) traced =
  tc_FullPath :: string
  tc_req :: header
  tc_resp :: header
  tc_keys :: "string \<rightharpoonup> 'sc SpanContext option"
  tc_events :: "('s, 'o) event list"

definition GetSpanContext :: "('s, 'sc, 'o) traced \<Rightarrow> 'sc SpanContext option" where
  "GetSpanContext c = (case tc_keys c ''spanContext'' of None \<Rightarrow> None | Some sc \<Rightarrow> sc)"

definition parent_span ::
  "('t, 'cl, 's, 'sc, 'o, 'x) tracing_lib \<Rightarrow> ('t, 'cl) Tracer \<Rightarrow> ('s, 'sc, 'o) traced \<Rightarrow> ('s Span \<times> ('s, 'sc, 'o) traced) go" where
  "parent_span lib t c =
     go_bind (ExtractHTTPHeader lib t (tc_req c)) (\<lambda>spCtx.
       case spCtx of
         Inl err \<Rightarrow>
           let ((sp, _), w) = StartSpanFromContext lib t (tl_Background lib) (tc_FullPath c) [] (tc_events c)
           in Ret (sp, c\<lparr>tc_events := w\<rparr>)
       | Inr spCtx \<Rightarrow>
           go_bind (StartSpan lib t (tc_FullPath c) [tl_ChildOf lib spCtx, tl_Tag lib ''component'' ''HTTP''] (tc_events c))
             (\<lambda>(sp, w). Ret (sp, c\<lparr>tc_events := w\<rparr>)))"

text \<open>\<open>next\<close> is the rest of the chain, which \<^verbatim>\<open>c.Next\<close> runs.  The span ends when the middleware returns.\<close>

definition GinMiddle ::
  "('t, 'cl, 's, 'sc, 'o, 'x) tracing_lib \<Rightarrow> ('t, 'cl) Tracer \<Rightarrow> (('s, 'sc, 'o) traced \<Rightarrow> ('s, 'sc, 'o) traced) \<Rightarrow>
   ('s, 'sc, 'o) traced \<Rightarrow> ('s, 'sc, 'o) traced go" where
  "GinMiddle lib t next c =
     (if tracing_on t
      then go_bind (parent_span lib t c) (\<lambda>(sp, c).
             let spanContext = tl_Context lib sp;
                 c = next (c\<lparr>tc_keys := (tc_keys c)(''spanContext'' \<mapsto> Some spanContext)\<rparr>)
             in go_bind (InjectHTTPHeader lib t spanContext (tc_req c)) (\<lambda>(err, h).
                  let c = c\<lparr>tc_req := h\<rparr>;
                      c = (case err of None \<Rightarrow> c | Some e \<Rightarrow> c\<lparr>tc_events := tc_events c @ [EvInjectFailed e]\<rparr>)
                  in Ret (c\<lparr>tc_events := tc_events c @ [EvFinish sp]\<rparr>)))
      else Ret (next (c\<lparr>tc_keys := (tc_keys c)(''spanContext'' \<mapsto> Some EmptySpanContext)\<rparr>)))"

section \<open>Properties\<close>

text \<open>
  With tracing off the tracer needs no service and does nothing: spans are empty, nothing is recorded, headers stay as they
  are, nothing panics, and a request runs its handlers on its own context, with an empty span context in it.
\<close>

lemma tracing_off:
  assumes "\<not> Tracing_On (cfg_Tracing cfg)"
  shows "\<exists>t. NewTracer lib cfg = Inr (t, None) \<and> Tracer_Close lib t = None \<and>
    StartSpan lib t name opts w = Ret (EmptySpan, w) \<and> StartSpanFromContext lib t ctx name opts w = ((EmptySpan, ctx), w) \<and>
    InjectHTTPHeader lib t sc h = Ret (None, h) \<and> ExtractHTTPHeader lib t h = Ret (Inr EmptySpanContext) \<and>
    (let seen = c\<lparr>tc_keys := (tc_keys c)(''spanContext'' \<mapsto> Some EmptySpanContext)\<rparr>
     in GinMiddle lib t next c = Ret (next seen) \<and> GetSpanContext seen = Some EmptySpanContext)"
  using assms
  by (simp add: NewTracer_def Tracer_Close_def StartSpan_def StartSpanFromContext_def InjectHTTPHeader_def ExtractHTTPHeader_def
      Extract_def GinMiddle_def GetSpanContext_def Let_def)

lemma NewTracer_on:
  assumes "NewTracer lib cfg = Inr (t, gl)" "Tracing_On (cfg_Tracing cfg)"
  obtains tracer where "tr_tracer t = Some tracer" "tr_cfg t = cfg" "gl = Some tracer"
  using assms by (auto simp: NewTracer_def Let_def split: sum.splits prod.splits)

lemma parent_span_on:
  assumes "tr_tracer t = Some tracer" "tracing_on t"
  shows "\<exists>sp. parent_span lib t c =
    Ret (sp, c\<lparr>tc_events := tc_events c @ [EvStart (tc_FullPath c)
      (case tl_Extract lib tracer (tc_req c) of Inl _ \<Rightarrow> [] | Inr sc \<Rightarrow> [tl_ChildOf lib sc, tl_Tag lib ''component'' ''HTTP'']) sp]\<rparr>)"
  using assms
  by (auto simp: parent_span_def ExtractHTTPHeader_def Extract_def with_tracer_def StartSpan_def StartSpanFromContext_def Let_def
      split: sum.splits prod.splits)

text \<open>
  C38: With tracing on, a request starts exactly one span, named after its route, and finishes it after its handlers and everything
  they record; it is a child of the span the request names in its headers, if it names one.  The handlers see the context
  of that span.  The headers of the request change only after the handlers have run and those of the response not at
  all, so neither the handlers nor the client learn the identity of the span from a header.
\<close>

theorem request_traced:
  assumes "NewTracer lib cfg = Inr (t, gl)" "Tracing_On (cfg_Tracing cfg)"
    and "\<And>c. \<exists>evs. tc_events (next c) = tc_events c @ evs"
  shows "\<exists>c' seen sp inner tracer. gl = Some tracer \<and> GinMiddle lib t next c = Ret c' \<and>
    tc_req seen = tc_req c \<and> tc_resp seen = tc_resp c \<and> tc_events (next seen) = tc_events seen @ inner \<and>
    tc_events c' = tc_events c @ [EvStart (tc_FullPath c)
        (case tl_Extract lib tracer (tc_req c) of Inl _ \<Rightarrow> [] | Inr sc \<Rightarrow> [tl_ChildOf lib sc, tl_Tag lib ''component'' ''HTTP'']) sp] @ inner @
      (case fst (tl_Inject lib tracer (tl_Context lib sp) (tc_req (next seen))) of None \<Rightarrow> [] | Some e \<Rightarrow> [EvInjectFailed e]) @ [EvFinish sp] \<and>
    GetSpanContext seen = Some (tl_Context lib sp) \<and>
    tc_resp c' = tc_resp (next seen)"
proof -
  obtain tracer where t: "tr_tracer t = Some tracer" "tr_cfg t = cfg" "gl = Some tracer" using NewTracer_on [OF assms(1,2)] by blast
  have on: "tracing_on t" using t assms(2) by simp
  obtain sp where span: "parent_span lib t c =
    Ret (sp, c\<lparr>tc_events := tc_events c @ [EvStart (tc_FullPath c)
      (case tl_Extract lib tracer (tc_req c) of Inl _ \<Rightarrow> [] | Inr sc \<Rightarrow> [tl_ChildOf lib sc, tl_Tag lib ''component'' ''HTTP'']) sp]\<rparr>)"
    (is "_ = Ret (_, _\<lparr>tc_events := ?w\<rparr>)")
    using parent_span_on [OF t(1) on] by blast
  define seen where "seen = c\<lparr>tc_keys := (tc_keys c)(''spanContext'' \<mapsto> Some (tl_Context lib sp)), tc_events := ?w\<rparr>"
  obtain inner where inner: "tc_events (next seen) = tc_events seen @ inner" using assms(3) by blast
  obtain err h where inj: "tl_Inject lib tracer (tl_Context lib sp) (tc_req (next seen)) = (err, h)" by (rule prod.exhaust)
  have s: "c\<lparr>tc_events := ?w, tc_keys := (tc_keys c)(''spanContext'' \<mapsto> Some (tl_Context lib sp))\<rparr> = seen"
    by (simp add: seen_def)
  define c' where "c' = (next seen)\<lparr>tc_req := h,
    tc_events := tc_events (next seen) @ (case err of None \<Rightarrow> [] | Some e \<Rightarrow> [EvInjectFailed e]) @ [EvFinish sp]\<rparr>"
  have g: "GinMiddle lib t next c = Ret c'"
    using on t(1) span inj s by (simp add: GinMiddle_def InjectHTTPHeader_def with_tracer_def c'_def Let_def split: option.splits)
  have seen: "tc_events seen = ?w" "GetSpanContext seen = Some (tl_Context lib sp)" "tc_req seen = tc_req c" "tc_resp seen = tc_resp c"
    by (simp_all add: seen_def GetSpanContext_def)
  have "tc_events c' = ?w @ inner @ (case err of None \<Rightarrow> [] | Some e \<Rightarrow> [EvInjectFailed e]) @ [EvFinish sp]" "tc_resp c' = tc_resp (next seen)"
    by (simp_all add: c'_def inner seen(1))
  then show ?thesis using g seen inner t(3) inj by (intro exI [of _ c'] exI [of _ seen] exI [of _ sp] exI [of _ inner] exI [of _ tracer]) simp
qed

text \<open>A tracer that numbers its spans, and a request without a parent.\<close>

definition demo_lib :: "(unit, unit, nat, nat, string, unit) tracing_lib" where
  "demo_lib = \<lparr>tl_New = (\<lambda>jc name. Inr ((), ())), tl_Close = (\<lambda>_. None), tl_StartSpan = (\<lambda>t n os w. LibSpan (length w)),
     tl_StartSpanFromContext = (\<lambda>x n os w. (LibSpan (length w), x)), tl_ContextWithSpan = (\<lambda>x sp. x), tl_Background = (),
     tl_Inject = (\<lambda>t sc h. (None, hdr_Set ''Trace'' ''1'' h)), tl_Extract = (\<lambda>t h. if h ''Trace'' = [] then Inl ''none'' else Inr (LibContext 7)),
     tl_Context = (\<lambda>sp. case sp of EmptySpan \<Rightarrow> EmptySpanContext | LibSpan n \<Rightarrow> LibContext n),
     tl_ChildOf = (\<lambda>sc. ''child''), tl_Tag = (\<lambda>k v. k @ ''='' @ v)\<rparr>"

definition demo_cfg :: Config where
  "demo_cfg = (New (\<lambda>_. []))\<lparr>cfg_Tracing := \<lparr>Tracing_On = True, Tracing_Addr = ''jaeger:6831''\<rparr>\<rparr>"

definition demo_request :: "(nat, nat, string) traced" where
  "demo_request = \<lparr>tc_FullPath = ''/v1/users'', tc_req = (\<lambda>_. []), tc_resp = (\<lambda>_. []), tc_keys = Map.empty, tc_events = []\<rparr>"

theorem request_traced_witness:
  "\<exists>t c' sp. NewTracer demo_lib demo_cfg = Inr (t, Some ()) \<and> GinMiddle demo_lib t (\<lambda>c. c) demo_request = Ret c' \<and>
     tc_events c' = [EvStart ''/v1/users'' [] sp, EvFinish sp] \<and> tc_resp c' ''Trace'' = []"
proof -
  obtain t where t: "NewTracer demo_lib demo_cfg = Inr (t, Some ())" by (simp add: NewTracer_def demo_lib_def demo_cfg_def Let_def)
  have on: "Tracing_On (cfg_Tracing demo_cfg)" by (simp add: demo_cfg_def)
  have "tl_Extract demo_lib () (tc_req demo_request) = Inl ''none''" "fst (tl_Inject demo_lib () sc h) = None" for sc h
    by (simp_all add: demo_lib_def demo_request_def)
  with request_traced [OF t on, of "\<lambda>c. c" demo_request] t show ?thesis by (auto simp: demo_request_def)
qed

end
