(* ===== verification/Worker_Pool.thy ===== *)
theory Worker_Pool
  imports Octo_Prelude "HOL-Library.Multiset"
begin

text \<open>
  The dispatcher of background jobs, \<^verbatim>\<open>pkg/pool/dispatcher.go\<close> and \<^verbatim>\<open>job.go\<close>: it receives jobs from a channel without a buffer and submits each
  to a pool of workers of the library ants.  Senders, the dispatcher and the workers run concurrently, so this is a
  transition system.  What the pool answers to \<^verbatim>\<open>Submit\<close> is an argument: with a number of running jobs it starts the job, makes
  the dispatcher wait, or refuses.
\<close>

section \<open>The dispatcher\<close>

text \<open>A job: its data and what it does to the world \<open>'w\<close>; the first argument of its function is always 0.\<close>

record ('d, 'w) Job =
  job_Data :: 'd
  job_Func :: "int \<Rightarrow> 'd \<Rightarrow> 'w \<Rightarrow> 'w"

definition Job_run :: "('d, 'w) Job \<Rightarrow> 'w \<Rightarrow> 'w" where
  "Job_run jb w = job_Func jb 0 (job_Data jb) w"

datatype submit = Started | Wait | Refused string

record 'p Collector =
  co_pool :: 'p
  co_workerCount :: int

definition StartDispatcher :: "(int \<Rightarrow> string + 'p) \<Rightarrow> int \<Rightarrow> 'p Collector go" where
  "StartDispatcher ants_NewPool workerCount =
     (case ants_NewPool workerCount of
        Inl err \<Rightarrow> Panic (''start dispatcher error: '' @ err)
      | Inr pool \<Rightarrow> Ret \<lparr>co_pool = pool, co_workerCount = workerCount\<rparr>)"

text \<open>
  The jobs sent so far in the order the channel took them, the one the dispatcher holds, what it has submitted with the error if one was refused, the jobs
  that run, those that are done, how often the warning was printed, and the world.
\<close>

record ('d, 'w) dispatch =
  dp_sent :: "('d, 'w) Job list"
  dp_held :: "('d, 'w) Job option"
  dp_submitted :: "(('d, 'w) Job \<times> string option) list"
  dp_running :: "('d, 'w) Job list"
  dp_done :: "('d, 'w) Job list"
  dp_warnings :: nat
  dp_world :: 'w

definition dispatch_init :: "'w \<Rightarrow> ('d, 'w) dispatch" where
  "dispatch_init w = \<lparr>dp_sent = [], dp_held = None, dp_submitted = [], dp_running = [], dp_done = [], dp_warnings = 0, dp_world = w\<rparr>"

text \<open>The loop \<^verbatim>\<open>loopPop\<close> in two steps, since \<^verbatim>\<open>Submit\<close> may block: it receives a job and compares the number of running jobs, then submits.\<close>

definition loopPop_receive :: "int \<Rightarrow> ('d, 'w) Job \<Rightarrow> ('d, 'w) dispatch \<Rightarrow> ('d, 'w) dispatch" where
  "loopPop_receive workerCount job s =
     s\<lparr>dp_sent := dp_sent s @ [job], dp_held := Some job,
       dp_warnings := (if int (length (dp_running s)) \<ge> workerCount + 1 then dp_warnings s + 1 else dp_warnings s)\<rparr>"

definition loopPop_submit :: "(nat \<Rightarrow> submit) \<Rightarrow> ('d, 'w) Job \<Rightarrow> ('d, 'w) dispatch \<Rightarrow> ('d, 'w) dispatch" where
  "loopPop_submit Submit job s =
     (case Submit (length (dp_running s)) of
        Started \<Rightarrow> s\<lparr>dp_held := None, dp_submitted := dp_submitted s @ [(job, None)], dp_running := dp_running s @ [job]\<rparr>
      | Wait \<Rightarrow> s
      | Refused err \<Rightarrow> s\<lparr>dp_held := None, dp_submitted := dp_submitted s @ [(job, Some err)]\<rparr>)"

inductive dispatch_step :: "(nat \<Rightarrow> submit) \<Rightarrow> int \<Rightarrow> ('d, 'w) dispatch \<Rightarrow> ('d, 'w) dispatch \<Rightarrow> bool" for Submit workerCount where
  receive: "dp_held s = None \<Longrightarrow> dispatch_step Submit workerCount s (loopPop_receive workerCount job s)"
| submit: "dp_held s = Some job \<Longrightarrow> dispatch_step Submit workerCount s (loopPop_submit Submit job s)"
| finish: "dp_running s = xs @ job # ys \<Longrightarrow>
    dispatch_step Submit workerCount s (s\<lparr>dp_running := xs @ ys, dp_done := dp_done s @ [job], dp_world := Job_run job (dp_world s)\<rparr>)"

section \<open>Every job once, in order\<close>

definition held_list :: "'a option \<Rightarrow> 'a list" where
  "held_list h = (case h of None \<Rightarrow> [] | Some x \<Rightarrow> [x])"

text \<open>
  What holds at all times: the jobs sent are those submitted and the one held; the jobs the pool has started are those that
  run and those that are done, and the world is what these made of it, one after the other.
\<close>

definition started :: "('d, 'w) dispatch \<Rightarrow> ('d, 'w) Job list" where
  "started s = map fst (filter (\<lambda>(j, err). err = None) (dp_submitted s))"

definition dispatch_inv :: "'w \<Rightarrow> ('d, 'w) dispatch \<Rightarrow> bool" where
  "dispatch_inv w s \<longleftrightarrow>
     dp_sent s = map fst (dp_submitted s) @ held_list (dp_held s) \<and>
     mset (started s) = mset (dp_running s) + mset (dp_done s) \<and>
     dp_world s = fold Job_run (dp_done s) w"

lemma dispatch_inv_step: "dispatch_step Submit n s s' \<Longrightarrow> dispatch_inv w s \<Longrightarrow> dispatch_inv w s'"
  by (induction rule: dispatch_step.induct)
    (auto simp: dispatch_inv_def started_def held_list_def loopPop_receive_def loopPop_submit_def split: submit.splits)

lemma dispatch_inv_reachable: "(dispatch_step Submit n)\<^sup>*\<^sup>* (dispatch_init w) s \<Longrightarrow> dispatch_inv w s"
proof (induction rule: rtranclp_induct)
  case (step s s')
  show ?case by (rule dispatch_inv_step [OF step.hyps(2) step.IH])
qed (simp add: dispatch_inv_def dispatch_init_def started_def held_list_def)

text \<open>The pool keeps to its size: it starts a job only while fewer jobs run.\<close>

definition bounded :: "(nat \<Rightarrow> submit) \<Rightarrow> int \<Rightarrow> bool" where
  "bounded Submit n \<longleftrightarrow> (\<forall>k. Submit k = Started \<longrightarrow> int k < n)"

lemma running_bounded_step:
  "dispatch_step Submit n s s' \<Longrightarrow> bounded Submit n \<Longrightarrow> int (length (dp_running s)) \<le> n \<and> dp_warnings s = 0 \<Longrightarrow>
   int (length (dp_running s')) \<le> n \<and> dp_warnings s' = 0"
  by (induction rule: dispatch_step.induct)
    (auto simp: loopPop_receive_def loopPop_submit_def bounded_def split: submit.splits)

lemma running_bounded:
  "(dispatch_step Submit n)\<^sup>*\<^sup>* (dispatch_init w) s \<Longrightarrow> bounded Submit n \<Longrightarrow> 0 \<le> n \<Longrightarrow>
   int (length (dp_running s)) \<le> n \<and> dp_warnings s = 0"
  by (induction rule: rtranclp_induct) (auto simp: dispatch_init_def dest: running_bounded_step)

text \<open>The pool never refuses, and starts a job while there is room, as it does while it is open.\<close>

definition accepts :: "(nat \<Rightarrow> submit) \<Rightarrow> int \<Rightarrow> bool" where
  "accepts Submit n \<longleftrightarrow> (\<forall>k err. Submit k \<noteq> Refused err) \<and> (\<forall>k. int k < n \<longrightarrow> Submit k = Started)"

lemma accepts_all:
  "(dispatch_step Submit n)\<^sup>*\<^sup>* (dispatch_init w) s \<Longrightarrow> accepts Submit n \<Longrightarrow> \<forall>(j, err)\<in>set (dp_submitted s). err = None"
proof (induction rule: rtranclp_induct)
  case (step s s')
  from step.hyps(2) show ?case
    by (cases rule: dispatch_step.cases)
      (use step.IH step.prems in \<open>auto simp: accepts_def loopPop_receive_def loopPop_submit_def split: submit.splits\<close>)
qed (simp add: dispatch_init_def)

lemma held_is_started:
  assumes "dp_held s = Some job" "accepts Submit n" "0 < n" "int (length (dp_running s)) \<le> n"
  shows "\<exists>s'. (dispatch_step Submit n)\<^sup>*\<^sup>* s s' \<and> dp_held s' = None \<and> dp_submitted s' = dp_submitted s @ [(job, None)]"
proof (cases "int (length (dp_running s)) < n")
  case True
  then have "dispatch_step Submit n s (loopPop_submit Submit job s)" "Submit (length (dp_running s)) = Started"
    using assms(1,2) by (auto simp: accepts_def intro: dispatch_step.submit)
  then show ?thesis by (intro exI [of _ "loopPop_submit Submit job s"]) (auto simp: loopPop_submit_def)
next
  case False
  then obtain r rs where r: "dp_running s = [] @ r # rs" using assms(3) by (cases "dp_running s") auto
  define s1 where "s1 = s\<lparr>dp_running := [] @ rs, dp_done := dp_done s @ [r], dp_world := Job_run r (dp_world s)\<rparr>"
  have 1: "dispatch_step Submit n s s1" unfolding s1_def by (rule dispatch_step.finish [OF r])
  have h: "dp_held s1 = Some job" and k: "Submit (length (dp_running s1)) = Started"
    using assms r by (auto simp: s1_def accepts_def)
  have 2: "dispatch_step Submit n s1 (loopPop_submit Submit job s1)" using h by (rule dispatch_step.submit)
  show ?thesis using 1 2 k
    by (intro exI [of _ "loopPop_submit Submit job s1"]) (auto simp: loopPop_submit_def s1_def)
qed


text \<open>One worker and two jobs that append to a text.\<close>

definition demo_job :: "string \<Rightarrow> (string, string) Job" where
  "demo_job d = \<lparr>job_Data = d, job_Func = (\<lambda>i d w. w @ d)\<rparr>"

definition one_worker :: "nat \<Rightarrow> submit" where
  "one_worker k = (if k < 1 then Started else Wait)"

definition demo_dispatch :: "(string, string) dispatch" where
  "demo_dispatch = loopPop_receive 1 (demo_job ''b'') (loopPop_submit one_worker (demo_job ''a'') (loopPop_receive 1 (demo_job ''a'') (dispatch_init [])))"


text \<open>If the pool refuses a job, the job is lost: it is neither run nor submitted again, and only printed.\<close>

lemma refused_job_lost:
  assumes "Submit (length (dp_running s)) = Refused err" "dp_held s = Some job"
  shows "dp_held (loopPop_submit Submit job s) = None \<and> dp_running (loopPop_submit Submit job s) = dp_running s \<and>
    started (loopPop_submit Submit job s) = started s"
  using assms by (simp add: loopPop_submit_def started_def)

end
