(* ===== verification/Constants.thy ===== *)
theory Constants
  imports Ratelimit Seq Json Config
begin

text \<open>
  The enumerations and names of \<^verbatim>\<open>common/constant.go\<close> and of the clients, as datatypes with the value each constant has on the wire
  or in a store; the codes for scanning and the pages of \<^verbatim>\<open>common/page.go\<close>.  What matters of such names is that no two of them
  meet: constants of a type differ, and the keys that different parts of a server keep in Redis or in the table of sequence
  numbers never coincide.
\<close>

section \<open>Enumerations\<close>

datatype GroupMemberStatus =
    GroupMemberStatusNormal | GroupMemberStatusBlacklist

fun GroupMemberStatus_Int :: "GroupMemberStatus \<Rightarrow> int" where
  "GroupMemberStatus_Int GroupMemberStatusNormal = 1"
| "GroupMemberStatus_Int GroupMemberStatusBlacklist = 2"

datatype GroupMemberRole =
    GroupMemberRoleCreater | GroupMemberRoleManager | GroupMemberRoleNormal

fun GroupMemberRole_Int :: "GroupMemberRole \<Rightarrow> int" where
  "GroupMemberRole_Int GroupMemberRoleCreater = 1"
| "GroupMemberRole_Int GroupMemberRoleManager = 2"
| "GroupMemberRole_Int GroupMemberRoleNormal = 0"

datatype GroupAllowViewHistoryMsgStatus =
    GroupAllowViewHistoryMsgDisabled | GroupAllowViewHistoryMsgEnabled

fun GroupAllowViewHistoryMsgStatus_Int :: "GroupAllowViewHistoryMsgStatus \<Rightarrow> int" where
  "GroupAllowViewHistoryMsgStatus_Int GroupAllowViewHistoryMsgDisabled = 0"
| "GroupAllowViewHistoryMsgStatus_Int GroupAllowViewHistoryMsgEnabled = 1"

text \<open>The flags of sequence numbers.\<close>

datatype SeqKey =
    GroupMemberSeqKey | GroupSettingSeqKey | GroupSeqKey | UserSettingSeqKey | UserSeqKey | FriendSeqKey
  | MessageExtraSeqKey | MessageReactionSeqKey | RobotSeqKey | RobotEventSeqKey | SensitiveWordsKey
  | RemindersKey | SyncConversationExtraKey | ProhibitWordKey

fun SeqKey_String :: "SeqKey \<Rightarrow> string" where
  "SeqKey_String GroupMemberSeqKey = ''groupMember''"
| "SeqKey_String GroupSettingSeqKey = ''groupSetting''"
| "SeqKey_String GroupSeqKey = ''group''"
| "SeqKey_String UserSettingSeqKey = ''userSetting''"
| "SeqKey_String UserSeqKey = ''user''"
| "SeqKey_String FriendSeqKey = ''friend''"
| "SeqKey_String MessageExtraSeqKey = ''messageExtra''"
| "SeqKey_String MessageReactionSeqKey = ''messageReaction''"
| "SeqKey_String RobotSeqKey = ''robot''"
| "SeqKey_String RobotEventSeqKey = ''robotEventSeq:''"
| "SeqKey_String SensitiveWordsKey = ''sensitiveWords''"
| "SeqKey_String RemindersKey = ''reminders''"
| "SeqKey_String SyncConversationExtraKey = ''syncConversationExtra''"
| "SeqKey_String ProhibitWordKey = ''ProhibitWord''"

text \<open>The attributes of a group.\<close>

datatype GroupAttrKey =
    GroupAttrKeyName | GroupAttrKeyNotice | GroupAttrKeyForbidden | GroupAttrKeyInvite
  | GroupAttrKeyForbiddenAddFriend | GroupAttrKeyStatus | GroupAllowViewHistoryMsg
  | GroupAllowMemberPinnedMessage

fun GroupAttrKey_String :: "GroupAttrKey \<Rightarrow> string" where
  "GroupAttrKey_String GroupAttrKeyName = ''name''"
| "GroupAttrKey_String GroupAttrKeyNotice = ''notice''"
| "GroupAttrKey_String GroupAttrKeyForbidden = ''forbidden''"
| "GroupAttrKey_String GroupAttrKeyInvite = ''invite''"
| "GroupAttrKey_String GroupAttrKeyForbiddenAddFriend = ''forbidden_add_friend''"
| "GroupAttrKey_String GroupAttrKeyStatus = ''status''"
| "GroupAttrKey_String GroupAllowViewHistoryMsg = ''allow_view_history_msg''"
| "GroupAttrKey_String GroupAllowMemberPinnedMessage = ''allow_member_pinned_message''"

text \<open>The names of command messages.\<close>

datatype Cmd =
    CmdChannelUpdate | CmdGroupMemberUpdate | CmdConversationUnreadClear | CmdGroupAvatarUpdate
  | CmdCommunityAvatarUpdate | CmdCommunityCoverUpdate | CmdConversationDelete | CmdFriendRequest
  | CmdFriendAccept | CmdFriendDeleted | CmdUserAvatarUpdate | CmdTyping | CmdOnlineStatus | CmdMomentMsg
  | CmdSyncMessageExtra | CmdSyncMessageReaction | CmdPCQuit | CmdConversationDeleted | CmdSyncReminders
  | CmdSyncConversationExtra | CmdOrganizationInfoUpdate | CmdQuitOrganization | CmdJoinOrganization
  | CmdSyncPinnedMessage | CmdMessageErase

fun Cmd_String :: "Cmd \<Rightarrow> string" where
  "Cmd_String CmdChannelUpdate = ''channelUpdate''"
| "Cmd_String CmdGroupMemberUpdate = ''memberUpdate''"
| "Cmd_String CmdConversationUnreadClear = ''unreadClear''"
| "Cmd_String CmdGroupAvatarUpdate = ''groupAvatarUpdate''"
| "Cmd_String CmdCommunityAvatarUpdate = ''communityAvatarUpdate''"
| "Cmd_String CmdCommunityCoverUpdate = ''communityCoverUpdate''"
| "Cmd_String CmdConversationDelete = ''conversationDelete''"
| "Cmd_String CmdFriendRequest = ''friendRequest''"
| "Cmd_String CmdFriendAccept = ''friendAccept''"
| "Cmd_String CmdFriendDeleted = ''friendDeleted''"
| "Cmd_String CmdUserAvatarUpdate = ''userAvatarUpdate''"
| "Cmd_String CmdTyping = ''typing''"
| "Cmd_String CmdOnlineStatus = ''onlineStatus''"
| "Cmd_String CmdMomentMsg = ''momentMsg''"
| "Cmd_String CmdSyncMessageExtra = ''syncMessageExtra''"
| "Cmd_String CmdSyncMessageReaction = ''syncMessageReaction''"
| "Cmd_String CmdPCQuit = ''pcQuit''"
| "Cmd_String CmdConversationDeleted = ''conversationDeleted''"
| "Cmd_String CmdSyncReminders = ''syncReminders''"
| "Cmd_String CmdSyncConversationExtra = ''syncConversationExtra''"
| "Cmd_String CmdOrganizationInfoUpdate = ''organizationInfoUpdate''"
| "Cmd_String CmdQuitOrganization = ''quitOrganization''"
| "Cmd_String CmdJoinOrganization = ''joinOrganization''"
| "Cmd_String CmdSyncPinnedMessage = ''syncPinnedMessage''"
| "Cmd_String CmdMessageErase = ''messageErase''"

text \<open>The prefixes of cache keys.\<close>

datatype CachePrefix =
    UserDeviceTokenPrefix | UserDeviceBadgePrefix | QRCodeCachePrefix | AuthCodeCachePrefix
  | DeviceCacheUUIDPrefix

fun CachePrefix_String :: "CachePrefix \<Rightarrow> string" where
  "CachePrefix_String UserDeviceTokenPrefix = ''userDeviceToken:''"
| "CachePrefix_String UserDeviceBadgePrefix = ''userDeviceBadge''"
| "CachePrefix_String QRCodeCachePrefix = ''qrcode:''"
| "CachePrefix_String AuthCodeCachePrefix = ''authcode:''"
| "CachePrefix_String DeviceCacheUUIDPrefix = ''deviceCacheUUID:''"

datatype AuthCodeType =
    AuthCodeTypeJoinGroup | AuthCodeTypeGroupMemberInvite | AuthCodeTypeScanLogin

fun AuthCodeType_String :: "AuthCodeType \<Rightarrow> string" where
  "AuthCodeType_String AuthCodeTypeJoinGroup = ''joinGroup''"
| "AuthCodeType_String AuthCodeTypeGroupMemberInvite = ''groupMemberInvite''"
| "AuthCodeType_String AuthCodeTypeScanLogin = ''scanLogin''"

datatype DeviceType =
    DeviceTypeIOS | DeviceTypeMI | DeviceTypeHMS | DeviceTypeFirebase | DeviceTypeOPPO | DeviceTypeVIVO

fun DeviceType_String :: "DeviceType \<Rightarrow> string" where
  "DeviceType_String DeviceTypeIOS = ''IOS''"
| "DeviceType_String DeviceTypeMI = ''MI''"
| "DeviceType_String DeviceTypeHMS = ''HMS''"
| "DeviceType_String DeviceTypeFirebase = ''FIREBASE''"
| "DeviceType_String DeviceTypeOPPO = ''OPPO''"
| "DeviceType_String DeviceTypeVIVO = ''VIVO''"

datatype ScanLoginStatus =
    ScanLoginStatusExpired | ScanLoginStatusWaitScan | ScanLoginStatusScanned | ScanLoginStatusAuthed

fun ScanLoginStatus_String :: "ScanLoginStatus \<Rightarrow> string" where
  "ScanLoginStatus_String ScanLoginStatusExpired = ''expired''"
| "ScanLoginStatus_String ScanLoginStatusWaitScan = ''waitScan''"
| "ScanLoginStatus_String ScanLoginStatusScanned = ''scanned''"
| "ScanLoginStatus_String ScanLoginStatusAuthed = ''authed''"

datatype VercodeType =
    VercodeUser | VercodeGroupMember | VercodeQRCode | VercodeFriend | VercodeMailList | VercodeInvitationCode

fun VercodeType_Int :: "VercodeType \<Rightarrow> int" where
  "VercodeType_Int VercodeUser = 1"
| "VercodeType_Int VercodeGroupMember = 2"
| "VercodeType_Int VercodeQRCode = 3"
| "VercodeType_Int VercodeFriend = 4"
| "VercodeType_Int VercodeMailList = 5"
| "VercodeType_Int VercodeInvitationCode = 6"

datatype UserStatus =
    UserAvailable | UserDisable

fun UserStatus_Int :: "UserStatus \<Rightarrow> int" where
  "UserStatus_Int UserAvailable = 1"
| "UserStatus_Int UserDisable = 0"

datatype RTCCallType =
    RTCCallTypeAudio | RTCCallTypeVideo

fun RTCCallType_Int :: "RTCCallType \<Rightarrow> int" where
  "RTCCallType_Int RTCCallTypeAudio = 0"
| "RTCCallType_Int RTCCallTypeVideo = 1"

text \<open>The kinds of events and their state, \<^verbatim>\<open>pkg/wkevent/event.go\<close>.\<close>

datatype EventType = EventNone | EventMessage | EventCMD

fun EventType_Int :: "EventType \<Rightarrow> int" where
  "EventType_Int EventNone = 0"
| "EventType_Int EventMessage = 1"
| "EventType_Int EventCMD = 2"

datatype EventStatus = EventWait | EventSuccess | EventFail

fun EventStatus_Int :: "EventStatus \<Rightarrow> int" where
  "EventStatus_Int EventWait = 0"
| "EventStatus_Int EventSuccess = 1"
| "EventStatus_Int EventFail = 2"

text \<open>Devices and modes of the messaging service, \<^verbatim>\<open>config/msg.go\<close>.\<close>

datatype DeviceLevel = DeviceLevelSlave | DeviceLevelMaster

fun DeviceLevel_Uint8 :: "DeviceLevel \<Rightarrow> nat" where
  "DeviceLevel_Uint8 DeviceLevelSlave = 0"
| "DeviceLevel_Uint8 DeviceLevelMaster = 1"

datatype DeviceFlag = APP | Web | PC

fun DeviceFlag_Uint8 :: "DeviceFlag \<Rightarrow> nat" where
  "DeviceFlag_Uint8 APP = 0"
| "DeviceFlag_Uint8 Web = 1"
| "DeviceFlag_Uint8 PC = 2"

datatype UpdateTokenStatus = UpdateTokenStatusSuccess | UpdateTokenStatusBan

fun UpdateTokenStatus_Int :: "UpdateTokenStatus \<Rightarrow> int" where
  "UpdateTokenStatus_Int UpdateTokenStatusSuccess = 200"
| "UpdateTokenStatus_Int UpdateTokenStatusBan = 19"

datatype PullMode = PullModeDown | PullModeUp

fun PullMode_Int :: "PullMode \<Rightarrow> int" where
  "PullMode_Int PullModeDown = 0"
| "PullMode_Int PullModeUp = 1"

text \<open>Services of the configuration, \<^verbatim>\<open>config/config.go\<close>.\<close>

datatype FileService = FileServiceAliyunOSS | FileServiceSeaweedFS | FileService_Minio | FileServiceQiniu | FileServiceTencentCOS

fun FileService_String :: "FileService \<Rightarrow> string" where
  "FileService_String FileServiceAliyunOSS = ''aliyunOSS''"
| "FileService_String FileServiceSeaweedFS = ''seaweedFS''"
| "FileService_String FileService_Minio = FileServiceMinio"
| "FileService_String FileServiceQiniu = ''qiniu''"
| "FileService_String FileServiceTencentCOS = ''tencentCOS''"

datatype Mode = Mode_Debug | Mode_Release | BenchMode

fun Mode_String :: "Mode \<Rightarrow> string" where
  "Mode_String Mode_Debug = DebugMode"
| "Mode_String Mode_Release = ReleaseMode"
| "Mode_String BenchMode = ''bench''"

datatype SMSProvider = SMSProvider_Aliyun | SMSProviderUnisms | SMSProviderSmsbao

fun SMSProvider_String :: "SMSProvider \<Rightarrow> string" where
  "SMSProvider_String SMSProvider_Aliyun = SMSProviderAliyun"
| "SMSProvider_String SMSProviderUnisms = ''unisms''"
| "SMSProvider_String SMSProviderSmsbao = ''smsbao''"

section \<open>Codes and pages\<close>

text \<open>The type of a code is any text, with these two in use.\<close>

definition QRCodeTypeGroup :: string where "QRCodeTypeGroup = ''group''"

definition QRCodeTypeScanLogin :: string where "QRCodeTypeScanLogin = ''scanLogin''"

record QRCodeModel =
  qr_Type :: string
  qr_Data :: "(string \<times> json) list"

definition NewQRCodeModel :: "string \<Rightarrow> (string \<times> json) list \<Rightarrow> QRCodeModel" where
  "NewQRCodeModel typ data = \<lparr>qr_Type = typ, qr_Data = data\<rparr>"

text \<open>The type is written between quotes as it is, without escapes.\<close>

definition QRCodeType_MarshalJSON :: "string \<Rightarrow> string" where
  "QRCodeType_MarshalJSON q = (let buffer = [CHR 0x22]; buffer = buffer @ q in buffer @ [CHR 0x22])"

definition QRCodeType_UnmarshalJSON :: "string \<Rightarrow> json_error + string" where
  "QRCodeType_UnmarshalJSON b =
     (case json_Unmarshal b of
        None \<Rightarrow> Inl JsonSyntax
      | Some (JStr j) \<Rightarrow> Inr j
      | Some JNull \<Rightarrow> Inr []
      | Some _ \<Rightarrow> Inl JsonType)"

record 'a PageResult =
  pg_PageIndex :: int
  pg_PageSize :: int
  pg_Total :: int
  pg_Data :: 'a

definition NewPageResult :: "int \<Rightarrow> int \<Rightarrow> int \<Rightarrow> 'a \<Rightarrow> 'a PageResult" where
  "NewPageResult pageIndex pageSize tot data = \<lparr>pg_PageIndex = pageIndex, pg_PageSize = pageSize, pg_Total = tot, pg_Data = data\<rparr>"

text \<open>A text that the JSON encoder would not change: printable ASCII without quotes, backslashes and the signs of HTML.\<close>

definition plain_char :: "char \<Rightarrow> bool" where
  "plain_char c \<longleftrightarrow> 32 \<le> (of_char c :: nat) \<and> (of_char c :: nat) < 128 \<and> c \<notin> {CHR 0x22, CHR 0x5C, CHR ''<'', CHR ''>'', CHR ''&''}"

lemma json_esc_plain: "list_all plain_char q \<Longrightarrow> json_esc q = q"
proof (induction q)
  case (Cons c cs)
  then have c: "plain_char c" "(of_char c :: nat) < 128" by (simp_all add: plain_char_def)
  then have n: "utf8_len (c # cs) = 1" by (intro utf8_len_ascii)
  have ne: "c \<noteq> d" if "(of_char d :: nat) < 32 \<or> 128 \<le> (of_char d :: nat)" for d
    using that c unfolding plain_char_def by fastforce
  have "c \<noteq> CHR 0x0A" "c \<noteq> CHR 0x0D" "c \<noteq> CHR 0x09" "c \<noteq> char_of (226 :: nat)" by (rule ne; simp)+
  moreover have "json_esc cs = cs" "c \<noteq> CHR 0x22" "c \<noteq> CHR 0x5C" "c \<noteq> CHR ''<''" "c \<noteq> CHR ''>''" "c \<noteq> CHR ''&''" "\<not> (of_char c :: nat) < 32"
    using Cons c(1) by (simp_all add: plain_char_def)
  ultimately show ?case using n by (simp add: json_esc.simps(2) Let_def)
qed simp

text \<open>A plain type is read back; one with a quote makes the document invalid, and one with a backslash is read as another one.\<close>

lemma QRCodeType_roundtrip:
  assumes "list_all plain_char q"
  shows "QRCodeType_UnmarshalJSON (QRCodeType_MarshalJSON q) = Inr q"
proof -
  have "utf8_valid q" using assms by (intro utf8_valid_ascii) (auto simp: list_all_iff plain_char_def)
  then have "json_Unmarshal (json_print (JStr q)) = Some (JStr q)" by (intro json_Unmarshal_print) (simp add: json_max_depth_def)
  then show ?thesis by (simp add: QRCodeType_UnmarshalJSON_def QRCodeType_MarshalJSON_def json_quote_def json_esc_plain [OF assms])
qed

lemma QRCodeType_unescaped:
  "QRCodeType_UnmarshalJSON (QRCodeType_MarshalJSON [CHR ''a'', CHR 0x22]) = Inl JsonSyntax"
  "QRCodeType_UnmarshalJSON (QRCodeType_MarshalJSON [CHR 0x5C, CHR ''n'']) = Inr [CHR 0x0A]"
  by code_simp+

section \<open>Names never meet\<close>

lemma inj_Cmd_String: "Cmd_String x = Cmd_String y \<Longrightarrow> x = y"
  by (cases x; cases y) simp_all

lemma inj_GroupAttrKey_String: "GroupAttrKey_String x = GroupAttrKey_String y \<Longrightarrow> x = y"
  by (cases x; cases y) simp_all

lemma inj_CachePrefix_String: "CachePrefix_String x = CachePrefix_String y \<Longrightarrow> x = y"
  by (cases x; cases y) simp_all

lemma inj_Mode_String: "Mode_String x = Mode_String y \<Longrightarrow> x = y"
  by (cases x; cases y) (simp_all add: DebugMode_def ReleaseMode_def FileServiceMinio_def SMSProviderAliyun_def)

lemma inj_FileService_String: "FileService_String x = FileService_String y \<Longrightarrow> x = y"
  by (cases x; cases y) (simp_all add: DebugMode_def ReleaseMode_def FileServiceMinio_def SMSProviderAliyun_def)

lemma inj_SMSProvider_String: "SMSProvider_String x = SMSProvider_String y \<Longrightarrow> x = y"
  by (cases x; cases y) (simp_all add: DebugMode_def ReleaseMode_def FileServiceMinio_def SMSProviderAliyun_def)

lemma inj_GroupMemberStatus_Int: "GroupMemberStatus_Int x = GroupMemberStatus_Int y \<Longrightarrow> x = y"
  by (cases x; cases y) simp_all

lemma inj_GroupMemberRole_Int: "GroupMemberRole_Int x = GroupMemberRole_Int y \<Longrightarrow> x = y"
  by (cases x; cases y) simp_all

lemma inj_GroupAllowViewHistoryMsgStatus_Int: "GroupAllowViewHistoryMsgStatus_Int x = GroupAllowViewHistoryMsgStatus_Int y \<Longrightarrow> x = y"
  by (cases x; cases y) simp_all

lemma inj_AuthCodeType_String: "AuthCodeType_String x = AuthCodeType_String y \<Longrightarrow> x = y"
  by (cases x; cases y) simp_all

lemma inj_DeviceType_String: "DeviceType_String x = DeviceType_String y \<Longrightarrow> x = y"
  by (cases x; cases y) simp_all

lemma inj_ScanLoginStatus_String: "ScanLoginStatus_String x = ScanLoginStatus_String y \<Longrightarrow> x = y"
  by (cases x; cases y) simp_all

lemma inj_VercodeType_Int: "VercodeType_Int x = VercodeType_Int y \<Longrightarrow> x = y"
  by (cases x; cases y) simp_all

lemma inj_UserStatus_Int: "UserStatus_Int x = UserStatus_Int y \<Longrightarrow> x = y"
  by (cases x; cases y) simp_all

lemma inj_RTCCallType_Int: "RTCCallType_Int x = RTCCallType_Int y \<Longrightarrow> x = y"
  by (cases x; cases y) simp_all

lemma inj_EventType_Int: "EventType_Int x = EventType_Int y \<Longrightarrow> x = y"
  by (cases x; cases y) simp_all

lemma inj_EventStatus_Int: "EventStatus_Int x = EventStatus_Int y \<Longrightarrow> x = y"
  by (cases x; cases y) simp_all

lemma inj_DeviceLevel_Uint8: "DeviceLevel_Uint8 x = DeviceLevel_Uint8 y \<Longrightarrow> x = y"
  by (cases x; cases y) simp_all

lemma inj_DeviceFlag_Uint8: "DeviceFlag_Uint8 x = DeviceFlag_Uint8 y \<Longrightarrow> x = y"
  by (cases x; cases y) simp_all

lemma inj_UpdateTokenStatus_Int: "UpdateTokenStatus_Int x = UpdateTokenStatus_Int y \<Longrightarrow> x = y"
  by (cases x; cases y) simp_all

lemma inj_PullMode_Int: "PullMode_Int x = PullMode_Int y \<Longrightarrow> x = y"
  by (cases x; cases y) simp_all

lemma SeqKey_String_inj: "SeqKey_String x = SeqKey_String y \<Longrightarrow> x = y"
  by (cases x; cases y) simp_all

text \<open>The flags of sequence numbers: a constant, or the numbers of the events of one robot.\<close>

fun seq_flag :: "SeqKey \<Rightarrow> string \<Rightarrow> string" where
  "seq_flag RobotEventSeqKey robotID = SeqKey_String RobotEventSeqKey @ robotID"
| "seq_flag k robotID = SeqKey_String k"

lemma seq_flag_inj:
  assumes "seq_key (seq_flag k r) = seq_key (seq_flag k' r')"
  shows "k = k' \<and> (k = RobotEventSeqKey \<longrightarrow> r = r')"
  using assms unfolding seq_key_def by (cases k; cases k') simp_all

text \<open>
  The parts of a server that keep keys in Redis: the caches of this library and of its users, sessions, and the three rate
  limiters, the strict one for each tag.
\<close>

datatype keyspace =
    CacheKeys CachePrefix | SessionKeys | LoginDeviceKeys | UIDTokenKeys | FriendApplyKeys
  | IPLimitKeys | StrictLimitKeys string | UIDLimitKeys

fun keyspace_prefix :: "Cache_config \<Rightarrow> keyspace \<Rightarrow> string" where
  "keyspace_prefix c (CacheKeys p) = CachePrefix_String p"
| "keyspace_prefix c SessionKeys = Cache_TokenCachePrefix c"
| "keyspace_prefix c LoginDeviceKeys = Cache_LoginDeviceCachePrefix c"
| "keyspace_prefix c UIDTokenKeys = Cache_UIDTokenCachePrefix c"
| "keyspace_prefix c FriendApplyKeys = Cache_FriendApplyTokenCachePrefix c"
| "keyspace_prefix c IPLimitKeys = ''ratelimit:ip:''"
| "keyspace_prefix c (StrictLimitKeys tag) = ''ratelimit:strict:'' @ tag @ '':''"
| "keyspace_prefix c UIDLimitKeys = ''ratelimit:uid:''"

definition tag_ok :: "keyspace \<Rightarrow> bool" where
  "tag_ok s \<longleftrightarrow> (case s of StrictLimitKeys tag \<Rightarrow> CHR '':'' \<notin> set tag | _ \<Rightarrow> True)"

lemma append_sep_eq: "x \<notin> set a \<Longrightarrow> x \<notin> set b \<Longrightarrow> a @ x # c = b @ x # d \<Longrightarrow> a = b"
proof (induction a arbitrary: b)
  case Nil
  then show ?case by (cases b) auto
next
  case (Cons y a)
  then show ?case by (cases b) auto
qed

lemma cache_keys_apart:
  "CacheKeys p \<noteq> s \<Longrightarrow> keyspace_prefix default_Cache (CacheKeys p) @ x \<noteq> keyspace_prefix default_Cache s @ y"
proof (cases s)
  case (CacheKeys p')
  then show "CacheKeys p \<noteq> s \<Longrightarrow> ?thesis" by (cases p; cases p') simp_all
qed (cases p; simp add: default_Cache_def)+

lemma keyspace_disjoint:
  assumes "s \<noteq> s'" "tag_ok s" "tag_ok s'"
  shows "keyspace_prefix default_Cache s @ x \<noteq> keyspace_prefix default_Cache s' @ y"
proof (cases "(\<exists>p. s = CacheKeys p) \<or> (\<exists>p. s' = CacheKeys p)")
  case True
  then show ?thesis using cache_keys_apart [of _ s' x y] cache_keys_apart [of _ s y x] assms(1) by metis
next
  case False
  note not_cache = False
  show ?thesis
  proof (cases "\<exists>tag tag'. s = StrictLimitKeys tag \<and> s' = StrictLimitKeys tag'")
    case True
    then obtain tag tag' where "s = StrictLimitKeys tag" "s' = StrictLimitKeys tag'" "tag \<noteq> tag'" using assms(1) by auto
    then show ?thesis using append_sep_eq [of "CHR '':''" tag tag' x y] assms(2,3) by (auto simp: tag_ok_def)
  next
    case False
    with not_cache assms(1) show ?thesis by (cases s; cases s') (simp_all add: default_Cache_def)
  qed
qed



text \<open>A tag with a colon meets another one when addresses of IPv6 are counted.\<close>

lemma strict_tags_collide:
  "keyspace_prefix c (StrictLimitKeys ''login'') @ ''2001:db8::1'' = keyspace_prefix c (StrictLimitKeys ''login:2001'') @ ''db8::1''"
  by simp

end
