(* ===== verification/Startup.thy ===== *)
theory Startup
  imports Service_Context Tracing Worker_Pool Constants
begin

text \<open>
  What a context opens when it is created, and the parts of it that only pass calls on: \<^verbatim>\<open>NewContext\<close> and the accessors of
  \<^verbatim>\<open>config/context.go\<close>, the task queue of \<^verbatim>\<open>config/asynctask.go\<close>, the search client of \<^verbatim>\<open>config/elasticsearch.go\<close> and the events of
  \<^verbatim>\<open>pkg/wkevent\<close>.  The libraries are arguments; a constructor that reports an error makes the start of the service panic.
\<close>

section \<open>The task queue\<close>

record machinery_Config =
  mc_DefaultQueue :: string
  mc_ResultsExpireIn :: int
  mc_MaxIdle :: int
  mc_IdleTimeout :: int
  mc_ReadTimeout :: int
  mc_WriteTimeout :: int
  mc_ConnectTimeout :: int
  mc_NormalTasksPollPeriod :: int
  mc_DelayedTasksPollPeriod :: int

definition asynctask_config :: machinery_Config where
  "asynctask_config = \<lparr>mc_DefaultQueue = ''machinery_tasks'', mc_ResultsExpireIn = 3600, mc_MaxIdle = 3, mc_IdleTimeout = 240, mc_ReadTimeout = 15,
     mc_WriteTimeout = 15, mc_ConnectTimeout = 15, mc_NormalTasksPollPeriod = 1000, mc_DelayedTasksPollPeriod = 500\<rparr>"

text \<open>
  \<open>'m\<close> is a server of machinery, made of a broker \<open>'b\<close> and a backend \<open>'e\<close>; \<open>'f\<close> is a function that does a task, \<open>'g\<close> a task to send, \<open>'r\<close> its
  result, \<open>'k\<close> a worker, \<open>'q\<close> a context of a call.  A worker reports what it does to three functions, which only log.
\<close>

datatype 'g worker_log = LogError string | LogStart 'g | LogEnd 'g

record ('m, 'b, 'e, 'f, 'g, 'r, 'k, 'q) machinery =
  my_NewBroker :: "machinery_Config \<Rightarrow> string list \<Rightarrow> int \<Rightarrow> 'b"
  my_NewBackend :: "machinery_Config \<Rightarrow> string list \<Rightarrow> int \<Rightarrow> 'e"
  my_NewServer :: "machinery_Config \<Rightarrow> 'b \<Rightarrow> 'e \<Rightarrow> 'm"
  my_RegisterTask :: "string \<Rightarrow> 'f \<Rightarrow> 'm \<Rightarrow> string option \<times> 'm"
  my_RegisterTasks :: "(string \<rightharpoonup> 'f) \<Rightarrow> 'm \<Rightarrow> string option \<times> 'm"
  my_SendTask :: "'g \<Rightarrow> 'm \<Rightarrow> (string + 'r) \<times> 'm"
  my_SendTaskWithContext :: "'q \<Rightarrow> 'g \<Rightarrow> 'm \<Rightarrow> (string + 'r) \<times> 'm"
  my_NewWorker :: "string \<Rightarrow> int \<Rightarrow> 'm \<Rightarrow> 'k"
  my_SetPostTaskHandler :: "('g \<Rightarrow> 'g worker_log) \<Rightarrow> 'k \<Rightarrow> 'k"
  my_SetErrorHandler :: "(string \<Rightarrow> 'g worker_log) \<Rightarrow> 'k \<Rightarrow> 'k"
  my_SetPreTaskHandler :: "('g \<Rightarrow> 'g worker_log) \<Rightarrow> 'k \<Rightarrow> 'k"
  my_Launch :: "'k \<Rightarrow> string option"

definition NewAsyncTask :: "('m, 'b, 'e, 'f, 'g, 'r, 'k, 'q) machinery \<Rightarrow> Config \<Rightarrow> 'm" where
  "NewAsyncTask my cfg =
     (let cnf = asynctask_config;
          broker = my_NewBroker my cnf [DB_AsynctaskRedisAddr (cfg_DB cfg)] 0;
          backend = my_NewBackend my cnf [DB_AsynctaskRedisAddr (cfg_DB cfg)] 0
      in my_NewServer my cnf broker backend)"

definition RegisterTask :: "('m, 'b, 'e, 'f, 'g, 'r, 'k, 'q) machinery \<Rightarrow> string \<Rightarrow> 'f \<Rightarrow> 'm \<Rightarrow> string option \<times> 'm" where
  "RegisterTask my name taskFunc a = my_RegisterTask my name taskFunc a"

definition RegisterTasks :: "('m, 'b, 'e, 'f, 'g, 'r, 'k, 'q) machinery \<Rightarrow> (string \<rightharpoonup> 'f) \<Rightarrow> 'm \<Rightarrow> string option \<times> 'm" where
  "RegisterTasks my namedTaskFuncs a = my_RegisterTasks my namedTaskFuncs a"

definition SendTask :: "('m, 'b, 'e, 'f, 'g, 'r, 'k, 'q) machinery \<Rightarrow> 'g \<Rightarrow> 'm \<Rightarrow> (string + 'r) \<times> 'm" where
  "SendTask my task a = my_SendTask my task a"

definition SendTaskWithContext :: "('m, 'b, 'e, 'f, 'g, 'r, 'k, 'q) machinery \<Rightarrow> 'q \<Rightarrow> 'g \<Rightarrow> 'm \<Rightarrow> (string + 'r) \<times> 'm" where
  "SendTaskWithContext my ctx task a = my_SendTaskWithContext my ctx task a"

definition LaunchWorker :: "('m, 'b, 'e, 'f, 'g, 'r, 'k, 'q) machinery \<Rightarrow> string \<Rightarrow> int \<Rightarrow> 'm \<Rightarrow> string option" where
  "LaunchWorker my consumerTag concurrency a =
     (let worker = my_NewWorker my consumerTag concurrency a;
          worker = my_SetPostTaskHandler my LogEnd worker;
          worker = my_SetErrorHandler my LogError worker;
          worker = my_SetPreTaskHandler my LogStart worker
      in my_Launch my worker)"

section \<open>Creating a context\<close>

text \<open>The libraries a context needs: numbers of nodes for identifiers, pools of workers, a wheel of timers.\<close>

record ('n, 'p, 'tw) start_lib =
  sl_NewNode :: "int \<Rightarrow> string + 'n"
  sl_NewPool :: "int \<Rightarrow> string + 'p"
  sl_NewTimingWheel :: "int \<Rightarrow> int \<Rightarrow> 'tw go"
  sl_StartWheel :: "'tw \<Rightarrow> 'tw"

text \<open>The tracer of the package \<^verbatim>\<open>opentracing\<close>: the one of the tracing library, or the wrapper around it.\<close>

datatype ('t, 'cl) global_tracer = NoTracer | LibTracer 't | Wrapped "('t, 'cl) Tracer"

record ('n, 'p, 'tw, 'm, 't, 'cl, 'es, 'hr) ServiceContext =
  sc_cfg :: Config
  sc_UserIDGen :: 'n
  sc_EventPool :: "'p Collector"
  sc_PushPool :: "'p Collector"
  sc_RobotEventPool :: "'p Collector"
  sc_aysncTask :: 'm
  sc_timingWheel :: 'tw
  sc_tracer :: "('t, 'cl) Tracer"
  sc_elasticClient :: "'es option"
  sc_httpRouter :: "'hr option"

definition NewContext ::
  "('n, 'p, 'tw) start_lib \<Rightarrow> ('m, 'b, 'e, 'f, 'g, 'r, 'k, 'q) machinery \<Rightarrow> ('t, 'cl, 's, 'sc, 'o, 'x) tracing_lib \<Rightarrow> Config \<Rightarrow>
   (('n, 'p, 'tw, 'm, 't, 'cl, 'es, 'hr) ServiceContext \<times> ('t, 'cl) global_tracer) go" where
  "NewContext sl my lib cfg =
     (case sl_NewNode sl (Cluster_NodeID (cfg_Cluster cfg)) of
        Inl err \<Rightarrow> Panic err
      | Inr userIDGen \<Rightarrow>
          go_bind (StartDispatcher (sl_NewPool sl) (cfg_EventPoolSize cfg)) (\<lambda>eventPool.
          go_bind (StartDispatcher (sl_NewPool sl) (Push_PushPoolSize (cfg_Push cfg))) (\<lambda>pushPool.
          go_bind (StartDispatcher (sl_NewPool sl) (Robot_EventPoolSize (cfg_Robot cfg))) (\<lambda>robotEventPool.
          go_bind (sl_NewTimingWheel sl (cfg_TimingWheelTick cfg) (cfg_TimingWheelSize cfg)) (\<lambda>timingWheel.
            case NewTracer lib cfg of
              Inl err \<Rightarrow> Panic err
            | Inr (tracer, _) \<Rightarrow>
                Ret (\<lparr>sc_cfg = cfg, sc_UserIDGen = userIDGen, sc_EventPool = eventPool, sc_PushPool = pushPool,
                      sc_RobotEventPool = robotEventPool, sc_aysncTask = NewAsyncTask my cfg, sc_timingWheel = sl_StartWheel sl timingWheel,
                      sc_tracer = tracer, sc_elasticClient = None, sc_httpRouter = None\<rparr>, Wrapped tracer))))))"

definition GetConfig :: "('n, 'p, 'tw, 'm, 't, 'cl, 'es, 'hr) ServiceContext \<Rightarrow> Config" where
  "GetConfig c = sc_cfg c"

definition Context_AsyncTask :: "('n, 'p, 'tw, 'm, 't, 'cl, 'es, 'hr) ServiceContext \<Rightarrow> 'm" where
  "Context_AsyncTask c = sc_aysncTask c"

definition Context_Tracer :: "('n, 'p, 'tw, 'm, 't, 'cl, 'es, 'hr) ServiceContext \<Rightarrow> ('t, 'cl) Tracer" where
  "Context_Tracer c = sc_tracer c"

definition GetHttpRoute :: "('n, 'p, 'tw, 'm, 't, 'cl, 'es, 'hr) ServiceContext \<Rightarrow> 'hr option" where
  "GetHttpRoute c = sc_httpRouter c"

definition SetHttpRoute ::
  "'hr \<Rightarrow> ('n, 'p, 'tw, 'm, 't, 'cl, 'es, 'hr) ServiceContext \<Rightarrow> ('n, 'p, 'tw, 'm, 't, 'cl, 'es, 'hr) ServiceContext" where
  "SetHttpRoute r c = c\<lparr>sc_httpRouter := Some r\<rparr>"

text \<open>\<^verbatim>\<open>Schedule\<close> hands the wheel a schedule, which gives the time after each run.\<close>

definition Schedule :: "((int \<Rightarrow> int) \<Rightarrow> 'fn \<Rightarrow> 'tw \<Rightarrow> 'tm \<times> 'tw) \<Rightarrow> int \<Rightarrow> 'fn \<Rightarrow>
   ('n, 'p, 'tw, 'm, 't, 'cl, 'es, 'hr) ServiceContext \<Rightarrow> 'tm \<times> ('n, 'p, 'tw, 'm, 't, 'cl, 'es, 'hr) ServiceContext" where
  "Schedule ScheduleFunc interval f c =
     (let (timer, tw) = ScheduleFunc (everyScheduler_Next interval) f (sc_timingWheel c) in (timer, c\<lparr>sc_timingWheel := tw\<rparr>))"

text \<open>The search client is opened on first use.\<close>

definition GetElasticsearch ::
  "(string \<Rightarrow> string + 'es) \<Rightarrow> ('n, 'p, 'tw, 'm, 't, 'cl, 'es, 'hr) ServiceContext \<Rightarrow>
   'es go \<times> ('n, 'p, 'tw, 'm, 't, 'cl, 'es, 'hr) ServiceContext" where
  "GetElasticsearch NewClient c =
     (case sc_elasticClient c of
        Some client \<Rightarrow> (Ret client, c)
      | None \<Rightarrow>
          (case NewClient (cfg_ElasticsearchURL (GetConfig c)) of
             Inl err \<Rightarrow> (Panic err, c\<lparr>sc_elasticClient := None\<rparr>)
           | Inr client \<Rightarrow> (Ret client, c\<lparr>sc_elasticClient := Some client\<rparr>)))"

section \<open>Events\<close>

record 'd event_Data =
  ed_Event :: string
  ed_Type :: EventType
  ed_Data :: 'd

text \<open>The interface of the store of events, nil until a service sets it; \<open>'x\<close> is a transaction.\<close>

record ('d, 'x, 'w) Event =
  ev_Begin :: "'d event_Data \<Rightarrow> 'x \<Rightarrow> 'w \<Rightarrow> (string + int) \<times> 'w"
  ev_Commit :: "int \<Rightarrow> 'w \<Rightarrow> 'w"

definition EventBegin :: "('d, 'x, 'w) Event option \<Rightarrow> 'd event_Data \<Rightarrow> 'x \<Rightarrow> 'w \<Rightarrow> ((string + int) \<times> 'w) go" where
  "EventBegin ev data tx w = (case ev of None \<Rightarrow> Panic nil_deref | Some ev \<Rightarrow> Ret (ev_Begin ev data tx w))"

definition EventCommit :: "('d, 'x, 'w) Event option \<Rightarrow> int \<Rightarrow> 'w \<Rightarrow> 'w go" where
  "EventCommit ev eventID w = (case ev of None \<Rightarrow> Panic nil_deref | Some ev \<Rightarrow> Ret (ev_Commit ev eventID w))"

section \<open>Properties\<close>

lemma StartDispatcher_Ret:
  "StartDispatcher P n = Ret co \<longleftrightarrow> P n = Inr (co_pool co) \<and> co_workerCount co = n"
  by (cases co) (auto simp: StartDispatcher_def split: sum.splits)

text \<open>
  A context exists only if every library could be opened: there is no context without its three pools, of the configured sizes,
  its identifiers of the configured node, its queue on the configured address, a running wheel and its tracer, which
  replaces the one of the library as the global tracer, so that the switch of the configuration decides for all spans.
\<close>

theorem NewContext_complete:
  "NewContext sl my lib cfg = Ret (c, gl) \<longleftrightarrow>
     (\<exists>node p1 p2 p3 tw t lt.
        sl_NewNode sl (Cluster_NodeID (cfg_Cluster cfg)) = Inr node \<and> sl_NewPool sl (cfg_EventPoolSize cfg) = Inr p1 \<and>
        sl_NewPool sl (Push_PushPoolSize (cfg_Push cfg)) = Inr p2 \<and> sl_NewPool sl (Robot_EventPoolSize (cfg_Robot cfg)) = Inr p3 \<and>
        sl_NewTimingWheel sl (cfg_TimingWheelTick cfg) (cfg_TimingWheelSize cfg) = Ret tw \<and> NewTracer lib cfg = Inr (t, lt) \<and>
        c = \<lparr>sc_cfg = cfg, sc_UserIDGen = node, sc_EventPool = \<lparr>co_pool = p1, co_workerCount = cfg_EventPoolSize cfg\<rparr>,
             sc_PushPool = \<lparr>co_pool = p2, co_workerCount = Push_PushPoolSize (cfg_Push cfg)\<rparr>,
             sc_RobotEventPool = \<lparr>co_pool = p3, co_workerCount = Robot_EventPoolSize (cfg_Robot cfg)\<rparr>,
             sc_aysncTask = my_NewServer my asynctask_config
               (my_NewBroker my asynctask_config [DB_AsynctaskRedisAddr (cfg_DB cfg)] 0)
               (my_NewBackend my asynctask_config [DB_AsynctaskRedisAddr (cfg_DB cfg)] 0),
             sc_timingWheel = sl_StartWheel sl tw, sc_tracer = t, sc_elasticClient = None, sc_httpRouter = None\<rparr> \<and>
        gl = Wrapped t)"
  by (cases "NewTracer lib cfg") (auto simp: NewContext_def StartDispatcher_def NewAsyncTask_def go_bind_eq_Ret Let_def split: sum.splits prod.splits)

text \<open>The task queue reads an address only: with a password or TLS configured for Redis it still connects without them.\<close>

lemma asynctask_without_credentials:
  "NewAsyncTask my (cfg\<lparr>cfg_DB := (cfg_DB cfg)\<lparr>DB_RedisPass := pass, DB_RedisTLS := tls, DB_RedisTLSCAFile := ca\<rparr>\<rparr>) = NewAsyncTask my cfg"
  by (simp add: NewAsyncTask_def)

text \<open>Unlike the connection to Redis, a search client that could not be opened is tried again by the next caller.\<close>

lemma GetElasticsearch_retried:
  assumes "sc_elasticClient c = None" "NewClient1 (cfg_ElasticsearchURL (sc_cfg c)) = Inl err" "NewClient2 (cfg_ElasticsearchURL (sc_cfg c)) = Inr client"
  shows "fst (GetElasticsearch NewClient1 c) = Panic err \<and>
    fst (GetElasticsearch NewClient2 (snd (GetElasticsearch NewClient1 c))) = Ret client \<and>
    fst (GetElasticsearch NewClient1 (snd (GetElasticsearch NewClient2 c))) = Ret client"
  using assms by (simp add: GetElasticsearch_def GetConfig_def)

lemma everyScheduler_runs: "(everyScheduler_Next interval ^^ n) t = t + int n * interval"
  by (induction n) (simp_all add: everyScheduler_Next_def algebra_simps)

end
