(* ===== verification/Search_Message.thy ===== *)
theory Search_Message
  imports Richtext Visibility
begin

text \<open>
  \<^verbatim>\<open>contract/searchmsg/searchmsg.go\<close>: the messages that are handed to the search index as JSON documents.  A producer encodes a message with the
  visibility it has extracted from the payload; a consumer decodes it.
\<close>

section \<open>The contract\<close>

definition SchemaVersion :: int where
  "SchemaVersion = 2"

definition SourceETLMessageTable :: string where
  "SourceETLMessageTable = ''etl-message-table''"

text \<open>A slice that may be nil and a pointer are options; the raw payload is the value it denotes, \<open>None\<close> if it has no bytes.\<close>

record Message =
  sm_SchemaVersion :: int
  sm_MessageID :: string
  sm_ChannelID :: string
  sm_ChannelType :: int
  sm_FromUID :: string
  sm_SpaceID :: string
  sm_Visibles :: "string list option"
  sm_Content :: "string option"
  sm_ContentType :: int
  sm_RawPayload :: "json option"
  sm_RawExcluded :: bool
  sm_MsgTimestamp :: int
  sm_CreatedAt :: int
  sm_MessageSeq :: nat
  sm_Source :: string

definition omit_list :: "string \<Rightarrow> string list option \<Rightarrow> (string \<times> json) list" where
  "omit_list name xs = (case xs of None \<Rightarrow> [] | Some xs \<Rightarrow> if xs = [] then [] else [(name, JArr (map JStr xs))])"

definition omit_raw :: "string \<Rightarrow> json option \<Rightarrow> (string \<times> json) list" where
  "omit_raw name raw = (case raw of None \<Rightarrow> [] | Some v \<Rightarrow> [(name, v)])"

definition omit_uint :: "string \<Rightarrow> nat \<Rightarrow> (string \<times> json) list" where
  "omit_uint name n = (if n = 0 then [] else [(name, JNum (nat_dec n))])"

definition json_Message :: "Message \<Rightarrow> json" where
  "json_Message m =
     JObj ([(''schema_version'', JInt (sm_SchemaVersion m))] @ [(''message_id'', JStr (sm_MessageID m))] @
           [(''channel_id'', JStr (sm_ChannelID m))] @ [(''channel_type'', JInt (sm_ChannelType m))] @ [(''from_uid'', JStr (sm_FromUID m))] @
           omit_str ''space_id'' (sm_SpaceID m) @ omit_list ''visibles'' (sm_Visibles m) @
           [(''content'', case sm_Content m of None \<Rightarrow> JNull | Some s \<Rightarrow> JStr s)] @ [(''content_type'', JInt (sm_ContentType m))] @
           omit_raw ''raw_payload'' (sm_RawPayload m) @ [(''raw_excluded'', JBool (sm_RawExcluded m))] @
           [(''msg_timestamp'', JInt (sm_MsgTimestamp m))] @ [(''created_at'', JInt (sm_CreatedAt m))] @
           omit_uint ''message_seq'' (sm_MessageSeq m) @ [(''source'', JStr (sm_Source m))])"

definition dec_bool :: "json \<Rightarrow> bool option" where
  "dec_bool v = (case v of JBool b \<Rightarrow> Some b | _ \<Rightarrow> None)"

definition dec_some :: "(json \<Rightarrow> 'a option) \<Rightarrow> json \<Rightarrow> 'a option option" where
  "dec_some conv v = map_option Some (conv v)"

definition dec_Message :: "json \<Rightarrow> Message option" where
  "dec_Message v =
     (case v of
        JObj kvs \<Rightarrow>
          do {
            x0 \<leftarrow> dec_field (dec_int 64) 0 ''schema_version'' kvs;
            x1 \<leftarrow> dec_field dec_string [] ''message_id'' kvs;
            x2 \<leftarrow> dec_field dec_string [] ''channel_id'' kvs;
            x3 \<leftarrow> dec_field (dec_int 64) 0 ''channel_type'' kvs;
            x4 \<leftarrow> dec_field dec_string [] ''from_uid'' kvs;
            x5 \<leftarrow> dec_field dec_string [] ''space_id'' kvs;
            x6 \<leftarrow> dec_field (dec_some (dec_list dec_string [])) None ''visibles'' kvs;
            x7 \<leftarrow> dec_field (dec_some dec_string) None ''content'' kvs;
            x8 \<leftarrow> dec_field (dec_int 64) 0 ''content_type'' kvs;
            x10 \<leftarrow> dec_field dec_bool False ''raw_excluded'' kvs;
            x11 \<leftarrow> dec_field (dec_int 64) 0 ''msg_timestamp'' kvs;
            x12 \<leftarrow> dec_field (dec_int 64) 0 ''created_at'' kvs;
            x13 \<leftarrow> dec_field (dec_uint 64) 0 ''message_seq'' kvs;
            x14 \<leftarrow> dec_field dec_string [] ''source'' kvs;
            Some \<lparr>sm_SchemaVersion = x0, sm_MessageID = x1, sm_ChannelID = x2, sm_ChannelType = x3, sm_FromUID = x4, sm_SpaceID = x5,
                  sm_Visibles = x6, sm_Content = x7, sm_ContentType = x8, sm_RawPayload = raw_field ''raw_payload'' kvs, sm_RawExcluded = x10,
                  sm_MsgTimestamp = x11, sm_CreatedAt = x12, sm_MessageSeq = x13, sm_Source = x14\<rparr>
          }
      | _ \<Rightarrow> None)"

definition Message_Marshal :: "Message \<Rightarrow> string" where
  "Message_Marshal m = json_print (json_Message m)"

definition Message_Unmarshal :: "string \<Rightarrow> Message option" where
  "Message_Unmarshal data = Option.bind (json_Unmarshal data) dec_Message"

section \<open>Round trip\<close>

definition message_ok :: "Message \<Rightarrow> bool" where
  "message_ok m \<longleftrightarrow>
     list_all utf8_valid [sm_MessageID m, sm_ChannelID m, sm_FromUID m, sm_SpaceID m, sm_Source m] \<and>
     (\<forall>xs. sm_Visibles m = Some xs \<longrightarrow> list_all utf8_valid xs) \<and> (\<forall>s. sm_Content m = Some s \<longrightarrow> utf8_valid s) \<and>
     list_all is_int64 [sm_SchemaVersion m, sm_ChannelType m, sm_ContentType m, sm_MsgTimestamp m, sm_CreatedAt m] \<and>
     sm_MessageSeq m < 2 ^ 64 \<and> (\<forall>v. sm_RawPayload m = Some v \<longrightarrow> json_ok v (json_max_depth - 1))"

lemma json_ok_uint: "json_ok (JNum (nat_dec n)) d"
  by (auto simp: int_dec_def intro!: exI [of _ "int n"])

lemma json_ok_members:
  "0 < d \<Longrightarrow> json_ok (JObj (xs @ ys)) d \<longleftrightarrow> json_ok (JObj xs) d \<and> json_ok (JObj ys) d"
  "json_ok (JObj [(k, v)]) d \<longleftrightarrow> 0 < d \<and> utf8_valid k \<and> json_ok v (d - 1)"
  "0 < d \<Longrightarrow> utf8_valid k \<Longrightarrow> json_ok (JObj (omit_str k t)) d \<longleftrightarrow> utf8_valid t"
  "0 < d \<Longrightarrow> utf8_valid k \<Longrightarrow> json_ok (JObj (omit_uint k n)) d"
  "0 < d \<Longrightarrow> utf8_valid k \<Longrightarrow> json_ok (JObj (omit_raw k raw)) d \<longleftrightarrow> (\<forall>v. raw = Some v \<longrightarrow> json_ok v (d - 1))"
  "1 < d \<Longrightarrow> utf8_valid k \<Longrightarrow> json_ok (JObj (omit_list k xs')) d \<longleftrightarrow> (\<forall>xs. xs' = Some xs \<longrightarrow> list_all utf8_valid xs)"
proof -
  show "0 < d \<Longrightarrow> json_ok (JObj (xs @ ys)) d \<longleftrightarrow> json_ok (JObj xs) d \<and> json_ok (JObj ys) d" by simp
  show "json_ok (JObj [(k, v)]) d \<longleftrightarrow> 0 < d \<and> utf8_valid k \<and> json_ok v (d - 1)" by simp
  show "0 < d \<Longrightarrow> utf8_valid k \<Longrightarrow> json_ok (JObj (omit_str k t)) d \<longleftrightarrow> utf8_valid t" by (simp add: omit_str_def)
  show "0 < d \<Longrightarrow> utf8_valid k \<Longrightarrow> json_ok (JObj (omit_uint k n)) d"
    using json_ok_uint [of n] by (simp add: omit_uint_def del: json_ok.simps(3))
  show "0 < d \<Longrightarrow> utf8_valid k \<Longrightarrow> json_ok (JObj (omit_raw k raw)) d \<longleftrightarrow> (\<forall>v. raw = Some v \<longrightarrow> json_ok v (d - 1))"
    by (cases raw) (simp_all add: omit_raw_def)
  show "1 < d \<Longrightarrow> utf8_valid k \<Longrightarrow> json_ok (JObj (omit_list k xs')) d \<longleftrightarrow> (\<forall>xs. xs' = Some xs \<longrightarrow> list_all utf8_valid xs)"
    by (cases xs') (simp_all add: omit_list_def list_all_iff)
qed

text \<open>The names of the members, in their order.\<close>

lemma names_utf8:
  "utf8_valid ''schema_version''" "utf8_valid ''message_id''" "utf8_valid ''channel_id''" "utf8_valid ''channel_type''" "utf8_valid ''from_uid''"
  "utf8_valid ''space_id''" "utf8_valid ''visibles''" "utf8_valid ''content''" "utf8_valid ''content_type''" "utf8_valid ''raw_payload''"
  "utf8_valid ''raw_excluded''" "utf8_valid ''msg_timestamp''" "utf8_valid ''created_at''" "utf8_valid ''message_seq''" "utf8_valid ''source''"
  by (rule utf8_valid_ascii; simp)+

lemma json_ok_Message:
  assumes "message_ok m"
  shows "json_ok (json_Message m) json_max_depth"
proof -
  have d: "0 < json_max_depth" "1 < json_max_depth" by (simp_all add: json_max_depth_def)
  have "json_ok (JObj [(''content'', case sm_Content m of None \<Rightarrow> JNull | Some s \<Rightarrow> JStr s)]) json_max_depth"
    using assms d names_utf8(8) by (simp add: message_ok_def json_ok_members(2) split: option.splits del: json_ok.simps(6))
  then show ?thesis
    using assms unfolding json_Message_def message_ok_def
    by (simp only: json_ok_members d names_utf8 json_ok.simps(2-4) list.pred_inject) blast
qed

lemma no_key_omit:
  "ToLower k \<noteq> ToLower name \<Longrightarrow> no_key name (omit_list k xs)"
  "ToLower k \<noteq> ToLower name \<Longrightarrow> no_key name (omit_raw k raw)"
  "ToLower k \<noteq> ToLower name \<Longrightarrow> no_key name (omit_uint k n)"
  by (auto simp: no_key_def omit_list_def omit_raw_def omit_uint_def split: option.splits)

lemma dec_uint_nat_dec: "n < 2 ^ 64 \<Longrightarrow> dec_uint 64 (JNum (nat_dec n)) = Some n"
  using parse_uint_loop_complete [of 0 "nat_dec n" n "2 ^ 64 - 1"] by (simp add: dec_uint_def ParseUint_def)

lemma those_JStr: "those (map (\<lambda>v. if v = JNull then Some [] else dec_string v) (map JStr xs)) = Some xs"
  by (induction xs) (simp_all add: dec_string_def)

text \<open>An empty list of viewers is not written, and is read back as none.\<close>

definition no_empty :: "'a list option \<Rightarrow> 'a list option" where
  "no_empty xs = (if xs = Some [] then None else xs)"

lemma dec_members:
  "is_int64 i \<Longrightarrow> dec_field (dec_int 64) 0 k [(k, JInt i)] = Some i"
  "dec_field dec_string [] k [(k, JStr t)] = Some t"
  "dec_field dec_bool False k [(k, JBool b)] = Some b"
  "dec_field (dec_some dec_string) None k [(k, case c of None \<Rightarrow> JNull | Some t \<Rightarrow> JStr t)] = Some c"
  "dec_field (dec_some (dec_list dec_string [])) None k (omit_list k xs) = Some (no_empty xs)"
  "n < 2 ^ 64 \<Longrightarrow> dec_field (dec_uint 64) 0 k (omit_uint k n) = Some n"
  "raw_field k (omit_raw k raw) = raw"
  using those_JStr dec_uint_nat_dec
  by (auto simp: dec_field_def dec_int_def ParseInt_int_dec dec_string_def dec_bool_def dec_some_def omit_list_def no_empty_def omit_uint_def
      omit_raw_def raw_field_def dec_list_def simp del: map_map split: option.splits)

lemma raw_field_skip:
  "no_key name xs \<Longrightarrow> raw_field name (xs @ ys) = raw_field name ys"
  "no_key name ys \<Longrightarrow> raw_field name (xs @ ys) = raw_field name xs"
proof -
  have "no_key name zs \<Longrightarrow> fold (\<lambda>(k, v) acc. if ToLower k = ToLower name then Some v else acc) zs r = r" for zs r
    by (induction zs) (auto simp: no_key_def)
  then show "no_key name xs \<Longrightarrow> raw_field name (xs @ ys) = raw_field name ys" "no_key name ys \<Longrightarrow> raw_field name (xs @ ys) = raw_field name xs"
    by (simp_all add: raw_field_def)
qed

lemma dec_json_Message:
  assumes "message_ok m"
  shows "dec_Message (json_Message m) = Some (m\<lparr>sm_Visibles := no_empty (sm_Visibles m)\<rparr>)"
  using assms
  by (simp add: message_ok_def json_Message_def dec_Message_def dec_field_skip raw_field_skip dec_members dec_omit(1) no_key_simps no_key_omit
      lower_char_def del: append.append_Cons)

text \<open>
  C7: A message that a producer encodes is decoded by a consumer as it was, an empty list of viewers becoming none.  If the
  producer writes the visibility that it extracted from the payload, the consumer sees exactly that one: a message restricted
  to some users never arrives as one for everyone.
\<close>

theorem search_message_roundtrip:
  assumes "message_ok m"
  shows "Message_Unmarshal (Message_Marshal m) = Some (m\<lparr>sm_Visibles := no_empty (sm_Visibles m)\<rparr>) \<and>
    (ExtractVisibility payload = Inr (sm_SpaceID m, sm_Visibles m) \<longrightarrow> Message_Unmarshal (Message_Marshal m) = Some m)"
proof -
  have r: "Message_Unmarshal (Message_Marshal m) = Some (m\<lparr>sm_Visibles := no_empty (sm_Visibles m)\<rparr>)"
    using json_Unmarshal_print [OF json_ok_Message [OF assms]] by (simp add: Message_Unmarshal_def Message_Marshal_def dec_json_Message [OF assms])
  moreover have "sm_Visibles m \<noteq> Some []" if "ExtractVisibility payload = Inr (sm_SpaceID m, sm_Visibles m)"
    using that by (auto simp: ExtractVisibility_def Let_def split: option.splits if_splits json.splits prod.splits)
  then have "ExtractVisibility payload = Inr (sm_SpaceID m, sm_Visibles m) \<Longrightarrow> no_empty (sm_Visibles m) = sm_Visibles m"
    by (simp add: no_empty_def)
  ultimately show ?thesis by simp
qed

definition sample_message :: Message where
  "sample_message = \<lparr>sm_SchemaVersion = SchemaVersion, sm_MessageID = ''9'', sm_ChannelID = ''g1'', sm_ChannelType = 2, sm_FromUID = ''u1'',
     sm_SpaceID = [], sm_Visibles = Some [''u_alice''], sm_Content = None, sm_ContentType = 99, sm_RawPayload = Some (JObj []),
     sm_RawExcluded = False, sm_MsgTimestamp = 1700000000, sm_CreatedAt = 1700000001, sm_MessageSeq = 18446744073709551615,
     sm_Source = SourceETLMessageTable\<rparr>"

theorem search_message_roundtrip_witness: "Message_Unmarshal (Message_Marshal sample_message) = Some sample_message"
proof -
  have "message_ok sample_message"
    by (simp add: message_ok_def sample_message_def SchemaVersion_def SourceETLMessageTable_def is_int64_def json_max_depth_def utf8_valid_ascii)
  from search_message_roundtrip [OF this] show ?thesis by (simp add: sample_message_def no_empty_def)
qed

end
