(* ===== verification/Databases.thy ===== *)
theory Databases
  imports Service_Modules
begin

text \<open>
  Running the migrations that \<open>Service_Modules\<close> finds: \<^verbatim>\<open>executeSQL\<close> of \<^verbatim>\<open>module/module.go\<close>, \<^verbatim>\<open>Migration\<close> of \<^verbatim>\<open>pkg/db/mysql.go\<close> and
  \<^verbatim>\<open>NewSqlite\<close> of \<^verbatim>\<open>pkg/db/sqlite.go\<close>.  The database, the file system and \<^verbatim>\<open>migrate.Exec\<close> are arguments.
\<close>

section \<open>Running migrations\<close>

text \<open>The texts of the errors, which differ in the first letter between the two packages.\<close>

fun embedded_error :: "migration_error \<Rightarrow> string" where
  "embedded_error (ReadDirError err) = err"
| "embedded_error (OpenError n err) = ''error while opening '' @ n @ '': '' @ err"
| "embedded_error (ParseError n err) = ''error while parsing '' @ n @ '': '' @ err"

fun dir_error :: "migration_error \<Rightarrow> string" where
  "dir_error (ReadDirError err) = err"
| "dir_error (OpenError n err) = ''Error while opening '' @ n @ '': '' @ err"
| "dir_error (ParseError n err) = ''Error while parsing '' @ n @ '': '' @ err"

text \<open>
  \<open>Exec\<close> takes the dialect and what the source of migrations returns, the text of an error or the migrations, and applies
  those the database \<open>'w\<close> does not have yet.  It asks the source before it changes anything, and hands on its error.
\<close>

definition exec_law :: "(string \<Rightarrow> string + 'g list \<Rightarrow> 'w \<Rightarrow> string option \<times> 'w) \<Rightarrow> bool" where
  "exec_law Exec \<longleftrightarrow> (\<forall>dialect err w. Exec dialect (Inl err) w = (Some err, w))"

definition executeSQL ::
  "(string \<Rightarrow> string + 'g list \<Rightarrow> 'w \<Rightarrow> string option \<times> 'w) \<Rightarrow> (string \<Rightarrow> string \<Rightarrow> string + 'g) \<Rightarrow> ('g \<Rightarrow> 'g \<Rightarrow> bool) \<Rightarrow>
   SQLFS list \<Rightarrow> 'w \<Rightarrow> string option \<times> 'w" where
  "executeSQL Exec ParseMigration lt sqlfss w =
     Exec ''mysql'' (case embedded_FindMigrations ParseMigration lt sqlfss of Inl err \<Rightarrow> Inl (embedded_error err) | Inr ms \<Rightarrow> Inr ms) w"

text \<open>\<open>None\<close> is a search that does not end within the fuel.\<close>

definition Migration ::
  "(string \<Rightarrow> string + 'g list \<Rightarrow> 'w \<Rightarrow> string option \<times> 'w) \<Rightarrow> (string \<Rightarrow> string \<Rightarrow> string + 'g) \<Rightarrow> ('g \<Rightarrow> 'g \<Rightarrow> bool) \<Rightarrow>
   disk \<Rightarrow> nat \<Rightarrow> string \<Rightarrow> 'w \<Rightarrow> (string option \<times> 'w) option" where
  "Migration Exec ParseMigration lt dk fuel sqlDir w =
     (case dir_FindMigrations ParseMigration lt dk sqlDir fuel of
        None \<Rightarrow> None
      | Some (Inl err) \<Rightarrow> Some (Exec ''mysql'' (Inl (dir_error err)) w)
      | Some (Inr ms) \<Rightarrow> Some (Exec ''mysql'' (Inr ms) w))"

section \<open>A database in a file\<close>

text \<open>
  The mode is 0750 in octal.  \<^verbatim>\<open>os.Mkdir\<close> makes one directory in an existing one; \<open>ErrExist\<close> are the errors \<^verbatim>\<open>os.IsExist\<close> recognises.  The library finds the
  scripts of \<^verbatim>\<open>sqlDir\<close> itself, so \<open>ExecFiles\<close> takes the directory.
\<close>

datatype os_error = ErrExist | ErrOther string

definition NewSqlite ::
  "(string \<Rightarrow> string) \<Rightarrow> (string \<Rightarrow> nat \<Rightarrow> 'f \<Rightarrow> os_error option \<times> 'f) \<Rightarrow> (string \<Rightarrow> string \<Rightarrow> 'f \<Rightarrow> (string + 's) \<times> 'f) \<Rightarrow>
   (string \<Rightarrow> string \<Rightarrow> 's \<Rightarrow> 'f \<Rightarrow> string option \<times> 'f) \<Rightarrow> string \<Rightarrow> string \<Rightarrow> 'f \<Rightarrow> 's go \<times> 'f" where
  "NewSqlite path_Dir Mkdir Open ExecFiles filepath sqlDir f =
     (let (err, f) = Mkdir (path_Dir filepath) 0x1E8 f
      in case err of
           Some (ErrOther e) \<Rightarrow> (Panic e, f)
         | _ \<Rightarrow>
             (case Open ''sqlite3'' filepath f of
                (Inl e, f) \<Rightarrow> (Panic e, f)
              | (Inr session, f) \<Rightarrow>
                  (case ExecFiles ''sqlite3'' sqlDir session f of
                     (Some e, f) \<Rightarrow> (Panic e, f)
                   | (None, f) \<Rightarrow> (Ret session, f))))"

section \<open>Setting up a service\<close>


text \<open>A module whose script cannot be parsed, and a database that counts the scripts applied.\<close>

definition count_exec :: "string \<Rightarrow> string + nat list \<Rightarrow> nat \<Rightarrow> string option \<times> nat" where
  "count_exec dialect src w = (case src of Inl err \<Rightarrow> (Some err, w) | Inr gs \<Rightarrow> (None, w + length gs))"

definition sql_module :: "string \<Rightarrow> (nat, nat, nat, SQLFS, unit) Module" where
  "sql_module n = zero_Module\<lparr>m_SQLDir := Some (demo_fs [n])\<rparr>"


text \<open>
  A database in a file is opened if its directory exists or can be made in an existing one.  A missing parent makes the start panic,
  since only one directory is made.
\<close>

lemma NewSqlite_directory:
  assumes "Mkdir (path_Dir filepath) 0x1E8 f = (err, f')"
  shows "(\<exists>e. err = Some (ErrOther e)) \<longleftrightarrow> (\<exists>e. NewSqlite path_Dir Mkdir (\<lambda>d p f. (Inr s, f)) (\<lambda>d p s f. (None, f)) filepath sqlDir f = (Panic e, f'))"
    and "err = None \<or> err = Some ErrExist \<Longrightarrow>
      NewSqlite path_Dir Mkdir (\<lambda>d p f. (Inr s, f)) (\<lambda>d p s f. (None, f)) filepath sqlDir f = (Ret s, f')"
  using assms by (auto simp: NewSqlite_def split: option.splits os_error.splits)

end
