(* ===== verification/Yuan_Cent.thy ===== *)
theory Yuan_Cent
  imports Decimal_Codec
begin

text \<open>
  Amounts of money, \<^verbatim>\<open>pkg/util/yuan_cent.go\<close>: from cents to a float64 of yuan and back.  The conversion of a rational to the nearest float64, by
  \<^verbatim>\<open>big.Rat.Float64\<close>, is an argument.
\<close>

section \<open>From cents to yuan\<close>

definition Decimal_Float64 :: "(rat \<Rightarrow> 64 word \<times> bool) \<Rightarrow> Decimal \<Rightarrow> 64 word \<times> bool" where
  "Decimal_Float64 Rat_Float64 d = Rat_Float64 (Decimal_Rat d)"

definition CentToYuan :: "(rat \<Rightarrow> 64 word \<times> bool) \<Rightarrow> int \<Rightarrow> int \<Rightarrow> 64 word go" where
  "CentToYuan Rat_Float64 DivisionPrecision cent =
     go_bind (MustNoErr (NewFromString (int_dec cent))) (\<lambda>centDec.
       go_bind (MustNoErr (NewFromString (int_dec 100))) (\<lambda>mDec.
         go_bind (Decimal_Div DivisionPrecision centDec mDec) (\<lambda>q.
           let (result, _) = Decimal_Float64 Rat_Float64 (Decimal_Round q 2) in Ret result)))"

section \<open>The way back\<close>

lemma NewFromString_int_dec: "NewFromString (int_dec i) = Inr \<lparr>dvalue = Some i, dexp = 0\<rparr>"
proof -
  have no: "c \<notin> set (int_dec i)" if "digit_val c = None" "c \<noteq> CHR ''-''" for c
    using nat_dec_not_nondigit [OF that(1)] that(2) by (auto simp: int_dec_def)
  have "index_by is_e (int_dec i) = None"
    using no [of "CHR ''e''"] no [of "CHR ''E''"] by (auto simp: index_by_None is_e_def digit_val_def)
  moreover have "split_on (CHR ''.'') (int_dec i) = [int_dec i]" using no [of "CHR ''.''"] by (intro split_on_no_sep) (simp add: digit_val_def)
  ultimately show ?thesis by (simp add: NewFromString_def NewFromString_mantissa_def)
qed

text \<open>The division and the rounding are exact: the float is the one nearest to a hundredth of the cents.\<close>

lemma CentToYuan_value:
  assumes "2 \<le> dp" "dp \<le> 1000000000"
  shows "CentToYuan Rat_Float64 dp cent = Ret (fst (Rat_Float64 (of_int cent / 100)))"
proof -
  let ?c = "\<lparr>dvalue = Some cent, dexp = 0\<rparr>" and ?m = "\<lparr>dvalue = Some 100, dexp = 0\<rparr>"
  have i: "is_int32 dp" using assms by (simp add: is_int32_def)
  have "quorem_in_range ?c ?m dp" using assms by (simp add: quorem_in_range_def is_int32_def)
  then obtain q where q: "Decimal_DivRound ?c ?m dp = Ret q" "dec_rat q = round_half_away dp (dec_rat ?c / dec_rat ?m)"
    using DivRound_value [of ?m ?c dp] by auto
  have "(10 :: rat) powi dp = 10 ^ nat (dp - 2) * 100"
    using power_int_add [of "10 :: rat" "dp - 2" 2] assms(1) by (simp add: power_int_def)
  then have "(of_int cent / 100 :: rat) * 10 powi dp = of_int (cent * 10 ^ nat (dp - 2))" by simp
  then have "round_half_away dp (of_int cent / 100) = of_int cent / 100" by (rule round_half_away_exact)
  then have "dec_rat q = of_int cent / 100" using q(2) by (simp add: dec_rat_def coeff_def)
  moreover have "round_half_away 2 (of_int cent / 100 :: rat) = of_int cent / 100"
    by (rule round_half_away_exact [of _ _ cent]) (simp add: power_int_def)
  moreover have "dec_rat (Decimal_Round q 2) = round_half_away 2 (dec_rat q)" using Round_value [of 2 q] by (simp add: is_int32_def)
  ultimately have r: "dec_rat (Decimal_Round q 2) = of_int cent / 100" by metis
  show ?thesis
    using q(1) i by (simp add: r CentToYuan_def NewFromString_int_dec MustNoErr_def Decimal_Div_def Decimal_Float64_def dec_rat_Rat case_prod_beta)
qed

text \<open>What the documentation says of the nearest float64 of a number of ordinary size: the error is at most half a unit in the last of 53 bits.\<close>

definition nearest_float64 :: "64 word \<Rightarrow> rat \<Rightarrow> bool" where
  "nearest_float64 f x \<longleftrightarrow> float64_finite f \<and> \<bar>float64_rat f - x\<bar> \<le> \<bar>x\<bar> / 2 ^ 53 \<and> (float64_sign f = 1 \<longleftrightarrow> x < 0)"

lemma half_even_near:
  assumes "\<bar>y - of_int k\<bar> < 1 / 2"
  shows "half_even y = k"
proof -
  have lo: "of_int k - 1 / 2 < y" and hi: "y < of_int k + 1 / 2" using assms by linarith+
  define f where "f = \<lfloor>y\<rfloor>"
  have f: "of_int f \<le> y" "y < of_int f + 1" unfolding f_def by linarith+
  consider "f = k" | "f = k - 1"
  proof -
    have "(of_int f :: rat) < of_int (k + 1)" using f(1) hi by simp
    moreover have "(of_int k :: rat) < of_int (f + 2)" using f(2) lo by simp
    ultimately have "f < k + 1" "k < f + 2" unfolding of_int_less_iff .
    then show thesis using that by linarith
  qed
  then show ?thesis
  proof cases
    case 1
    then have "y - of_int f < 1 / 2" using lo hi by simp
    then show ?thesis using 1 by (simp add: half_even_def f_def [symmetric] Let_def)
  next
    case 2
    then have "y - of_int f > 1 / 2" using lo hi by simp
    then show ?thesis using 2 by (simp add: half_even_def f_def [symmetric] Let_def)
  qed
qed

text \<open>
  C18: An amount of cents that is turned into yuan as a float64 and back is the same amount, up to 2 to the power of 51 cents, more than
  22 million million yuan: neither the division nor the binary fraction loses a cent.
\<close>

theorem cents_roundtrip:
  assumes "nearest_float64 (fst (Rat_Float64 (of_int cent / 100))) (of_int cent / 100)" "\<bar>cent\<bar> \<le> 2 ^ 51" "2 \<le> dp" "dp \<le> 1000000000"
  shows "go_bind (CentToYuan Rat_Float64 dp cent) YuanToCent = Ret cent"
proof -
  define f where "f = fst (Rat_Float64 (of_int cent / 100))"
  define x :: rat where "x = of_int cent / 100"
  have n: "float64_finite f" "\<bar>float64_rat f - x\<bar> \<le> \<bar>x\<bar> / 2 ^ 53" "float64_sign f = 1 \<longleftrightarrow> x < 0"
    using assms(1) by (simp_all add: nearest_float64_def f_def x_def)
  have x: "\<bar>x\<bar> * 100 = of_int \<bar>cent\<bar>" by (simp add: x_def)
  have "\<bar>\<bar>float64_rat f\<bar> * 100 - of_int \<bar>cent\<bar>\<bar> = \<bar>\<bar>float64_rat f\<bar> - \<bar>x\<bar>\<bar> * 100"
  proof -
    have "\<bar>float64_rat f\<bar> * 100 - of_int \<bar>cent\<bar> = (\<bar>float64_rat f\<bar> - \<bar>x\<bar>) * 100" by (simp only: x [symmetric] left_diff_distrib)
    then show ?thesis by (simp only: abs_mult) simp
  qed
  also have "\<dots> \<le> \<bar>float64_rat f - x\<bar> * 100" by (intro mult_right_mono abs_triangle_ineq3) simp
  also have "\<dots> \<le> (\<bar>x\<bar> / 2 ^ 53) * 100" using n(2) by (intro mult_right_mono) simp_all
  also have "\<dots> = of_int \<bar>cent\<bar> / 2 ^ 53" using x by simp
  also have "\<dots> \<le> of_int (2 ^ 51) / 2 ^ 53" using assms(2) by (intro divide_right_mono) (simp_all only: of_int_le_iff, simp_all)
  also have "\<dots> < 1 / 2" by simp
  finally have "half_even (\<bar>float64_rat f\<bar> * 100) = \<bar>cent\<bar>" by (rule half_even_near)
  moreover have "(if float64_sign f = 1 then -1 else 1) * \<bar>cent\<bar> = cent" using n(3) by (auto simp: x_def)
  moreover have "is_int64 cent" using assms(2) by (simp add: is_int64_def abs_le_iff)
  ultimately have "YuanToCent f = Ret cent" using YuanToCent_correct [of f] n(1) by simp
  then show ?thesis by (simp add: CentToYuan_value [OF assms(3,4)] f_def)
qed

text \<open>Minus 25 cents are the float64 minus one quarter.\<close>

definition minus_quarter :: "64 word" where
  "minus_quarter = 0xBFD0000000000000"

theorem cents_roundtrip_witness: "go_bind (CentToYuan (\<lambda>_. (minus_quarter, True)) 16 (- 25)) YuanToCent = Ret (- 25)"
proof -
  have "float64_frac minus_quarter = 0" "float64_exp minus_quarter = 1021" "float64_sign minus_quarter = 1" by code_simp+
  moreover have "(2 :: rat) powi (- 54) = 1 / 18014398509481984" by (simp add: power_int_minus power_int_def power_one_over)
  ultimately have "float64_rat minus_quarter = - 1 / 4" "float64_finite minus_quarter"
    by (simp_all add: float64_rat_def float64_finite_def)
  then have "nearest_float64 minus_quarter (of_int (- 25) / 100)"
    using \<open>float64_sign minus_quarter = 1\<close> by (simp add: nearest_float64_def)
  then show ?thesis using cents_roundtrip [of "\<lambda>_. (minus_quarter, True)" "- 25" 16] by simp
qed

end
