(* ===== verification/Go_Time.thy ===== *)
theory Go_Time
  imports Octo_Prelude
begin

text \<open>
  Times as texts: \<^verbatim>\<open>pkg/util/time.go\<close> and the JSON form of times in \<^verbatim>\<open>pkg/db/db.go\<close>, over a model of \<^verbatim>\<open>Format\<close> and \<^verbatim>\<open>Parse\<close> of the
  package \<^verbatim>\<open>time\<close> for the layouts in use.  A time is its calendar date and clock in the location it is formatted in; the location and its
  changes of offset are left out.
\<close>

section \<open>Dates\<close>

record civil =
  ct_year :: int
  ct_month :: nat
  ct_day :: nat
  ct_hour :: nat
  ct_min :: nat
  ct_sec :: nat
  ct_nsec :: nat

definition zero_time :: civil where
  "zero_time = \<lparr>ct_year = 1, ct_month = 1, ct_day = 1, ct_hour = 0, ct_min = 0, ct_sec = 0, ct_nsec = 0\<rparr>"

definition isLeap :: "int \<Rightarrow> bool" where
  "isLeap y \<longleftrightarrow> y mod 4 = 0 \<and> (y mod 100 \<noteq> 0 \<or> y mod 400 = 0)"

definition daysIn :: "nat \<Rightarrow> int \<Rightarrow> nat" where
  "daysIn m y = (if m = 2 then if isLeap y then 29 else 28 else if m \<in> {4, 6, 9, 11} then 30 else 31)"

definition time_ok :: "civil \<Rightarrow> bool" where
  "time_ok t \<longleftrightarrow> 1 \<le> ct_month t \<and> ct_month t \<le> 12 \<and> 1 \<le> ct_day t \<and> ct_day t \<le> daysIn (ct_month t) (ct_year t) \<and>
     ct_hour t < 24 \<and> ct_min t < 60 \<and> ct_sec t < 60 \<and> ct_nsec t < 1000000000"

section \<open>Layouts\<close>

text \<open>The chunks of a layout: \<^verbatim>\<open>2006\<close>, \<^verbatim>\<open>01\<close>, \<^verbatim>\<open>02\<close>, \<^verbatim>\<open>15\<close>, \<^verbatim>\<open>04\<close>, \<^verbatim>\<open>05\<close>, and any other character for itself.\<close>

datatype chunk = LongYear | ZeroMonth | ZeroDay | Hour | ZeroMinute | ZeroSecond | Literal char

definition appendInt :: "int \<Rightarrow> nat \<Rightarrow> string" where
  "appendInt x width =
     (let ds = nat_dec (nat \<bar>x\<bar>) in (if x < 0 then ''-'' else []) @ replicate (width - length ds) (CHR ''0'') @ ds)"

fun format_chunk :: "civil \<Rightarrow> chunk \<Rightarrow> string" where
  "format_chunk t LongYear = appendInt (ct_year t) 4"
| "format_chunk t ZeroMonth = appendInt (int (ct_month t)) 2"
| "format_chunk t ZeroDay = appendInt (int (ct_day t)) 2"
| "format_chunk t Hour = appendInt (int (ct_hour t)) 2"
| "format_chunk t ZeroMinute = appendInt (int (ct_min t)) 2"
| "format_chunk t ZeroSecond = appendInt (int (ct_sec t)) 2"
| "format_chunk t (Literal c) = [c]"

definition time_Format :: "chunk list \<Rightarrow> civil \<Rightarrow> string" where
  "time_Format layout t = concat (map (format_chunk t) layout)"

datatype time_error = BadValue | OutOfRange string | ExtraText

text \<open>\<^verbatim>\<open>getnum\<close>: two digits, or one if the width is not fixed.\<close>

definition getnum :: "string \<Rightarrow> bool \<Rightarrow> (nat \<times> string) option" where
  "getnum s fixed =
     (case s of
        [] \<Rightarrow> None
      | a # r \<Rightarrow>
          (case digit_val a of
             None \<Rightarrow> None
           | Some x \<Rightarrow>
               (case r of
                  [] \<Rightarrow> if fixed then None else Some (x, r)
                | b # r' \<Rightarrow> (case digit_val b of None \<Rightarrow> if fixed then None else Some (x, r) | Some y \<Rightarrow> Some (x * 10 + y, r')))))"

text \<open>
  A fraction after the seconds is read although the layout has none: a point or comma and at least one digit; digits after the
  ninth are dropped.
\<close>

definition isDigit_char :: "char \<Rightarrow> bool" where
  "isDigit_char c \<longleftrightarrow> digit_val c \<noteq> None"

definition fraction :: "string \<Rightarrow> nat \<times> string" where
  "fraction s =
     (case s of
        p # d # r \<Rightarrow>
          if p \<in> {CHR ''.'', CHR '',''} \<and> isDigit_char d
          then let ds = takeWhile isDigit_char (d # r); ds9 = take 9 ds
               in (case parse_digits 0 ds9 of None \<Rightarrow> 0 | Some n \<Rightarrow> n * 10 ^ (9 - length ds9), dropWhile isDigit_char (d # r))
          else (0, s)
      | _ \<Rightarrow> (0, s))"

definition in_range :: "string \<Rightarrow> bool \<Rightarrow> 'a \<Rightarrow> time_error + 'a" where
  "in_range name ok x = (if ok then Inr x else Inl (OutOfRange name))"

fun parse_chunk :: "chunk \<Rightarrow> string \<Rightarrow> civil \<Rightarrow> time_error + civil \<times> string" where
  "parse_chunk LongYear s t =
     (if length s < 4 then Inl BadValue
      else case parse_digits 0 (take 4 s) of None \<Rightarrow> Inl BadValue | Some y \<Rightarrow> Inr (t\<lparr>ct_year := int y\<rparr>, drop 4 s))"
| "parse_chunk ZeroMonth s t =
     (case getnum s True of None \<Rightarrow> Inl BadValue | Some (m, r) \<Rightarrow> in_range ''month'' (0 < m \<and> m \<le> 12) (t\<lparr>ct_month := m\<rparr>, r))"
| "parse_chunk ZeroDay s t =
     (case getnum s True of None \<Rightarrow> Inl BadValue | Some (d, r) \<Rightarrow> Inr (t\<lparr>ct_day := d\<rparr>, r))"
| "parse_chunk Hour s t =
     (case getnum s False of None \<Rightarrow> Inl BadValue | Some (h, r) \<Rightarrow> in_range ''hour'' (h < 24) (t\<lparr>ct_hour := h\<rparr>, r))"
| "parse_chunk ZeroMinute s t =
     (case getnum s True of None \<Rightarrow> Inl BadValue | Some (m, r) \<Rightarrow> in_range ''minute'' (m < 60) (t\<lparr>ct_min := m\<rparr>, r))"
| "parse_chunk ZeroSecond s t =
     (case getnum s True of
        None \<Rightarrow> Inl BadValue
      | Some (sec, r) \<Rightarrow>
          if \<not> sec < 60 then Inl (OutOfRange ''second'')
          else let (ns, r) = fraction r in Inr (t\<lparr>ct_sec := sec, ct_nsec := ns\<rparr>, r))"
| "parse_chunk (Literal c) s t =
     (if c = CHR '' '' then if s \<noteq> [] \<and> hd s \<noteq> CHR '' '' then Inl BadValue else Inr (t, dropWhile (\<lambda>x. x = CHR '' '') s)
      else case s of [] \<Rightarrow> Inl BadValue | x # r \<Rightarrow> if x = c then Inr (t, r) else Inl BadValue)"

fun parse_chunks :: "chunk list \<Rightarrow> string \<Rightarrow> civil \<Rightarrow> time_error + civil" where
  "parse_chunks [] s t =
     (if s \<noteq> [] then Inl ExtraText
      else if ct_day t < 1 \<or> daysIn (ct_month t) (ct_year t) < ct_day t then Inl (OutOfRange ''day'') else Inr t)"
| "parse_chunks (k # ks) s t = (case parse_chunk k s t of Inl e \<Rightarrow> Inl e | Inr (t, r) \<Rightarrow> parse_chunks ks r t)"

text \<open>What a layout does not mention is the first of January of the year 0, at midnight; with an error comes the zero time.\<close>

definition time_Parse :: "chunk list \<Rightarrow> string \<Rightarrow> civil \<times> time_error option" where
  "time_Parse layout s =
     (case parse_chunks layout s (zero_time\<lparr>ct_year := 0\<rparr>) of Inl e \<Rightarrow> (zero_time, Some e) | Inr t \<Rightarrow> (t, None))"

section \<open>The functions of the library\<close>

abbreviation lit :: "string \<Rightarrow> chunk list" where
  "lit s \<equiv> map Literal s"

definition layout_yyyyMMdd :: "chunk list" where
  "layout_yyyyMMdd = [LongYear, ZeroMonth, ZeroDay]"

definition layout_yyyy_MM_dd :: "chunk list" where
  "layout_yyyy_MM_dd = [LongYear, Literal (CHR ''-''), ZeroMonth, Literal (CHR ''-''), ZeroDay]"

definition ToyyyyMMddHHmm :: "civil \<Rightarrow> string" where
  "ToyyyyMMddHHmm tm = time_Format (layout_yyyy_MM_dd @ [Literal (CHR '' ''), Hour, Literal (CHR '':''), ZeroMinute]) tm"

definition timeFormart :: "chunk list" where
  "timeFormart = layout_yyyy_MM_dd @ [Literal (CHR '' ''), Hour, Literal (CHR '':''), ZeroMinute, Literal (CHR '':''), ZeroSecond]"

definition ToyyyyMMddHHmmss :: "civil \<Rightarrow> string" where
  "ToyyyyMMddHHmmss tm = time_Format timeFormart tm"

definition ToyyyyMM2 :: "civil \<Rightarrow> string" where
  "ToyyyyMM2 tm = time_Format [LongYear, ZeroMonth] tm"

definition ToyyyyMMdd :: "civil \<Rightarrow> string" where
  "ToyyyyMMdd tm = time_Format layout_yyyyMMdd tm"

definition PareTimeStrForYYYYMMdd :: "string \<Rightarrow> civil \<times> time_error option" where
  "PareTimeStrForYYYYMMdd timeStr = time_Parse layout_yyyyMMdd timeStr"

definition Toyyyy_MM_dd :: "civil \<Rightarrow> string" where
  "Toyyyy_MM_dd tm = time_Format layout_yyyy_MM_dd tm"

definition Toyyyy_MM :: "civil \<Rightarrow> string" where
  "Toyyyy_MM tm = time_Format [LongYear, Literal (CHR ''-''), ZeroMonth] tm"

definition PareTimeStrForYYYY_mm_dd :: "string \<Rightarrow> civil \<times> time_error option" where
  "PareTimeStrForYYYY_mm_dd timeStr = time_Parse layout_yyyy_MM_dd timeStr"

text \<open>The column type \<^verbatim>\<open>Time\<close>.\<close>

record BaseModel =
  bm_Id :: int
  bm_CreatedAt :: civil
  bm_UpdatedAt :: civil

definition Time_UnmarshalJSON :: "string \<Rightarrow> civil \<times> time_error option" where
  "Time_UnmarshalJSON data = time_Parse ([Literal (CHR 0x22)] @ timeFormart @ [Literal (CHR 0x22)]) data"

definition Time_MarshalJSON :: "civil \<Rightarrow> string" where
  "Time_MarshalJSON t = (let b = [CHR 0x22]; b = b @ time_Format timeFormart t in b @ [CHR 0x22])"

definition Time_String :: "civil \<Rightarrow> string" where
  "Time_String t = time_Format timeFormart t"

section \<open>Digits of fixed width\<close>

lemma digit_char_not [simp]: "digit_val (CHR ''-'') = None" "digit_val (CHR 0x22) = None" "digit_val (CHR '' '') = None" "digit_val (CHR '':'') = None"
  by (simp_all add: digit_val_def)

definition pad :: "nat \<Rightarrow> nat \<Rightarrow> string" where
  "pad w n = replicate (w - length (nat_dec n)) (CHR ''0'') @ nat_dec n"

lemma appendInt_pad: "0 \<le> x \<Longrightarrow> appendInt x w = pad w (nat x)"
  by (simp add: appendInt_def pad_def Let_def)

lemma pad_1: "n < 10 \<Longrightarrow> pad (Suc 0) n = [digit_char n]"
  by (simp add: pad_def nat_dec.simps [of n])

lemma pad_Suc: "pad (Suc (Suc w)) n = pad (Suc w) (n div 10) @ [digit_char (n mod 10)]"
proof (cases "n < 10")
  case True
  then show ?thesis
    by (simp add: pad_def nat_dec.simps [of n] nat_dec.simps [of 0] digit_char_0 replicate_append_same flip: replicate_Suc)
next
  case False
  then show ?thesis by (simp add: pad_def nat_dec.simps [of n])
qed

lemma appendInt_2: "n < 100 \<Longrightarrow> appendInt (int n) 2 = [digit_char (n div 10), digit_char (n mod 10)]"
  by (simp add: appendInt_pad numeral_2_eq_2 pad_Suc pad_1)

lemma appendInt_4:
  assumes "0 \<le> y" "y \<le> 9999"
  shows "\<exists>a b c d. appendInt y 4 = [a, b, c, d] \<and> parse_digits 0 [a, b, c, d] = Some (nat y)"
proof -
  define n where "n = nat y"
  have n: "n div 10 div 10 div 10 < 10" using assms by (simp add: n_def div_mult2_eq [symmetric])
  have "appendInt y 4 = pad (Suc (Suc (Suc (Suc 0)))) n" using assms by (simp add: appendInt_pad n_def numeral_eq_Suc)
  also have "\<dots> = [digit_char (n div 10 div 10 div 10), digit_char (n div 10 div 10 mod 10), digit_char (n div 10 mod 10), digit_char (n mod 10)]"
    by (simp only: pad_Suc pad_1 [OF n] append.simps)
  finally have "appendInt y 4 = [digit_char (n div 10 div 10 div 10), digit_char (n div 10 div 10 mod 10), digit_char (n div 10 mod 10), digit_char (n mod 10)]" .
  moreover have "((n div 10 div 10 div 10 * 10 + n div 10 div 10 mod 10) * 10 + n div 10 mod 10) * 10 + n mod 10 = n"
    by (simp add: div_mult_mod_eq)
  ultimately show ?thesis using n by (simp add: n_def [symmetric])
qed

lemma getnum_2: "n < 100 \<Longrightarrow> getnum (appendInt (int n) 2 @ r) fixed = Some (n, r)"
  by (simp add: appendInt_2 getnum_def)

section \<open>What is formatted is parsed\<close>

definition no_fraction :: "string \<Rightarrow> bool" where
  "no_fraction r \<longleftrightarrow> (case r of [] \<Rightarrow> True | c # _ \<Rightarrow> c \<notin> {CHR ''.'', CHR '',''})"

lemma fraction_none: "no_fraction r \<Longrightarrow> fraction r = (0, r)"
  by (cases r; cases "tl r") (auto simp: no_fraction_def fraction_def)

lemma parse_year: "0 \<le> y \<Longrightarrow> y \<le> 9999 \<Longrightarrow> parse_chunk LongYear (appendInt y 4 @ r) t = Inr (t\<lparr>ct_year := y\<rparr>, r)"
  using appendInt_4 [of y] by (auto simp del: parse_digits.simps)

lemma parse_fields:
  "m \<in> {1..12} \<Longrightarrow> parse_chunk ZeroMonth (appendInt (int m) 2 @ r) t = Inr (t\<lparr>ct_month := m\<rparr>, r)"
  "d < 100 \<Longrightarrow> parse_chunk ZeroDay (appendInt (int d) 2 @ r) t = Inr (t\<lparr>ct_day := d\<rparr>, r)"
  "h < 24 \<Longrightarrow> parse_chunk Hour (appendInt (int h) 2 @ r) t = Inr (t\<lparr>ct_hour := h\<rparr>, r)"
  "mi < 60 \<Longrightarrow> parse_chunk ZeroMinute (appendInt (int mi) 2 @ r) t = Inr (t\<lparr>ct_min := mi\<rparr>, r)"
  "sec < 60 \<Longrightarrow> no_fraction r \<Longrightarrow> parse_chunk ZeroSecond (appendInt (int sec) 2 @ r) t = Inr (t\<lparr>ct_sec := sec, ct_nsec := 0\<rparr>, r)"
  "c \<noteq> CHR '' '' \<Longrightarrow> parse_chunk (Literal c) (c # r) t = Inr (t, r)"
  "r = [] \<or> hd r \<noteq> CHR '' '' \<Longrightarrow> parse_chunk (Literal (CHR '' '')) (CHR '' '' # r) t = Inr (t, r)"
  by (simp_all add: getnum_2 in_range_def fraction_none) (cases r; simp)

lemma time_ok_day: "time_ok t \<Longrightarrow> ct_day t < 100"
  by (auto simp: time_ok_def daysIn_def split: if_splits)

lemma appendInt_2_hd: "n < 100 \<Longrightarrow> appendInt (int n) 2 @ r \<noteq> [] \<and> hd (appendInt (int n) 2 @ r) \<noteq> CHR '' ''"
proof -
  have "digit_char d \<noteq> CHR '' ''" if "d < 10" for d using digit_val_digit_char [OF that] by force
  then show "n < 100 \<Longrightarrow> ?thesis" by (simp add: appendInt_2)
qed

lemma no_fraction_simps [simp]: "no_fraction []" "no_fraction (CHR 0x22 # r)"
  by (simp_all add: no_fraction_def)

lemma timeFormart_parsed:
  assumes "time_ok t" "0 \<le> ct_year t" "ct_year t \<le> 9999" "no_fraction r"
  shows "parse_chunks (timeFormart @ ks) (time_Format timeFormart t @ r) t0 =
    parse_chunks ks r (t0\<lparr>ct_year := ct_year t, ct_month := ct_month t, ct_day := ct_day t, ct_hour := ct_hour t, ct_min := ct_min t,
      ct_sec := ct_sec t, ct_nsec := 0\<rparr>)"
proof -
  have ok: "ct_month t \<in> {1..12}" "ct_day t < 100" "ct_hour t < 24" "ct_min t < 60" "ct_sec t < 60"
    using assms(1) time_ok_day by (simp_all add: time_ok_def)
  have h: "ct_hour t < 100" using ok by simp
  show ?thesis
    unfolding timeFormart_def layout_yyyy_MM_dd_def time_Format_def
    using ok assms(2-4) appendInt_2_hd [OF h]
    by (simp del: parse_chunk.simps add: parse_year parse_fields)
qed

lemma date_parsed:
  assumes "time_ok t" "0 \<le> ct_year t" "ct_year t \<le> 9999" "layout = layout_yyyyMMdd \<or> layout = layout_yyyy_MM_dd"
  shows "parse_chunks layout (time_Format layout t) t0 =
    parse_chunks [] [] (t0\<lparr>ct_year := ct_year t, ct_month := ct_month t, ct_day := ct_day t\<rparr>)"
proof -
  have ok: "ct_month t \<in> {1..12}" "ct_day t < 100" using assms(1) time_ok_day by (simp_all add: time_ok_def)
  have pos: "ct_day t \<noteq> 0" using assms(1) by (simp add: time_ok_def)
  have d: "parse_chunk ZeroDay (appendInt (int (ct_day t)) 2) t1 = Inr (t1\<lparr>ct_day := ct_day t\<rparr>, [])" for t1
    using parse_fields(2) [OF ok(2), of "[]"] by simp
  show ?thesis
    using assms(2-4) ok pos
    by (auto simp del: parse_chunk.simps simp: layout_yyyyMMdd_def layout_yyyy_MM_dd_def time_Format_def parse_year parse_fields d)
qed

lemma nat_dec_isDigit: "list_all isDigit_char (nat_dec n)"
proof (induction n rule: nat_dec.induct)
  case (1 n)
  then show ?case by (simp add: nat_dec.simps [of n] isDigit_char_def)
qed

lemma nat_dec_long: "10000 \<le> n \<Longrightarrow> 4 < length (nat_dec n)"
proof -
  have "10 ^ k \<le> m \<Longrightarrow> k < length (nat_dec m)" for k m :: nat
  proof (induction k arbitrary: m)
    case 0
    show ?case by (cases m) (simp_all add: nat_dec.simps [of m])
  next
    case (Suc k)
    have "(1 :: nat) \<le> 10 ^ k" by simp
    then have "\<not> m < 10" "10 ^ k \<le> m div 10" using Suc.prems unfolding power_Suc by linarith+
    then show ?case using Suc.IH [of "m div 10"] by (simp add: nat_dec.simps [of m])
  qed
  from this [of 4 n] show "10000 \<le> n \<Longrightarrow> ?thesis" by simp
qed

text \<open>A year of more than four digits, or before the year 0, cannot be read: after the quote comes a sign, or after four digits another one.\<close>

lemma parse_year_bad:
  assumes "y < 0 \<or> 9999 < y"
  shows "parse_chunks (LongYear # Literal (CHR ''-'') # ks) (appendInt y 4 @ r) t = Inl BadValue"
proof (cases "y < 0")
  case True
  then obtain z where "appendInt y 4 @ r = CHR ''-'' # z" by (simp add: appendInt_def Let_def)
  then show ?thesis by simp
next
  case False
  then have "10000 \<le> nat y" using assms by simp
  then have l: "4 < length (nat_dec (nat y))" by (rule nat_dec_long)
  then have a: "appendInt y 4 = nat_dec (nat y)" using False by (simp add: appendInt_def Let_def)
  then have "drop 4 (appendInt y 4 @ r) \<noteq> []" using l by simp
  then obtain c rest where c: "drop 4 (appendInt y 4 @ r) = c # rest" by (cases "drop 4 (appendInt y 4 @ r)") auto
  have "c = hd (drop 4 (appendInt y 4 @ r))" by (simp only: c list.sel)
  also have "\<dots> = (appendInt y 4 @ r) ! 4" using l a by (intro hd_drop_conv_nth) simp
  finally have "c = nat_dec (nat y) ! 4" using l a by (simp only: a nth_append if_True)
  then have "isDigit_char c" using nat_dec_isDigit [of "nat y"] l by (simp add: list_all_length)
  then have "c \<noteq> CHR ''-''" by (auto simp: isDigit_char_def)
  then show ?thesis using c by (simp split: option.splits)
qed


definition leap_day :: civil where
  "leap_day = \<lparr>ct_year = 2024, ct_month = 2, ct_day = 29, ct_hour = 7, ct_min = 5, ct_sec = 59, ct_nsec = 1\<rparr>"

lemma digit_chars: "digit_char 2 = CHR ''2''" "digit_char 4 = CHR ''4''" "digit_char 5 = CHR ''5''" "digit_char 7 = CHR ''7''" "digit_char 9 = CHR ''9''"
  by code_simp+


end
