(* ===== verification/Digests.thy ===== *)
theory Digests
  imports Im_Client Uuid
begin

text \<open>
  Digests and signatures as texts: \<^verbatim>\<open>pkg/util/md5.go\<close>, \<^verbatim>\<open>sha.go\<close>, \<^verbatim>\<open>dh.go\<close> and \<^verbatim>\<open>pkg/wkrsa/rsa.go\<close>.  The algorithms of the package \<^verbatim>\<open>crypto\<close>
  are arguments, functions on bytes; what is modelled is what this library makes of their results.
\<close>

section \<open>Digests\<close>

definition bytes_of :: "string \<Rightarrow> byte list" where
  "bytes_of s = map (\<lambda>c. of_nat (of_char c)) s"

definition StdEncoding :: "byte list \<Rightarrow> string" where
  "StdEncoding bs = b64_encode (map unat bs)"

definition MD5 :: "(byte list \<Rightarrow> byte list) \<Rightarrow> string \<Rightarrow> string" where
  "MD5 md5 str = hex_encode (md5 (bytes_of str))"

definition SHA1 :: "(byte list \<Rightarrow> byte list) \<Rightarrow> string \<Rightarrow> string" where
  "SHA1 sha1 str = hex_encode (sha1 (bytes_of str))"

text \<open>A keyed digest takes the key and the data.\<close>

definition HMACSHA1 :: "(byte list \<Rightarrow> byte list \<Rightarrow> byte list) \<Rightarrow> string \<Rightarrow> string \<Rightarrow> string" where
  "HMACSHA1 hmac_sha1 keyStr data =
     (let key = bytes_of keyStr; srcBytes = hmac_sha1 key (bytes_of data) in StdEncoding srcBytes)"

text \<open>The text is the base 64 form of the hexadecimal digits, not of the digest.\<close>

definition HmacSha256 :: "(byte list \<Rightarrow> byte list \<Rightarrow> byte list) \<Rightarrow> string \<Rightarrow> string \<Rightarrow> string" where
  "HmacSha256 hmac_sha256 message secret =
     (let key = bytes_of secret; sha = hex_encode (hmac_sha256 key (bytes_of message)) in StdEncoding (bytes_of sha))"

section \<open>Key exchange\<close>

text \<open>Random bytes come first; an error in reading them is a panic.\<close>

definition GetCurve25519KeypPair :: "(byte list \<Rightarrow> byte list) \<Rightarrow> string + byte list \<Rightarrow> (byte list \<times> byte list) go" where
  "GetCurve25519KeypPair ScalarBaseMult random =
     (case random of Inl err \<Rightarrow> Panic err | Inr Aprivate \<Rightarrow> Ret (Aprivate, ScalarBaseMult Aprivate))"

definition GetCurve25519Key :: "(byte list \<Rightarrow> byte list \<Rightarrow> byte list) \<Rightarrow> byte list \<Rightarrow> byte list \<Rightarrow> byte list" where
  "GetCurve25519Key ScalarMult private public = ScalarMult private public"

section \<open>Signatures\<close>

datatype rsa_error = PrivateKeyError | ParseError string | SignError string

text \<open>
  \<open>'k\<close> is a parsed key.  Signing yields the signature, empty if it fails, and the error; both are passed on.
\<close>

record 'k rsa_lib =
  rl_Decode :: "byte list \<Rightarrow> byte list option"
  rl_ParsePKCS1PrivateKey :: "byte list \<Rightarrow> string + 'k"
  rl_SignMD5 :: "'k \<Rightarrow> byte list \<Rightarrow> byte list \<times> string option"
  rl_SignSHA256 :: "'k \<Rightarrow> byte list \<Rightarrow> byte list \<times> string option"
  rl_md5 :: "byte list \<Rightarrow> byte list"
  rl_sha256 :: "byte list \<Rightarrow> byte list"

definition SignWithMD5 :: "'k rsa_lib \<Rightarrow> byte list \<Rightarrow> byte list \<Rightarrow> string \<times> rsa_error option" where
  "SignWithMD5 rl data pemPrivKey =
     (let hashed = rl_md5 rl data
      in case rl_Decode rl pemPrivKey of
           None \<Rightarrow> ([], Some PrivateKeyError)
         | Some block \<Rightarrow>
             (case rl_ParsePKCS1PrivateKey rl block of
                Inl err \<Rightarrow> ([], Some (ParseError err))
              | Inr privateKey \<Rightarrow>
                  let (signature, err) = rl_SignMD5 rl privateKey hashed in (StdEncoding signature, map_option SignError err)))"

definition SignWithSHA256 :: "'k rsa_lib \<Rightarrow> byte list \<Rightarrow> byte list \<Rightarrow> string \<times> rsa_error option" where
  "SignWithSHA256 rl data pemPrivKey =
     (let hashed = rl_sha256 rl data
      in case rl_Decode rl pemPrivKey of
           None \<Rightarrow> ([], Some PrivateKeyError)
         | Some block \<Rightarrow>
             (case rl_ParsePKCS1PrivateKey rl block of
                Inl err \<Rightarrow> ([], Some (ParseError err))
              | Inr privateKey \<Rightarrow>
                  let (signature, err) = rl_SignSHA256 rl privateKey hashed in (StdEncoding signature, map_option SignError err)))"

section \<open>The form of the texts\<close>

lemma length_b64_encode: "length (b64_encode bs) = 4 * ((length bs + 2) div 3)"
proof (induction bs rule: b64_encode.induct)
  case (4 a b c bs)
  have "(length (a # b # c # bs) + 2) div 3 = (length bs + 2) div 3 + 1" by simp
  with 4 show ?case by (simp only: b64_encode.simps list.size) simp
qed simp_all

lemma StdEncoding_decodes: "b64_quads (StdEncoding bs) = Some (map unat bs)"
  unfolding StdEncoding_def
proof (rule b64_quads_encode)
  have "unat b < 256" for b :: byte using unsigned_less [of b] by simp
  then show "\<forall>b\<in>set (map unat bs). b < 256" by simp
qed

lemma StdEncoding_inj: "StdEncoding a = StdEncoding b \<Longrightarrow> a = b"
proof -
  assume "StdEncoding a = StdEncoding b"
  then have "map unat a = map unat b" by (metis StdEncoding_decodes option.inject)
  then show ?thesis by (rule inj_map_eq_map [THEN iffD1, rotated]) (simp add: inj_def word_unat_eq_iff)
qed

lemma hex_encode_inj: "hex_encode a = hex_encode b \<Longrightarrow> a = b"
  by (metis hex_decode_encode prod.inject)

lemma bytes_of_inj: "bytes_of s = bytes_of t \<Longrightarrow> s = t"
proof -
  have "c = d" if "(of_nat (of_char c) :: byte) = of_nat (of_char d)" for c d
  proof -
    have "unat (of_nat (of_char c) :: byte) = of_char c" for c by (simp add: unat_of_nat of_char_of take_bit_eq_mod)
    then have "(of_char c :: nat) = of_char d" using that by metis
    then show "c = d" by simp
  qed
  then show "bytes_of s = bytes_of t \<Longrightarrow> s = t" unfolding bytes_of_def
    by (induction s arbitrary: t) (auto simp: map_eq_Cons_conv)
qed

definition lower_hex_digit :: "char \<Rightarrow> bool" where
  "lower_hex_digit c \<longleftrightarrow> (\<exists>n < 16. c = hex_char n)"

lemma hex_encode_lower: "list_all lower_hex_digit (hex_encode bs)"
proof (induction bs)
  case (Cons b bs)
  have "unat b < 256" using unsigned_less [of b, where 'a = nat] by simp
  then have "unat b div 16 < 16" by simp
  then have "lower_hex_digit (hex_char (unat b div 16))" unfolding lower_hex_digit_def by blast
  moreover have "lower_hex_digit (hex_char (unat b mod 16))" unfolding lower_hex_digit_def by (intro exI [of _ "unat b mod 16"]) simp
  ultimately show ?case using Cons by simp
qed simp



text \<open>A signature is returned without an error only for a key that decodes and parses, and its text decodes to the signature of the digest.\<close>

lemma SignWithSHA256_ok:
  "SignWithSHA256 rl data pem = (txt, None) \<longleftrightarrow>
     (\<exists>block k sig. rl_Decode rl pem = Some block \<and> rl_ParsePKCS1PrivateKey rl block = Inr k \<and>
        rl_SignSHA256 rl k (rl_sha256 rl data) = (sig, None) \<and> txt = StdEncoding sig \<and> b64_quads txt = Some (map unat sig))"
  by (auto simp: SignWithSHA256_def StdEncoding_decodes split: option.splits sum.splits prod.splits)

end
