(* ===== verification/Keylock_Cleaner.thy ===== *)
theory Keylock_Cleaner
  imports Keylock
begin

text \<open>
  The cleaner of the key lock, \<^verbatim>\<open>StartCleanLoop\<close>, \<^verbatim>\<open>StopCleanLoop\<close> and \<^verbatim>\<open>cleanLoop\<close> of \<^verbatim>\<open>pkg/keylock/keylock.go\<close>: goroutines that wait for a ticker or
  for the channel \<^verbatim>\<open>stopChan\<close> to be closed.  Their cleaning itself is a step of \<open>Keylock\<close>.
\<close>

section \<open>The loops\<close>

definition defaultCleanInterval :: int where
  "defaultCleanInterval = 24 * 3600000000000"

text \<open>
  Whether \<^verbatim>\<open>stopChan\<close> is closed, the loops that run (by a number) with whether their ticker has ticked, and the lock.
\<close>

record cleaner =
  cl_closed :: bool
  cl_loops :: "nat \<rightharpoonup> bool"
  cl_kl :: KeyLock
  cl_cleaned :: nat

definition cleaner_init :: "KeyLock \<Rightarrow> cleaner" where
  "cleaner_init l = \<lparr>cl_closed = False, cl_loops = Map.empty, cl_kl = l, cl_cleaned = 0\<rparr>"

definition StartCleanLoop :: "nat \<Rightarrow> cleaner \<Rightarrow> cleaner" where
  "StartCleanLoop i s = s\<lparr>cl_loops := (cl_loops s)(i \<mapsto> False)\<rparr>"

text \<open>Closing a channel that is closed panics.\<close>

definition StopCleanLoop :: "cleaner \<Rightarrow> cleaner go" where
  "StopCleanLoop s = (if cl_closed s then Panic ''close of closed channel'' else Ret (s\<lparr>cl_closed := True\<rparr>))"

text \<open>One turn of the loop: a case of the \<^verbatim>\<open>select\<close> that is ready, either of them if both are.\<close>

definition cleanLoop_tick :: "string list \<Rightarrow> nat \<Rightarrow> cleaner \<Rightarrow> cleaner" where
  "cleanLoop_tick ks i s = s\<lparr>cl_kl := KeyLock_Clean ks (cl_kl s), cl_loops := (cl_loops s)(i \<mapsto> False), cl_cleaned := cl_cleaned s + 1\<rparr>"

definition cleanLoop_stop :: "nat \<Rightarrow> cleaner \<Rightarrow> cleaner" where
  "cleanLoop_stop i s = s\<lparr>cl_loops := (cl_loops s)(i := None)\<rparr>"

inductive cleaner_step :: "cleaner \<Rightarrow> cleaner \<Rightarrow> bool" where
  start: "cl_loops s i = None \<Longrightarrow> cleaner_step s (StartCleanLoop i s)"
| stop: "StopCleanLoop s = Ret s' \<Longrightarrow> cleaner_step s s'"
| ticker: "cl_loops s i = Some b \<Longrightarrow> cleaner_step s (s\<lparr>cl_loops := (cl_loops s)(i \<mapsto> True)\<rparr>)"
| clean: "cl_loops s i = Some True \<Longrightarrow> set ks = dom (kl_locks (cl_kl s)) \<Longrightarrow> cleaner_step s (cleanLoop_tick ks i s)"
| quit: "cl_loops s i = Some b \<Longrightarrow> cl_closed s \<Longrightarrow> cleaner_step s (cleanLoop_stop i s)"

section \<open>What cleaning removes and how it ends\<close>

lemma Clean_key_locks:
  "kl_locks (KeyLock_Clean_key k l) = (\<lambda>x. if x = k \<and> (\<exists>i. kl_locks l k = Some i \<and> il_count (kl_heap l i) = 0) then None else kl_locks l x)"
  "kl_heap (KeyLock_Clean_key k l) = kl_heap l"
  by (auto simp: KeyLock_Clean_key_def fun_eq_iff split: option.splits)

lemma KeyLock_Clean_locks:
  "kl_locks (KeyLock_Clean ks l) = (\<lambda>x. if x \<in> set ks \<and> (\<exists>i. kl_locks l x = Some i \<and> il_count (kl_heap l i) = 0) then None else kl_locks l x) \<and>
   kl_heap (KeyLock_Clean ks l) = kl_heap l"
proof (induction ks arbitrary: l)
  case (Cons k ks)
  have "KeyLock_Clean (k # ks) l = KeyLock_Clean ks (KeyLock_Clean_key k l)" by (simp add: KeyLock_Clean_def)
  then show ?case using Cons.IH [of "KeyLock_Clean_key k l"] by (auto simp: Clean_key_locks fun_eq_iff)
qed (simp add: KeyLock_Clean_def)

lemma closed_stays: "cleaner_step s s' \<Longrightarrow> cl_closed s \<Longrightarrow> cl_closed s'"
  by (induction rule: cleaner_step.induct)
    (auto simp: StartCleanLoop_def StopCleanLoop_def cleanLoop_tick_def cleanLoop_stop_def split: if_splits)

text \<open>
  A turn of the loop removes exactly the locks nobody holds or waits for and leaves the others as they are.  A loop ends only after
  the cleaner was stopped; once it is, every loop can end, also one that is started later, and stopping again panics.
\<close>

theorem cleaner_correct:
  assumes "set ks = dom (kl_locks (cl_kl s))"
  shows "kl_locks (cl_kl (cleanLoop_tick ks i s)) = kl_locks (cl_kl s) |` {k. \<exists>j. kl_locks (cl_kl s) k = Some j \<and> il_count (kl_heap (cl_kl s) j) \<noteq> 0} \<and>
    (cleaner_step s s' \<and> cl_loops s j \<noteq> None \<and> cl_loops s' j = None \<longrightarrow> cl_closed s) \<and>
    (cl_closed s \<longrightarrow> (\<exists>m. StopCleanLoop s = Panic m) \<and>
      (\<forall>s'. cleaner_step\<^sup>*\<^sup>* s s' \<and> cl_loops s' j \<noteq> None \<longrightarrow> (\<exists>s''. cleaner_step s' s'' \<and> cl_loops s'' = (cl_loops s')(j := None))))"
proof (intro conjI impI allI)
  show "kl_locks (cl_kl (cleanLoop_tick ks i s)) = kl_locks (cl_kl s) |` {k. \<exists>j. kl_locks (cl_kl s) k = Some j \<and> il_count (kl_heap (cl_kl s) j) \<noteq> 0}"
    using KeyLock_Clean_locks [of ks "cl_kl s"] assms by (auto simp: cleanLoop_tick_def restrict_map_def fun_eq_iff dom_def)
next
  assume "cleaner_step s s' \<and> cl_loops s j \<noteq> None \<and> cl_loops s' j = None"
  then show "cl_closed s"
    by (auto elim!: cleaner_step.cases simp: StartCleanLoop_def StopCleanLoop_def cleanLoop_tick_def split: if_splits)
next
  assume "cl_closed s"
  then show "\<exists>m. StopCleanLoop s = Panic m" by (simp add: StopCleanLoop_def)
next
  fix s'
  assume c: "cl_closed s" and r: "cleaner_step\<^sup>*\<^sup>* s s' \<and> cl_loops s' j \<noteq> None"
  from r have "cleaner_step\<^sup>*\<^sup>* s s'" by simp
  then have closed: "cl_closed s'" using c by (induction rule: rtranclp_induct) (simp_all add: closed_stays)
  obtain b where "cl_loops s' j = Some b" using r by auto
  then have "cleaner_step s' (cleanLoop_stop j s')" using closed by (rule cleaner_step.quit)
  then show "\<exists>s''. cleaner_step s' s'' \<and> cl_loops s'' = (cl_loops s')(j := None)" by (intro exI [of _ "cleanLoop_stop j s'"]) (simp add: cleanLoop_stop_def)
qed

end
