(* ===== verification/Web_Lookup.thy ===== *)
theory Web_Lookup
  imports Json
begin

text \<open>
  Lookups by web services, \<^verbatim>\<open>GetExternalIP\<close> and \<^verbatim>\<open>GetIPAddress\<close> of \<^verbatim>\<open>pkg/util/ip.go\<close>, and the rendering of code in \<^verbatim>\<open>pkg/markdown/markdown.go\<close>.  The HTTP
  client is a function from an address to its answer, the markdown library a function that calls back.
\<close>

section \<open>Addresses\<close>

text \<open>An answer: its status, and its body or the error of reading it.\<close>

type_synonym http_get = "string \<Rightarrow> string + int \<times> (string + string)"

definition GetExternalIP :: "http_get \<Rightarrow> string + string" where
  "GetExternalIP http_Get =
     (case http_Get ''https://ipw.cn/api/ip/myip'' of
        Inl err \<Rightarrow> Inl err
      | Inr (status, body) \<Rightarrow> (case body of Inl err \<Rightarrow> Inl err | Inr resultBytes \<Rightarrow> Inr (TrimSpace resultBytes)))"

datatype lookup_error = KeyRequired | GetFailed string | StatusNotOK | ReadFailed string | NotJson json_error

definition lookup_url :: "string \<Rightarrow> string \<Rightarrow> string" where
  "lookup_url ip apiKey = ''https://restapi.amap.com/v3/ip?key='' @ apiKey @ ''&ip='' @ ip"

text \<open>The results are variables that an early return leaves as they are: a place that is not a text stops the reading.\<close>

definition read_place :: "(string \<times> json) list option \<Rightarrow> string \<times> string" where
  "read_place resultMap =
     (let get = (\<lambda>k. case resultMap of None \<Rightarrow> None | Some m \<Rightarrow> (case obj_get m k of Some JNull \<Rightarrow> None | v \<Rightarrow> v))
      in case (get ''province'', get ''city'') of
           (Some provinceObj, Some cityObj) \<Rightarrow>
             (case dec_string provinceObj of
                None \<Rightarrow> ([], [])
              | Some province \<Rightarrow> (case dec_string cityObj of None \<Rightarrow> (province, []) | Some city \<Rightarrow> (province, city)))
         | _ \<Rightarrow> ([], []))"

definition GetIPAddress :: "http_get \<Rightarrow> string \<Rightarrow> string \<Rightarrow> string \<times> string \<times> lookup_error option" where
  "GetIPAddress http_Get ip apiKey =
     (if apiKey = [] then ([], [], Some KeyRequired)
      else case http_Get (lookup_url ip apiKey) of
             Inl err \<Rightarrow> ([], [], Some (GetFailed err))
           | Inr (status, body) \<Rightarrow>
               if status \<noteq> 200 then ([], [], Some StatusNotOK)
               else case body of
                      Inl err \<Rightarrow> ([], [], Some (ReadFailed err))
                    | Inr data \<Rightarrow>
                        (case JsonToMap data of
                           Inl err \<Rightarrow> ([], [], Some (NotJson err))
                         | Inr resultMap \<Rightarrow> (let (province, city) = read_place resultMap in (province, city, None))))"

text \<open>
  A place is reported only without an error and only from an answer with status 200 that is a JSON object, and it is exactly what the
  object holds: the province if both members are there and it is a text, the city if that is one, too.
\<close>

theorem GetIPAddress_places:
  assumes "GetIPAddress http_Get ip apiKey = (province, city, err)" "province \<noteq> [] \<or> city \<noteq> []"
  shows "err = None \<and> (\<exists>data m cityObj. http_Get (lookup_url ip apiKey) = Inr (200, Inr data) \<and> JsonToMap data = Inr (Some m) \<and>
    obj_get m ''province'' = Some (JStr province) \<and> obj_get m ''city'' = Some cityObj \<and> cityObj \<noteq> JNull \<and>
    city = (case cityObj of JStr s \<Rightarrow> s | _ \<Rightarrow> []))"
proof -
  obtain data rm where g: "http_Get (lookup_url ip apiKey) = Inr (200, Inr data)" "JsonToMap data = Inr rm" "err = None" "read_place rm = (province, city)"
    using assms by (auto simp: GetIPAddress_def split: if_splits sum.splits prod.splits)
  obtain m where m: "rm = Some m" using g(4) assms(2) by (cases rm) (auto simp: read_place_def)
  obtain p c where pc: "obj_get m ''province'' = Some p" "obj_get m ''city'' = Some c" "p \<noteq> JNull" "c \<noteq> JNull"
    using g(4) assms(2) m by (auto simp: read_place_def Let_def split: option.splits json.splits)
  have "p = JStr province \<and> city = (case c of JStr s \<Rightarrow> s | _ \<Rightarrow> [])"
    using g(4) assms(2) m pc by (auto simp: read_place_def Let_def dec_string_def split: option.splits json.splits)
  then show ?thesis using g m pc by blast
qed

text \<open>An answer of the service.\<close>

definition place_answer :: string where
  "place_answer = ToJson (jmap [(''province'', JStr ''Zhejiang''), (''city'', JArr [])])"

theorem GetIPAddress_places_witness:
  "\<exists>m. JsonToMap place_answer = Inr (Some m) \<and> obj_get m ''province'' = Some (JStr ''Zhejiang'')"
proof -
  have v: "json_ok (jmap [(''province'', JStr ''Zhejiang''), (''city'', JArr [])]) json_max_depth"
    by (auto simp: json_ok_jmap json_max_depth_def intro!: utf8_valid_ascii)
  have "JsonToMap place_answer = Inr (Some [(''city'', JArr []), (''province'', JStr ''Zhejiang'')])"
    using json_Decode_print [OF v] by (simp add: place_answer_def JsonToMap_def ReadJsonByByte_def ToJson_def jmap_def dec_map_def sort_key_def)
  then have "GetIPAddress (\<lambda>_. Inr (200, Inr place_answer)) ''1.2.3.4'' ''k'' = (''Zhejiang'', [], None)"
    by (simp add: GetIPAddress_def read_place_def obj_get_def dec_string_def)
  from GetIPAddress_places [OF this] show ?thesis by auto
qed

text \<open>The address is put into the query as it is: one with an ampersand adds parameters, here a second key.\<close>

lemma lookup_url_injection: "lookup_url ''1.2.3.4&key=other'' ''mine'' = ''https://restapi.amap.com/v3/ip?key=mine&ip=1.2.3.4&key=other''"
  by (simp add: lookup_url_def)

section \<open>Code in markdown\<close>

text \<open>The nodes the hook tells apart, with the literal of a leaf.\<close>

datatype node = Code string | CodeBlock string | OtherNode

definition pre_open :: string where
  "pre_open = ''<pre class='' @ [CHR 0x22] @ ''notranslate'' @ [CHR 0x22] @ ''>''"

text \<open>What is written and whether the node is done; \<open>AsHTML\<close> highlights code, its error is ignored.\<close>

definition renderHookCodeBlock :: "(string \<Rightarrow> string) \<Rightarrow> node \<Rightarrow> string \<times> bool" where
  "renderHookCodeBlock AsHTML n =
     (case n of
        Code literal \<Rightarrow> (pre_open @ literal @ ''</pre>'', True)
      | CodeBlock literal \<Rightarrow> (pre_open @ AsHTML literal @ ''</pre>'', True)
      | OtherNode \<Rightarrow> ([], False))"

definition ToHtml :: "((node \<Rightarrow> string \<times> bool) \<Rightarrow> string \<Rightarrow> string) \<Rightarrow> (string \<Rightarrow> string) \<Rightarrow> string \<Rightarrow> string" where
  "ToHtml markdown_ToHTML AsHTML v = (if v = [] then [] else markdown_ToHTML (renderHookCodeBlock AsHTML) v)"

text \<open>
  The code of a span is written without escapes: two different spans give different documents, but one that looks like an element becomes
  an element instead of being shown.
\<close>

lemma code_span_unescaped:
  "renderHookCodeBlock AsHTML (Code ''<script>alert(1)</script>'') = (pre_open @ ''<script>alert(1)</script></pre>'', True)"
  "renderHookCodeBlock AsHTML (Code s) = renderHookCodeBlock AsHTML (Code t) \<Longrightarrow> s = t"
  by (simp_all add: renderHookCodeBlock_def)

end
