(* ===== verification/Names.thy ===== *)
theory Names
  imports Im_Client Util_Text Config
begin

text \<open>
  Names and texts: \<^verbatim>\<open>CamelName\<close> of \<^verbatim>\<open>pkg/util/string.go\<close>, the namespaces of \<^verbatim>\<open>pkg/util/uuid.go\<close>, and the texts of requests and the header
  with the token in \<^verbatim>\<open>config/msg.go\<close>.
\<close>

section \<open>Names of fields\<close>

text \<open>The title case of the package \<^verbatim>\<open>cases\<close> is an argument.\<close>

definition CamelName :: "(string \<Rightarrow> string) \<Rightarrow> string \<Rightarrow> string" where
  "CamelName Title name =
     (let name = ReplaceAll name ''_'' '' '';
          name = Title name
      in ReplaceAll name '' '' [])"

text \<open>On words of small letters, separated by spaces, title case makes the first letter of each word a capital one.\<close>

definition toUpper :: "char \<Rightarrow> char" where
  "toUpper b = (if isLower b then char_of ((of_char b :: nat) - 97 + 65) else b)"

fun capital :: "string \<Rightarrow> string" where
  "capital [] = []"
| "capital (c # cs) = toUpper c # cs"

definition word_ok :: "string \<Rightarrow> bool" where
  "word_ok w \<longleftrightarrow> 2 \<le> length w \<and> list_all isLower w"

definition title_law :: "(string \<Rightarrow> string) \<Rightarrow> bool" where
  "title_law Title \<longleftrightarrow> (\<forall>ws. list_all (list_all isLower) ws \<longrightarrow> Title (join '' '' ws) = join '' '' (map capital ws))"

section \<open>Namespaces\<close>

definition NamespaceDNS :: "UUID go" where
  "NamespaceDNS = go_bind (uuid_FromString ''6ba7b810-9dad-11d1-80b4-00c04fd430c8'') (\<lambda>(u, _). Ret u)"

definition NamespaceURL :: "UUID go" where
  "NamespaceURL = go_bind (uuid_FromString ''6ba7b811-9dad-11d1-80b4-00c04fd430c8'') (\<lambda>(u, _). Ret u)"

definition NamespaceOID :: "UUID go" where
  "NamespaceOID = go_bind (uuid_FromString ''6ba7b812-9dad-11d1-80b4-00c04fd430c8'') (\<lambda>(u, _). Ret u)"

definition NamespaceX500 :: "UUID go" where
  "NamespaceX500 = go_bind (uuid_FromString ''6ba7b814-9dad-11d1-80b4-00c04fd430c8'') (\<lambda>(u, _). Ret u)"

section \<open>Texts of requests\<close>

definition SyncackReq_String :: "SyncackReq \<Rightarrow> string" where
  "SyncackReq_String s = ''UID: '' @ sk_UID s @ '' LastMessageSeq: '' @ int_dec (int (sk_LastMessageSeq s))"

definition MsgSendReq_String :: "MsgSendReq \<Rightarrow> string" where
  "MsgSendReq_String m = ''ChannelID:'' @ sd_ChannelID m @ '' ChannelType:'' @ int_dec (int (sd_ChannelType m)) @ '' Payload:'' @ sd_Payload m"

definition MsgHeader_String :: "MsgHeader \<Rightarrow> string" where
  "MsgHeader_String h = ''NoPersist:'' @ int_dec (mh_NoPersist h) @ '' RedDot:'' @ int_dec (mh_RedDot h) @ '' SyncOnce:'' @ int_dec (mh_SyncOnce h)"

text \<open>A nil map has no entries, so it is the empty list.\<close>

definition WuKongIMManagerTokenHeaderMap :: "Config \<Rightarrow> (string \<times> string) list" where
  "WuKongIMManagerTokenHeaderMap c =
     (if WuKongIM_ManagerToken (cfg_WuKongIM c) = [] then [] else [(''token'', WuKongIM_ManagerToken (cfg_WuKongIM c))])"

section \<open>Properties\<close>

lemma ReplaceAll_char:
  "ReplaceAll [] [x] y = []" "ReplaceAll (c # s) [x] y = (if c = x then y @ ReplaceAll s [x] y else c # ReplaceAll s [x] y)"
  by (simp_all add: ReplaceAll.simps [of "c # s"] ReplaceAll.simps [of "[]"] HasPrefix_def)

lemma ReplaceAll_word: "x \<notin> set w \<Longrightarrow> ReplaceAll (w @ s) [x] y = w @ ReplaceAll s [x] y"
  by (induction w) (auto simp: ReplaceAll_char)

lemma ReplaceAll_join: "\<forall>w\<in>set ws. x \<notin> set w \<Longrightarrow> ReplaceAll (join [x] ws) [x] y = join y ws"
proof (induction "[x]" ws rule: join.induct)
  case (2 p)
  then show ?case using ReplaceAll_word [of x p "[]" y] by (simp add: ReplaceAll_char)
qed (simp_all add: ReplaceAll_word ReplaceAll_char)

lemma join_Nil: "join [] ws = concat ws"
  by (induction "[] :: string" ws rule: join.induct) simp_all

lemma letters:
  assumes "isLower c"
  shows "isUpper (toUpper c)" "toLower (toUpper c) = c" "\<not> isUpper c" "toLower c = c" "c \<noteq> CHR ''_''" "c \<noteq> CHR '' ''" "toUpper c \<noteq> CHR '' ''"
    "\<not> isLower (toUpper c)"
proof -
  have c: "97 \<le> (of_char c :: nat)" "(of_char c :: nat) \<le> 122" using assms by (simp_all add: isLower_def)
  have u: "(of_char (toUpper c) :: nat) = of_char c - 32" using assms c by (simp add: toUpper_def)
  show "isUpper (toUpper c)" "\<not> isLower (toUpper c)" "\<not> isUpper c" using c u by (auto simp: isUpper_def isLower_def)
  then show "toLower c = c" "toLower (toUpper c) = c" using c u by (simp_all add: toLower_def)
  show "c \<noteq> CHR ''_''" "c \<noteq> CHR '' ''" using c by auto
  have "(of_char (toUpper c) :: nat) \<noteq> of_char (CHR '' '')" using c u by simp
  then show "toUpper c \<noteq> CHR '' ''" by metis
qed

lemma capital_no_space:
  assumes "list_all isLower w"
  shows "CHR '' '' \<notin> set (capital w)"
proof (cases w)
  case (Cons c cs)
  then have "toUpper c \<noteq> CHR '' ''" "\<forall>x\<in>set cs. x \<noteq> CHR '' ''" using assms letters(6,7) by (simp_all add: list_all_iff)
  then show ?thesis using Cons by fastforce
qed simp

lemma UnderscoreName_rest:
  assumes "cs \<noteq> []" "list_all isLower cs" "rest = [] \<or> isUpper (hd rest)"
  shows "UnderscoreName (cs @ rest) = cs @ (if rest = [] then [] else CHR ''_'' # UnderscoreName rest)"
  using assms
proof (induction cs)
  case (Cons c cs)
  show ?case
  proof (cases cs)
    case Nil
    then show ?thesis using Cons.prems by (cases rest) (simp_all add: letters)
  next
    case (Cons d ds)
    then show ?thesis using Cons.IH Cons.prems by (simp add: letters)
  qed
qed simp

lemma UnderscoreName_word:
  assumes "word_ok w" "rest = [] \<or> isUpper (hd rest)"
  shows "UnderscoreName (capital w @ rest) = w @ (if rest = [] then [] else CHR ''_'' # UnderscoreName rest)"
proof -
  obtain c d ds where w: "w = c # d # ds" using assms(1) by (cases w; cases "List.tl w") (auto simp: word_ok_def)
  then show ?thesis using UnderscoreName_rest [of "d # ds" rest] assms by (simp add: word_ok_def letters)
qed

lemma UnderscoreName_words: "list_all word_ok ws \<Longrightarrow> UnderscoreName (concat (map capital ws)) = join ''_'' ws"
proof (induction "''_''" ws rule: join.induct)
  case (2 p)
  then show ?case using UnderscoreName_word [of p "[]"] by simp
next
  case (3 p q ps)
  have "isUpper (hd (concat (map capital (q # ps)))) \<and> concat (map capital (q # ps)) \<noteq> []" using 3(2) by (cases q) (simp_all add: word_ok_def letters)
  then show ?case using 3 UnderscoreName_word [of p "concat (map capital (q # ps))"] by simp
qed simp

text \<open>
  A name of words of at least two small letters with underscores between them is the same after it was turned into the style with
  capitals and back.
\<close>

theorem camel_roundtrip:
  assumes "title_law Title" "list_all word_ok ws"
  shows "CamelName Title (join ''_'' ws) = concat (map capital ws) \<and> UnderscoreName (CamelName Title (join ''_'' ws)) = join ''_'' ws"
proof -
  have low: "list_all (list_all isLower) ws" using assms(2) by (simp add: word_ok_def list_all_iff)
  then have "CHR ''_'' \<notin> set w" if "w \<in> set ws" for w using that letters(5) by (auto simp: list_all_iff)
  then have "ReplaceAll (join ''_'' ws) ''_'' '' '' = join '' '' ws" by (simp add: ReplaceAll_join)
  moreover have "CHR '' '' \<notin> set (capital w)" if "w \<in> set ws" for w
    using that low capital_no_space by (simp add: list_all_iff)
  then have "ReplaceAll (join '' '' (map capital ws)) '' '' [] = concat (map capital ws)" by (simp add: ReplaceAll_join join_Nil)
  ultimately have c: "CamelName Title (join ''_'' ws) = concat (map capital ws)"
    using assms(1) low by (simp add: CamelName_def title_law_def Let_def)
  then show ?thesis using UnderscoreName_words [OF assms(2)] by simp
qed

text \<open>A title case for ASCII, and that one-letter words are not read back.\<close>

definition ascii_title :: "string \<Rightarrow> string" where
  "ascii_title s = join '' '' (map capital (split_on (CHR '' '') s))"

lemma ascii_title_law: "title_law ascii_title"
proof -
  have "ascii_title (join '' '' ws) = join '' '' (map capital ws)" if "list_all (list_all isLower) ws" for ws
  proof (cases "ws = []")
    case False
    have "CHR '' '' \<notin> set w" if "w \<in> set ws" for w using that \<open>list_all (list_all isLower) ws\<close> letters(6) by (auto simp: list_all_iff)
    with False show ?thesis by (simp add: ascii_title_def split_on_join)
  qed (simp add: ascii_title_def)
  then show ?thesis by (simp add: title_law_def)
qed

theorem camel_roundtrip_witness:
  "CamelName ascii_title ''from_uid'' = ''FromUid'' \<and> UnderscoreName (CamelName ascii_title ''from_uid'') = ''from_uid''"
proof -
  have "list_all word_ok [''from'', ''uid'']" "concat (map capital [''from'', ''uid'']) = ''FromUid''" by code_simp+
  moreover have "join ''_'' [''from'', ''uid''] = ''from_uid''" by simp
  ultimately show ?thesis using camel_roundtrip [OF ascii_title_law, of "[''from'', ''uid'']"] by metis
qed

lemma one_letter_words: "UnderscoreName (CamelName ascii_title ''a_b'') = ''ab''"
  by code_simp

text \<open>The namespaces are four different identifiers: none of their texts fails to parse.\<close>

lemma namespaces_parse:
  "NamespaceDNS = Ret [0x6b, 0xa7, 0xb8, 0x10, 0x9d, 0xad, 0x11, 0xd1, 0x80, 0xb4, 0x00, 0xc0, 0x4f, 0xd4, 0x30, 0xc8]"
  "NamespaceURL = Ret [0x6b, 0xa7, 0xb8, 0x11, 0x9d, 0xad, 0x11, 0xd1, 0x80, 0xb4, 0x00, 0xc0, 0x4f, 0xd4, 0x30, 0xc8]"
  "NamespaceOID = Ret [0x6b, 0xa7, 0xb8, 0x12, 0x9d, 0xad, 0x11, 0xd1, 0x80, 0xb4, 0x00, 0xc0, 0x4f, 0xd4, 0x30, 0xc8]"
  "NamespaceX500 = Ret [0x6b, 0xa7, 0xb8, 0x14, 0x9d, 0xad, 0x11, 0xd1, 0x80, 0xb4, 0x00, 0xc0, 0x4f, 0xd4, 0x30, 0xc8]"
  by code_simp+

lemma namespaces_distinct: "distinct [NamespaceDNS, NamespaceURL, NamespaceOID, NamespaceX500]"
  by (simp add: namespaces_parse)

text \<open>The header with the token is the one every call of the messaging service carries.\<close>

lemma token_header_map: "im_ManagerToken ic = WuKongIM_ManagerToken (cfg_WuKongIM c) \<Longrightarrow> wkIMManagerTokenHeader ic = WuKongIMManagerTokenHeaderMap c"
  by (simp add: wkIMManagerTokenHeader_def WuKongIMManagerTokenHeaderMap_def)

end
