(* ===== verification/Spec2Isabelle.thy ===== *)
theory Spec2Isabelle
  imports Decimal_Codec Uuid Keylock Pool_Queue Wait Seq Cors Ratelimit Visibility Im_Messages Richtext Util_Text Aes
    Config_Facts Config_Names Redis_Conn Instrument Service_Modules Service_Context Http_Pool Network Intranet Logging
    Server Startup Search_Message Databases Yuan_Cent Go_Time Digests Keylock_Cleaner Web_Lookup Names
begin

text \<open>
  octo-lib is the library under the servers of a messaging system.  A server reads its configuration
  (\<^verbatim>\<open>config/config.go\<close>), opens its resources through a context (\<^verbatim>\<open>config/context.go\<close>), sets up its modules
  (\<^verbatim>\<open>module\<close>, \<^verbatim>\<open>pkg/register\<close>) and serves HTTP through \<^verbatim>\<open>server\<close> and \<^verbatim>\<open>pkg/wkhttp\<close>: cross-origin policy, rate limits, authentication
  against sessions in a cache (\<^verbatim>\<open>common/cache.go\<close>, \<^verbatim>\<open>pkg/redis\<close>).  Handlers send messages through the messaging service
  (\<^verbatim>\<open>config/msg*.go\<close>), whose payloads a search index later reads under the contract of \<^verbatim>\<open>contract/searchmsg\<close>.  \<^verbatim>\<open>pkg/util\<close>,
  \<^verbatim>\<open>pkg/keylock\<close>, \<^verbatim>\<open>pkg/pool\<close>, \<^verbatim>\<open>pkg/wait\<close> and \<^verbatim>\<open>config/seq.go\<close> are the numbers, identifiers and concurrency they share.

  \<^bold>\<open>Conventions.\<close>  A definition has the name of the function, method or struct it translates, prefixed by the receiver where two
  have the same name.  A call that may panic returns \<^verbatim>\<open>'a go\<close> (\<open>Ret\<close> or \<open>Panic\<close>); an error is a value of a datatype with one
  constructor for each place it comes from.  Fixed-width integers are integers with the wrap-around written out, or words.
  Strings and byte slices are \<^typ>\<open>string\<close>s of bytes; texts in other scripts are their UTF-8 bytes.  Operations under a mutex are
  single steps; where goroutines interleave between such steps the component is a transition system.  Third-party code, the
  network, the operating system and random numbers are arguments or fields of a context.

  \<^bold>\<open>Theories, sources and what is shown.\<close>

  \<^item> \<open>Octo_Prelude\<close>: outcomes, integers, decimal and hexadecimal digits, the functions of \<^verbatim>\<open>strings\<close> and \<^verbatim>\<open>strconv\<close> in use.
  \<^item> \<open>Decimal_Core\<close>, \<open>Decimal_Rounding\<close>, \<open>Decimal_Float\<close>, \<open>Decimal_Text\<close>, \<open>Decimal_Codec\<close> (\<^verbatim>\<open>pkg/util/decimal.go\<close>, \<^verbatim>\<open>yuan_cent.go\<close>):
    arbitrary-precision decimals.  Arithmetic and order are those of the rational number a decimal stands for; division has the
    exact quotient and remainder; each rounding is the rounding of the rational; texts and binary forms are read back.
    \<open>Yuan_Cent\<close>: amounts in cents survive the way through a float64 of yuan.
  \<^item> \<open>Uuid\<close> (\<^verbatim>\<open>pkg/util/uuid.go\<close>): the five generators with the shared clock state, and all encodings.  Time-based identifiers
    are distinct, every generator sets version and variant, texts are read back, and accepted texts denote their value.
  \<^item> \<open>Keylock\<close> (\<^verbatim>\<open>pkg/keylock\<close>): a transition system of goroutines and the cleaner; mutual exclusion for each key, counters equal
    to owners and waiters, and a waiter proceeds when the holder unlocks.  \<open>Keylock_Cleaner\<close>: the loop that removes unused locks, and
    how it is stopped.
  \<^item> \<open>Pool_Queue\<close> (\<^verbatim>\<open>pkg/pool/queue.go\<close>): first in, first out over any ring buffer that keeps the contract \<open>fifo_buffer\<close>, and
    no lost wake-up.  \<open>Wait\<close> (\<^verbatim>\<open>pkg/wait\<close>): the sharded registry refines a single map, and triggers reach exactly one waiter.
    \<open>Worker_Pool\<close> (\<^verbatim>\<open>pkg/pool/dispatcher.go\<close>): a transition system; every job runs once, in order, with a bounded number at a time.
  \<^item> \<open>Seq\<close> (\<^verbatim>\<open>config/seq.go\<close>): numbers strictly increase over restarts and failures, for any table that keeps \<open>seq_store\<close>.
  \<^item> \<open>Http_Core\<close>, \<open>Http_Pool\<close>, \<open>Cors\<close>, \<open>Auth\<close>, \<open>Ip_Addr\<close>, \<open>Url\<close>, \<open>Token_Bucket\<close>, \<open>Ratelimit\<close> (\<^verbatim>\<open>pkg/wkhttp\<close>, \<^verbatim>\<open>pkg/util/ip.go\<close>,
    \<^verbatim>\<open>validate_url.go\<close>): a handler is a function on a request context that records the calls of the framework.  Requests that
    run at a time never share a context object; authentication fails closed; foreign origins get no credentials; the client
    address cannot be forged past the trusted proxies; the script that Redis runs admits at most burst plus rate times time
    requests; what the limiters do when Redis fails; which outgoing addresses are refused.
  \<^item> \<open>Server\<close>, \<open>Tracing\<close> (\<^verbatim>\<open>server/server.go\<close>, the registration of routes in \<^verbatim>\<open>pkg/wkhttp/http.go\<close>, \<^verbatim>\<open>config/tracer.go\<close>): recovery from panics and the
    cross-origin policy come first on every route of a server, whatever the application registers, and no route redirects to
    TLS; a request has exactly one span, which its handlers see.
  \<^item> \<open>Redis_Conn\<close>, \<open>Instrument\<close>, \<open>Service_Context\<close> (\<^verbatim>\<open>pkg/redis\<close>, \<^verbatim>\<open>pkg/db\<close>, \<^verbatim>\<open>common/cache.go\<close>, \<^verbatim>\<open>config/context.go\<close>): every wrapper of a Redis
    command; the cache on Redis keeps the contract \<open>kv_cache\<close> of authentication, like the one in memory; measuring changes
    nothing and counts every command once; resources are opened once; listeners are called in order.  \<open>Startup\<close> (\<^verbatim>\<open>NewContext\<close>,
    \<^verbatim>\<open>config/asynctask.go\<close>, \<^verbatim>\<open>elasticsearch.go\<close>, \<^verbatim>\<open>pkg/wkevent\<close>): a context exists only with all its parts open.
  \<^item> \<open>Config\<close>, \<open>Config_Facts\<close>, \<open>Config_Names\<close>, \<open>Intranet\<close> (\<^verbatim>\<open>config/config.go\<close>, \<^verbatim>\<open>pkg/util/ip.go\<close>): all settings, their defaults and
    sources.  Sections do not disturb each other; the precedence of credentials; every address is set; the configuration
    without settings; object keys determine what they name.
  \<^item> \<open>Service_Modules\<close> (\<^verbatim>\<open>pkg/register\<close>, \<^verbatim>\<open>module\<close>, \<^verbatim>\<open>pkg/db/mysql.go\<close>): modules are built once and run in order up to the first error;
    which migrations are found, and that the search of nested directories is wrong or endless.  \<open>Databases\<close> (\<^verbatim>\<open>executeSQL\<close>, \<^verbatim>\<open>Migration\<close>,
    \<^verbatim>\<open>pkg/db/sqlite.go\<close>): a script that cannot be read stops the set-up before anything is applied or registered.
  \<^item> \<open>Json\<close> (\<^verbatim>\<open>pkg/util/json.go\<close>): \<^verbatim>\<open>encoding/json\<close>, decoder and encoder; what is encoded is decoded.  \<open>Message_Types\<close>, \<open>Richtext\<close>,
    \<open>Visibility\<close>, \<open>Im_Client\<close>, \<open>Im_Messages\<close>, \<open>Network\<close> (\<^verbatim>\<open>common\<close>, \<^verbatim>\<open>contract/searchmsg\<close>, \<^verbatim>\<open>config/msg*.go\<close>, \<^verbatim>\<open>stream.go\<close>, \<^verbatim>\<open>pkg/network\<close>): channel
    identifiers, rich text and its checks, the exact visibility read from a payload, every call of the messaging service
    with its error handling, the messages sent and that those meant for some members are read as visible to these only.
    \<open>Search_Message\<close> (\<^verbatim>\<open>contract/searchmsg/searchmsg.go\<close>): the message a producer encodes is the one a consumer decodes, with its visibility.
  \<^item> \<open>Constants\<close> (\<^verbatim>\<open>common/constant.go\<close>, \<^verbatim>\<open>page.go\<close> and the enumerations of \<^verbatim>\<open>config\<close> and \<^verbatim>\<open>pkg/wkevent\<close>): names have different values, QR codes are
    read back, and caches, sessions, limiters and sequence numbers never share a key.
  \<^item> \<open>Util_Text\<close>, \<open>Names\<close>, \<open>Aes\<close>, \<open>Digests\<close>, \<open>Go_Time\<close>, \<open>Web_Lookup\<close> (\<^verbatim>\<open>pkg/util\<close>, \<^verbatim>\<open>pkg/wkrsa\<close>, \<^verbatim>\<open>pkg/db/db.go\<close>, \<^verbatim>\<open>pkg/markdown\<close>): signing texts, substrings,
    base 62, pages, names of fields; encryption and padding with their round trip; the form of digests and signatures; times that
    are encoded and read back; address lookups; the code blocks of markdown.
  \<^item> \<open>Logging\<close> (\<^verbatim>\<open>pkg/log\<close>): lazy configuration by concurrent callers never undoes an explicit one; which entries are written.

  \<^bold>\<open>Interfaces.\<close>  \<open>kv_cache\<close> is what authentication needs of a cache; it is interpreted on the memory cache and proved of the Redis
  cache.  \<open>fifo_buffer\<close> and \<open>seq_store\<close> are what the queue and the sequence numbers need of the ring buffer and the table, which are
  not part of this library; they are interpreted on a list and on a table with failures.  What a property needs of other third-party
  code is a predicate with an instance beside it: \<open>gin_laws\<close> of the router, \<open>redis_laws\<close> of the commands of Redis, \<open>bounded\<close> and \<open>accepts\<close> of
  the pool of workers, \<open>exec_law\<close> of the migration library, \<open>nearest_float64\<close> of the conversion of rationals, \<open>title_law\<close> of title case.

  \<^bold>\<open>Bounds and fuel.\<close>  The JSON decoder recurses with the length of the text as fuel, which it cannot use up, and rejects a
  nesting above 10000 as the library does.  The search for migrations has fuel because it need not end.  All other loops
  are structurally recursive or have a measure.

  \<^bold>\<open>Idealised.\<close>  The numbers of the Redis script are rationals, not doubles.  AES is a pair of inverse functions on blocks; hash functions,
  RSA and the curve are functions.  Sorting is by insertion, so equal elements keep their order.  A context object of a request is
  not reassigned by its handler.  A time is a civil time without its location.  The raw payload of a search message is the JSON
  value, not its bytes.

  \<^bold>\<open>Not modelled.\<close>  The layout of log entries and the rotation of log files (options of zap and lumberjack); \<^verbatim>\<open>GetRandomName\<close>, \<^verbatim>\<open>GetEnvFloat64\<close> and
  the parsing of durations, which no code here calls; structs and interfaces that only other services fill and read (\<^verbatim>\<open>model\<close>, the data
  sources of \<^verbatim>\<open>pkg/register\<close>); generated code (\<^verbatim>\<open>pkg/wkhook\<close>) and test helpers.
\<close>

end
